(* ===== verification/Prelude.thy ===== *)
theory Prelude
  imports Main "HOL-Library.Word"
begin

text \<open>
  Shared vocabulary of the development: what a Go call may do besides returning a value
  (\<open>outcome\<close>), the \<open>*AppError\<close> values every layer passes around
  (\<^verbatim>\<open>internal/errors/app-error.go\<close>), the collections the component proofs
  use, and the generic lemmas on lists and maps they share.

  \<^item> \<open>outcome_simps\<close>: how \<open>bind_outcome\<close> meets a returned value, a panic and an
    equation with either;
  \<^item> \<open>model_defs\<close>: the definitions a component unfolds to be evaluated on a concrete
    input.
\<close>

named_theorems outcome_simps
named_theorems model_defs

section \<open>Calls that may panic\<close>

text \<open>
  A Go call returns or panics: a send on a closed channel and a read through a nil
  pointer are the two panics the program can reach. \<open>Panic\<close> carries no value, as the
  goroutine does not go on.
\<close>

datatype 'a outcome = Return 'a | Panic

primrec bind_outcome :: "'a outcome \<Rightarrow> ('a \<Rightarrow> 'b outcome) \<Rightarrow> 'b outcome" where
  "bind_outcome (Return x) f = f x"
| "bind_outcome Panic f = Panic"

primrec map_outcome_with :: "('a \<Rightarrow> 'b) \<Rightarrow> 'a outcome \<Rightarrow> 'b outcome" where
  "map_outcome_with f (Return x) = Return (f x)"
| "map_outcome_with f Panic = Panic"

lemma bind_outcome_Return_iff [outcome_simps]:
  "bind_outcome m f = Return y \<longleftrightarrow> (\<exists>x. m = Return x \<and> f x = Return y)"
  by (cases m) auto

lemma bind_outcome_Panic_iff [outcome_simps]:
  "bind_outcome m f = Panic \<longleftrightarrow> m = Panic \<or> (\<exists>x. m = Return x \<and> f x = Panic)"
  by (cases m) auto

lemma bind_outcome_assoc:
  "bind_outcome (bind_outcome m f) g = bind_outcome m (\<lambda>x. bind_outcome (f x) g)"
  by (cases m) auto

lemma map_outcome_with_Return_iff [outcome_simps]:
  "map_outcome_with f m = Return y \<longleftrightarrow> (\<exists>x. m = Return x \<and> y = f x)"
  by (cases m) auto

lemma map_outcome_with_Panic_iff [outcome_simps]:
  "map_outcome_with f m = Panic \<longleftrightarrow> m = Panic"
  by (cases m) auto

text \<open>A loop whose body may panic: the first panic ends it.\<close>

fun fold_outcome :: "('a \<Rightarrow> 's \<Rightarrow> 's outcome) \<Rightarrow> 'a list \<Rightarrow> 's \<Rightarrow> 's outcome" where
  "fold_outcome f [] s = Return s"
| "fold_outcome f (x # xs) s = bind_outcome (f x s) (fold_outcome f xs)"

lemma fold_outcome_append:
  "fold_outcome f (xs @ ys) s = bind_outcome (fold_outcome f xs s) (fold_outcome f ys)"
proof (induction xs arbitrary: s)
  case (Cons x xs)
  then show ?case by (cases "f x s") simp_all
qed simp

lemma fold_outcome_invariant:
  assumes "fold_outcome f xs s = Return t" and "P s"
    and "\<And>x a b. x \<in> set xs \<Longrightarrow> P a \<Longrightarrow> f x a = Return b \<Longrightarrow> P b"
  shows "P t"
  using assms
proof (induction xs arbitrary: s)
  case Nil
  then show ?case by simp
next
  case (Cons x xs)
  from Cons.prems(1) obtain u where "f x s = Return u" and "fold_outcome f xs u = Return t"
    by (auto simp: outcome_simps)
  with Cons show ?case by (metis list.set_intros)
qed

section \<open>Application errors\<close>

text \<open>
  \<^verbatim>\<open>AppError\<close> of \<^verbatim>\<open>internal/errors/app-error.go\<close>: an HTTP status, a
  message and the field at fault. A Go function returning \<open>(T, *AppError)\<close> is a function
  into \<open>app_error + 'a\<close>.
\<close>

record app_error =
  ae_code :: int
  ae_message :: string
  ae_field :: string

definition NewAppError :: "int \<Rightarrow> string \<Rightarrow> string \<Rightarrow> app_error" where
  "NewAppError code msg field = \<lparr>ae_code = code, ae_message = msg, ae_field = field\<rparr>"

lemma NewAppError_sel [simp]:
  "ae_code (NewAppError c m f) = c"
  "ae_message (NewAppError c m f) = m"
  "ae_field (NewAppError c m f) = f"
  by (simp_all add: NewAppError_def)

lemma NewAppError_inject [simp]:
  "NewAppError c m f = NewAppError c' m' f' \<longleftrightarrow> c = c' \<and> m = m' \<and> f = f'"
  by (auto simp: NewAppError_def)

text \<open>The statuses of \<^verbatim>\<open>net/http\<close> the program uses.\<close>

abbreviation StatusBadRequest :: int where "StatusBadRequest \<equiv> 400"
abbreviation StatusUnauthorized :: int where "StatusUnauthorized \<equiv> 401"
abbreviation StatusForbidden :: int where "StatusForbidden \<equiv> 403"
abbreviation StatusNotFound :: int where "StatusNotFound \<equiv> 404"
abbreviation StatusConflict :: int where "StatusConflict \<equiv> 409"
abbreviation StatusTooManyRequests :: int where "StatusTooManyRequests \<equiv> 429"
abbreviation StatusInternalServerError :: int where "StatusInternalServerError \<equiv> 500"
abbreviation StatusServiceUnavailable :: int where "StatusServiceUnavailable \<equiv> 503"

section \<open>Durations\<close>

text \<open>Instants and durations are nanoseconds, as \<^verbatim>\<open>time.Duration\<close> counts them.\<close>

abbreviation Second :: int where "Second \<equiv> 1000000000"
abbreviation Minute :: int where "Minute \<equiv> 60 * Second"
abbreviation Hour :: int where "Hour \<equiv> 60 * Minute"

definition unix_seconds :: "int \<Rightarrow> int" where
  "unix_seconds t = t div Second"

lemma unix_seconds_mono: "s \<le> t \<Longrightarrow> unix_seconds s \<le> unix_seconds t"
  by (simp add: unix_seconds_def zdiv_mono1)

section \<open>Maps whose missing keys read as the zero value\<close>

text \<open>Go reads a missing key of a \<^verbatim>\<open>map[K][]V\<close> as the nil slice.\<close>

definition slice_at :: "('k \<Rightarrow> 'v list option) \<Rightarrow> 'k \<Rightarrow> 'v list" where
  "slice_at m k = (case m k of None \<Rightarrow> [] | Some vs \<Rightarrow> vs)"

lemma slice_at_upd [simp]:
  "slice_at (m(k \<mapsto> vs)) j = (if j = k then vs else slice_at m j)"
  by (simp add: slice_at_def)

lemma slice_at_del [simp]:
  "slice_at (m(k := None)) j = (if j = k then [] else slice_at m j)"
  by (simp add: slice_at_def)

lemma slice_at_empty [simp]: "slice_at Map.empty k = []"
  by (simp add: slice_at_def)

text \<open>Go reads a missing key of a map into a set as the nil (empty) set.\<close>

definition set_at :: "('k \<Rightarrow> 'v set option) \<Rightarrow> 'k \<Rightarrow> 'v set" where
  "set_at m k = (case m k of None \<Rightarrow> {} | Some vs \<Rightarrow> vs)"

lemma set_at_upd [simp]:
  "set_at (m(k \<mapsto> vs)) j = (if j = k then vs else set_at m j)"
  by (simp add: set_at_def)

lemma set_at_del [simp]:
  "set_at (m(k := None)) j = (if j = k then {} else set_at m j)"
  by (simp add: set_at_def)

lemma set_at_empty [simp]: "set_at Map.empty k = {}"
  by (simp add: set_at_def)

lemma set_at_None [simp]: "m k = None \<Longrightarrow> set_at m k = {}"
  by (simp add: set_at_def)

lemma set_at_Some [simp]: "m k = Some vs \<Longrightarrow> set_at m k = vs"
  by (simp add: set_at_def)

section \<open>Lists\<close>

lemma takeWhile_eq_self: "(\<And>x. x \<in> set xs \<Longrightarrow> P x) \<Longrightarrow> takeWhile P xs = xs"
  by (induction xs) auto

lemma dropWhile_eq_Nil: "(\<And>x. x \<in> set xs \<Longrightarrow> P x) \<Longrightarrow> dropWhile P xs = []"
  by (induction xs) auto

lemma find_None_set: "List.find P xs = None \<longleftrightarrow> (\<forall>x. x \<in> set xs \<longrightarrow> \<not> P x)"
  by (simp add: find_None_iff)

lemma find_SomeD: "List.find P xs = Some x \<Longrightarrow> x \<in> set xs \<and> P x"
  by (auto simp: find_Some_iff)

end
