(* ===== verification/GoStrings.thy ===== *)
theory GoStrings
  imports Prelude
begin

text \<open>
  The functions of Go's \<^verbatim>\<open>strings\<close>, \<^verbatim>\<open>strconv\<close> and \<^verbatim>\<open>fmt\<close>
  the program calls, on byte strings, with the lemmas the parsers need. They are the
  standard library's, so no line of the repository is mapped to them.
\<close>

section \<open>Splitting\<close>

text \<open>\<^verbatim>\<open>strings.Split(s, sep)\<close> for a separator of one byte.\<close>

fun split_on :: "char \<Rightarrow> string \<Rightarrow> string list" where
  "split_on c [] = [[]]"
| "split_on c (x # xs) =
     (if x = c then [] # split_on c xs
      else (case split_on c xs of [] \<Rightarrow> [[x]] | y # ys \<Rightarrow> (x # y) # ys))"

lemma split_on_nonempty [simp]: "split_on c s \<noteq> []"
  by (induction s) (auto split: list.splits)

lemma split_on_no_sep: "c \<notin> set s \<Longrightarrow> split_on c s = [s]"
  by (induction s) auto

lemma split_on_append_sep: "c \<notin> set s \<Longrightarrow> split_on c (s @ c # t) = s # split_on c t"
  by (induction s) auto

text \<open>\<^verbatim>\<open>strings.SplitN(s, sep, 2)\<close> for a separator of one byte.\<close>

definition split_n2 :: "char \<Rightarrow> string \<Rightarrow> string list" where
  "split_n2 c s =
     (if c \<in> set s then [takeWhile (\<lambda>x. x \<noteq> c) s, tl (dropWhile (\<lambda>x. x \<noteq> c) s)] else [s])"

lemma split_n2_append_sep: "c \<notin> set s \<Longrightarrow> split_n2 c (s @ c # t) = [s, t]"
proof -
  assume "c \<notin> set s"
  then have ne: "\<And>x. x \<in> set s \<Longrightarrow> x \<noteq> c" by blast
  have "takeWhile (\<lambda>x. x \<noteq> c) (s @ c # t) = s"
    using takeWhile_append2 [of s "\<lambda>x. x \<noteq> c" "c # t"] ne by simp
  moreover have "dropWhile (\<lambda>x. x \<noteq> c) (s @ c # t) = c # t"
    using dropWhile_append2 [of s "\<lambda>x. x \<noteq> c" "c # t"] ne by simp
  ultimately show ?thesis by (simp add: split_n2_def)
qed

lemma split_n2_no_sep: "c \<notin> set s \<Longrightarrow> split_n2 c s = [s]"
  by (simp add: split_n2_def)

section \<open>Trimming, prefixes and case\<close>

text \<open>\<^verbatim>\<open>strings.Trim(s, c)\<close> for a cutset of one byte.\<close>

definition trim_char :: "char \<Rightarrow> string \<Rightarrow> string" where
  "trim_char c s = rev (dropWhile (\<lambda>x. x = c) (rev (dropWhile (\<lambda>x. x = c) s)))"

text \<open>\<^verbatim>\<open>strings.HasPrefix\<close> and \<^verbatim>\<open>strings.TrimPrefix\<close>.\<close>

definition has_prefix :: "string \<Rightarrow> string \<Rightarrow> bool" where
  "has_prefix s p \<longleftrightarrow> take (length p) s = p"

definition trim_prefix :: "string \<Rightarrow> string \<Rightarrow> string" where
  "trim_prefix s p = (if has_prefix s p then drop (length p) s else s)"

lemma has_prefix_append [simp]: "has_prefix (p @ s) p"
  by (simp add: has_prefix_def)

lemma trim_prefix_append [simp]: "trim_prefix (p @ s) p = s"
  by (simp add: trim_prefix_def)

text \<open>\<^verbatim>\<open>strings.Contains\<close>.\<close>

fun contains_str :: "string \<Rightarrow> string \<Rightarrow> bool" where
  "contains_str [] p \<longleftrightarrow> p = []"
| "contains_str (x # xs) p \<longleftrightarrow> has_prefix (x # xs) p \<or> contains_str xs p"

text \<open>
  \<^verbatim>\<open>strings.ToLower\<close> on the ASCII letters. The program compares the result with
  \<open>bearer\<close> only, and no other letter of Unicode has a lower case among b, e, a and r.
\<close>

definition lower_char :: "char \<Rightarrow> char" where
  "lower_char c =
     (let n = of_char c :: nat in if 65 \<le> n \<and> n \<le> 90 then char_of (n + 32) else c)"

definition to_lower :: "string \<Rightarrow> string" where
  "to_lower s = map lower_char s"

text \<open>\<^verbatim>\<open>strings.LastIndex(s, c)\<close> and the slice before it.\<close>

definition before_last :: "char \<Rightarrow> string \<Rightarrow> string" where
  "before_last c s =
     (if c \<in> set s then rev (tl (dropWhile (\<lambda>x. x \<noteq> c) (rev s))) else s)"

lemma before_last_append:
  assumes "c \<notin> set t"
  shows "before_last c (s @ c # t) = s"
proof -
  have ne: "\<And>x. x \<in> set (rev t) \<Longrightarrow> x \<noteq> c" using assms by auto
  have "dropWhile (\<lambda>x. x \<noteq> c) (rev t @ c # rev s) = c # rev s"
    using dropWhile_append2 [of "rev t" "\<lambda>x. x \<noteq> c" "c # rev s"] ne by simp
  then show ?thesis by (simp add: before_last_def)
qed

section \<open>White space\<close>

text \<open>
  The UTF-8 encodings of the runes with Unicode's property White Space:
  \<^verbatim>\<open>strings.TrimSpace\<close> removes them at both ends. No encoding is a proper prefix
  or suffix of another, so at most one applies at each end.
\<close>

definition space_runes :: "string list" where
  "space_runes =
     map (\<lambda>n. [char_of (n :: nat)]) [9, 10, 11, 12, 13, 32]
     @ map (map (char_of :: nat \<Rightarrow> char))
         ([[0xC2, 0x85], [0xC2, 0xA0], [0xE1, 0x9A, 0x80]]
          @ map (\<lambda>n. [0xE2, 0x80, n])
              [0x80, 0x81, 0x82, 0x83, 0x84, 0x85, 0x86, 0x87, 0x88, 0x89, 0x8A, 0xA8, 0xA9, 0xAF]
          @ [[0xE2, 0x81, 0x9F], [0xE3, 0x80, 0x80]])"

lemma space_runes_nonempty: "r \<in> set space_runes \<Longrightarrow> r \<noteq> []"
  by (auto simp: space_runes_def)

fun trim_runes :: "nat \<Rightarrow> string list \<Rightarrow> string \<Rightarrow> string" where
  "trim_runes 0 rs s = s"
| "trim_runes (Suc n) rs s =
     (case List.find (has_prefix s) rs of
        None \<Rightarrow> s
      | Some r \<Rightarrow> trim_runes n rs (drop (length r) s))"

text \<open>A trimmed rune is at least one byte long, so the length of the string is enough fuel.\<close>

definition trim_left_space :: "string \<Rightarrow> string" where
  "trim_left_space s = trim_runes (length s) space_runes s"

definition trim_right_space :: "string \<Rightarrow> string" where
  "trim_right_space s = rev (trim_runes (length s) (map rev space_runes) (rev s))"

definition trim_space :: "string \<Rightarrow> string" where
  "trim_space s = trim_right_space (trim_left_space s)"

lemma has_prefix_NilD: "has_prefix [] r \<Longrightarrow> r = []"
  by (simp add: has_prefix_def)

lemma trim_runes_done:
  assumes "length s \<le> n" and "\<And>r. r \<in> set rs \<Longrightarrow> r \<noteq> []"
  shows "List.find (has_prefix (trim_runes n rs s)) rs = None"
  using assms(1)
proof (induction n arbitrary: s)
  case 0
  then have "s = []" by simp
  with assms(2) show ?case by (auto simp: find_None_iff dest: has_prefix_NilD)
next
  case (Suc n)
  show ?case
  proof (cases "List.find (has_prefix s) rs")
    case None
    then show ?thesis by simp
  next
    case (Some r)
    then have "r \<noteq> []" using assms(2) by (auto dest: find_SomeD)
    then have "length (drop (length r) s) \<le> n"
      using Suc.prems by (cases r) auto
    with Some Suc.IH show ?thesis by simp
  qed
qed

section \<open>Decimal numbers\<close>

definition digit_char :: "nat \<Rightarrow> char" where
  "digit_char d = ''0123456789'' ! d"

definition is_digit :: "char \<Rightarrow> bool" where
  "is_digit c \<longleftrightarrow> c \<in> set ''0123456789''"

definition digit_val :: "char \<Rightarrow> nat" where
  "digit_val c = of_char c - 48"

lemma less_10_cases:
  "d < (10::nat) \<Longrightarrow> d \<in> {0, 1, 2, 3, 4, 5, 6, 7, 8, 9}"
  by auto

lemma digit_val_char [simp]: "d < 10 \<Longrightarrow> digit_val (digit_char d) = d"
  by (drule less_10_cases) (auto simp: digit_val_def digit_char_def)

lemma is_digit_char [simp]: "d < 10 \<Longrightarrow> is_digit (digit_char d)"
  by (drule less_10_cases) (auto simp: digit_char_def is_digit_def)

text \<open>\<^verbatim>\<open>%d\<close> of a natural number.\<close>

fun show_nat :: "nat \<Rightarrow> string" where
  "show_nat n = (if n < 10 then [digit_char n] else show_nat (n div 10) @ [digit_char (n mod 10)])"

declare show_nat.simps [simp del]

lemma show_nat_digits: "c \<in> set (show_nat n) \<Longrightarrow> is_digit c"
proof (induction n rule: show_nat.induct)
  case (1 n)
  then show ?case
    by (cases "n < 10") (auto simp: show_nat.simps [of n])
qed

lemma show_nat_nonempty [simp]: "show_nat n \<noteq> []"
  by (subst show_nat.simps) simp

text \<open>\<^verbatim>\<open>%0wd\<close>: padded with zeros to \<open>w\<close> bytes.\<close>

definition show_nat_pad :: "nat \<Rightarrow> nat \<Rightarrow> string" where
  "show_nat_pad w n = replicate (w - length (show_nat n)) (CHR ''0'') @ show_nat n"

lemma length_show_nat_le: "n < 10 ^ k \<Longrightarrow> 0 < k \<Longrightarrow> length (show_nat n) \<le> k"
proof (induction n arbitrary: k rule: show_nat.induct)
  case (1 n)
  show ?case
  proof (cases "n < 10")
    case True
    then show ?thesis using "1.prems" by (simp add: show_nat.simps [of n])
  next
    case False
    then obtain j where k: "k = Suc j" and j: "0 < j"
      using "1.prems" by (cases k; cases "k - 1") auto
    then have "n div 10 < 10 ^ j" using "1.prems" by (simp add: div_less_iff_less_mult mult.commute)
    then have "length (show_nat (n div 10)) \<le> j" using "1.IH" False j by blast
    then show ?thesis using False k by (simp add: show_nat.simps [of n])
  qed
qed

lemma length_show_nat_pad: "n < 10 ^ w \<Longrightarrow> 0 < w \<Longrightarrow> length (show_nat_pad w n) = w"
  using length_show_nat_le by (simp add: show_nat_pad_def)

lemma show_nat_pad_digits: "c \<in> set (show_nat_pad w n) \<Longrightarrow> is_digit c"
  by (auto simp: show_nat_pad_def show_nat_digits) (simp add: is_digit_def)

text \<open>\<^verbatim>\<open>strconv.ParseUint(s, 10, bits)\<close>: \<open>None\<close> is its error.\<close>

definition digits_val :: "string \<Rightarrow> nat" where
  "digits_val s = foldl (\<lambda>acc c. 10 * acc + digit_val c) 0 s"

definition parse_uint :: "nat \<Rightarrow> string \<Rightarrow> nat option" where
  "parse_uint bits s =
     (if s \<noteq> [] \<and> list_all is_digit s \<and> digits_val s < 2 ^ bits then Some (digits_val s) else None)"

lemma digits_val_snoc: "digits_val (s @ [c]) = 10 * digits_val s + digit_val c"
  by (simp add: digits_val_def)

lemma digits_val_show_nat [simp]: "digits_val (show_nat n) = n"
proof (induction n rule: show_nat.induct)
  case (1 n)
  show ?case
  proof (cases "n < 10")
    case True
    then show ?thesis by (simp add: show_nat.simps [of n] digits_val_def)
  next
    case False
    with "1.IH" show ?thesis by (simp add: show_nat.simps [of n] digits_val_snoc)
  qed
qed

lemma digits_val_append_zeros:
  "digits_val (replicate k (CHR ''0'') @ s) = digits_val s"
  by (induction k) (simp_all add: digits_val_def digit_val_def)

lemma digits_val_show_nat_pad [simp]: "digits_val (show_nat_pad w n) = n"
  by (simp add: show_nat_pad_def digits_val_append_zeros)

lemma parse_uint_show_nat: "n < 2 ^ bits \<Longrightarrow> parse_uint bits (show_nat n) = Some n"
  by (auto simp: parse_uint_def list_all_iff show_nat_digits)

lemma show_nat_inj [simp]: "show_nat m = show_nat n \<longleftrightarrow> m = n"
  by (metis digits_val_show_nat)

lemma not_digit_notin_show_nat: "\<not> is_digit c \<Longrightarrow> c \<notin> set (show_nat n)"
  using show_nat_digits by blast

end
