(* ===== verification/GoJson.thy ===== *)
theory GoJson
  imports Prelude
begin

text \<open>
  \<^verbatim>\<open>encoding/json\<close> as the program uses it. A JSON text is represented by the tree
  its syntax describes (\<open>json\<close>), and a text that is no JSON at all by \<open>NotJson\<close>, so
  \<^verbatim>\<open>json.Unmarshal\<close> fails on the syntax exactly on the latter. What the library
  does between a tree and a Go value is written out: the names a key matches, the zero value
  a missing key leaves, \<open>null\<close> as no change, and the type mismatch that makes the whole
  call fail. Strings are taken to be valid UTF-8, which the encoder does not alter.
\<close>

section \<open>Trees and texts\<close>

text \<open>A number that is no integer literal keeps its text: no integer field accepts it.\<close>

datatype json =
    JNull
  | JBool bool
  | JInt int
  | JFrac string
  | JStr string
  | JArr "json list"
  | JObj "(string \<times> json) list"

datatype text_doc = NotJson string | JsonText json

primrec parse_json :: "text_doc \<Rightarrow> json option" where
  "parse_json (NotJson s) = None"
| "parse_json (JsonText j) = Some j"

section \<open>Struct fields\<close>

text \<open>
  Keys match a field's name under simple case folding: ASCII letters, and the two other runes
  that fold to one (the long s, U+017F, and the Kelvin sign, U+212A).
\<close>

definition fold_ascii :: "char \<Rightarrow> char" where
  "fold_ascii c =
     (let n = of_char c :: nat in if 65 \<le> n \<and> n \<le> 90 then char_of (n + 32) else c)"

fun fold_name :: "string \<Rightarrow> string" where
  "fold_name [] = []"
| "fold_name (c # cs) =
     (if c = char_of (0xC5 :: nat) \<and> take 1 cs = [char_of (0xBF :: nat)]
      then CHR ''s'' # fold_name (drop 1 cs)
      else if c = char_of (0xE2 :: nat) \<and> take 2 cs = [char_of (0x84 :: nat), char_of (0xAA :: nat)]
      then CHR ''k'' # fold_name (drop 2 cs)
      else fold_ascii c # fold_name cs)"

definition key_matches :: "string \<Rightarrow> string \<Rightarrow> bool" where
  "key_matches k name \<longleftrightarrow> fold_name k = fold_name name"

text \<open>The names the program uses are lower-case ASCII, which folding leaves as they are.\<close>

definition plain_char :: "char \<Rightarrow> bool" where
  "plain_char c \<longleftrightarrow> c \<in> set ''abcdefghijklmnopqrstuvwxyz_''"

lemma plain_chars [simp]:
  "plain_char CHR ''a''" "plain_char CHR ''b''" "plain_char CHR ''c''" "plain_char CHR ''d''"
  "plain_char CHR ''e''" "plain_char CHR ''f''" "plain_char CHR ''g''" "plain_char CHR ''h''"
  "plain_char CHR ''i''" "plain_char CHR ''j''" "plain_char CHR ''k''" "plain_char CHR ''l''"
  "plain_char CHR ''m''" "plain_char CHR ''n''" "plain_char CHR ''o''" "plain_char CHR ''p''"
  "plain_char CHR ''q''" "plain_char CHR ''r''" "plain_char CHR ''s''" "plain_char CHR ''t''"
  "plain_char CHR ''u''" "plain_char CHR ''v''" "plain_char CHR ''w''" "plain_char CHR ''x''"
  "plain_char CHR ''y''" "plain_char CHR ''z''" "plain_char CHR ''_''"
  by (simp_all add: plain_char_def)

lemma fold_name_plain: "list_all plain_char s \<Longrightarrow> fold_name s = s"
proof (induction s)
  case (Cons c s)
  from Cons.prems have "plain_char c" by simp
  then have small: "of_char c < (128 :: nat)" and "fold_ascii c = c"
    by (auto simp: plain_char_def fold_ascii_def Let_def)
  moreover have "c \<noteq> char_of (0xC5 :: nat)" and "c \<noteq> char_of (0xE2 :: nat)"
    using small by auto
  ultimately show ?case using Cons by simp
qed simp

lemma key_matches_plain [simp]:
  "list_all plain_char k \<Longrightarrow> list_all plain_char name \<Longrightarrow> key_matches k name \<longleftrightarrow> k = name"
  by (simp add: key_matches_def fold_name_plain)

text \<open>
  The members are stored in the order of the text, so a later key overwrites an earlier one.
  \<open>None\<close> is an \<^verbatim>\<open>UnmarshalTypeError\<close>, which the library reports after the
  whole object.
\<close>

primrec load_field ::
  "('a \<Rightarrow> json \<Rightarrow> 'a option) \<Rightarrow> string \<Rightarrow> (string \<times> json) list \<Rightarrow> 'a \<Rightarrow> 'a option" where
  "load_field dec name [] cur = Some cur"
| "load_field dec name (kv # kvs) cur =
     (if key_matches (fst kv) name
      then Option.bind (dec cur (snd kv)) (load_field dec name kvs)
      else load_field dec name kvs cur)"

text \<open>Decoders of the field types: \<open>dec cur v\<close> is the field after \<open>v\<close>, from \<open>cur\<close>.\<close>

fun dec_string :: "string \<Rightarrow> json \<Rightarrow> string option" where
  "dec_string cur (JStr s) = Some s"
| "dec_string cur JNull = Some cur"
| "dec_string cur _ = None"

fun dec_bool :: "bool \<Rightarrow> json \<Rightarrow> bool option" where
  "dec_bool cur (JBool b) = Some b"
| "dec_bool cur JNull = Some cur"
| "dec_bool cur _ = None"

text \<open>\<^verbatim>\<open>int\<close> and \<^verbatim>\<open>int64\<close>: a literal out of range is a mismatch.\<close>

definition in_int64 :: "int \<Rightarrow> bool" where
  "in_int64 n \<longleftrightarrow> - (2 ^ 63) \<le> n \<and> n < 2 ^ 63"

fun dec_int64 :: "int \<Rightarrow> json \<Rightarrow> int option" where
  "dec_int64 cur (JInt n) = (if in_int64 n then Some n else None)"
| "dec_int64 cur JNull = Some cur"
| "dec_int64 cur _ = None"

text \<open>\<^verbatim>\<open>json.RawMessage\<close>: any value, kept as it is; \<open>None\<close> is the nil slice.\<close>

definition dec_raw :: "json option \<Rightarrow> json \<Rightarrow> json option option" where
  "dec_raw cur v = Some (Some v)"

text \<open>A pointer field: \<open>null\<close> sets it to nil, any other value allocates.\<close>

definition dec_ptr :: "'a \<Rightarrow> ('a \<Rightarrow> json \<Rightarrow> 'a option) \<Rightarrow> 'a option \<Rightarrow> json \<Rightarrow> 'a option option" where
  "dec_ptr zero dec cur v =
     (if v = JNull then Some None
      else map_option Some (dec (case cur of None \<Rightarrow> zero | Some x \<Rightarrow> x) v))"

text \<open>
  A slice: the elements are decoded one by one, over those the slice had before, \<open>null\<close> gives
  the nil slice.
\<close>

fun dec_elems :: "'a \<Rightarrow> ('a \<Rightarrow> json \<Rightarrow> 'a option) \<Rightarrow> 'a list \<Rightarrow> json list \<Rightarrow> 'a list option" where
  "dec_elems zero dec cur [] = Some []"
| "dec_elems zero dec cur (v # vs) =
     Option.bind (dec (case cur of [] \<Rightarrow> zero | c # _ \<Rightarrow> c) v) (\<lambda>x.
       map_option ((#) x) (dec_elems zero dec (drop 1 cur) vs))"

fun dec_list :: "'a \<Rightarrow> ('a \<Rightarrow> json \<Rightarrow> 'a option) \<Rightarrow> 'a list \<Rightarrow> json \<Rightarrow> 'a list option" where
  "dec_list zero dec cur (JArr vs) = dec_elems zero dec cur vs"
| "dec_list zero dec cur JNull = Some []"
| "dec_list zero dec cur _ = None"

lemma dec_elems_map:
  "(\<And>x. x \<in> set xs \<Longrightarrow> dec zero (enc x) = Some x) \<Longrightarrow> dec_elems zero dec [] (map enc xs) = Some xs"
  by (induction xs) auto

text \<open>A nested struct: an object goes to its fields, \<open>null\<close> changes nothing.\<close>

fun dec_obj :: "('a \<Rightarrow> (string \<times> json) list \<Rightarrow> 'a option) \<Rightarrow> 'a \<Rightarrow> json \<Rightarrow> 'a option" where
  "dec_obj ld cur (JObj kvs) = ld cur kvs"
| "dec_obj ld cur JNull = Some cur"
| "dec_obj ld cur _ = None"

text \<open>
  \<^verbatim>\<open>time.Time\<close>, in nanoseconds since 1970. Its text carries the server's time zone,
  so writing (\<open>ftime\<close>) and reading (\<open>ptime\<close>) it are arguments; the zero value is the first day of
  year 1.
\<close>

definition zero_time :: int where
  "zero_time = - 62135596800 * Second"

fun dec_time :: "(string \<Rightarrow> int option) \<Rightarrow> int \<Rightarrow> json \<Rightarrow> int option" where
  "dec_time ptime cur (JStr s) = ptime s"
| "dec_time ptime cur JNull = Some cur"
| "dec_time ptime cur _ = None"

definition time_round_trip :: "(string \<Rightarrow> int option) \<Rightarrow> (int \<Rightarrow> string) \<Rightarrow> bool" where
  "time_round_trip ptime ftime \<longleftrightarrow> (\<forall>t. ptime (ftime t) = Some t)"

text \<open>
  \<^verbatim>\<open>map[string]any\<close>: a member is stored under its key, an object or \<open>null\<close>
  is accepted; the map is the list of its members.
\<close>

fun dec_map :: "(string \<times> json) list option \<Rightarrow> json \<Rightarrow> (string \<times> json) list option option" where
  "dec_map cur (JObj kvs) = Some (Some (case cur of None \<Rightarrow> kvs | Some old \<Rightarrow> old @ kvs))"
| "dec_map cur JNull = Some None"
| "dec_map cur _ = None"

text \<open>
  \<^verbatim>\<open>json.Unmarshal\<close> into a struct: \<open>null\<close> leaves the zero value, an object
  goes to its fields, any other value is a mismatch.
\<close>

fun load_struct :: "'a \<Rightarrow> ((string \<times> json) list \<Rightarrow> 'a option) \<Rightarrow> json \<Rightarrow> 'a option" where
  "load_struct zero ld (JObj kvs) = ld kvs"
| "load_struct zero ld JNull = Some zero"
| "load_struct zero ld _ = None"

definition unmarshal_struct ::
  "'a \<Rightarrow> ((string \<times> json) list \<Rightarrow> 'a option) \<Rightarrow> text_doc \<Rightarrow> 'a option" where
  "unmarshal_struct zero ld t = Option.bind (parse_json t) (load_struct zero ld)"

section \<open>Encoding\<close>

text \<open>\<^verbatim>\<open>omitempty\<close> on strings and integers, and a nil slice or pointer as \<open>null\<close>.\<close>

definition omit_empty_str :: "string \<Rightarrow> string \<Rightarrow> (string \<times> json) list" where
  "omit_empty_str name s = (if s = [] then [] else [(name, JStr s)])"

definition omit_zero_int :: "string \<Rightarrow> int \<Rightarrow> (string \<times> json) list" where
  "omit_zero_int name n = (if n = 0 then [] else [(name, JInt n)])"

definition enc_raw :: "json option \<Rightarrow> json" where
  "enc_raw r = (case r of None \<Rightarrow> JNull | Some j \<Rightarrow> j)"

definition enc_ptr :: "('a \<Rightarrow> json) \<Rightarrow> 'a option \<Rightarrow> json" where
  "enc_ptr enc p = (case p of None \<Rightarrow> JNull | Some x \<Rightarrow> enc x)"

lemma load_field_append:
  "load_field dec name (xs @ ys) cur =
     Option.bind (load_field dec name xs cur) (load_field dec name ys)"
  by (induction xs arbitrary: cur) (auto simp: bind_eq_None_conv split: Option.bind_splits)

text \<open>A member of a type the field rejects, whatever the field holds, makes the load fail.\<close>

lemma load_field_mismatch:
  assumes "(k, v) \<in> set kvs" and "key_matches k name" and "\<And>cur. dec cur v = None"
  shows "load_field dec name kvs cur = None"
  using assms(1)
proof (induction kvs arbitrary: cur)
  case Nil
  then show ?case by simp
next
  case (Cons kv kvs)
  then show ?case
    using assms(2,3) by (cases kv) (auto split: Option.bind_splits)
qed

lemma load_field_skip:
  "(\<And>k v. (k, v) \<in> set kvs \<Longrightarrow> \<not> key_matches k name) \<Longrightarrow> load_field dec name kvs cur = Some cur"
proof (induction kvs)
  case (Cons kv kvs)
  from Cons.prems [of "fst kv" "snd kv"] have "\<not> key_matches (fst kv) name" by simp
  moreover from Cons have "load_field dec name kvs cur = Some cur" by (meson list.set_intros(2))
  ultimately show ?case by simp
qed simp

end
