(* ===== verification/Sign.thy ===== *)
theory Sign
  imports GoJson
begin

text \<open>
  The tokens of \<^verbatim>\<open>internal/utils/sign.go\<close>. The JWT library is a parameter: \<open>sign\<close>
  is \<^verbatim>\<open>SignedString\<close> of an RS256 token over a claims document, \<open>parse\<close> is
  \<^verbatim>\<open>ParseWithClaims\<close> into a \<^verbatim>\<open>*Claims\<close>, which calls the key
  function it is given on the token's signing method. Tokens and keys are of any type.

  \<^verbatim>\<open>Claims\<close> embeds \<^verbatim>\<open>jwt.RegisteredClaims\<close>, but its own fields
  \<^verbatim>\<open>sub\<close>, \<^verbatim>\<open>jti\<close>, \<^verbatim>\<open>iat\<close>, \<^verbatim>\<open>exp\<close> hide the
  embedded ones from the JSON decoder, which stay empty; so the library, which reads the
  expiry from the embedded part, finds none to check.
\<close>

section \<open>Claims\<close>

record claims =
  cl_sub :: string
  cl_username :: string
  cl_jti :: "string option"
  cl_iat :: int
  cl_exp :: int

definition zero_claims :: claims where
  "zero_claims = \<lparr>cl_sub = '''', cl_username = '''', cl_jti = None, cl_iat = 0, cl_exp = 0\<rparr>"

definition load_claims :: "(string \<times> json) list \<Rightarrow> claims option" where
  "load_claims kvs =
     Option.bind (load_field dec_string ''sub'' kvs '''') (\<lambda>sub.
     Option.bind (load_field dec_string ''username'' kvs '''') (\<lambda>username.
     Option.bind (load_field (dec_ptr '''' dec_string) ''jti'' kvs None) (\<lambda>jti.
     Option.bind (load_field dec_int64 ''iat'' kvs 0) (\<lambda>iat.
     Option.bind (load_field dec_int64 ''exp'' kvs 0) (\<lambda>exp.
       Some \<lparr>cl_sub = sub, cl_username = username, cl_jti = jti, cl_iat = iat, cl_exp = exp\<rparr>)))))"

text \<open>The document \<^verbatim>\<open>GenerateSign\<close> signs.\<close>

definition map_claims :: "claims \<Rightarrow> (string \<times> json) list" where
  "map_claims c =
     [(''exp'', JInt (cl_exp c)), (''iat'', JInt (cl_iat c)), (''jti'', enc_ptr JStr (cl_jti c)),
      (''sub'', JStr (cl_sub c)), (''username'', JStr (cl_username c))]"

lemma load_map_claims:
  "in_int64 (cl_iat c) \<Longrightarrow> in_int64 (cl_exp c) \<Longrightarrow> load_claims (map_claims c) = Some c"
  by (cases c; cases "cl_jti c") (simp_all add: load_claims_def map_claims_def enc_ptr_def dec_ptr_def)

section \<open>Signing and verifying\<close>

datatype signing_method = RSA_method | Other_method string

text \<open>\<open>ErrTokenExpired\<close> is the one error callers tell apart with \<^verbatim>\<open>errors.Is\<close>.\<close>

datatype token_error = ErrTokenExpired | Token_error string

definition GenerateSign ::
  "((string \<times> json) list \<Rightarrow> 'priv \<Rightarrow> string + 'tok) \<Rightarrow> claims \<Rightarrow> 'priv \<Rightarrow> string + 'tok" where
  "GenerateSign sign c privateKey = sign (map_claims c) privateKey"

definition IssueNewTokens ::
  "((string \<times> json) list \<Rightarrow> 'priv \<Rightarrow> string + 'tok) \<Rightarrow> int \<Rightarrow> string \<Rightarrow> string \<Rightarrow> string \<Rightarrow> 'priv
   \<Rightarrow> string + ('tok \<times> 'tok \<times> string)" where
  "IssueNewTokens sign now uuid userId username privateKey =
     (let issueAt = unix_seconds now;
          expAccess = issueAt + 21600;
          expRefresh = issueAt + 7 * 24 * 3600;
          jti = uuid
      in case GenerateSign sign \<lparr>cl_sub = userId, cl_username = username, cl_jti = None,
             cl_iat = issueAt, cl_exp = expAccess\<rparr> privateKey of
           Inl err \<Rightarrow> Inl err
         | Inr access \<Rightarrow>
             (case GenerateSign sign \<lparr>cl_sub = userId, cl_username = username, cl_jti = Some jti,
                  cl_iat = issueAt, cl_exp = expRefresh\<rparr> privateKey of
                Inl err \<Rightarrow> Inl err
              | Inr refresh \<Rightarrow> Inr (access, refresh, jti)))"

definition rsa_key_func :: "'pub \<Rightarrow> signing_method \<Rightarrow> string + 'pub" where
  "rsa_key_func pubKey m = (if m = RSA_method then Inr pubKey else Inl ''unexpected signing method'')"

definition ParseAndVerifySign ::
  "((signing_method \<Rightarrow> string + 'pub) \<Rightarrow> 'tok \<Rightarrow> token_error + (claims \<times> bool)) \<Rightarrow> int \<Rightarrow> 'tok \<Rightarrow> 'pub
   \<Rightarrow> token_error + claims" where
  "ParseAndVerifySign parse now token pubKey =
     (case parse (rsa_key_func pubKey) token of
        Inl err \<Rightarrow> Inl err
      | Inr (c, valid) \<Rightarrow>
          if \<not> valid then Inl (Token_error ''invalid token claims'')
          else if cl_exp c * Second < now then Inl (Token_error ''token expired'')
          else Inr c)"

section \<open>What the library is relied on for\<close>

text \<open>
  \<open>jwt_round_trip\<close>: a token signed with a private key parses, under the key function's matching
  public key, into the claims of its document. \<open>jwt_checked\<close>: a token parses only if the key
  function gives a key for its method and its signature verifies under that key.
\<close>

definition jwt_round_trip ::
  "((string \<times> json) list \<Rightarrow> 'priv \<Rightarrow> string + 'tok)
   \<Rightarrow> ((signing_method \<Rightarrow> string + 'pub) \<Rightarrow> 'tok \<Rightarrow> token_error + (claims \<times> bool))
   \<Rightarrow> ('priv \<Rightarrow> 'pub \<Rightarrow> bool) \<Rightarrow> bool" where
  "jwt_round_trip sign parse matches \<longleftrightarrow>
     (\<forall>kvs priv tok pub kf c. sign kvs priv = Inr tok \<longrightarrow> kf RSA_method = Inr pub \<longrightarrow> matches priv pub \<longrightarrow>
        load_claims kvs = Some c \<longrightarrow> parse kf tok = Inr (c, True))"

definition jwt_checked ::
  "((signing_method \<Rightarrow> string + 'pub) \<Rightarrow> 'tok \<Rightarrow> token_error + (claims \<times> bool))
   \<Rightarrow> ('tok \<Rightarrow> signing_method) \<Rightarrow> ('pub \<Rightarrow> 'tok \<Rightarrow> bool) \<Rightarrow> bool" where
  "jwt_checked parse method_of verifies \<longleftrightarrow>
     (\<forall>kf tok r. parse kf tok = Inr r \<longrightarrow> (\<exists>key. kf (method_of tok) = Inr key \<and> verifies key tok))"

text \<open>An instance: a token is its method, its key and its document.\<close>

definition plain_sign :: "(string \<times> json) list \<Rightarrow> nat \<Rightarrow> string + (signing_method \<times> nat \<times> (string \<times> json) list)" where
  "plain_sign kvs key = Inr (RSA_method, key, kvs)"

definition plain_parse ::
  "(signing_method \<Rightarrow> string + nat) \<Rightarrow> signing_method \<times> nat \<times> (string \<times> json) list
   \<Rightarrow> token_error + (claims \<times> bool)" where
  "plain_parse kf tok =
     (case tok of (m, k, kvs) \<Rightarrow>
        (case kf m of
           Inl e \<Rightarrow> Inl (Token_error e)
         | Inr key \<Rightarrow>
             if key \<noteq> k then Inl (Token_error ''signature is invalid'')
             else (case load_claims kvs of
                     None \<Rightarrow> Inl (Token_error ''malformed'') | Some c \<Rightarrow> Inr (c, True))))"

lemma plain_round_trip: "jwt_round_trip plain_sign plain_parse (=)"
  by (simp add: jwt_round_trip_def plain_sign_def plain_parse_def)

lemma plain_checked: "jwt_checked plain_parse fst (\<lambda>key tok. fst (snd tok) = key)"
proof -
  have "\<exists>key. kf (fst tok) = Inr key \<and> fst (snd tok) = key" if p: "plain_parse kf tok = Inr r" for kf tok r
  proof -
    obtain m k kvs where tok: "tok = (m, k, kvs)" by (cases tok)
    from p show ?thesis
      by (cases "kf m") (simp_all add: plain_parse_def tok split: if_splits)
  qed
  then show ?thesis by (simp add: jwt_checked_def)
qed

lemma ParseAndVerifySign_genuine:
  assumes "jwt_checked parse method_of verifies"
    and "ParseAndVerifySign parse now tok pub = Inr c"
  shows "method_of tok = RSA_method" and "verifies pub tok"
    and "parse (rsa_key_func pub) tok = Inr (c, True)" and "now \<le> cl_exp c * Second"
proof -
  show p: "parse (rsa_key_func pub) tok = Inr (c, True)" and "now \<le> cl_exp c * Second"
    using assms(2) by (auto simp: ParseAndVerifySign_def split: sum.splits prod.splits if_splits)
  obtain key where "rsa_key_func pub (method_of tok) = Inr key" and "verifies key tok"
    using assms(1) p unfolding jwt_checked_def by blast
  then show "method_of tok = RSA_method" and "verifies pub tok"
    by (auto simp: rsa_key_func_def split: if_splits)
qed

lemma issued_access_verifies:
  assumes "jwt_round_trip sign parse matches" and "matches priv pub"
    and "IssueNewTokens sign now uuid userId username priv = Inr (access, refresh, jti)"
    and "in_int64 (unix_seconds now)" and "in_int64 (unix_seconds now + 604800)"
  shows "jti = uuid" and "ParseAndVerifySign parse t access pub = Inr c \<Longrightarrow> cl_sub c = userId"
    and "t \<le> (unix_seconds now + 21600) * Second \<Longrightarrow> \<exists>c. ParseAndVerifySign parse t access pub = Inr c"
proof -
  define ca where "ca = \<lparr>cl_sub = userId, cl_username = username, cl_jti = None,
      cl_iat = unix_seconds now, cl_exp = unix_seconds now + 21600\<rparr>"
  have tok: "sign (map_claims ca) priv = Inr access" and jti: "jti = uuid"
    using assms(3)
    by (auto simp: IssueNewTokens_def GenerateSign_def Let_def ca_def split: sum.splits)
  have "load_claims (map_claims ca) = Some ca"
    using assms(4,5) by (auto simp: ca_def in_int64_def intro!: load_map_claims)
  moreover have "rsa_key_func pub RSA_method = Inr pub" by (simp add: rsa_key_func_def)
  ultimately have p: "parse (rsa_key_func pub) access = Inr (ca, True)"
    using assms(1,2) tok unfolding jwt_round_trip_def by blast
  show "jti = uuid" by (rule jti)
  show "ParseAndVerifySign parse t access pub = Inr c \<Longrightarrow> cl_sub c = userId"
    using p by (auto simp: ParseAndVerifySign_def ca_def split: if_splits)
  show "t \<le> (unix_seconds now + 21600) * Second \<Longrightarrow> \<exists>c. ParseAndVerifySign parse t access pub = Inr c"
    using p by (auto simp: ParseAndVerifySign_def ca_def)
qed

text \<open>Another instance: a table of tokens with their claims, and one token that is expired.\<close>

definition table_sign :: "(string \<times> claims) list \<Rightarrow> (string \<times> json) list \<Rightarrow> nat \<Rightarrow> string + string" where
  "table_sign tab kvs key =
     (case List.find (\<lambda>e. map_claims (snd e) = kvs) tab of
        None \<Rightarrow> Inl ''not in the table'' | Some e \<Rightarrow> Inr (fst e))"

definition table_parse ::
  "(string \<times> claims) list \<Rightarrow> (signing_method \<Rightarrow> string + nat) \<Rightarrow> string \<Rightarrow> token_error + (claims \<times> bool)" where
  "table_parse tab kf tok =
     (case kf RSA_method of
        Inl e \<Rightarrow> Inl (Token_error e)
      | Inr key \<Rightarrow>
          (case map_of tab tok of
             Some c \<Rightarrow> Inr (c, True)
           | None \<Rightarrow> Inl (if tok = ''expired'' then ErrTokenExpired else Token_error ''malformed'')))"

lemma table_round_trip:
  assumes "distinct (map fst tab)" and "\<forall>e \<in> set tab. in_int64 (cl_iat (snd e)) \<and> in_int64 (cl_exp (snd e))"
  shows "jwt_round_trip (table_sign tab) (table_parse tab) (=)"
proof -
  have "map_of tab tok = Some c"
    if "table_sign tab kvs k = Inr tok" and "load_claims kvs = Some c" for tok kvs c k
  proof -
    from that(1) have "\<exists>e. List.find (\<lambda>e. map_claims (snd e) = kvs) tab = Some e \<and> tok = fst e"
      by (cases "List.find (\<lambda>e. map_claims (snd e) = kvs) tab") (simp_all add: table_sign_def)
    then obtain e where e: "List.find (\<lambda>e. map_claims (snd e) = kvs) tab = Some e" "tok = fst e"
      by blast
    have "e \<in> set tab" "map_claims (snd e) = kvs" using find_SomeD [OF e(1)] by simp_all
    moreover from this have "snd e = c"
      using that(2) load_map_claims assms(2) by (metis option.inject)
    ultimately show ?thesis using assms(1) e(2) by (metis map_of_is_SomeI prod.collapse)
  qed
  then show ?thesis by (auto simp: jwt_round_trip_def table_parse_def)
qed

lemma table_checked: "jwt_checked (table_parse tab) (\<lambda>_. RSA_method) (\<lambda>key tok. True)"
proof -
  have "\<exists>key. kf RSA_method = Inr key" if "table_parse tab kf tok = Inr res" for kf tok res
    using that by (cases "kf RSA_method") (simp_all add: table_parse_def)
  then show ?thesis by (simp add: jwt_checked_def)
qed

definition example_claims :: "string option \<Rightarrow> int \<Rightarrow> claims" where
  "example_claims jti exp =
     \<lparr>cl_sub = ''u'', cl_username = ''ann'', cl_jti = jti, cl_iat = 0, cl_exp = exp\<rparr>"

definition example_table :: "(string \<times> claims) list" where
  "example_table = [(''access'', example_claims None 21600),
     (''refresh'', example_claims (Some ''k'') 604800), (''cookie'', example_claims (Some ''j'') 604800)]"

lemma example_jwt:
  "jwt_round_trip (table_sign example_table) (table_parse example_table) (=)"
  by (rule table_round_trip) (simp_all add: example_table_def example_claims_def in_int64_def)

lemma example_parse:
  "ParseAndVerifySign (table_parse example_table) 0 ''expired'' 7 = Inl ErrTokenExpired"
  "ParseAndVerifySign (table_parse example_table) 0 ''access'' 7 = Inr (example_claims None 21600)"
  "ParseAndVerifySign (table_parse example_table) 0 ''cookie'' 7 = Inr (example_claims (Some ''j'') 604800)"
  by (simp_all add: ParseAndVerifySign_def table_parse_def rsa_key_func_def example_table_def
      example_claims_def)

lemma example_issue:
  "IssueNewTokens (table_sign example_table) 0 ''k'' ''u'' ''ann'' 7 = Inr (''access'', ''refresh'', ''k'')"
  by (simp add: IssueNewTokens_def GenerateSign_def table_sign_def example_table_def map_claims_def
      example_claims_def unix_seconds_def enc_ptr_def)

section \<open>Properties\<close>

text \<open>
  C24. Issue and verify: the access token is accepted, with the user it was issued for, for six
  hours counted from the second of its issue, the refresh token, which alone carries the
  identifier, for seven days. After that both are refused, with an error that is not the
  library's \<^verbatim>\<open>ErrTokenExpired\<close> that the callers look for.
\<close>

theorem issued_tokens_verify:
  assumes "jwt_round_trip sign parse matches" and "matches priv pub"
    and "IssueNewTokens sign now uuid userId username priv = Inr (access, refresh, jti)"
    and "in_int64 (unix_seconds now)" and "in_int64 (unix_seconds now + 604800)"
  shows "ParseAndVerifySign parse t access pub =
      (if t \<le> (unix_seconds now + 21600) * Second
       then Inr \<lparr>cl_sub = userId, cl_username = username, cl_jti = None,
              cl_iat = unix_seconds now, cl_exp = unix_seconds now + 21600\<rparr>
       else Inl (Token_error ''token expired'')) \<and>
    ParseAndVerifySign parse t refresh pub =
      (if t \<le> (unix_seconds now + 604800) * Second
       then Inr \<lparr>cl_sub = userId, cl_username = username, cl_jti = Some jti,
              cl_iat = unix_seconds now, cl_exp = unix_seconds now + 604800\<rparr>
       else Inl (Token_error ''token expired''))"
proof -
  define ca where "ca = \<lparr>cl_sub = userId, cl_username = username, cl_jti = None,
      cl_iat = unix_seconds now, cl_exp = unix_seconds now + 21600\<rparr>"
  define cr where "cr = \<lparr>cl_sub = userId, cl_username = username, cl_jti = Some uuid,
      cl_iat = unix_seconds now, cl_exp = unix_seconds now + 604800\<rparr>"
  have tokens: "sign (map_claims ca) priv = Inr access" "sign (map_claims cr) priv = Inr refresh"
    and jti: "jti = uuid"
    using assms(3)
    by (auto simp: IssueNewTokens_def GenerateSign_def Let_def ca_def cr_def split: sum.splits)
  have "load_claims (map_claims ca) = Some ca" "load_claims (map_claims cr) = Some cr"
    using assms(4,5) by (auto simp: ca_def cr_def in_int64_def intro!: load_map_claims)
  moreover have "rsa_key_func pub RSA_method = Inr pub" by (simp add: rsa_key_func_def)
  ultimately have "parse (rsa_key_func pub) access = Inr (ca, True)"
    "parse (rsa_key_func pub) refresh = Inr (cr, True)"
    using assms(1,2) tokens unfolding jwt_round_trip_def by blast+
  then show ?thesis by (simp add: ParseAndVerifySign_def ca_def cr_def jti)
qed

lemma issued_tokens_verify_witness:
  "\<exists>access refresh jti.
     IssueNewTokens plain_sign (5 * Second) ''j'' ''u'' ''ann'' 7 = Inr (access, refresh, jti) \<and>
     ParseAndVerifySign plain_parse (6 * Hour) access 7 =
       Inr \<lparr>cl_sub = ''u'', cl_username = ''ann'', cl_jti = None, cl_iat = 5, cl_exp = 21605\<rparr> \<and>
     ParseAndVerifySign plain_parse (7 * Hour) access 7 = Inl (Token_error ''token expired'')"
proof -
  obtain access refresh jti where
    i: "IssueNewTokens plain_sign (5 * Second) ''j'' ''u'' ''ann'' 7 = Inr (access, refresh, jti)"
    by (simp add: IssueNewTokens_def GenerateSign_def plain_sign_def Let_def)
  note v = issued_tokens_verify [OF plain_round_trip refl i]
  have "ParseAndVerifySign plain_parse (6 * Hour) access 7 =
       Inr \<lparr>cl_sub = ''u'', cl_username = ''ann'', cl_jti = None, cl_iat = 5, cl_exp = 21605\<rparr>"
    "ParseAndVerifySign plain_parse (7 * Hour) access 7 = Inl (Token_error ''token expired'')"
    using v [of "6 * Hour"] v [of "7 * Hour"] by (simp_all add: unix_seconds_def in_int64_def)
  with i show ?thesis by blast
qed

text \<open>
  What verification accepts: only a token whose signing method is of the RSA family, whose
  signature verifies under the server's key, which the library reported valid and whose expiry
  has not passed. A token that names another method is refused whatever its signature.
\<close>

theorem verified_token_is_genuine:
  assumes "jwt_checked parse method_of verifies"
    and "ParseAndVerifySign parse now tok pub = Inr c"
  shows "method_of tok = RSA_method \<and> verifies pub tok \<and>
    parse (rsa_key_func pub) tok = Inr (c, True) \<and> now \<le> cl_exp c * Second"
  using ParseAndVerifySign_genuine [OF assms] by blast

lemma verified_token_is_genuine_witness:
  "ParseAndVerifySign plain_parse 0 (RSA_method, 7, map_claims (zero_claims\<lparr>cl_exp := 9\<rparr>)) 7 =
     Inr (zero_claims\<lparr>cl_exp := 9\<rparr>) \<and> (0 :: int) \<le> 9 * Second"
proof -
  have "load_claims (map_claims (zero_claims\<lparr>cl_exp := 9\<rparr>)) = Some (zero_claims\<lparr>cl_exp := 9\<rparr>)"
    by (rule load_map_claims) (simp_all add: zero_claims_def in_int64_def)
  then have "ParseAndVerifySign plain_parse 0 (RSA_method, 7, map_claims (zero_claims\<lparr>cl_exp := 9\<rparr>)) 7 =
     Inr (zero_claims\<lparr>cl_exp := 9\<rparr>)"
    by (simp add: ParseAndVerifySign_def plain_parse_def rsa_key_func_def)
  from verified_token_is_genuine [OF plain_checked this] this show ?thesis by simp
qed

end
