(* ===== verification/Http.thy ===== *)
theory Http
  imports GoStrings Sign
begin

text \<open>
  An HTTP request as the handlers read it, the reply they write, and the middleware of
  \<^verbatim>\<open>internal/middleware\<close> that runs before them. \<open>req_query\<close> and
  \<open>req_header\<close> are \<^verbatim>\<open>Query().Get\<close> and \<^verbatim>\<open>Header.Get\<close>, which
  give the empty string for what is missing; the \<open>ctx_\<close> fields are the values middleware puts
  into the request's context.
\<close>

section \<open>Requests and replies\<close>

text \<open>
  \<open>JWTAuth\<close> stores the claims under \<^verbatim>\<open>UserClaimsKey\<close>,
  \<open>JWTAuthWithAutoRefresh\<close> the subject.
\<close>

datatype user_value = Claims_value claims | Sub_value string

record http_request =
  req_path :: string
  req_query :: "string \<Rightarrow> string"
  req_header :: "string \<Rightarrow> string"
  req_cookie :: "string \<Rightarrow> string option"
  req_remote_addr :: string
  req_params :: "string \<Rightarrow> string"
  req_body :: text_doc
  ctx_fingerprint :: "string option"
  ctx_request_id :: "string option"
  ctx_user :: "user_value option"

definition empty_request :: http_request where
  "empty_request = \<lparr>req_path = '''', req_query = (\<lambda>_. ''''), req_header = (\<lambda>_. ''''),
     req_cookie = (\<lambda>_. None), req_remote_addr = '''', req_params = (\<lambda>_. ''''),
     req_body = NotJson '''', ctx_fingerprint = None, ctx_request_id = None, ctx_user = None\<rparr>"

text \<open>What is written: the status, the cookies and headers set before it, and the body.\<close>

record http_reply =
  rep_status :: int
  rep_cookies :: "(string \<times> string) list"
  rep_headers :: "(string \<times> string) list"
  rep_body :: json

definition plain_reply :: "int \<Rightarrow> json \<Rightarrow> http_reply" where
  "plain_reply status body =
     \<lparr>rep_status = status, rep_cookies = [], rep_headers = [], rep_body = body\<rparr>"

text \<open>\<^verbatim>\<open>AppError.JSON\<close>: the tags leave the code out, and an empty field.\<close>

definition app_error_json :: "app_error \<Rightarrow> json" where
  "app_error_json e = JObj ([(''message'', JStr (ae_message e))] @ omit_empty_str ''field'' (ae_field e))"

definition writeAppError :: "app_error \<Rightarrow> http_reply" where
  "writeAppError e = plain_reply (ae_code e) (app_error_json e)"

section \<open>The bearer token\<close>

text \<open>\<open>None\<close> is the format error: no space, or another scheme before it.\<close>

definition bearer_token :: "string \<Rightarrow> string option" where
  "bearer_token authHeader =
     (case split_n2 (CHR '' '') authHeader of
        [scheme, tok] \<Rightarrow> if to_lower scheme = ''bearer'' then Some tok else None
      | _ \<Rightarrow> None)"

lemma lower_bearer [simp]: "to_lower ''Bearer'' = ''bearer''"
  by code_simp

lemma bearer_token_format [simp]: "bearer_token (''Bearer '' @ tok) = Some tok"
proof -
  have "split_n2 (CHR '' '') (''Bearer'' @ CHR '' '' # tok) = [''Bearer'', tok]"
    by (rule split_n2_append_sep) simp
  then show ?thesis by (simp add: bearer_token_def)
qed

lemma bearer_tokenD:
  assumes "bearer_token s = Some tok"
  shows "\<exists>scheme. s = scheme @ CHR '' '' # tok \<and> to_lower scheme = ''bearer''"
proof -
  obtain scheme where parts: "split_n2 (CHR '' '') s = [scheme, tok]"
    and "to_lower scheme = ''bearer''"
    using assms by (auto simp: bearer_token_def split: list.splits if_splits)
  moreover from parts have "CHR '' '' \<in> set s" by (auto simp: split_n2_def split: if_splits)
  then obtain a b where s: "s = a @ CHR '' '' # b" and "CHR '' '' \<notin> set a"
    by (auto dest: split_list_first)
  with parts have "scheme = a" "tok = b" by (simp_all add: split_n2_append_sep)
  ultimately show ?thesis using s by blast
qed

end
