(* ===== verification/SelectLoop.thy ===== *)
theory SelectLoop
  imports Prelude
begin

text \<open>
  The background goroutines of the program share one shape: a loop around a \<^verbatim>\<open>select\<close> that
  returns when a context has ended and does its work otherwise (on a tick, or at once). A loop is
  run over the cases its \<^verbatim>\<open>select\<close> took; \<open>background\<close> is the interface of the work, a relation
  every round keeps, and gives what any number of rounds keeps.
\<close>

datatype 'e selected = Ctx_done | Work 'e

text \<open>
  The answer tells whether the goroutine has returned. A list without \<open>Ctx_done\<close> is a loop that
  goes on; what would come after \<open>Ctx_done\<close> does not happen.
\<close>

fun select_loop :: "('e \<Rightarrow> 's \<Rightarrow> 's outcome) \<Rightarrow> 'e selected list \<Rightarrow> 's \<Rightarrow> (bool \<times> 's) outcome" where
  "select_loop step [] s = Return (False, s)"
| "select_loop step (Ctx_done # es) s = Return (True, s)"
| "select_loop step (Work e # es) s = bind_outcome (step e s) (select_loop step es)"

text \<open>The rounds that are worked.\<close>

fun rounds :: "'e selected list \<Rightarrow> 'e list" where
  "rounds [] = []"
| "rounds (Ctx_done # es) = []"
| "rounds (Work e # es) = e # rounds es"

lemma select_loop_fold:
  "select_loop step es s = map_outcome_with (Pair (Ctx_done \<in> set es)) (fold_outcome step (rounds es) s)"
proof (induction step es s rule: select_loop.induct)
  case (3 step e es s)
  then show ?case by (cases "step e s") simp_all
qed simp_all

lemma fold_outcome_Return: "fold_outcome (\<lambda>e s. Return (f e s)) es s = Return (fold f es s)"
  by (induction es arbitrary: s) simp_all

text \<open>A loop whose work cannot panic.\<close>

lemma select_loop_Return:
  "select_loop (\<lambda>e s. Return (f e s)) es s = Return (Ctx_done \<in> set es, fold f (rounds es) s)"
  by (simp add: select_loop_fold fold_outcome_Return)

lemma select_loop_stops: "select_loop step es s = Return (stopped, s') \<Longrightarrow> stopped \<longleftrightarrow> Ctx_done \<in> set es"
  by (auto simp: select_loop_fold outcome_simps)

text \<open>After the end of the context nothing is worked.\<close>

lemma select_loop_done:
  "select_loop step (es @ Ctx_done # es') s = select_loop step (es @ [Ctx_done]) s"
proof (induction es arbitrary: s)
  case (Cons e es)
  show ?case
  proof (cases e)
    case (Work r)
    then show ?thesis by (cases "step r s") (simp_all add: Cons.IH)
  qed simp
qed simp

lemma fold_outcome_returns:
  assumes "Q s" and "\<And>e s. Q s \<Longrightarrow> \<exists>s'. step e s = Return s' \<and> Q s'"
  shows "\<exists>s'. fold_outcome step es s = Return s' \<and> Q s'"
  using assms(1)
proof (induction es arbitrary: s)
  case (Cons e es)
  from assms(2) [OF Cons.prems] obtain t where "step e s = Return t" and "Q t" by blast
  with Cons.IH [of t] show ?case by simp
qed simp

lemma select_loop_returns:
  assumes "Q s" and "\<And>e s. Q s \<Longrightarrow> \<exists>s'. step e s = Return s' \<and> Q s'"
  shows "\<exists>s'. select_loop step es s = Return (Ctx_done \<in> set es, s') \<and> Q s'"
  using fold_outcome_returns [of Q s step "rounds es", OF assms] by (auto simp: select_loop_fold)

section \<open>The interface of the work\<close>

locale background =
  fixes step :: "'e \<Rightarrow> 's \<Rightarrow> 's outcome" and kept :: "'s \<Rightarrow> 's \<Rightarrow> bool"
  assumes kept_refl: "kept s s"
    and kept_trans: "kept s t \<Longrightarrow> kept t u \<Longrightarrow> kept s u"
    and step_kept: "step e s = Return s' \<Longrightarrow> kept s s'"
begin

lemma loop_kept:
  assumes "select_loop step es s = Return (stopped, s')"
  shows "kept s s'"
proof -
  have "fold_outcome step (rounds es) s = Return s'"
    using assms by (auto simp: select_loop_fold outcome_simps)
  then show ?thesis
    by (rule fold_outcome_invariant [where P = "kept s"]) (auto intro: kept_refl kept_trans step_kept)
qed

end

end
