(* ===== verification/RateLimit.thy ===== *)
theory RateLimit
  imports SelectLoop
begin

text \<open>
  The connection limiter of \<^verbatim>\<open>internal/websocket/helper.go\<close> and
  \<^verbatim>\<open>handler.go\<close>: one \<^verbatim>\<open>RateLimiter\<close> per client address, the check
  before a handshake, the count after it and the periodic sweep. The interface
  \<open>connection_limiter\<close> states what check and count give when nothing runs between them; the
  last section shows what happens when something does.
\<close>

section \<open>State\<close>

record rate_limit_config =
  rc_enabled :: bool
  rc_connections_per_ip :: int
  rc_messages_per_minute :: int
  rc_window_size :: int

text \<open>The counters are Go \<^verbatim>\<open>int\<close>s; they count open connections and stay far from their bounds.\<close>

record rate_limiter =
  lim_connections :: "string \<Rightarrow> int option"
  lim_messages :: "string \<Rightarrow> int list option"

record ws_handler =
  wh_rate_limiters :: "string \<Rightarrow> rate_limiter option"
  wh_max_connections :: int
  wh_rate_limit :: rate_limit_config

definition NewWebSocketHandler :: ws_handler where
  "NewWebSocketHandler =
     \<lparr>wh_rate_limiters = Map.empty, wh_max_connections = 1000,
      wh_rate_limit = \<lparr>rc_enabled = True, rc_connections_per_ip = 10,
        rc_messages_per_minute = 60, rc_window_size = Minute\<rparr>\<rparr>"

text \<open>What \<^verbatim>\<open>main\<close> sets of a new handler.\<close>

definition limit_connections :: "int \<Rightarrow> int \<Rightarrow> ws_handler \<Rightarrow> ws_handler" where
  "limit_connections mx per_ip s = s\<lparr>wh_max_connections := mx,
     wh_rate_limit := (wh_rate_limit s)\<lparr>rc_connections_per_ip := per_ip\<rparr>\<rparr>"

section \<open>Operations\<close>

definition new_limiter :: rate_limiter where
  "new_limiter = \<lparr>lim_connections = Map.empty, lim_messages = Map.empty\<rparr>"

text \<open>A missing key of a \<^verbatim>\<open>map[string]int\<close> reads as zero.\<close>

definition int_at :: "(string \<Rightarrow> int option) \<Rightarrow> string \<Rightarrow> int" where
  "int_at m k = (case m k of None \<Rightarrow> 0 | Some n \<Rightarrow> n)"

definition checkRateLimit :: "string \<Rightarrow> string \<Rightarrow> ws_handler \<Rightarrow> bool \<times> ws_handler" where
  "checkRateLimit clientIP userID s =
     (if \<not> rc_enabled (wh_rate_limit s) then (True, s)
      else
        (let (limiter, s') =
               (case wh_rate_limiters s clientIP of
                  Some l \<Rightarrow> (l, s)
                | None \<Rightarrow> (new_limiter,
                    s\<lparr>wh_rate_limiters := (wh_rate_limiters s)(clientIP \<mapsto> new_limiter)\<rparr>));
             connections = int_at (lim_connections limiter) clientIP
         in (connections < rc_connections_per_ip (wh_rate_limit s), s')))"

definition updateConnectionCount :: "string \<Rightarrow> int \<Rightarrow> ws_handler \<Rightarrow> ws_handler" where
  "updateConnectionCount clientIP delta s =
     (case wh_rate_limiters s clientIP of
        None \<Rightarrow> s
      | Some limiter \<Rightarrow>
          (let n = int_at (lim_connections limiter) clientIP + delta;
               connections = (if n \<le> 0 then (lim_connections limiter)(clientIP := None)
                              else (lim_connections limiter)(clientIP \<mapsto> n))
           in s\<lparr>wh_rate_limiters := (wh_rate_limiters s)
                  (clientIP \<mapsto> limiter\<lparr>lim_connections := connections\<rparr>)\<rparr>))"

text \<open>The sweep treats every limiter by itself, so the order of the range cannot be observed.\<close>

definition prune_messages :: "int \<Rightarrow> int \<Rightarrow> (string \<Rightarrow> int list option) \<Rightarrow> string \<Rightarrow> int list option" where
  "prune_messages now window m userID =
     (case m userID of
        None \<Rightarrow> None
      | Some timestamps \<Rightarrow>
          (let valid = filter (\<lambda>ts. now - ts < window) timestamps
           in if valid = [] then None else Some valid))"

definition sweep_limiter :: "int \<Rightarrow> int \<Rightarrow> rate_limiter \<Rightarrow> rate_limiter option" where
  "sweep_limiter now window limiter =
     (let l = limiter\<lparr>lim_messages := prune_messages now window (lim_messages limiter)\<rparr>
      in if lim_connections l = Map.empty \<and> lim_messages l = Map.empty then None else Some l)"

definition cleanupRateLimiters :: "int \<Rightarrow> ws_handler \<Rightarrow> ws_handler" where
  "cleanupRateLimiters now s =
     s\<lparr>wh_rate_limiters := (\<lambda>ip. Option.bind (wh_rate_limiters s ip)
         (sweep_limiter now (rc_window_size (wh_rate_limit s))))\<rparr>"

section \<open>The interface\<close>

text \<open>
  A limiter with a load per address. \<open>admit\<close> checks and, when it lets the connection in, counts
  it; \<open>release\<close> takes one away.
\<close>

locale connection_limiter =
  fixes admit :: "string \<Rightarrow> 's \<Rightarrow> bool \<times> 's"
    and release :: "string \<Rightarrow> 's \<Rightarrow> 's"
    and sweep :: "int \<Rightarrow> 's \<Rightarrow> 's"
    and load :: "'s \<Rightarrow> string \<Rightarrow> int"
    and limit :: "'s \<Rightarrow> int option"
    and ok :: "'s \<Rightarrow> bool"
  assumes admitted: "limit s = Some n \<Longrightarrow> fst (admit ip s) \<longleftrightarrow> load s ip < n"
    and load_admit: "ok s \<Longrightarrow> limit s = Some n \<Longrightarrow>
      load (snd (admit ip s)) q = (if q = ip \<and> load s ip < n then load s q + 1 else load s q)"
    and load_release: "ok s \<Longrightarrow>
      load (release ip s) q = (if q = ip then max 0 (load s q - 1) else load s q)"
    and load_sweep: "load (sweep now s) q = load s q"
    and ok_admit: "ok s \<Longrightarrow> ok (snd (admit ip s))"
    and ok_release: "ok s \<Longrightarrow> ok (release ip s)"
    and ok_sweep: "ok s \<Longrightarrow> ok (sweep now s)"
    and limit_admit: "limit (snd (admit ip s)) = limit s"
    and limit_release: "limit (release ip s) = limit s"
    and limit_sweep: "limit (sweep now s) = limit s"

text \<open>A schedule of such operations, and the counting machine it should behave as.\<close>

datatype limiter_op = Admit string | Release string | Sweep int

primrec spec_op :: "nat \<Rightarrow> limiter_op \<Rightarrow> (string \<Rightarrow> nat) \<Rightarrow> string \<Rightarrow> nat" where
  "spec_op n (Admit ip) c = (if c ip < n then c(ip := Suc (c ip)) else c)"
| "spec_op n (Release ip) c = c(ip := c ip - 1)"
| "spec_op n (Sweep t) c = c"

definition spec_run :: "nat \<Rightarrow> limiter_op list \<Rightarrow> (string \<Rightarrow> nat) \<Rightarrow> string \<Rightarrow> nat" where
  "spec_run n ops c = fold (spec_op n) ops c"

lemma spec_run_le: "(\<And>ip. c ip \<le> n) \<Longrightarrow> spec_run n ops c ip \<le> n"
proof (induction ops arbitrary: c)
  case Nil
  then show ?case by (simp add: spec_run_def)
next
  case (Cons op ops)
  have "spec_op n op c ip \<le> n" for ip
    using Cons.prems by (cases op) (auto simp: le_diff_conv intro: le_SucI)
  then show ?case using Cons.IH by (simp add: spec_run_def)
qed

context connection_limiter
begin

primrec perform :: "limiter_op \<Rightarrow> 's \<Rightarrow> 's" where
  "perform (Admit ip) s = snd (admit ip s)"
| "perform (Release ip) s = release ip s"
| "perform (Sweep t) s = sweep t s"

lemma limit_perform: "limit (perform op s) = limit s"
  by (cases op) (simp_all add: limit_admit limit_release limit_sweep)

lemma ok_perform: "ok s \<Longrightarrow> ok (perform op s)"
  by (cases op) (simp_all add: ok_admit ok_release ok_sweep)

lemma load_perform:
  assumes "ok s" and "limit s = Some (int n)" and "\<And>q. load s q = int (c q)"
  shows "load (perform op s) q = int (spec_op n op c q)"
  using assms
  by (cases op) (auto simp: load_admit [OF assms(1,2)] load_release load_sweep max_def)

lemma load_run:
  "ok s \<Longrightarrow> limit s = Some (int n) \<Longrightarrow> (\<And>q. load s q = int (c q)) \<Longrightarrow>
     load (fold perform ops s) q = int (spec_run n ops c q)"
proof (induction ops arbitrary: s c)
  case Nil
  then show ?case by (simp add: spec_run_def)
next
  case (Cons op ops)
  have "load (fold perform ops (perform op s)) q = int (spec_run n ops (spec_op n op c) q)"
    using Cons.prems by (intro Cons.IH) (simp_all add: limit_perform load_perform ok_perform)
  then show ?case by (simp add: spec_run_def)
qed

lemma load_bounded:
  assumes "ok s" and "limit s = Some (int n)" and "\<And>q. load s q = 0"
  shows "0 \<le> load (fold perform ops s) q \<and> load (fold perform ops s) q \<le> int n"
  using load_run [OF assms(1,2), of "\<lambda>_. 0" ops q] assms(3) spec_run_le [of "\<lambda>_. 0" n ops q]
  by simp

end

section \<open>The code's limiter\<close>

definition limiter_load :: "ws_handler \<Rightarrow> string \<Rightarrow> int" where
  "limiter_load s ip =
     (case wh_rate_limiters s ip of None \<Rightarrow> 0 | Some l \<Rightarrow> int_at (lim_connections l) ip)"

definition limiter_limit :: "ws_handler \<Rightarrow> int option" where
  "limiter_limit s =
     (if rc_enabled (wh_rate_limit s) then Some (rc_connections_per_ip (wh_rate_limit s)) else None)"

definition limiter_ok :: "ws_handler \<Rightarrow> bool" where
  "limiter_ok s \<longleftrightarrow>
     (\<forall>ip l k n. wh_rate_limiters s ip = Some l \<longrightarrow> lim_connections l k = Some n \<longrightarrow> n > 0)"

text \<open>The check and the count of \<^verbatim>\<open>HandleWebSocket\<close>, with nothing between them.\<close>

definition admit_connection :: "string \<Rightarrow> ws_handler \<Rightarrow> bool \<times> ws_handler" where
  "admit_connection ip s =
     (let (ok, s') = checkRateLimit ip '''' s
      in (ok, if ok then updateConnectionCount ip 1 s' else s'))"

definition release_connection :: "string \<Rightarrow> ws_handler \<Rightarrow> ws_handler" where
  "release_connection ip s = updateConnectionCount ip (- 1) s"

lemma limiter_load_nonneg: "limiter_ok s \<Longrightarrow> limiter_load s ip \<ge> 0"
  by (auto simp: limiter_load_def int_at_def limiter_ok_def split: option.splits)
    (metis less_imp_le)

lemma load_no_limiter: "wh_rate_limiters s ip = None \<Longrightarrow> limiter_load s ip = 0"
  by (simp add: limiter_load_def)

lemma load_checkRateLimit [simp]: "limiter_load (snd (checkRateLimit ip u s)) q = limiter_load s q"
  by (auto simp: checkRateLimit_def limiter_load_def new_limiter_def int_at_def Let_def
      split: option.splits)

lemma fst_checkRateLimit:
  "fst (checkRateLimit ip u s) \<longleftrightarrow>
     (case limiter_limit s of None \<Rightarrow> True | Some n \<Rightarrow> limiter_load s ip < n)"
  by (auto simp: checkRateLimit_def limiter_load_def limiter_limit_def new_limiter_def int_at_def
      Let_def split: option.splits)

lemma config_checkRateLimit [simp]: "wh_rate_limit (snd (checkRateLimit ip u s)) = wh_rate_limit s"
  by (auto simp: checkRateLimit_def Let_def split: option.splits)

lemma exists_checkRateLimit:
  "rc_enabled (wh_rate_limit s) \<Longrightarrow> wh_rate_limiters (snd (checkRateLimit ip u s)) ip \<noteq> None"
  by (auto simp: checkRateLimit_def Let_def split: option.splits)

lemma ok_checkRateLimit [simp]: "limiter_ok s \<Longrightarrow> limiter_ok (snd (checkRateLimit ip u s))"
  by (auto simp: checkRateLimit_def limiter_ok_def new_limiter_def Let_def split: option.splits if_splits)

lemma load_updateConnectionCount:
  "limiter_load (updateConnectionCount ip d s) q =
     (if q = ip \<and> wh_rate_limiters s ip \<noteq> None then max 0 (limiter_load s ip + d)
      else limiter_load s q)"
  by (auto simp: updateConnectionCount_def limiter_load_def int_at_def Let_def split: option.splits)

lemma config_updateConnectionCount [simp]:
  "wh_rate_limit (updateConnectionCount ip d s) = wh_rate_limit s"
  by (simp add: updateConnectionCount_def Let_def split: option.splits)

lemma ok_updateConnectionCount [simp]: "limiter_ok s \<Longrightarrow> limiter_ok (updateConnectionCount ip d s)"
  by (auto simp: updateConnectionCount_def limiter_ok_def Let_def split: option.splits if_splits)

lemma load_cleanup [simp]: "limiter_load (cleanupRateLimiters now s) q = limiter_load s q"
  by (auto simp: cleanupRateLimiters_def limiter_load_def sweep_limiter_def int_at_def Let_def
      split: option.splits Option.bind_splits)

lemma ok_cleanup [simp]: "limiter_ok s \<Longrightarrow> limiter_ok (cleanupRateLimiters now s)"
  by (auto simp: cleanupRateLimiters_def limiter_ok_def sweep_limiter_def Let_def
      split: Option.bind_splits if_splits)

lemma limiter_limit_cong: "wh_rate_limit s' = wh_rate_limit s \<Longrightarrow> limiter_limit s' = limiter_limit s"
  by (simp add: limiter_limit_def)

lemma config_cleanup [simp]: "wh_rate_limit (cleanupRateLimiters now s) = wh_rate_limit s"
  by (simp add: cleanupRateLimiters_def)

text \<open>
  The goroutine that sweeps every ten minutes, and what any number of its sweeps keeps: the
  connections of every address and the bounds.
\<close>

definition StartCleanup :: "int selected list \<Rightarrow> ws_handler \<Rightarrow> (bool \<times> ws_handler) outcome" where
  "StartCleanup = select_loop (\<lambda>now s. Return (cleanupRateLimiters now s))"

interpretation limiter_sweeper: background "\<lambda>now s. Return (cleanupRateLimiters now s)"
  "\<lambda>s s'. limiter_load s' = limiter_load s \<and> (limiter_ok s \<longrightarrow> limiter_ok s') \<and>
     wh_rate_limit s' = wh_rate_limit s"
  by unfold_locales (auto simp: fun_eq_iff)

lemma StartCleanup_keeps:
  "\<exists>s'. StartCleanup es s = Return (Ctx_done \<in> set es, s') \<and> limiter_load s' = limiter_load s \<and>
     (limiter_ok s \<longrightarrow> limiter_ok s')"
  using limiter_sweeper.loop_kept [of es s] by (auto simp: StartCleanup_def select_loop_Return)

lemma admit_connection_split:
  "admit_connection ip s =
     (fst (checkRateLimit ip [] s),
      if fst (checkRateLimit ip [] s) then updateConnectionCount ip 1 (snd (checkRateLimit ip [] s))
      else snd (checkRateLimit ip [] s))"
  by (simp add: admit_connection_def split: prod.split)

interpretation ws_limiter: connection_limiter admit_connection release_connection
  cleanupRateLimiters limiter_load limiter_limit limiter_ok
proof unfold_locales
  fix s n ip q
  assume lim: "limiter_limit s = Some n"
  then show "fst (admit_connection ip s) \<longleftrightarrow> limiter_load s ip < n"
    by (simp add: admit_connection_split fst_checkRateLimit)
  have "rc_enabled (wh_rate_limit s)" using lim by (simp add: limiter_limit_def split: if_splits)
  moreover assume "limiter_ok s"
  ultimately show "limiter_load (snd (admit_connection ip s)) q =
      (if q = ip \<and> limiter_load s ip < n then limiter_load s q + 1 else limiter_load s q)"
    using exists_checkRateLimit [of s ip "[]"] limiter_load_nonneg [of s ip] lim
    by (auto simp: admit_connection_split load_updateConnectionCount fst_checkRateLimit)
next
  fix s ip q
  show "limiter_load (release_connection ip s) q =
      (if q = ip then max 0 (limiter_load s q - 1) else limiter_load s q)"
    using load_no_limiter [of s ip]
    by (auto simp: release_connection_def load_updateConnectionCount)
qed (auto simp: admit_connection_split release_connection_def intro!: limiter_limit_cong)

section \<open>Properties\<close>

primrec run_limiter :: "limiter_op list \<Rightarrow> ws_handler \<Rightarrow> ws_handler" where
  "run_limiter [] s = s"
| "run_limiter (op # ops) s = run_limiter ops
     (case op of Admit ip \<Rightarrow> snd (admit_connection ip s) | Release ip \<Rightarrow> release_connection ip s
      | Sweep now \<Rightarrow> cleanupRateLimiters now s)"

lemma run_limiter_fold: "run_limiter ops s = fold ws_limiter.perform ops s"
  by (induction ops arbitrary: s) (auto split: limiter_op.splits)

lemma limiter_ok_new [simp]: "limiter_ok NewWebSocketHandler"
  by (simp add: limiter_ok_def NewWebSocketHandler_def)

lemma limiter_ok_limit [simp]: "limiter_ok (limit_connections mx n s) = limiter_ok s"
  by (simp add: limiter_ok_def limit_connections_def)

text \<open>
  C10. The limiter refines a counter per address. Whatever admissions, releases and sweeps run
  one after the other from a new handler with a limit of \<open>n\<close> (\<^verbatim>\<open>main\<close> sets twenty), the
  connections it counts for an address are those of the counting machine that admits below \<open>n\<close> and
  never goes under zero; so no address ever holds more than \<open>n\<close> connections.
\<close>

theorem limiter_refines_counter:
  "limiter_load (run_limiter ops (limit_connections mx (int n) NewWebSocketHandler)) ip =
     int (spec_run n ops (\<lambda>_. 0) ip) \<and>
   limiter_load (run_limiter ops (limit_connections mx (int n) NewWebSocketHandler)) ip \<le> int n"
proof -
  let ?s = "limit_connections mx (int n) NewWebSocketHandler"
  have lim: "limiter_limit ?s = Some (int n)" and zero: "\<And>q. limiter_load ?s q = 0"
    by (simp_all add: limiter_limit_def NewWebSocketHandler_def limiter_load_def limit_connections_def)
  then show ?thesis
    unfolding run_limiter_fold
    using ws_limiter.load_run [of ?s n "\<lambda>_. 0" ops ip] ws_limiter.load_bounded [of ?s n ops ip] by simp
qed

text \<open>
  The handler counts a connection after the WebSocket handshake, not with the check. \<open>n\<close>
  requests that are all checked before any of them is counted:
\<close>

fun check_many :: "nat \<Rightarrow> string \<Rightarrow> ws_handler \<Rightarrow> bool list \<times> ws_handler" where
  "check_many 0 ip s = ([], s)"
| "check_many (Suc n) ip s =
     (let (ok, s1) = checkRateLimit ip '''' s; (oks, s2) = check_many n ip s1 in (ok # oks, s2))"

definition count_admitted :: "string \<Rightarrow> bool list \<Rightarrow> ws_handler \<Rightarrow> ws_handler" where
  "count_admitted ip oks s = fold (\<lambda>ok s. if ok then updateConnectionCount ip 1 s else s) oks s"

definition concurrent_admissions :: "nat \<Rightarrow> string \<Rightarrow> ws_handler \<Rightarrow> bool list \<times> ws_handler" where
  "concurrent_admissions n ip s =
     (let (oks, s1) = check_many n ip s in (oks, count_admitted ip oks s1))"

lemma check_many_below:
  "limiter_limit s = Some k \<Longrightarrow> limiter_load s ip < k \<Longrightarrow> limiter_ok s \<Longrightarrow>
   fst (check_many n ip s) = replicate n True \<and>
   limiter_load (snd (check_many n ip s)) ip = limiter_load s ip \<and>
   limiter_ok (snd (check_many n ip s)) \<and>
   (n \<noteq> 0 \<or> wh_rate_limiters s ip \<noteq> None \<longrightarrow> wh_rate_limiters (snd (check_many n ip s)) ip \<noteq> None)"
proof (induction n arbitrary: s)
  case 0
  then show ?case by simp
next
  case (Suc n)
  let ?c = "checkRateLimit ip [] s"
  have "limiter_limit (snd ?c) = Some k"
    using Suc.prems(1) by (simp add: limiter_limit_def split: if_splits)
  moreover have "wh_rate_limiters (snd ?c) ip \<noteq> None"
    using exists_checkRateLimit [of s ip "[]"] Suc.prems(1)
    by (simp add: limiter_limit_def split: if_splits)
  moreover have "fst ?c" using Suc.prems by (simp add: fst_checkRateLimit)
  ultimately show ?case
    using Suc.IH [of "snd ?c"] Suc.prems by (simp add: case_prod_beta Let_def)
qed

lemma count_all:
  "limiter_ok s \<Longrightarrow> wh_rate_limiters s ip \<noteq> None \<Longrightarrow>
     limiter_load (count_admitted ip (replicate n True) s) ip = limiter_load s ip + int n"
  unfolding count_admitted_def
proof (induction n arbitrary: s)
  case (Suc n)
  have "wh_rate_limiters (updateConnectionCount ip 1 s) ip \<noteq> None"
    using Suc.prems(2) by (auto simp: updateConnectionCount_def Let_def)
  with Suc limiter_load_nonneg [OF Suc.prems(1), of ip] show ?case
    by (simp add: load_updateConnectionCount)
qed simp

text \<open>
  The check and the count are not one step: any number of requests from an address below
  its limit, checked before the first of them is counted, are all let in, and the address then
  holds that many connections more, limit or not.
\<close>

theorem concurrent_admissions_exceed:
  assumes "limiter_ok s" and "limiter_limit s = Some k" and "limiter_load s ip < k"
  shows "fst (concurrent_admissions n ip s) = replicate n True \<and>
    limiter_load (snd (concurrent_admissions n ip s)) ip = limiter_load s ip + int n"
proof -
  note many = check_many_below [OF assms(2,3,1), of n]
  show ?thesis
  proof (cases "n = 0")
    case True
    then show ?thesis by (simp add: concurrent_admissions_def count_admitted_def)
  next
    case False
    with many count_all [of "snd (check_many n ip s)" ip n] show ?thesis
      by (simp add: concurrent_admissions_def case_prod_beta)
  qed
qed

lemma concurrent_admissions_exceed_witness:
  "limiter_load (snd (concurrent_admissions 25 ''10.0.0.1'' NewWebSocketHandler)) ''10.0.0.1'' = 25"
  using concurrent_admissions_exceed [of NewWebSocketHandler 10 "''10.0.0.1''" 25]
  by (simp add: limiter_limit_def NewWebSocketHandler_def limiter_load_def limiter_ok_def)

text \<open>
  A sweep between the check and the count of an address's first connection removes the
  limiter the check had created, and the count is then lost: the open connection is not counted
  at all.
\<close>

theorem sweep_loses_count:
  assumes "rc_enabled (wh_rate_limit s)" and "wh_rate_limiters s ip = None"
  shows "limiter_load (updateConnectionCount ip 1
      (cleanupRateLimiters now (snd (checkRateLimit ip uid s)))) ip = 0"
proof -
  have "wh_rate_limiters (cleanupRateLimiters now (snd (checkRateLimit ip uid s))) ip = None"
    using assms
    by (simp add: checkRateLimit_def cleanupRateLimiters_def sweep_limiter_def new_limiter_def
        prune_messages_def fun_eq_iff Let_def)
  then show ?thesis
    using load_no_limiter [OF assms(2)] by (simp add: load_updateConnectionCount)
qed

lemma sweep_loses_count_witness:
  "limiter_load (updateConnectionCount ''10.0.0.1'' 1
      (cleanupRateLimiters 5 (snd (checkRateLimit ''10.0.0.1'' ''u'' NewWebSocketHandler)))) ''10.0.0.1'' = 0"
  by (rule sweep_loses_count) (simp_all add: NewWebSocketHandler_def)

end
