(* ===== verification/Messages.thy ===== *)
theory Messages
  imports GoJson "HOL-Library.AList" "HOL-Library.List_Lexorder" "HOL-Library.Char_ord"
begin

text \<open>
  The messages the server sends over a WebSocket:
  \<^verbatim>\<open>internal/websocket/message.go\<close>. One record per struct, the constants, the
  constructors, the validation helpers, and the JSON document \<^verbatim>\<open>json.Marshal\<close> makes of
  an \<^verbatim>\<open>OutgoingMessage\<close>: the tags give the names, \<^verbatim>\<open>omitempty\<close> the
  members left out. A constructor that reads the clock several times takes one instant per
  reading.
\<close>

section \<open>The message structs\<close>

record reply_message =
  rm_message_id :: string
  rm_content :: string
  rm_sender_id :: string

record message_edit_entry =
  ee_message_id :: string
  ee_original_content :: string
  ee_new_content :: string
  ee_edited_by :: string
  ee_edited_at :: int

record message_attachment =
  ma_type :: string
  ma_url :: string
  ma_filename :: string
  ma_size :: int
  ma_mime_type :: string

record chat_message =
  cm_type :: string
  cm_room_id :: string
  cm_message_id :: string
  cm_sender_id :: string
  cm_receiver_id :: string
  cm_content :: string
  cm_is_edited :: bool
  cm_is_read :: bool
  cm_edit_history :: "message_edit_entry list"
  cm_reply :: "reply_message option"
  cm_attachments :: "message_attachment list"
  cm_created_at :: int
  cm_updated_at :: "int option"
  cm_timestamp :: int

record message_updated =
  mu_type :: string
  mu_room_id :: string
  mu_message_id :: string
  mu_content :: string
  mu_is_edited :: bool
  mu_edit_history :: "message_edit_entry list"
  mu_updated_at :: int
  mu_edited_by :: string
  mu_timestamp :: int

record message_read =
  mr_type :: string
  mr_room_id :: string
  mr_message_id :: string
  mr_read_by :: string
  mr_read_at :: int
  mr_timestamp :: int

record user_typing =
  ut_type :: string
  ut_room_id :: string
  ut_user_id :: string
  ut_is_typing :: bool
  ut_timestamp :: int

record user_status =
  us_type :: string
  us_room_id :: string
  us_user_id :: string
  us_status :: string
  us_last_seen :: "int option"
  us_timestamp :: int

record room_joined =
  rj_type :: string
  rj_room_id :: string
  rj_user_id :: string
  rj_participants :: "string list"
  rj_timestamp :: int

record room_left =
  rl_type :: string
  rl_room_id :: string
  rl_user_id :: string
  rl_timestamp :: int

record error_message =
  em_type :: string
  em_code :: string
  em_message :: string
  em_details :: string
  em_timestamp :: int

text \<open>\<^verbatim>\<open>Data interface{}\<close> of a system message holds JSON-like data or nil.\<close>

record system_message =
  sm_type :: string
  sm_room_id :: string
  sm_content :: string
  sm_data :: "json option"
  sm_timestamp :: int

text \<open>
  The values \<^verbatim>\<open>Data interface{}\<close> of an \<^verbatim>\<open>OutgoingMessage\<close> takes in
  the program: nil, a \<^verbatim>\<open>map[string]any\<close> (which may itself be nil) or one of the
  structs above.
\<close>

datatype payload =
    P_Nil
  | P_Map "(string \<times> json) list option"
  | P_Chat chat_message
  | P_Updated message_updated
  | P_Read message_read
  | P_Typing user_typing
  | P_Status user_status
  | P_Joined room_joined
  | P_Error error_message
  | P_System system_message

record outgoing_message =
  om_type :: string
  om_room_id :: string
  om_sender_id :: string
  om_message_id :: string
  om_data :: payload
  om_timestamp :: int

section \<open>Constants\<close>

definition MessageTypeChatMessage :: string where "MessageTypeChatMessage = ''chat_message''"
definition MessageTypeMessageUpdated :: string where "MessageTypeMessageUpdated = ''message_updated''"
definition MessageTypeMessageRead :: string where "MessageTypeMessageRead = ''message_read''"
definition MessageTypeMessageDeleted :: string where "MessageTypeMessageDeleted = ''message_deleted''"
definition MessageTypeUserTyping :: string where "MessageTypeUserTyping = ''user_typing''"
definition MessageTypeUserStatus :: string where "MessageTypeUserStatus = ''user_status''"
definition MessageTypeRoomJoined :: string where "MessageTypeRoomJoined = ''room_joined''"
definition MessageTypeRoomLeft :: string where "MessageTypeRoomLeft = ''room_left''"
definition MessageTypeError :: string where "MessageTypeError = ''error''"
definition MessageTypeSystem :: string where "MessageTypeSystem = ''system''"
definition MessageTypePong :: string where "MessageTypePong = ''pong''"
definition MessageTypeJoinRoom :: string where "MessageTypeJoinRoom = ''join_room''"
definition MessageTypeLeaveRoom :: string where "MessageTypeLeaveRoom = ''leave_room''"
definition MessageTypeTypingStart :: string where "MessageTypeTypingStart = ''typing_start''"
definition MessageTypeTypingStop :: string where "MessageTypeTypingStop = ''typing_stop''"
definition MessageTypePing :: string where "MessageTypePing = ''ping''"

definition UserStatusOnline :: string where "UserStatusOnline = ''online''"
definition UserStatusOffline :: string where "UserStatusOffline = ''offline''"
definition UserStatusAway :: string where "UserStatusAway = ''away''"

lemmas message_type_defs =
  MessageTypeChatMessage_def MessageTypeMessageUpdated_def MessageTypeMessageRead_def
  MessageTypeMessageDeleted_def MessageTypeUserTyping_def MessageTypeUserStatus_def
  MessageTypeRoomJoined_def MessageTypeRoomLeft_def MessageTypeError_def
  MessageTypeSystem_def MessageTypePong_def MessageTypeJoinRoom_def
  MessageTypeLeaveRoom_def MessageTypeTypingStart_def MessageTypeTypingStop_def
  MessageTypePing_def

section \<open>Constructors\<close>

definition NewChatMessage ::
  "int \<Rightarrow> int \<Rightarrow> int \<Rightarrow> string \<Rightarrow> string \<Rightarrow> string \<Rightarrow> string \<Rightarrow> outgoing_message" where
  "NewChatMessage now1 now2 now3 roomID messageID senderID content =
     \<lparr>om_type = MessageTypeChatMessage,
      om_room_id = roomID,
      om_sender_id = senderID,
      om_message_id = messageID,
      om_data = P_Chat \<lparr>cm_type = MessageTypeChatMessage, cm_room_id = roomID,
        cm_message_id = messageID, cm_sender_id = senderID, cm_receiver_id = '''',
        cm_content = content, cm_is_edited = False, cm_is_read = False,
        cm_edit_history = [], cm_reply = None, cm_attachments = [],
        cm_created_at = unix_seconds now1, cm_updated_at = None,
        cm_timestamp = unix_seconds now2\<rparr>,
      om_timestamp = unix_seconds now3\<rparr>"

definition NewMessageUpdated ::
  "int \<Rightarrow> int \<Rightarrow> int \<Rightarrow> string \<Rightarrow> string \<Rightarrow> string \<Rightarrow> string
   \<Rightarrow> message_edit_entry list \<Rightarrow> outgoing_message" where
  "NewMessageUpdated now1 now2 now3 roomID messageID content editedBy editHistory =
     \<lparr>om_type = MessageTypeMessageUpdated,
      om_room_id = roomID,
      om_sender_id = editedBy,
      om_message_id = messageID,
      om_data = P_Updated \<lparr>mu_type = MessageTypeMessageUpdated, mu_room_id = roomID,
        mu_message_id = messageID, mu_content = content, mu_is_edited = True,
        mu_edit_history = editHistory, mu_updated_at = unix_seconds now1,
        mu_edited_by = editedBy, mu_timestamp = unix_seconds now2\<rparr>,
      om_timestamp = unix_seconds now3\<rparr>"

definition NewMessageRead ::
  "int \<Rightarrow> int \<Rightarrow> int \<Rightarrow> string \<Rightarrow> string \<Rightarrow> string \<Rightarrow> outgoing_message" where
  "NewMessageRead now1 now2 now3 roomID messageID readBy =
     \<lparr>om_type = MessageTypeMessageRead,
      om_room_id = roomID,
      om_sender_id = '''',
      om_message_id = messageID,
      om_data = P_Read \<lparr>mr_type = MessageTypeMessageRead, mr_room_id = roomID,
        mr_message_id = messageID, mr_read_by = readBy, mr_read_at = unix_seconds now1,
        mr_timestamp = unix_seconds now2\<rparr>,
      om_timestamp = unix_seconds now3\<rparr>"

definition NewUserTyping :: "int \<Rightarrow> int \<Rightarrow> string \<Rightarrow> string \<Rightarrow> bool \<Rightarrow> outgoing_message" where
  "NewUserTyping now1 now2 roomID userID isTyping =
     \<lparr>om_type = MessageTypeUserTyping,
      om_room_id = roomID,
      om_sender_id = userID,
      om_message_id = '''',
      om_data = P_Typing \<lparr>ut_type = MessageTypeUserTyping, ut_room_id = roomID,
        ut_user_id = userID, ut_is_typing = isTyping, ut_timestamp = unix_seconds now1\<rparr>,
      om_timestamp = unix_seconds now2\<rparr>"

definition NewUserStatus ::
  "int \<Rightarrow> int \<Rightarrow> string \<Rightarrow> string \<Rightarrow> string \<Rightarrow> int option \<Rightarrow> outgoing_message" where
  "NewUserStatus now1 now2 roomID userID status lastSeen =
     \<lparr>om_type = MessageTypeUserStatus,
      om_room_id = roomID,
      om_sender_id = userID,
      om_message_id = '''',
      om_data = P_Status \<lparr>us_type = MessageTypeUserStatus, us_room_id = roomID,
        us_user_id = userID, us_status = status, us_last_seen = map_option unix_seconds lastSeen,
        us_timestamp = unix_seconds now1\<rparr>,
      om_timestamp = unix_seconds now2\<rparr>"

definition NewRoomJoined ::
  "int \<Rightarrow> int \<Rightarrow> string \<Rightarrow> string \<Rightarrow> string list \<Rightarrow> outgoing_message" where
  "NewRoomJoined now1 now2 roomID userID participants =
     \<lparr>om_type = MessageTypeRoomJoined,
      om_room_id = roomID,
      om_sender_id = userID,
      om_message_id = '''',
      om_data = P_Joined \<lparr>rj_type = MessageTypeRoomJoined, rj_room_id = roomID,
        rj_user_id = userID, rj_participants = participants, rj_timestamp = unix_seconds now1\<rparr>,
      om_timestamp = unix_seconds now2\<rparr>"

definition NewErrorMessage ::
  "int \<Rightarrow> int \<Rightarrow> string \<Rightarrow> string \<Rightarrow> string \<Rightarrow> outgoing_message" where
  "NewErrorMessage now1 now2 code message details =
     \<lparr>om_type = MessageTypeError,
      om_room_id = '''',
      om_sender_id = '''',
      om_message_id = '''',
      om_data = P_Error \<lparr>em_type = MessageTypeError, em_code = code, em_message = message,
        em_details = details, em_timestamp = unix_seconds now1\<rparr>,
      om_timestamp = unix_seconds now2\<rparr>"

definition NewSystemMessage ::
  "int \<Rightarrow> int \<Rightarrow> string \<Rightarrow> string \<Rightarrow> json option \<Rightarrow> outgoing_message" where
  "NewSystemMessage now1 now2 roomID content data =
     \<lparr>om_type = MessageTypeSystem,
      om_room_id = roomID,
      om_sender_id = '''',
      om_message_id = '''',
      om_data = P_System \<lparr>sm_type = MessageTypeSystem, sm_room_id = roomID,
        sm_content = content, sm_data = data, sm_timestamp = unix_seconds now1\<rparr>,
      om_timestamp = unix_seconds now2\<rparr>"

section \<open>Validation helpers\<close>

definition IsValidMessageType :: "string \<Rightarrow> bool" where
  "IsValidMessageType msgType \<longleftrightarrow> msgType \<in> set
     [MessageTypeChatMessage, MessageTypeMessageUpdated, MessageTypeMessageRead,
      MessageTypeMessageDeleted, MessageTypeUserTyping, MessageTypeUserStatus,
      MessageTypeRoomJoined, MessageTypeRoomLeft, MessageTypeError, MessageTypeSystem,
      MessageTypePong, MessageTypeJoinRoom, MessageTypeLeaveRoom, MessageTypeTypingStart,
      MessageTypeTypingStop, MessageTypePing]"

definition IsValidUserStatus :: "string \<Rightarrow> bool" where
  "IsValidUserStatus status \<longleftrightarrow>
     status = UserStatusOnline \<or> status = UserStatusOffline \<or> status = UserStatusAway"

section \<open>The document on the wire\<close>

text \<open>A map is written with its keys in byte order, each once.\<close>

definition enc_map :: "(string \<times> json) list \<Rightarrow> json" where
  "enc_map kvs = JObj (sort_key fst (AList.clearjunk (rev kvs)))"

definition enc_reply :: "reply_message \<Rightarrow> json" where
  "enc_reply r = JObj
     [(''messageId'', JStr (rm_message_id r)), (''content'', JStr (rm_content r)),
      (''senderId'', JStr (rm_sender_id r))]"

definition enc_edit_entry :: "message_edit_entry \<Rightarrow> json" where
  "enc_edit_entry e = JObj
     [(''message_id'', JStr (ee_message_id e)),
      (''original_content'', JStr (ee_original_content e)),
      (''new_content'', JStr (ee_new_content e)),
      (''edited_by'', JStr (ee_edited_by e)), (''edited_at'', JInt (ee_edited_at e))]"

definition enc_attachment :: "message_attachment \<Rightarrow> json" where
  "enc_attachment a = JObj
     ([(''type'', JStr (ma_type a)), (''url'', JStr (ma_url a))]
      @ omit_empty_str ''filename'' (ma_filename a)
      @ omit_zero_int ''size'' (ma_size a)
      @ omit_empty_str ''mime_type'' (ma_mime_type a))"

definition omit_empty_list :: "string \<Rightarrow> ('a \<Rightarrow> json) \<Rightarrow> 'a list \<Rightarrow> (string \<times> json) list" where
  "omit_empty_list name enc xs = (if xs = [] then [] else [(name, JArr (map enc xs))])"

definition omit_nil :: "string \<Rightarrow> ('a \<Rightarrow> json) \<Rightarrow> 'a option \<Rightarrow> (string \<times> json) list" where
  "omit_nil name enc p = (case p of None \<Rightarrow> [] | Some x \<Rightarrow> [(name, enc x)])"

definition enc_chat :: "chat_message \<Rightarrow> json" where
  "enc_chat m = JObj
     ([(''type'', JStr (cm_type m)), (''room_id'', JStr (cm_room_id m)),
       (''message_id'', JStr (cm_message_id m)), (''senderId'', JStr (cm_sender_id m)),
       (''receiver_id'', JStr (cm_receiver_id m)), (''content'', JStr (cm_content m)),
       (''is_edited'', JBool (cm_is_edited m)), (''is_read'', JBool (cm_is_read m))]
      @ omit_empty_list ''message_edit_history'' enc_edit_entry (cm_edit_history m)
      @ omit_nil ''reply'' enc_reply (cm_reply m)
      @ omit_empty_list ''attachments'' enc_attachment (cm_attachments m)
      @ [(''created_at'', JInt (cm_created_at m)),
         (''updated_at'', enc_ptr JInt (cm_updated_at m)),
         (''timestamp'', JInt (cm_timestamp m))])"

definition enc_updated :: "message_updated \<Rightarrow> json" where
  "enc_updated m = JObj
     ([(''type'', JStr (mu_type m)), (''room_id'', JStr (mu_room_id m)),
       (''message_id'', JStr (mu_message_id m)), (''content'', JStr (mu_content m)),
       (''is_edited'', JBool (mu_is_edited m))]
      @ omit_empty_list ''message_edit_history'' enc_edit_entry (mu_edit_history m)
      @ [(''updated_at'', JInt (mu_updated_at m)), (''edited_by'', JStr (mu_edited_by m)),
         (''timestamp'', JInt (mu_timestamp m))])"

fun enc_payload :: "payload \<Rightarrow> json" where
  "enc_payload P_Nil = JNull"
| "enc_payload (P_Map m) = enc_ptr enc_map m"
| "enc_payload (P_Chat m) = enc_chat m"
| "enc_payload (P_Updated m) = enc_updated m"
| "enc_payload (P_Read m) = JObj
     [(''type'', JStr (mr_type m)), (''room_id'', JStr (mr_room_id m)),
      (''message_id'', JStr (mr_message_id m)), (''read_by'', JStr (mr_read_by m)),
      (''read_at'', JInt (mr_read_at m)), (''timestamp'', JInt (mr_timestamp m))]"
| "enc_payload (P_Typing m) = JObj
     [(''type'', JStr (ut_type m)), (''room_id'', JStr (ut_room_id m)),
      (''user_id'', JStr (ut_user_id m)), (''is_typing'', JBool (ut_is_typing m)),
      (''timestamp'', JInt (ut_timestamp m))]"
| "enc_payload (P_Status m) = JObj
     ([(''type'', JStr (us_type m))] @ omit_empty_str ''room_id'' (us_room_id m)
      @ [(''user_id'', JStr (us_user_id m)), (''status'', JStr (us_status m))]
      @ omit_nil ''last_seen'' JInt (us_last_seen m)
      @ [(''timestamp'', JInt (us_timestamp m))])"
| "enc_payload (P_Joined m) = JObj
     ([(''type'', JStr (rj_type m)), (''room_id'', JStr (rj_room_id m)),
       (''user_id'', JStr (rj_user_id m))]
      @ omit_empty_list ''participants'' JStr (rj_participants m)
      @ [(''timestamp'', JInt (rj_timestamp m))])"
| "enc_payload (P_Error m) = JObj
     ([(''type'', JStr (em_type m)), (''code'', JStr (em_code m)),
       (''message'', JStr (em_message m))]
      @ omit_empty_str ''details'' (em_details m)
      @ [(''timestamp'', JInt (em_timestamp m))])"
| "enc_payload (P_System m) = JObj
     ([(''type'', JStr (sm_type m))] @ omit_empty_str ''room_id'' (sm_room_id m)
      @ [(''content'', JStr (sm_content m))]
      @ omit_nil ''data'' id (sm_data m)
      @ [(''timestamp'', JInt (sm_timestamp m))])"

definition marshal_outgoing :: "outgoing_message \<Rightarrow> json" where
  "marshal_outgoing m = JObj
     ([(''type'', JStr (om_type m))]
      @ omit_empty_str ''room_id'' (om_room_id m)
      @ omit_empty_str ''sender_id'' (om_sender_id m)
      @ omit_empty_str ''message_id'' (om_message_id m)
      @ (if om_data m = P_Nil then [] else [(''data'', enc_payload (om_data m))])
      @ [(''timestamp'', JInt (om_timestamp m))])"

section \<open>Facts\<close>

text \<open>A member of a marshalled document, as a client reads it.\<close>

fun json_member :: "string \<Rightarrow> json \<Rightarrow> json option" where
  "json_member k (JObj kvs) = map_of kvs k"
| "json_member k _ = None"

lemma marshal_type [simp]: "json_member ''type'' (marshal_outgoing m) = Some (JStr (om_type m))"
  by (simp add: marshal_outgoing_def)

lemma marshal_room_id:
  "json_member ''room_id'' (marshal_outgoing m) =
     (if om_room_id m = [] then None else Some (JStr (om_room_id m)))"
  by (simp add: marshal_outgoing_def omit_empty_str_def)

lemma marshal_data:
  "json_member ''data'' (marshal_outgoing m) =
     (if om_data m = P_Nil then None else Some (enc_payload (om_data m)))"
  by (simp add: marshal_outgoing_def omit_empty_str_def)

text \<open>Every constructor gives a type the validation helper accepts.\<close>

lemma constructors_valid_type:
  "IsValidMessageType (om_type (NewChatMessage a b c r i s t))"
  "IsValidMessageType (om_type (NewMessageUpdated a b c r i t s h))"
  "IsValidMessageType (om_type (NewMessageRead a b c r i s))"
  "IsValidMessageType (om_type (NewUserTyping a b r s ty))"
  "IsValidMessageType (om_type (NewUserStatus a b r s st ls))"
  "IsValidMessageType (om_type (NewRoomJoined a b r s ps))"
  "IsValidMessageType (om_type (NewErrorMessage a b e f g))"
  "IsValidMessageType (om_type (NewSystemMessage a b r t d))"
  by (simp_all add: IsValidMessageType_def NewChatMessage_def NewMessageUpdated_def
      NewMessageRead_def NewUserTyping_def NewUserStatus_def NewRoomJoined_def
      NewErrorMessage_def NewSystemMessage_def)

end
