(* ===== verification/Channel.thy ===== *)
theory Channel
  imports Prelude
begin

text \<open>
  Buffered Go channels and the \<open>select\<close> statements the program writes on them. A channel
  is its buffer, its capacity and whether it has been closed; a send on a closed channel
  panics, a receive from a closed and empty one gives the zero value. Go's runtime, not the
  repository, defines these rules, so nothing here is mapped to a line of the source.
\<close>

record 'a channel =
  ch_buf :: "'a list"
  ch_cap :: nat
  ch_closed :: bool

definition make_chan :: "nat \<Rightarrow> 'a channel" where
  "make_chan n = \<lparr>ch_buf = [], ch_cap = n, ch_closed = False\<rparr>"

definition chan_full :: "'a channel \<Rightarrow> bool" where
  "chan_full c \<longleftrightarrow> length (ch_buf c) \<ge> ch_cap c"

definition chan_push :: "'a \<Rightarrow> 'a channel \<Rightarrow> 'a channel" where
  "chan_push x c = c\<lparr>ch_buf := ch_buf c @ [x]\<rparr>"

section \<open>Sending\<close>

text \<open>What a \<open>select\<close> with a send did: it sent, or took another of its cases.\<close>

datatype 'a sent = Sent "'a channel" | CtxDone | Buffer_Full

text \<open>\<^verbatim>\<open>select { case c <- x: default: }\<close>\<close>

definition select_send :: "'a \<Rightarrow> 'a channel \<Rightarrow> 'a sent outcome" where
  "select_send x c =
     (if ch_closed c then Panic
      else if chan_full c then Return Buffer_Full
      else Return (Sent (chan_push x c)))"

text \<open>
  \<^verbatim>\<open>select { case c <- x: case <-ctx.Done(): default: }\<close>. A closed channel is
  ready to send on (and panics when chosen). With both cases ready Go chooses either one:
  \<open>prefer_done\<close> is that choice.
\<close>

definition select_send_done :: "bool \<Rightarrow> bool \<Rightarrow> 'a \<Rightarrow> 'a channel \<Rightarrow> 'a sent outcome" where
  "select_send_done prefer_done done x c =
     (let can_send = ch_closed c \<or> \<not> chan_full c in
      if done \<and> (prefer_done \<or> \<not> can_send) then Return CtxDone
      else select_send x c)"

definition chan_after :: "'a channel \<Rightarrow> 'a sent \<Rightarrow> 'a channel" where
  "chan_after c r = (case r of Sent c' \<Rightarrow> c' | CtxDone \<Rightarrow> c | Buffer_Full \<Rightarrow> c)"

lemma chan_after_simps [simp]:
  "chan_after c (Sent c') = c'"
  "chan_after c CtxDone = c"
  "chan_after c Buffer_Full = c"
  by (simp_all add: chan_after_def)

section \<open>Closing\<close>

text \<open>
  \<^verbatim>\<open>select { case <-c: default: close(c) }\<close>: it takes one element if there is
  one, does nothing on a channel already closed, and closes an empty open one.
\<close>

definition drain_or_close :: "'a channel \<Rightarrow> 'a channel" where
  "drain_or_close c =
     (case ch_buf c of
        x # xs \<Rightarrow> c\<lparr>ch_buf := xs\<rparr>
      | [] \<Rightarrow> if ch_closed c then c else c\<lparr>ch_closed := True\<rparr>)"

section \<open>Facts about channels\<close>

definition chan_ok :: "'a channel \<Rightarrow> bool" where
  "chan_ok c \<longleftrightarrow> length (ch_buf c) \<le> ch_cap c \<and> (ch_closed c \<longrightarrow> ch_buf c = [])"

lemma chan_ok_make [simp]: "chan_ok (make_chan n)"
  by (simp add: chan_ok_def make_chan_def)

lemma chan_ok_drain [simp]: "chan_ok c \<Longrightarrow> chan_ok (drain_or_close c)"
  by (auto simp: chan_ok_def drain_or_close_def split: list.splits)

lemma chan_cap_drain [simp]: "ch_cap (drain_or_close c) = ch_cap c"
  by (simp add: drain_or_close_def split: list.splits)

lemma select_send_closed [simp]: "ch_closed c \<Longrightarrow> select_send x c = Panic"
  by (simp add: select_send_def)

lemma select_send_Panic_iff [outcome_simps]: "select_send x c = Panic \<longleftrightarrow> ch_closed c"
  by (simp add: select_send_def)

lemma select_send_open:
  "\<not> ch_closed c \<Longrightarrow> \<not> chan_full c \<Longrightarrow> select_send x c = Return (Sent (chan_push x c))"
  by (simp add: select_send_def)

lemma chan_ok_select_send:
  "chan_ok c \<Longrightarrow> select_send x c = Return r \<Longrightarrow> chan_ok (chan_after c r)"
  by (auto simp: chan_ok_def select_send_def chan_push_def chan_full_def split: if_splits)

lemma chan_ok_select_send_done:
  "chan_ok c \<Longrightarrow> select_send_done p d x c = Return r \<Longrightarrow> chan_ok (chan_after c r)"
  by (auto simp: select_send_done_def chan_ok_select_send Let_def split: if_splits)

lemma select_send_done_Panic_closed: "select_send_done p d x c = Panic \<Longrightarrow> ch_closed c"
  by (auto simp: select_send_done_def select_send_Panic_iff Let_def split: if_splits)

lemma select_send_done_not_done [simp]: "select_send_done p False x c = select_send x c"
  by (simp add: select_send_done_def)

lemma chan_cap_after_send:
  "select_send x c = Return r \<Longrightarrow> ch_cap (chan_after c r) = ch_cap c"
  by (auto simp: select_send_def chan_push_def split: if_splits)

lemma chan_cap_after_send_done:
  "select_send_done p d x c = Return r \<Longrightarrow> ch_cap (chan_after c r) = ch_cap c"
  by (auto simp: select_send_done_def chan_cap_after_send Let_def split: if_splits)

end
