(* ===== verification/RoomRegistry.thy ===== *)
theory RoomRegistry
  imports Prelude
begin

text \<open>
  The interface the WebSocket clients and the HTTP handlers use of the hub: joining and
  leaving rooms, and who is in one. \<open>room_registry\<close> states what the two operations do to the
  membership, \<open>tracked_registry\<close> adds the per-user index kept beside it. The hub's own
  definitions interpret both in theory \<open>Hub\<close>.
\<close>

locale room_registry =
  fixes join :: "string \<Rightarrow> 'c \<Rightarrow> 'h \<Rightarrow> 'h outcome"
    and leave :: "string \<Rightarrow> 'c \<Rightarrow> 'h \<Rightarrow> 'h outcome"
    and members :: "'h \<Rightarrow> string \<Rightarrow> 'c set"
  assumes members_join: "join r c h = Return h' \<Longrightarrow>
      members h' s = (if s = r then insert c (members h r) else members h s)"
    and members_leave: "leave r c h = Return h' \<Longrightarrow>
      members h' s = (if s = r then members h r - {c} else members h s)"
begin

lemma join_in: "join r c h = Return h' \<Longrightarrow> c \<in> members h' r"
  by (simp add: members_join)

lemma leave_out: "leave r c h = Return h' \<Longrightarrow> c \<notin> members h' r"
  by (simp add: members_leave)

lemma join_then_leave:
  assumes "join r c h = Return h1" and "leave r c h1 = Return h2" and "c \<notin> members h r"
  shows "members h2 s = members h s"
  using assms by (auto simp: members_join members_leave)

text \<open>Moving from one room to another.\<close>

lemma move_members:
  assumes "leave r c h = Return h1" and "join s c h1 = Return h2" and "r \<noteq> s"
  shows "members h2 q =
    (if q = s then insert c (members h s) else if q = r then members h r - {c} else members h q)"
  using assms by (auto simp: members_join members_leave)

text \<open>Several clients leaving one room, one after the other.\<close>

lemma leave_many:
  "fold_outcome (leave r) cs h = Return h' \<Longrightarrow>
     members h' s = (if s = r then members h r - set cs else members h s)"
proof (induction cs arbitrary: h)
  case Nil
  then show ?case by simp
next
  case (Cons c cs)
  then obtain g where "leave r c h = Return g" and "fold_outcome (leave r) cs g = Return h'"
    by (auto simp: outcome_simps)
  with Cons.IH show ?case by (auto simp: members_leave)
qed

end

text \<open>
  With an index from users to their clients. The index never forgets a client, so it always
  covers the membership.
\<close>

locale tracked_registry = room_registry join leave members
  for join :: "string \<Rightarrow> 'c \<Rightarrow> 'h \<Rightarrow> 'h outcome"
    and leave :: "string \<Rightarrow> 'c \<Rightarrow> 'h \<Rightarrow> 'h outcome"
    and members :: "'h \<Rightarrow> string \<Rightarrow> 'c set" +
  fixes owner :: "'h \<Rightarrow> 'c \<Rightarrow> string"
    and tracked :: "'h \<Rightarrow> string \<Rightarrow> 'c set"
  assumes owner_join: "join r c h = Return h' \<Longrightarrow> owner h' d = owner h d"
    and owner_leave: "leave r c h = Return h' \<Longrightarrow> owner h' d = owner h d"
    and tracked_join: "join r c h = Return h' \<Longrightarrow>
      tracked h' u = (if u = owner h c then insert c (tracked h u) else tracked h u)"
    and tracked_leave: "leave r c h = Return h' \<Longrightarrow> tracked h' u = tracked h u"
begin

definition covered :: "'h \<Rightarrow> bool" where
  "covered h \<longleftrightarrow> (\<forall>r c. c \<in> members h r \<longrightarrow> c \<in> tracked h (owner h c))"

lemma covered_join: "covered h \<Longrightarrow> join r c h = Return h' \<Longrightarrow> covered h'"
  unfolding covered_def
  by (simp add: members_join tracked_join owner_join) (metis insertE)

lemma covered_leave: "covered h \<Longrightarrow> leave r c h = Return h' \<Longrightarrow> covered h'"
  by (auto simp: covered_def members_leave tracked_leave owner_leave split: if_splits)

text \<open>A client that has left every room is still in the index.\<close>

lemma tracked_forever:
  assumes "join r c h = Return h1" and "leave s c h1 = Return h2"
  shows "c \<in> tracked h2 (owner h c)"
  using assms by (simp add: tracked_join tracked_leave)

end

end
