(* ===== verification/Hub.thy ===== *)
theory Hub
  imports Messages Channel RoomRegistry
begin

text \<open>
  The hub of \<^verbatim>\<open>internal/websocket/hub.go\<close> with the \<^verbatim>\<open>Client\<close> struct of
  \<^verbatim>\<open>client.go\<close>: rooms, user tracking, statistics, registration, broadcasts and
  the queries. Clients are reached through pointers; \<open>h_heap\<close> is the memory they point
  into, so two maps that hold a client see the same object. A \<^verbatim>\<open>map[*Client]struct{}\<close>
  is the set of its keys; Go ranges over it in any order, and a loop whose order can be
  observed takes that order as an argument.

  Every method is one step: the model does not interleave the critical sections of two
  methods. What a goroutine started with \<^verbatim>\<open>go c.Close()\<close> has still to do is kept in
  \<open>h_closing\<close>.
\<close>

section \<open>Clients\<close>

type_synonym client_ptr = nat

record incoming_message =
  im_type :: string
  im_data :: "json option"
  im_timestamp :: int
  im_client_id :: string

text \<open>
  \<open>c_ctx_done\<close> is whether the client's context has been cancelled, the last three fields how
  many of its pump goroutines run.
\<close>

record client =
  c_id :: string
  c_user_id :: string
  c_room_id :: string
  c_conn_closed :: bool
  c_send :: "json channel"
  c_receive :: "incoming_message channel"
  c_active :: bool
  c_connected_at :: int
  c_last_seen :: int
  c_ctx_done :: bool
  c_write_pumps :: nat
  c_read_pumps :: nat
  c_message_pumps :: nat

definition channelBuffer :: nat where
  "channelBuffer = 256"

section \<open>The hub\<close>

record hub_stats =
  hs_total_rooms :: int
  hs_total_clients :: int
  hs_total_connections :: "64 word"
  hs_message_sent :: "64 word"
  hs_last_reset :: int

record hub =
  h_rooms :: "string \<Rightarrow> client_ptr set option"
  h_user_clients :: "string \<Rightarrow> client_ptr list option"
  h_ctx_done :: bool
  h_stats :: hub_stats
  h_heap :: "client_ptr \<Rightarrow> client"
  h_closing :: "client_ptr set"

definition NewHub :: "(client_ptr \<Rightarrow> client) \<Rightarrow> int \<Rightarrow> hub" where
  "NewHub heap now =
     \<lparr>h_rooms = Map.empty, h_user_clients = Map.empty, h_ctx_done = False,
      h_stats = \<lparr>hs_total_rooms = 0, hs_total_clients = 0, hs_total_connections = 0,
        hs_message_sent = 0, hs_last_reset = now\<rparr>,
      h_heap = heap, h_closing = {}\<rparr>"

abbreviation room_members :: "hub \<Rightarrow> string \<Rightarrow> client_ptr set" where
  "room_members h r \<equiv> set_at (h_rooms h) r"

abbreviation user_tracked :: "hub \<Rightarrow> string \<Rightarrow> client_ptr list" where
  "user_tracked h u \<equiv> slice_at (h_user_clients h) u"

abbreviation user_of :: "hub \<Rightarrow> client_ptr \<Rightarrow> string" where
  "user_of h p \<equiv> c_user_id (h_heap h p)"

definition IsClientActive :: "hub \<Rightarrow> client_ptr \<Rightarrow> bool" where
  "IsClientActive h p = c_active (h_heap h p)"

definition GetLastSeen :: "hub \<Rightarrow> client_ptr \<Rightarrow> int" where
  "GetLastSeen h p = c_last_seen (h_heap h p)"

definition upd_client :: "client_ptr \<Rightarrow> (client \<Rightarrow> client) \<Rightarrow> hub \<Rightarrow> hub" where
  "upd_client p f h = h\<lparr>h_heap := (h_heap h)(p := f (h_heap h p))\<rparr>"

definition updateLastSeen :: "int \<Rightarrow> client_ptr \<Rightarrow> hub \<Rightarrow> hub" where
  "updateLastSeen now p h = upd_client p (\<lambda>c. c\<lparr>c_last_seen := now\<rparr>) h"

text \<open>\<^verbatim>\<open>Start\<close>: one goroutine of each pump.\<close>

definition Start :: "client_ptr \<Rightarrow> hub \<Rightarrow> hub" where
  "Start p h = upd_client p
     (\<lambda>c. c\<lparr>c_write_pumps := Suc (c_write_pumps c), c_read_pumps := Suc (c_read_pumps c),
            c_message_pumps := Suc (c_message_pumps c)\<rparr>) h"

definition updateStats :: "(hub_stats \<Rightarrow> hub_stats) \<Rightarrow> hub \<Rightarrow> hub" where
  "updateStats f h = h\<lparr>h_stats := f (h_stats h)\<rparr>"

section \<open>Sending to a set of clients\<close>

text \<open>
  Each target's \<open>select\<close> touches its own channel only, so the order of the sends cannot be
  observed; one panic is the panic of the whole call.
\<close>

definition send_to_all ::
  "(client_ptr \<Rightarrow> client \<Rightarrow> json sent outcome) \<Rightarrow> client_ptr set \<Rightarrow> hub \<Rightarrow> hub outcome" where
  "send_to_all sel T h =
     (if \<exists>p \<in> T. sel p (h_heap h p) = Panic then Panic
      else Return (h\<lparr>h_heap := (\<lambda>p.
        if p \<in> T
        then (case sel p (h_heap h p) of
                Return r \<Rightarrow> (h_heap h p)\<lparr>c_send := chan_after (c_send (h_heap h p)) r\<rparr>
              | Panic \<Rightarrow> h_heap h p)
        else h_heap h p)\<rparr>))"

definition broadcaseToRoomExceptUser ::
  "string \<Rightarrow> outgoing_message \<Rightarrow> string \<Rightarrow> hub \<Rightarrow> hub outcome" where
  "broadcaseToRoomExceptUser roomID message exceptUserID h =
     (let data = marshal_outgoing message;
          targets = {p \<in> room_members h roomID. user_of h p \<noteq> exceptUserID \<and> IsClientActive h p}
      in send_to_all (\<lambda>p c. select_send data (c_send c)) targets h)"

definition broadcastUserStatus :: "int \<Rightarrow> string \<Rightarrow> string \<Rightarrow> bool \<Rightarrow> hub \<Rightarrow> hub outcome" where
  "broadcastUserStatus now roomID userID online h =
     (let status = (if online then ''online'' else ''offline'');
          message = \<lparr>om_type = ''user_status'', om_room_id = roomID, om_sender_id = '''',
            om_message_id = '''',
            om_data = P_Map (Some [(''user_id'', JStr userID), (''status'', JStr status)]),
            om_timestamp = unix_seconds now\<rparr>
      in broadcaseToRoomExceptUser roomID message userID h)"

text \<open>
  \<^verbatim>\<open>broadcastToRoomInternal\<close>. \<open>pick p\<close> is the case Go takes for client \<open>p\<close>
  when both the send and the cancelled context are ready. A full buffer starts a goroutine
  that closes the client. \<^verbatim>\<open>MessageSent\<close> grows by the number of targets, and a
  call without targets returns before it.
\<close>

definition broadcast_targets :: "string \<Rightarrow> client_ptr option \<Rightarrow> hub \<Rightarrow> client_ptr set" where
  "broadcast_targets roomID except h =
     {p \<in> room_members h roomID. except \<noteq> Some p \<and> IsClientActive h p}"

definition broadcast_select ::
  "(client_ptr \<Rightarrow> bool) \<Rightarrow> json \<Rightarrow> client_ptr \<Rightarrow> client \<Rightarrow> json sent outcome" where
  "broadcast_select pick data p c = select_send_done (pick p) (c_ctx_done c) data (c_send c)"

definition broadcastToRoomInternal ::
  "(client_ptr \<Rightarrow> bool) \<Rightarrow> string \<Rightarrow> outgoing_message \<Rightarrow> client_ptr option \<Rightarrow> hub \<Rightarrow> hub outcome" where
  "broadcastToRoomInternal pick roomID message except h =
     (let data = marshal_outgoing (message\<lparr>om_room_id := roomID\<rparr>);
          targets = broadcast_targets roomID except h;
          slow = {p \<in> targets. broadcast_select pick data p (h_heap h p) = Return Buffer_Full}
      in if targets = {} then Return h
         else bind_outcome (send_to_all (broadcast_select pick data) targets h) (\<lambda>h'.
           Return (updateStats
             (\<lambda>s. s\<lparr>hs_message_sent := hs_message_sent s + word_of_nat (card targets)\<rparr>)
             (h'\<lparr>h_closing := h_closing h' \<union> slow\<rparr>))))"

definition BroadcastToRoom ::
  "(client_ptr \<Rightarrow> bool) \<Rightarrow> string \<Rightarrow> outgoing_message \<Rightarrow> hub \<Rightarrow> hub outcome" where
  "BroadcastToRoom pick roomID message h = broadcastToRoomInternal pick roomID message None h"

definition BroadcastToRoomExcept ::
  "(client_ptr \<Rightarrow> bool) \<Rightarrow> string \<Rightarrow> outgoing_message \<Rightarrow> client_ptr \<Rightarrow> hub \<Rightarrow> hub outcome" where
  "BroadcastToRoomExcept pick roomID message except h =
     broadcastToRoomInternal pick roomID message (Some except) h"

text \<open>
  \<^verbatim>\<open>BroadcastToUser\<close>: one send per entry of the tracked slice, in its order.
  \<open>pick n\<close> is the choice for the entry with \<open>n\<close> entries after it.
\<close>

fun send_in_order ::
  "(nat \<Rightarrow> bool) \<Rightarrow> json \<Rightarrow> client_ptr list \<Rightarrow> hub \<Rightarrow> hub outcome" where
  "send_in_order pick data [] h = Return h"
| "send_in_order pick data (p # ps) h =
     (if \<not> IsClientActive h p then send_in_order pick data ps h
      else bind_outcome
        (select_send_done (pick (length ps)) (c_ctx_done (h_heap h p)) data (c_send (h_heap h p)))
        (\<lambda>r. send_in_order pick data ps
          (upd_client p (\<lambda>c. c\<lparr>c_send := chan_after (c_send c) r\<rparr>) h)))"

definition BroadcastToUser ::
  "(nat \<Rightarrow> bool) \<Rightarrow> string \<Rightarrow> outgoing_message \<Rightarrow> hub \<Rightarrow> hub outcome" where
  "BroadcastToUser pick userID message h =
     (let clients = user_tracked h userID in
      if clients = [] then Return h
      else send_in_order pick (marshal_outgoing message) clients h)"

section \<open>Queries\<close>

definition IsUserOnlineInRoom :: "string \<Rightarrow> string \<Rightarrow> hub \<Rightarrow> bool" where
  "IsUserOnlineInRoom roomID userID h \<longleftrightarrow>
     (case h_rooms h roomID of
        None \<Rightarrow> False
      | Some clients \<Rightarrow> (\<exists>p \<in> clients. user_of h p = userID \<and> IsClientActive h p))"

text \<open>\<open>range_order\<close> is the order in which this range visits the keys.\<close>

definition GetRoomClients ::
  "(client_ptr set \<Rightarrow> client_ptr list) \<Rightarrow> string \<Rightarrow> hub \<Rightarrow> client_ptr list" where
  "GetRoomClients range_order roomID h =
     (case h_rooms h roomID of
        None \<Rightarrow> []
      | Some clients \<Rightarrow> filter (IsClientActive h) (range_order clients))"

definition GetUserClients :: "string \<Rightarrow> hub \<Rightarrow> client_ptr list" where
  "GetUserClients userID h = filter (IsClientActive h) (user_tracked h userID)"

text \<open>The map \<^verbatim>\<open>GetRoomStats\<close> returns; the counts are there for an existing room only.\<close>

record room_stats =
  rs_room_id :: string
  rs_exists :: bool
  rs_counts :: "(nat \<times> nat \<times> nat) option"

definition GetRoomStats :: "string \<Rightarrow> hub \<Rightarrow> room_stats" where
  "GetRoomStats roomID h =
     (case h_rooms h roomID of
        None \<Rightarrow> \<lparr>rs_room_id = roomID, rs_exists = False, rs_counts = None\<rparr>
      | Some clients \<Rightarrow>
          (let active = {p \<in> clients. IsClientActive h p}
           in \<lparr>rs_room_id = roomID, rs_exists = True,
               rs_counts = Some (card clients, card active, card (user_of h ` active))\<rparr>))"

definition GetHubStats :: "hub \<Rightarrow> hub_stats \<times> hub" where
  "GetHubStats h =
     (let totalClients =
            (\<Sum>r \<in> dom (h_rooms h). int (card {p \<in> room_members h r. IsClientActive h p}));
          h' = updateStats (\<lambda>s. s\<lparr>hs_total_rooms := int (card (dom (h_rooms h))),
                                  hs_total_clients := totalClients\<rparr>) h
      in (h_stats h', h'))"

section \<open>Registration\<close>

definition add_to_room :: "string \<Rightarrow> client_ptr \<Rightarrow> hub \<Rightarrow> hub" where
  "add_to_room roomId p h =
     h\<lparr>h_rooms := (h_rooms h)(roomId \<mapsto> insert p (room_members h roomId))\<rparr>"

definition track_user :: "client_ptr \<Rightarrow> hub \<Rightarrow> hub" where
  "track_user p h =
     h\<lparr>h_user_clients :=
        (h_user_clients h)(user_of h p \<mapsto> user_tracked h (user_of h p) @ [p])\<rparr>"

definition Register :: "int \<Rightarrow> string \<Rightarrow> client_ptr \<Rightarrow> hub \<Rightarrow> hub outcome" where
  "Register now roomId p h =
     (let h1 = add_to_room roomId p h;
          h2 = track_user p h1;
          h3 = updateStats (\<lambda>s. s\<lparr>hs_total_connections := hs_total_connections s + 1\<rparr>) h2;
          h4 = Start p h3
      in broadcastUserStatus now roomId (user_of h4 p) True h4)"

definition remove_from_room :: "string \<Rightarrow> client_ptr \<Rightarrow> hub \<Rightarrow> hub" where
  "remove_from_room roomId p h =
     (case h_rooms h roomId of
        None \<Rightarrow> h
      | Some clients \<Rightarrow>
          (let left = clients - {p} in
           if left = {} then h\<lparr>h_rooms := (h_rooms h)(roomId := None)\<rparr>
           else h\<lparr>h_rooms := (h_rooms h)(roomId \<mapsto> left)\<rparr>))"

text \<open>The elements after the first occurrence of \<open>p\<close>: \<^verbatim>\<open>userClients[i+1:]\<close>.\<close>

fun after_first :: "'a \<Rightarrow> 'a list \<Rightarrow> 'a list option" where
  "after_first p [] = None"
| "after_first p (x # xs) = (if x = p then Some xs else after_first p xs)"

text \<open>
  The source appends that tail to the whole slice
  (\<^verbatim>\<open>append(h.userClients[client.UserID], userClients[i+1:]...)\<close>), not to the part
  before the client.
\<close>

definition untrack_user :: "client_ptr \<Rightarrow> hub \<Rightarrow> hub" where
  "untrack_user p h =
     (let u = user_of h p;
          userClients = user_tracked h u;
          m = (case after_first p userClients of
                 None \<Rightarrow> h_user_clients h
               | Some tail \<Rightarrow> (h_user_clients h)(u \<mapsto> slice_at (h_user_clients h) u @ tail))
      in h\<lparr>h_user_clients := (if slice_at m u = [] then m(u := None) else m)\<rparr>)"

definition Unregister :: "int \<Rightarrow> string \<Rightarrow> client_ptr \<Rightarrow> hub \<Rightarrow> hub outcome" where
  "Unregister now roomId p h =
     (let h1 = remove_from_room roomId p h;
          h2 = untrack_user p h1
      in if \<not> IsUserOnlineInRoom roomId (user_of h2 p) h2
         then broadcastUserStatus now roomId (user_of h2 p) False h2
         else Return h2)"

section \<open>Frames\<close>

text \<open>
  A hub with the send buffers, the count of sent messages and the pending closes blanked out:
  what sending does not touch.
\<close>

definition forget_traffic :: "hub \<Rightarrow> hub" where
  "forget_traffic h = h\<lparr>h_heap := (\<lambda>p. (h_heap h p)\<lparr>c_send := make_chan 0\<rparr>),
     h_stats := (h_stats h)\<lparr>hs_message_sent := 0\<rparr>, h_closing := {}\<rparr>"

lemma forget_traffic_sel [simp]:
  "h_rooms (forget_traffic h) = h_rooms h"
  "h_user_clients (forget_traffic h) = h_user_clients h"
  "h_ctx_done (forget_traffic h) = h_ctx_done h"
  "hs_total_connections (h_stats (forget_traffic h)) = hs_total_connections (h_stats h)"
  "c_user_id (h_heap (forget_traffic h) p) = c_user_id (h_heap h p)"
  "c_room_id (h_heap (forget_traffic h) p) = c_room_id (h_heap h p)"
  "c_active (h_heap (forget_traffic h) p) = c_active (h_heap h p)"
  "c_ctx_done (h_heap (forget_traffic h) p) = c_ctx_done (h_heap h p)"
  "c_receive (h_heap (forget_traffic h) p) = c_receive (h_heap h p)"
  "c_message_pumps (h_heap (forget_traffic h) p) = c_message_pumps (h_heap h p)"
  "c_last_seen (h_heap (forget_traffic h) p) = c_last_seen (h_heap h p)"
  by (simp_all add: forget_traffic_def)

lemma same_trafficD:
  assumes "forget_traffic h' = forget_traffic h"
  shows "h_rooms h' = h_rooms h" and "h_user_clients h' = h_user_clients h"
    and "h_ctx_done h' = h_ctx_done h"
    and "hs_total_connections (h_stats h') = hs_total_connections (h_stats h)"
    and "user_of h' p = user_of h p"
    and "c_room_id (h_heap h' p) = c_room_id (h_heap h p)"
    and "c_active (h_heap h' p) = c_active (h_heap h p)"
    and "c_ctx_done (h_heap h' p) = c_ctx_done (h_heap h p)"
    and "c_receive (h_heap h' p) = c_receive (h_heap h p)"
    and "c_message_pumps (h_heap h' p) = c_message_pumps (h_heap h p)"
    and "c_last_seen (h_heap h' p) = c_last_seen (h_heap h p)"
  using arg_cong [OF assms, of h_rooms] arg_cong [OF assms, of h_user_clients]
    arg_cong [OF assms, of h_ctx_done]
    arg_cong [OF assms, of "\<lambda>g. hs_total_connections (h_stats g)"]
    arg_cong [OF assms, of "\<lambda>g. c_user_id (h_heap g p)"]
    arg_cong [OF assms, of "\<lambda>g. c_room_id (h_heap g p)"]
    arg_cong [OF assms, of "\<lambda>g. c_active (h_heap g p)"]
    arg_cong [OF assms, of "\<lambda>g. c_ctx_done (h_heap g p)"]
    arg_cong [OF assms, of "\<lambda>g. c_receive (h_heap g p)"]
    arg_cong [OF assms, of "\<lambda>g. c_message_pumps (h_heap g p)"]
    arg_cong [OF assms, of "\<lambda>g. c_last_seen (h_heap g p)"]
  by simp_all

lemma forget_upd_send [simp]:
  "forget_traffic (upd_client p (\<lambda>c. c\<lparr>c_send := g c\<rparr>) h) = forget_traffic h"
  by (simp add: forget_traffic_def upd_client_def fun_eq_iff)

lemma forget_send_to_all: "send_to_all sel T h = Return h' \<Longrightarrow> forget_traffic h' = forget_traffic h"
  by (auto simp: send_to_all_def forget_traffic_def fun_eq_iff split: if_splits outcome.splits)

lemma closing_send_to_all: "send_to_all sel T h = Return h' \<Longrightarrow> h_closing h' = h_closing h"
  by (auto simp: send_to_all_def split: if_splits)

lemma forget_broadcast_except_user:
  "broadcaseToRoomExceptUser r m u h = Return h' \<Longrightarrow> forget_traffic h' = forget_traffic h"
  by (auto simp: broadcaseToRoomExceptUser_def Let_def dest: forget_send_to_all)

lemma forget_broadcastUserStatus:
  "broadcastUserStatus now r u b h = Return h' \<Longrightarrow> forget_traffic h' = forget_traffic h"
  by (auto simp: broadcastUserStatus_def Let_def dest: forget_broadcast_except_user)

lemma closing_broadcastUserStatus:
  "broadcastUserStatus now r u b h = Return h' \<Longrightarrow> h_closing h' = h_closing h"
  by (auto simp: broadcastUserStatus_def broadcaseToRoomExceptUser_def Let_def
      dest: closing_send_to_all)

lemma forget_send_in_order:
  "send_in_order pick data ps h = Return h' \<Longrightarrow> forget_traffic h' = forget_traffic h"
proof (induction ps arbitrary: h)
  case Nil
  then show ?case by simp
next
  case (Cons p ps)
  then show ?case
    by (fastforce simp: outcome_simps split: if_splits)
qed

section \<open>What a broadcast delivers\<close>

lemma send_to_all_at:
  assumes "send_to_all sel T h = Return h'"
  shows "p \<in> T \<Longrightarrow> \<exists>r. sel p (h_heap h p) = Return r \<and>
           c_send (h_heap h' p) = chan_after (c_send (h_heap h p)) r"
    and "p \<notin> T \<Longrightarrow> h_heap h' p = h_heap h p"
  using assms by (auto simp: send_to_all_def split: if_splits outcome.splits)

lemma send_to_all_returns:
  assumes "\<And>p. p \<in> T \<Longrightarrow> sel p (h_heap h p) \<noteq> Panic"
  shows "\<exists>h'. send_to_all sel T h = Return h'"
  using assms by (auto simp: send_to_all_def)

lemma broadcastToRoomInternal_cases:
  assumes "broadcastToRoomInternal pick r m except h = Return h'"
  obtains (none) "broadcast_targets r except h = {}" "h' = h"
  | (some) g slow where
      "send_to_all (broadcast_select pick (marshal_outgoing (m\<lparr>om_room_id := r\<rparr>)))
         (broadcast_targets r except h) h = Return g"
      "slow = {p \<in> broadcast_targets r except h.
         broadcast_select pick (marshal_outgoing (m\<lparr>om_room_id := r\<rparr>)) p (h_heap h p)
           = Return Buffer_Full}"
      "h' = updateStats (\<lambda>s. s\<lparr>hs_message_sent := hs_message_sent s
              + word_of_nat (card (broadcast_targets r except h))\<rparr>)
             (g\<lparr>h_closing := h_closing g \<union> slow\<rparr>)"
  using assms
  by (auto simp: broadcastToRoomInternal_def Let_def outcome_simps simp del: Collect_empty_eq
      split: if_splits)

lemma broadcastToRoomInternal_target:
  assumes "broadcastToRoomInternal pick r m except h = Return h'"
    and "p \<in> broadcast_targets r except h"
  shows "\<exists>s. broadcast_select pick (marshal_outgoing (m\<lparr>om_room_id := r\<rparr>)) p (h_heap h p) = Return s \<and>
        c_send (h_heap h' p) = chan_after (c_send (h_heap h p)) s \<and>
        (s = Buffer_Full \<longrightarrow> p \<in> h_closing h')"
  using assms(1)
proof (cases rule: broadcastToRoomInternal_cases)
  case none
  with assms(2) show ?thesis by simp
next
  case (some g slow)
  from send_to_all_at(1) [OF some(1) assms(2)] some(2,3) assms(2)
  show ?thesis by (auto simp: updateStats_def)
qed

lemma broadcastToRoomInternal_other:
  assumes "broadcastToRoomInternal pick r m except h = Return h'"
    and "p \<notin> broadcast_targets r except h"
  shows "h_heap h' p = h_heap h p"
  using assms(1)
proof (cases rule: broadcastToRoomInternal_cases)
  case (some g slow)
  from send_to_all_at(2) [OF some(1) assms(2)] some(3) show ?thesis by (simp add: updateStats_def)
qed simp

lemma forget_broadcastToRoomInternal:
  assumes "broadcastToRoomInternal pick r m except h = Return h'"
  shows "forget_traffic h' = forget_traffic h"
  using assms
proof (cases rule: broadcastToRoomInternal_cases)
  case (some g slow)
  have "forget_traffic h' = forget_traffic g"
    by (simp add: some(3) forget_traffic_def updateStats_def)
  then show ?thesis using forget_send_to_all [OF some(1)] by simp
qed simp

lemma forget_BroadcastToUser:
  "BroadcastToUser pick u m h = Return h' \<Longrightarrow> forget_traffic h' = forget_traffic h"
  by (auto simp: BroadcastToUser_def Let_def dest: forget_send_in_order split: if_splits)

section \<open>What registration does\<close>

lemma add_to_room_sel [simp]:
  "h_rooms (add_to_room r p h) = (h_rooms h)(r \<mapsto> insert p (room_members h r))"
  "h_user_clients (add_to_room r p h) = h_user_clients h"
  "h_ctx_done (add_to_room r p h) = h_ctx_done h"
  "h_stats (add_to_room r p h) = h_stats h"
  "h_heap (add_to_room r p h) = h_heap h"
  "h_closing (add_to_room r p h) = h_closing h"
  by (simp_all add: add_to_room_def)

lemma track_user_sel [simp]:
  "h_rooms (track_user p h) = h_rooms h"
  "h_user_clients (track_user p h) =
     (h_user_clients h)(user_of h p \<mapsto> user_tracked h (user_of h p) @ [p])"
  "h_ctx_done (track_user p h) = h_ctx_done h"
  "h_stats (track_user p h) = h_stats h"
  "h_heap (track_user p h) = h_heap h"
  "h_closing (track_user p h) = h_closing h"
  by (simp_all add: track_user_def)

lemma updateStats_sel [simp]:
  "h_rooms (updateStats f h) = h_rooms h"
  "h_user_clients (updateStats f h) = h_user_clients h"
  "h_ctx_done (updateStats f h) = h_ctx_done h"
  "h_stats (updateStats f h) = f (h_stats h)"
  "h_heap (updateStats f h) = h_heap h"
  "h_closing (updateStats f h) = h_closing h"
  by (simp_all add: updateStats_def)

lemma upd_client_sel [simp]:
  "h_rooms (upd_client p f h) = h_rooms h"
  "h_user_clients (upd_client p f h) = h_user_clients h"
  "h_ctx_done (upd_client p f h) = h_ctx_done h"
  "h_stats (upd_client p f h) = h_stats h"
  "h_heap (upd_client p f h) q = (if q = p then f (h_heap h p) else h_heap h q)"
  "h_closing (upd_client p f h) = h_closing h"
  by (simp_all add: upd_client_def)

lemma Start_sel [simp]:
  "h_rooms (Start p h) = h_rooms h"
  "h_user_clients (Start p h) = h_user_clients h"
  "h_ctx_done (Start p h) = h_ctx_done h"
  "h_stats (Start p h) = h_stats h"
  "h_closing (Start p h) = h_closing h"
  "c_user_id (h_heap (Start p h) q) = c_user_id (h_heap h q)"
  "c_room_id (h_heap (Start p h) q) = c_room_id (h_heap h q)"
  "c_active (h_heap (Start p h) q) = c_active (h_heap h q)"
  "c_ctx_done (h_heap (Start p h) q) = c_ctx_done (h_heap h q)"
  "c_send (h_heap (Start p h) q) = c_send (h_heap h q)"
  "c_receive (h_heap (Start p h) q) = c_receive (h_heap h q)"
  by (simp_all add: Start_def)

text \<open>The state \<^verbatim>\<open>Register\<close> announces from, before the status broadcast.\<close>

definition enrolled :: "string \<Rightarrow> client_ptr \<Rightarrow> hub \<Rightarrow> hub" where
  "enrolled r p h =
     Start p (updateStats (\<lambda>s. s\<lparr>hs_total_connections := hs_total_connections s + 1\<rparr>)
       (track_user p (add_to_room r p h)))"

lemma Register_enrolled:
  "Register now r p h = broadcastUserStatus now r (user_of h p) True (enrolled r p h)"
  by (simp add: Register_def enrolled_def Let_def)

lemma Register_frame:
  assumes "Register now r p h = Return h'"
  shows "h_rooms h' = (h_rooms h)(r \<mapsto> insert p (room_members h r))"
    and "h_user_clients h' =
      (h_user_clients h)(user_of h p \<mapsto> user_tracked h (user_of h p) @ [p])"
    and "h_ctx_done h' = h_ctx_done h"
    and "hs_total_connections (h_stats h') = hs_total_connections (h_stats h) + 1"
    and "user_of h' q = user_of h q"
    and "c_room_id (h_heap h' q) = c_room_id (h_heap h q)"
    and "c_active (h_heap h' q) = c_active (h_heap h q)"
    and "c_ctx_done (h_heap h' q) = c_ctx_done (h_heap h q)"
    and "c_receive (h_heap h' q) = c_receive (h_heap h q)"
  using same_trafficD [OF forget_broadcastUserStatus [OF assms [unfolded Register_enrolled]]]
  by (simp_all add: enrolled_def)

lemma remove_from_room_sel [simp]:
  "h_user_clients (remove_from_room r p h) = h_user_clients h"
  "h_ctx_done (remove_from_room r p h) = h_ctx_done h"
  "h_stats (remove_from_room r p h) = h_stats h"
  "h_heap (remove_from_room r p h) = h_heap h"
  "h_closing (remove_from_room r p h) = h_closing h"
  by (simp_all add: remove_from_room_def Let_def split: option.splits)

lemma members_remove_from_room [simp]:
  "room_members (remove_from_room r p h) s =
     (if s = r then room_members h r - {p} else room_members h s)"
  by (auto simp: remove_from_room_def Let_def split: option.splits)

lemma set_after_first: "after_first p xs = Some ys \<Longrightarrow> set ys \<subseteq> set xs \<and> p \<in> set xs"
  by (induction xs) (auto split: if_splits)

lemma after_first_None: "after_first p xs = None \<longleftrightarrow> p \<notin> set xs"
  by (induction xs) auto

lemma untrack_user_sel [simp]:
  "h_rooms (untrack_user p h) = h_rooms h"
  "h_ctx_done (untrack_user p h) = h_ctx_done h"
  "h_stats (untrack_user p h) = h_stats h"
  "h_heap (untrack_user p h) = h_heap h"
  "h_closing (untrack_user p h) = h_closing h"
  by (simp_all add: untrack_user_def Let_def)

lemma tracked_untrack_user:
  "user_tracked (untrack_user p h) u =
     (if u = user_of h p
      then user_tracked h u @ (case after_first p (user_tracked h u) of None \<Rightarrow> [] | Some t \<Rightarrow> t)
      else user_tracked h u)"
  by (auto simp: untrack_user_def Let_def split: option.splits)

lemma set_tracked_untrack_user [simp]:
  "set (user_tracked (untrack_user p h) u) = set (user_tracked h u)"
  by (auto simp: tracked_untrack_user dest: set_after_first [OF sym] split: option.splits)

text \<open>The state \<^verbatim>\<open>Unregister\<close> reaches before the status broadcast.\<close>

definition withdrawn :: "string \<Rightarrow> client_ptr \<Rightarrow> hub \<Rightarrow> hub" where
  "withdrawn r p h = untrack_user p (remove_from_room r p h)"

lemma withdrawn_sel [simp]:
  "h_heap (withdrawn r p h) = h_heap h"
  "h_ctx_done (withdrawn r p h) = h_ctx_done h"
  "h_stats (withdrawn r p h) = h_stats h"
  "h_closing (withdrawn r p h) = h_closing h"
  "room_members (withdrawn r p h) s = (if s = r then room_members h r - {p} else room_members h s)"
  "set (user_tracked (withdrawn r p h) u) = set (user_tracked h u)"
  by (simp_all add: withdrawn_def)

lemma Unregister_withdrawn:
  "Unregister now r p h =
     (if IsUserOnlineInRoom r (user_of h p) (withdrawn r p h) then Return (withdrawn r p h)
      else broadcastUserStatus now r (user_of h p) False (withdrawn r p h))"
  by (simp add: Unregister_def withdrawn_def Let_def)

lemma forget_Unregister:
  "Unregister now r p h = Return h' \<Longrightarrow> forget_traffic h' = forget_traffic (withdrawn r p h)"
  by (auto simp: Unregister_withdrawn dest: forget_broadcastUserStatus split: if_splits)

lemma Unregister_frame:
  assumes "Unregister now r p h = Return h'"
  shows "h_rooms h' = h_rooms (withdrawn r p h)"
    and "h_user_clients h' = h_user_clients (withdrawn r p h)"
    and "h_ctx_done h' = h_ctx_done h"
    and "hs_total_connections (h_stats h') = hs_total_connections (h_stats h)"
    and "user_of h' q = user_of h q"
    and "c_room_id (h_heap h' q) = c_room_id (h_heap h q)"
    and "c_active (h_heap h' q) = c_active (h_heap h q)"
    and "c_ctx_done (h_heap h' q) = c_ctx_done (h_heap h q)"
    and "c_receive (h_heap h' q) = c_receive (h_heap h q)"
    and "c_message_pumps (h_heap h' q) = c_message_pumps (h_heap h q)"
  using same_trafficD [OF forget_Unregister [OF assms]] by simp_all

section \<open>The hub as a room registry\<close>

interpretation hub_rooms: tracked_registry "Register now" "Unregister now" room_members user_of
  "\<lambda>h u. set (user_tracked h u)"
  for now :: int
  by unfold_locales
    (auto simp: Register_frame Unregister_frame withdrawn_def split: if_splits)

end
