(* ===== verification/Client.thy ===== *)
theory Client
  imports Hub
begin

text \<open>
  The operations of \<^verbatim>\<open>internal/websocket/client.go\<close> on the hub's memory: creating a
  client, sending, closing, cleaning up, the handlers of the incoming messages, and one
  iteration of each of the three pumps.

  What a run supplies beside the state, the clock readings in the order the code takes them
  and the choices of the \<open>select\<close> statements, is the record \<open>io\<close>.
\<close>

record io =
  io_t1 :: int
  io_t2 :: int
  io_t3 :: int
  io_self :: bool
  io_room :: "client_ptr \<Rightarrow> bool"

section \<open>Creating a client\<close>

definition charset :: string where
  "charset = ''abcdefghijklmnopqrstuvwxyz0123456789''"

text \<open>One clock reading per character; instants are not negative.\<close>

definition generateRandomString :: "int list \<Rightarrow> string" where
  "generateRandomString readings = map (\<lambda>t. charset ! nat (t mod int (length charset))) readings"

text \<open>\<open>format_time\<close> is \<^verbatim>\<open>time.Time.Format("20060102150405")\<close> in the server's zone.\<close>

definition generateClientID :: "(int \<Rightarrow> string) \<Rightarrow> int \<Rightarrow> int list \<Rightarrow> string \<Rightarrow> string" where
  "generateClientID format_time now readings userID =
     userID @ ''_'' @ format_time now @ ''_'' @ generateRandomString readings"

definition NewClient :: "string \<Rightarrow> int \<Rightarrow> int \<Rightarrow> string \<Rightarrow> string \<Rightarrow> client" where
  "NewClient clientID now1 now2 userID roomID =
     \<lparr>c_id = clientID, c_user_id = userID, c_room_id = roomID, c_conn_closed = False,
      c_send = make_chan channelBuffer, c_receive = make_chan channelBuffer,
      c_active = True, c_connected_at = now1, c_last_seen = now2, c_ctx_done = False,
      c_write_pumps = 0, c_read_pumps = 0, c_message_pumps = 0\<rparr>"

section \<open>Sending and closing\<close>

definition SendMessage :: "bool \<Rightarrow> client_ptr \<Rightarrow> outgoing_message \<Rightarrow> hub \<Rightarrow> hub outcome" where
  "SendMessage pick p msg h =
     (let data = marshal_outgoing msg; c = h_heap h p in
      bind_outcome (select_send_done pick (c_ctx_done c) data (c_send c)) (\<lambda>r.
        Return (case r of
            Sent ch \<Rightarrow> upd_client p (\<lambda>c. c\<lparr>c_send := ch\<rparr>) h
          | CtxDone \<Rightarrow> h
          | Buffer_Full \<Rightarrow> h\<lparr>h_closing := insert p (h_closing h)\<rparr>)))"

definition close_client_channels :: "client \<Rightarrow> client" where
  "close_client_channels c =
     c\<lparr>c_send := drain_or_close (c_send c), c_receive := drain_or_close (c_receive c),
       c_conn_closed := True\<rparr>"

definition cleanup :: "int \<Rightarrow> client_ptr \<Rightarrow> hub \<Rightarrow> hub outcome" where
  "cleanup now p h =
     bind_outcome
       (if c_room_id (h_heap h p) \<noteq> '''' then Unregister now (c_room_id (h_heap h p)) p h
        else Return h)
       (\<lambda>h. Return (upd_client p close_client_channels h))"

definition Close :: "int \<Rightarrow> client_ptr \<Rightarrow> hub \<Rightarrow> hub outcome" where
  "Close now p h =
     (if \<not> c_active (h_heap h p) then Return h
      else cleanup now p (upd_client p (\<lambda>c. c\<lparr>c_active := False, c_ctx_done := True\<rparr>) h))"

section \<open>Handlers of incoming messages\<close>

text \<open>\<open>None\<close> is an unmarshalling error; an empty \<^verbatim>\<open>RawMessage\<close> is one too.\<close>

definition join_room_data :: "json option \<Rightarrow> string option" where
  "join_room_data data =
     (case data of
        None \<Rightarrow> None
      | Some j \<Rightarrow> load_struct '''' (\<lambda>kvs. load_field dec_string ''room_id'' kvs '''') j)"

definition room_notice :: "string \<Rightarrow> int \<Rightarrow> string \<Rightarrow> string \<Rightarrow> outgoing_message" where
  "room_notice ty now roomID userID =
     \<lparr>om_type = ty, om_room_id = roomID, om_sender_id = '''', om_message_id = '''',
      om_data = P_Map (Some [(''room_id'', JStr roomID), (''user_id'', JStr userID)]),
      om_timestamp = unix_seconds now\<rparr>"

definition handleJoinRoom :: "io \<Rightarrow> client_ptr \<Rightarrow> json option \<Rightarrow> hub \<Rightarrow> hub outcome" where
  "handleJoinRoom e p data h =
     (case join_room_data data of
        None \<Rightarrow> Return h
      | Some roomID \<Rightarrow>
          (let oldRoomID = c_room_id (h_heap h p);
               h1 = upd_client p (\<lambda>c. c\<lparr>c_room_id := roomID\<rparr>) h
           in bind_outcome
                (if oldRoomID \<noteq> '''' \<and> oldRoomID \<noteq> roomID
                 then Unregister (io_t1 e) oldRoomID p h1 else Return h1) (\<lambda>h2.
              bind_outcome (Register (io_t2 e) roomID p h2) (\<lambda>h3.
              SendMessage (io_self e) p
                (room_notice ''room_joined'' (io_t3 e) roomID (user_of h3 p)) h3))))"

definition handleLeaveRoom :: "io \<Rightarrow> client_ptr \<Rightarrow> json option \<Rightarrow> hub \<Rightarrow> hub outcome" where
  "handleLeaveRoom e p data h =
     bind_outcome (Unregister (io_t1 e) (c_room_id (h_heap h p)) p h) (\<lambda>h1.
       SendMessage (io_self e) p
         (room_notice ''room_left'' (io_t2 e) (c_room_id (h_heap h1 p)) (user_of h1 p)) h1)"

definition typing_notice :: "bool \<Rightarrow> int \<Rightarrow> string \<Rightarrow> string \<Rightarrow> outgoing_message" where
  "typing_notice typing now roomID userID =
     \<lparr>om_type = ''user_typing'', om_room_id = roomID, om_sender_id = userID,
      om_message_id = '''',
      om_data = P_Map (Some [(''user_id'', JStr userID), (''typing'', JBool typing)]),
      om_timestamp = unix_seconds now\<rparr>"

definition handleTypingStart :: "io \<Rightarrow> client_ptr \<Rightarrow> json option \<Rightarrow> hub \<Rightarrow> hub outcome" where
  "handleTypingStart e p data h =
     BroadcastToRoomExcept (io_room e) (c_room_id (h_heap h p))
       (typing_notice True (io_t1 e) (c_room_id (h_heap h p)) (user_of h p)) p h"

definition handleTypingStop :: "io \<Rightarrow> client_ptr \<Rightarrow> json option \<Rightarrow> hub \<Rightarrow> hub outcome" where
  "handleTypingStop e p data h =
     BroadcastToRoomExcept (io_room e) (c_room_id (h_heap h p))
       (typing_notice False (io_t1 e) (c_room_id (h_heap h p)) (user_of h p)) p h"

definition handlePing :: "io \<Rightarrow> client_ptr \<Rightarrow> hub \<Rightarrow> hub outcome" where
  "handlePing e p h =
     SendMessage (io_self e) p
       \<lparr>om_type = ''pong'', om_room_id = '''', om_sender_id = '''', om_message_id = '''',
        om_data = P_Nil, om_timestamp = unix_seconds (io_t1 e)\<rparr> h"

text \<open>A nil message is a nil dereference at \<^verbatim>\<open>switch msg.Type\<close>.\<close>

definition handleIncomingMessage ::
  "io \<Rightarrow> client_ptr \<Rightarrow> incoming_message option \<Rightarrow> hub \<Rightarrow> hub outcome" where
  "handleIncomingMessage e p msg h =
     (case msg of
        None \<Rightarrow> Panic
      | Some m \<Rightarrow>
          (if im_type m = ''join_room'' then handleJoinRoom e p (im_data m) h
           else if im_type m = ''leave_room'' then handleLeaveRoom e p (im_data m) h
           else if im_type m = ''typing_start'' then handleTypingStart e p (im_data m) h
           else if im_type m = ''typing_stop'' then handleTypingStop e p (im_data m) h
           else if im_type m = ''ping'' then handlePing e p h
           else Return h))"

section \<open>The pumps\<close>

text \<open>
  A pump that returns runs its deferred \<^verbatim>\<open>cleanup\<close>; the message pump has none.
\<close>

definition readPump_exit :: "int \<Rightarrow> client_ptr \<Rightarrow> hub \<Rightarrow> hub outcome" where
  "readPump_exit now p h =
     cleanup now p (upd_client p (\<lambda>c. c\<lparr>c_read_pumps := c_read_pumps c - 1\<rparr>) h)"

definition writePump_exit :: "int \<Rightarrow> client_ptr \<Rightarrow> hub \<Rightarrow> hub outcome" where
  "writePump_exit now p h =
     cleanup now p (upd_client p (\<lambda>c. c\<lparr>c_write_pumps := c_write_pumps c - 1\<rparr>) h)"

definition messagePump_exit :: "client_ptr \<Rightarrow> hub \<Rightarrow> hub" where
  "messagePump_exit p h = upd_client p (\<lambda>c. c\<lparr>c_message_pumps := c_message_pumps c - 1\<rparr>) h"

text \<open>
  An iteration of \<^verbatim>\<open>readPump\<close> that read a message: the server stamps it, offers it
  to the processor and drops it when the buffer is full.
\<close>

definition readPump_message :: "io \<Rightarrow> client_ptr \<Rightarrow> incoming_message \<Rightarrow> hub \<Rightarrow> hub outcome" where
  "readPump_message e p incoming h =
     (let m = incoming\<lparr>im_timestamp := unix_seconds (io_t1 e), im_client_id := c_id (h_heap h p)\<rparr>
      in bind_outcome (select_send m (c_receive (h_heap h p))) (\<lambda>r.
           Return (updateLastSeen (io_t2 e) p
             (upd_client p (\<lambda>c. c\<lparr>c_receive := chan_after (c_receive c) r\<rparr>) h))))"

text \<open>
  An iteration of \<^verbatim>\<open>messagePump\<close> that received: the oldest message, or nil from a
  closed channel. On an empty open channel it blocks.
\<close>

definition messagePump_receive :: "io \<Rightarrow> client_ptr \<Rightarrow> hub \<Rightarrow> hub outcome option" where
  "messagePump_receive e p h =
     (let ch = c_receive (h_heap h p) in
      case ch_buf ch of
        m # ms \<Rightarrow> Some (handleIncomingMessage e p (Some m)
          (upd_client p (\<lambda>c. c\<lparr>c_receive := ch\<lparr>ch_buf := ms\<rparr>\<rparr>) h))
      | [] \<Rightarrow> if ch_closed ch then Some (handleIncomingMessage e p None h) else None)"

text \<open>
  An iteration of \<^verbatim>\<open>writePump\<close> on a ready send channel: a closed one makes it send
  the close frame and return; otherwise the first message and all that wait behind it go into
  one frame, separated by newlines, whose messages are the first component of the result.
  \<open>fault = Some k\<close> is a connection that failed after \<open>k\<close> of the waiting messages were
  taken from the channel.
\<close>

definition writePump_send ::
  "nat option \<Rightarrow> int \<Rightarrow> client_ptr \<Rightarrow> hub \<Rightarrow> (json list \<times> hub outcome) option" where
  "writePump_send fault now p h =
     (let ch = c_send (h_heap h p) in
      case ch_buf ch of
        [] \<Rightarrow> if ch_closed ch then Some ([], writePump_exit now p h) else None
      | m # ms \<Rightarrow>
          (case fault of
             None \<Rightarrow> Some (m # ms, Return (updateLastSeen now p
               (upd_client p (\<lambda>c. c\<lparr>c_send := ch\<lparr>ch_buf := []\<rparr>\<rparr>) h)))
           | Some k \<Rightarrow> Some ([], writePump_exit now p
               (upd_client p (\<lambda>c. c\<lparr>c_send := ch\<lparr>ch_buf := drop k ms\<rparr>\<rparr>) h))))"

section \<open>Frames of the operations\<close>

lemma forget_SendMessage: "SendMessage pick p m h = Return h' \<Longrightarrow> forget_traffic h' = forget_traffic h"
proof -
  assume "SendMessage pick p m h = Return h'"
  then obtain r where "h' = (case r of Sent ch \<Rightarrow> upd_client p (\<lambda>c. c\<lparr>c_send := ch\<rparr>) h
      | CtxDone \<Rightarrow> h | Buffer_Full \<Rightarrow> h\<lparr>h_closing := insert p (h_closing h)\<rparr>)"
    by (auto simp: SendMessage_def Let_def outcome_simps)
  then show ?thesis by (cases r) (simp_all add: forget_traffic_def upd_client_def fun_eq_iff)
qed

lemma closed_channels_sel [simp]:
  "c_user_id (close_client_channels c) = c_user_id c"
  "c_room_id (close_client_channels c) = c_room_id c"
  "c_active (close_client_channels c) = c_active c"
  "c_ctx_done (close_client_channels c) = c_ctx_done c"
  "c_send (close_client_channels c) = drain_or_close (c_send c)"
  "c_receive (close_client_channels c) = drain_or_close (c_receive c)"
  "c_message_pumps (close_client_channels c) = c_message_pumps c"
  by (simp_all add: close_client_channels_def)

text \<open>What \<^verbatim>\<open>cleanup\<close> is: the withdrawal from the client's room, then its channels.\<close>

lemma cleanup_cases:
  assumes "cleanup now p h = Return h'"
  obtains (room) g where "h' = upd_client p close_client_channels g"
      "c_room_id (h_heap h p) \<noteq> ''''" "Unregister now (c_room_id (h_heap h p)) p h = Return g"
  | (no_room) "h' = upd_client p close_client_channels h" "c_room_id (h_heap h p) = ''''"
  using assms by (auto simp: cleanup_def outcome_simps split: if_splits)

lemma cleanup_frame:
  assumes "cleanup now p h = Return h'"
  shows "user_of h' q = user_of h q"
    and "c_room_id (h_heap h' q) = c_room_id (h_heap h q)"
    and "c_active (h_heap h' q) = c_active (h_heap h q)"
    and "c_ctx_done (h_heap h' q) = c_ctx_done (h_heap h q)"
    and "c_receive (h_heap h' q) =
      (if q = p then drain_or_close (c_receive (h_heap h q)) else c_receive (h_heap h q))"
    and "set (user_tracked h' u) = set (user_tracked h u)"
    and "room_members h' r =
      (if r = c_room_id (h_heap h p) \<and> r \<noteq> '''' then room_members h r - {p} else room_members h r)"
    and "hs_total_connections (h_stats h') = hs_total_connections (h_stats h)"
    and "c_message_pumps (h_heap h' q) = c_message_pumps (h_heap h q)"
  using assms
  by (elim cleanup_cases; auto simp: Unregister_frame)+

lemma Close_frame:
  assumes "Close now p h = Return h'"
  shows "user_of h' q = user_of h q"
    and "c_room_id (h_heap h' q) = c_room_id (h_heap h q)"
    and "c_active (h_heap h' q) = (q \<noteq> p \<and> c_active (h_heap h q))"
    and "c_ctx_done (h_heap h' q) =
      (c_ctx_done (h_heap h q) \<or> (q = p \<and> c_active (h_heap h p)))"
    and "set (user_tracked h' u) = set (user_tracked h u)"
    and "room_members h' r =
      (if c_active (h_heap h p) \<and> r = c_room_id (h_heap h p) \<and> r \<noteq> ''''
       then room_members h r - {p} else room_members h r)"
  using assms
  by (auto simp: Close_def cleanup_frame split: if_splits)

end
