(* ===== verification/HubInvariant.thy ===== *)
theory HubInvariant
  imports Client
begin

text \<open>
  The hub's cleanup run and shutdown (\<^verbatim>\<open>performCleanup\<close>, \<^verbatim>\<open>Close\<close> of
  \<^verbatim>\<open>hub.go\<close>), the invariant of its registry, clients and channels, and what sending and closing
  keep of it. The running system is in the next theory.
\<close>

section \<open>Cleanup and shutdown\<close>

text \<open>
  The clients a range over all rooms visits: \<open>ro\<close> is the order of the rooms, \<open>co\<close> that of the
  clients of one room. \<open>t p\<close> is the clock when \<open>p\<close> is closed.
\<close>

definition visited :: "string list \<Rightarrow> (client_ptr set \<Rightarrow> client_ptr list) \<Rightarrow> hub \<Rightarrow> client_ptr list" where
  "visited ro co h = concat (map (\<lambda>r. co (room_members h r)) ro)"

definition range_orders :: "string list \<Rightarrow> (client_ptr set \<Rightarrow> client_ptr list) \<Rightarrow> hub \<Rightarrow> bool" where
  "range_orders ro co h \<longleftrightarrow> set ro = dom (h_rooms h) \<and> distinct ro \<and>
     (\<forall>r S. h_rooms h r = Some S \<longrightarrow> set (co S) = S \<and> distinct (co S))"

definition inactiveThreshold :: int where
  "inactiveThreshold = 2 * Minute"

definition is_stale :: "int \<Rightarrow> hub \<Rightarrow> client_ptr \<Rightarrow> bool" where
  "is_stale now h p \<longleftrightarrow> \<not> IsClientActive h p \<or> now - GetLastSeen h p > inactiveThreshold"

definition close_each :: "(client_ptr \<Rightarrow> int) \<Rightarrow> client_ptr list \<Rightarrow> hub \<Rightarrow> hub outcome" where
  "close_each t ps h = fold_outcome (\<lambda>p. Close (t p) p) ps h"

definition performCleanup ::
  "int \<Rightarrow> (client_ptr \<Rightarrow> int) \<Rightarrow> string list \<Rightarrow> (client_ptr set \<Rightarrow> client_ptr list) \<Rightarrow> hub
   \<Rightarrow> hub outcome" where
  "performCleanup now t ro co h =
     (let toRemove = filter (is_stale now h) (visited ro co h) in close_each t toRemove h)"

definition HubClose ::
  "(client_ptr \<Rightarrow> int) \<Rightarrow> string list \<Rightarrow> (client_ptr set \<Rightarrow> client_ptr list) \<Rightarrow> hub \<Rightarrow> hub outcome" where
  "HubClose t ro co h =
     (let h1 = h\<lparr>h_ctx_done := True\<rparr>;
          allClients = visited ro co h1
      in close_each t allClients h1)"

lemma close_each_frame:
  assumes "close_each t ps h = Return h'"
  shows "c_active (h_heap h' q) = (q \<notin> set ps \<and> c_active (h_heap h q))"
    and "user_of h' q = user_of h q"
    and "room_members h' r \<subseteq> room_members h r"
proof -
  have "c_active (h_heap h' q) = (q \<notin> set ps \<and> c_active (h_heap h q)) \<and>
      user_of h' q = user_of h q \<and> room_members h' r \<subseteq> room_members h r"
    using assms unfolding close_each_def
  proof (induction ps arbitrary: h)
    case Nil
    then show ?case by simp
  next
    case (Cons p ps)
    then obtain g where g: "Close (t p) p h = Return g"
      and "fold_outcome (\<lambda>p. Close (t p) p) ps g = Return h'"
      by (auto simp: outcome_simps)
    with Cons.IH [of g] show ?case
      by (auto simp: Close_frame [OF g] split: if_splits)
  qed
  then show "c_active (h_heap h' q) = (q \<notin> set ps \<and> c_active (h_heap h q))"
    and "user_of h' q = user_of h q" and "room_members h' r \<subseteq> room_members h r"
    by auto
qed

lemma set_visited:
  "range_orders ro co h \<Longrightarrow> p \<in> set (visited ro co h) \<longleftrightarrow> (\<exists>r. p \<in> room_members h r)"
  by (auto simp: visited_def range_orders_def set_at_def dom_def split: option.splits)

section \<open>The invariant\<close>

definition rooms_ok :: "hub \<Rightarrow> bool" where
  "rooms_ok h \<longleftrightarrow> finite (dom (h_rooms h)) \<and>
     (\<forall>r S. h_rooms h r = Some S \<longrightarrow> finite S \<and> S \<noteq> {})"

definition index_ok :: "hub \<Rightarrow> bool" where
  "index_ok h \<longleftrightarrow>
     (\<forall>r p. p \<in> room_members h r \<longrightarrow> p \<in> set (user_tracked h (user_of h p))) \<and>
     (\<forall>u p. p \<in> set (user_tracked h u) \<longrightarrow> user_of h p = u) \<and>
     (\<forall>u. h_user_clients h u \<noteq> Some [])"

definition active_ok :: "hub \<Rightarrow> bool" where
  "active_ok h \<longleftrightarrow> (\<forall>p. c_active (h_heap h p) \<longleftrightarrow> \<not> c_ctx_done (h_heap h p))"

definition client_chans_ok :: "client \<Rightarrow> bool" where
  "client_chans_ok c \<longleftrightarrow> chan_ok (c_send c) \<and> ch_cap (c_send c) = channelBuffer \<and>
     chan_ok (c_receive c) \<and> ch_cap (c_receive c) = channelBuffer"

definition chans_ok :: "hub \<Rightarrow> bool" where
  "chans_ok h \<longleftrightarrow> (\<forall>p. client_chans_ok (h_heap h p))"

definition hub_ok :: "hub \<Rightarrow> bool" where
  "hub_ok h \<longleftrightarrow> rooms_ok h \<and> index_ok h \<and> active_ok h \<and> chans_ok h"

definition registry_ok :: "hub \<Rightarrow> bool" where
  "registry_ok h \<longleftrightarrow> rooms_ok h \<and> index_ok h \<and> active_ok h"

lemma hub_ok_split: "hub_ok h \<longleftrightarrow> registry_ok h \<and> chans_ok h"
  by (auto simp: hub_ok_def registry_ok_def)

text \<open>The registry part does not look at the traffic.\<close>

lemma registry_ok_forget [simp]: "registry_ok (forget_traffic h) \<longleftrightarrow> registry_ok h"
  by (simp add: registry_ok_def rooms_ok_def index_ok_def active_ok_def)

lemma registry_ok_cong: "forget_traffic h' = forget_traffic h \<Longrightarrow> registry_ok h' = registry_ok h"
  by (metis registry_ok_forget)

subsection \<open>Registration keeps the registry part\<close>

lemma registry_ok_enrolled: "registry_ok h \<Longrightarrow> registry_ok (enrolled r p h)"
proof -
  assume ok: "registry_ok h"
  have fin: "finite (room_members h r)"
    using ok by (auto simp: registry_ok_def rooms_ok_def set_at_def split: option.splits)
  then have "rooms_ok (enrolled r p h)"
    using ok by (auto simp: registry_ok_def rooms_ok_def enrolled_def)
  moreover have "index_ok (enrolled r p h)"
    using ok unfolding registry_ok_def index_ok_def enrolled_def by (auto; metis)
  moreover have "active_ok (enrolled r p h)"
    using ok by (auto simp: registry_ok_def active_ok_def enrolled_def)
  ultimately show ?thesis by (simp add: registry_ok_def)
qed

lemma registry_ok_Register: "registry_ok h \<Longrightarrow> Register now r p h = Return h' \<Longrightarrow> registry_ok h'"
  unfolding Register_enrolled
  by (drule registry_ok_enrolled [of h r p]) (auto dest: forget_broadcastUserStatus registry_ok_cong)

lemma rooms_ok_remove: "rooms_ok h \<Longrightarrow> rooms_ok (remove_from_room r p h)"
proof -
  assume ok: "rooms_ok h"
  have "dom (h_rooms (remove_from_room r p h)) \<subseteq> dom (h_rooms h)"
    by (auto simp: remove_from_room_def Let_def dom_def split: option.splits if_splits)
  then have "finite (dom (h_rooms (remove_from_room r p h)))"
    using ok by (auto simp: rooms_ok_def intro: finite_subset)
  moreover have "h_rooms (remove_from_room r p h) s = Some S \<Longrightarrow> finite S \<and> S \<noteq> {}" for s S
    using ok
    by (auto simp: rooms_ok_def remove_from_room_def Let_def split: option.splits if_splits)
  ultimately show ?thesis by (simp add: rooms_ok_def)
qed

lemma registry_ok_withdrawn: "registry_ok h \<Longrightarrow> registry_ok (withdrawn r p h)"
proof -
  assume ok: "registry_ok h"
  have "rooms_ok (withdrawn r p h)"
    using ok rooms_ok_remove [of h r p]
    by (simp add: registry_ok_def withdrawn_def rooms_ok_def)
  moreover have "h_user_clients (withdrawn r p h) u \<noteq> Some []" for u
    using ok
    by (auto simp: registry_ok_def index_ok_def withdrawn_def untrack_user_def Let_def slice_at_def
        split: option.splits if_splits)
  ultimately show ?thesis
    using ok by (auto simp: registry_ok_def index_ok_def active_ok_def split: if_splits)
qed

lemma registry_ok_Unregister:
  "registry_ok h \<Longrightarrow> Unregister now r p h = Return h' \<Longrightarrow> registry_ok h'"
  by (auto dest: forget_Unregister registry_ok_cong registry_ok_withdrawn)

text \<open>Changing a client keeps the registry part if its owner and its two flags agree.\<close>

lemma registry_ok_upd_client:
  "registry_ok h \<Longrightarrow> c_user_id (f (h_heap h p)) = user_of h p \<Longrightarrow>
     (c_active (f (h_heap h p)) \<longleftrightarrow> \<not> c_ctx_done (f (h_heap h p))) \<Longrightarrow>
     registry_ok (upd_client p f h)"
  by (auto simp: registry_ok_def rooms_ok_def index_ok_def active_ok_def)

lemma registry_okD: "registry_ok h \<Longrightarrow> c_active (h_heap h p) \<longleftrightarrow> \<not> c_ctx_done (h_heap h p)"
  by (simp add: registry_ok_def active_ok_def)

lemma registry_ok_cleanup: "registry_ok h \<Longrightarrow> cleanup now p h = Return h' \<Longrightarrow> registry_ok h'"
  by (erule cleanup_cases)
    (auto intro!: registry_ok_upd_client dest: registry_ok_Unregister simp: registry_okD)

lemma registry_ok_Close: "registry_ok h \<Longrightarrow> Close now p h = Return h' \<Longrightarrow> registry_ok h'"
  using registry_ok_cleanup [OF registry_ok_upd_client
      [of h "\<lambda>c. c\<lparr>c_active := False, c_ctx_done := True\<rparr>" p]]
  by (auto simp: Close_def split: if_splits)

subsection \<open>Sending keeps the channels well formed\<close>

lemma chans_okD: "chans_ok h \<Longrightarrow> client_chans_ok (h_heap h p)"
  by (simp add: chans_ok_def)

lemma chans_ok_upd_client:
  "chans_ok h \<Longrightarrow> client_chans_ok (f (h_heap h p)) \<Longrightarrow> chans_ok (upd_client p f h)"
  by (simp add: chans_ok_def)

lemma chans_ok_cong: "(\<And>p. c_send (h_heap h' p) = c_send (h_heap h p) \<and>
    c_receive (h_heap h' p) = c_receive (h_heap h p)) \<Longrightarrow> chans_ok h' = chans_ok h"
  by (simp add: chans_ok_def client_chans_ok_def)

lemma client_chans_ok_send:
  "client_chans_ok c \<Longrightarrow> select_send_done pick d x (c_send c) = Return r \<Longrightarrow>
     client_chans_ok (c\<lparr>c_send := chan_after (c_send c) r\<rparr>)"
  by (auto simp: client_chans_ok_def chan_ok_select_send_done chan_cap_after_send_done)

lemma client_chans_ok_plain_send:
  "client_chans_ok c \<Longrightarrow> select_send x (c_send c) = Return r \<Longrightarrow>
     client_chans_ok (c\<lparr>c_send := chan_after (c_send c) r\<rparr>)"
  using client_chans_ok_send [of c undefined False x r] by simp

lemma chans_ok_send_to_all:
  assumes "chans_ok h" and "send_to_all sel T h = Return h'"
    and "\<And>p r. p \<in> T \<Longrightarrow> sel p (h_heap h p) = Return r \<Longrightarrow>
      client_chans_ok ((h_heap h p)\<lparr>c_send := chan_after (c_send (h_heap h p)) r\<rparr>)"
  shows "chans_ok h'"
  using assms by (auto simp: chans_ok_def send_to_all_def split: if_splits outcome.splits)

lemma chans_ok_broadcastUserStatus:
  assumes ok: "chans_ok h" and "broadcastUserStatus now r u b h = Return h'"
  shows "chans_ok h'"
  using assms(2) unfolding broadcastUserStatus_def broadcaseToRoomExceptUser_def Let_def
  by (rule chans_ok_send_to_all [OF ok]) (rule client_chans_ok_plain_send [OF chans_okD [OF ok]])

lemma chans_ok_broadcastToRoomInternal:
  assumes "chans_ok h" and "broadcastToRoomInternal pick r m except h = Return h'"
  shows "chans_ok h'"
  using assms(2)
proof (cases rule: broadcastToRoomInternal_cases)
  case none
  then show ?thesis using assms(1) by simp
next
  case (some g slow)
  have "chans_ok g"
    using assms(1) some(1)
    by (rule chans_ok_send_to_all)
      (auto simp: broadcast_select_def intro: client_chans_ok_send chans_okD assms(1))
  then show ?thesis by (simp add: some(3) chans_ok_def)
qed

lemma chans_ok_send_in_order:
  "chans_ok h \<Longrightarrow> send_in_order pick data ps h = Return h' \<Longrightarrow> chans_ok h'"
proof (induction ps arbitrary: h)
  case Nil
  then show ?case by simp
next
  case (Cons p ps)
  show ?case
  proof (cases "IsClientActive h p")
    case False
    with Cons show ?thesis by simp
  next
    case True
    with Cons.prems(2) obtain r where
      r: "select_send_done (pick (length ps)) (c_ctx_done (h_heap h p)) data
            (c_send (h_heap h p)) = Return r"
      and rest: "send_in_order pick data ps
            (upd_client p (\<lambda>c. c\<lparr>c_send := chan_after (c_send c) r\<rparr>) h) = Return h'"
      by (auto simp: outcome_simps)
    have "chans_ok (upd_client p (\<lambda>c. c\<lparr>c_send := chan_after (c_send c) r\<rparr>) h)"
      using Cons.prems(1) client_chans_ok_send [OF chans_okD [OF Cons.prems(1)] r]
      by (rule chans_ok_upd_client)
    then show ?thesis using rest by (rule Cons.IH)
  qed
qed

lemma chans_ok_Register: "chans_ok h \<Longrightarrow> Register now r p h = Return h' \<Longrightarrow> chans_ok h'"
  unfolding Register_enrolled
  by (rule chans_ok_broadcastUserStatus [rotated], assumption)
    (subst chans_ok_cong [of _ h]; simp add: enrolled_def)

lemma chans_ok_Unregister: "chans_ok h \<Longrightarrow> Unregister now r p h = Return h' \<Longrightarrow> chans_ok h'"
proof -
  assume "chans_ok h" and u: "Unregister now r p h = Return h'"
  then have "chans_ok (withdrawn r p h)" by (simp add: chans_ok_def)
  with u show ?thesis
    by (auto simp: Unregister_withdrawn split: if_splits intro: chans_ok_broadcastUserStatus)
qed

lemma client_chans_ok_close [simp]: "client_chans_ok c \<Longrightarrow> client_chans_ok (close_client_channels c)"
  by (simp add: client_chans_ok_def)

lemma chans_ok_cleanup: "chans_ok h \<Longrightarrow> cleanup now p h = Return h' \<Longrightarrow> chans_ok h'"
  by (erule cleanup_cases)
    (auto intro!: chans_ok_upd_client client_chans_ok_close chans_okD intro: chans_ok_Unregister)

lemma chans_ok_Close: "chans_ok h \<Longrightarrow> Close now p h = Return h' \<Longrightarrow> chans_ok h'"
  using chans_ok_cleanup [OF chans_ok_upd_client
      [of h "\<lambda>c. c\<lparr>c_active := False, c_ctx_done := True\<rparr>" p]] chans_okD [of h p]
  by (auto simp: Close_def client_chans_ok_def split: if_splits)

lemma chans_ok_SendMessage: "chans_ok h \<Longrightarrow> SendMessage pick p m h = Return h' \<Longrightarrow> chans_ok h'"
proof -
  assume ok: "chans_ok h" and "SendMessage pick p m h = Return h'"
  then obtain r where r: "select_send_done pick (c_ctx_done (h_heap h p)) (marshal_outgoing m)
      (c_send (h_heap h p)) = Return r"
    and h': "h' = (case r of Sent ch \<Rightarrow> upd_client p (\<lambda>c. c\<lparr>c_send := ch\<rparr>) h
      | CtxDone \<Rightarrow> h | Buffer_Full \<Rightarrow> h\<lparr>h_closing := insert p (h_closing h)\<rparr>)"
    by (auto simp: SendMessage_def Let_def outcome_simps)
  have "client_chans_ok ((h_heap h p)\<lparr>c_send := chan_after (c_send (h_heap h p)) r\<rparr>)"
    using chans_okD [OF ok] r by (rule client_chans_ok_send)
  with ok h' show ?thesis
    by (cases r) (auto simp: chans_ok_def)
qed

end
