(* ===== verification/HubSystem.thy ===== *)
theory HubSystem
  imports HubInvariant SelectLoop
begin

text \<open>
  The hub as a running system: the step relation of the pumps, of the closes started by slow
  sends, of the cleanup routine and of the calls from outside, the invariant of every state it
  reaches, and the runs that end in a crash.
\<close>

section \<open>Steps\<close>

text \<open>
  A panic in a goroutine of its own ends the process. A panic in an HTTP handler is recovered
  by \<^verbatim>\<open>net/http\<close>, so the calls handlers make (\<open>connect\<close>, \<open>to_user\<close>,
  \<open>shutdown\<close>) are steps when they return.
\<close>

datatype sys = Running hub | Crashed

primrec settle :: "hub outcome \<Rightarrow> sys" where
  "settle (Return h) = Running h"
| "settle Panic = Crashed"

definition fresh :: "hub \<Rightarrow> client_ptr \<Rightarrow> bool" where
  "fresh h p \<longleftrightarrow> (\<forall>u. p \<notin> set (user_tracked h u))"

text \<open>
  \<open>connect\<close> is the end of \<^verbatim>\<open>HandleWebSocket\<close>: \<^verbatim>\<open>NewClient\<close> at a new
  address, then \<^verbatim>\<open>Register\<close>.
\<close>

definition connect_client ::
  "string \<Rightarrow> io \<Rightarrow> client_ptr \<Rightarrow> string \<Rightarrow> string \<Rightarrow> hub \<Rightarrow> hub outcome" where
  "connect_client cid e p userID roomID h =
     Register (io_t3 e) roomID p
       (upd_client p (\<lambda>_. NewClient cid (io_t1 e) (io_t2 e) userID roomID) h)"

inductive hub_step :: "sys \<Rightarrow> sys \<Rightarrow> bool" where
  connect: "fresh h p \<Longrightarrow> roomID \<noteq> '''' \<Longrightarrow> connect_client cid e p userID roomID h = Return h' \<Longrightarrow>
     hub_step (Running h) (Running h')"
| read: "c_read_pumps (h_heap h p) > 0 \<Longrightarrow> \<not> c_conn_closed (h_heap h p) \<Longrightarrow>
     hub_step (Running h) (settle (readPump_message e p m h))"
| pong: "c_read_pumps (h_heap h p) > 0 \<Longrightarrow> hub_step (Running h) (Running (updateLastSeen now p h))"
| read_exit: "c_read_pumps (h_heap h p) > 0 \<Longrightarrow>
     hub_step (Running h) (settle (readPump_exit now p h))"
| process: "c_message_pumps (h_heap h p) > 0 \<Longrightarrow> messagePump_receive e p h = Some out \<Longrightarrow>
     hub_step (Running h) (settle out)"
| process_exit: "c_message_pumps (h_heap h p) > 0 \<Longrightarrow> c_ctx_done (h_heap h p) \<Longrightarrow>
     hub_step (Running h) (Running (messagePump_exit p h))"
| flush: "c_write_pumps (h_heap h p) > 0 \<Longrightarrow> writePump_send fault now p h = Some (frame, out) \<Longrightarrow>
     hub_step (Running h) (settle out)"
| flush_exit: "c_write_pumps (h_heap h p) > 0 \<Longrightarrow>
     hub_step (Running h) (settle (writePump_exit now p h))"
| async_close: "p \<in> h_closing h \<Longrightarrow>
     hub_step (Running h) (settle (Close now p (h\<lparr>h_closing := h_closing h - {p}\<rparr>)))"
| sweep: "\<not> h_ctx_done h \<Longrightarrow> range_orders ro co h \<Longrightarrow>
     hub_step (Running h) (settle (performCleanup now t ro co h))"
| broadcast: "hub_step (Running h) (settle (BroadcastToRoom pick roomID m h))"
| to_user: "BroadcastToUser picks userID m h = Return h' \<Longrightarrow> hub_step (Running h) (Running h')"
| stats: "hub_step (Running h) (Running (snd (GetHubStats h)))"
| shutdown: "range_orders ro co h \<Longrightarrow> HubClose t ro co h = Return h' \<Longrightarrow>
     hub_step (Running h) (Running h')"

inductive_cases hub_step_Crashed [elim!]: "hub_step Crashed s"
inductive_cases hub_step_Running: "hub_step (Running h) s"

abbreviation hub_steps :: "sys \<Rightarrow> sys \<Rightarrow> bool" where
  "hub_steps \<equiv> hub_step\<^sup>*\<^sup>*"

definition empty_heap :: "client_ptr \<Rightarrow> client" where
  "empty_heap = (\<lambda>_. NewClient '''' 0 0 '''' '''')"

definition reachable :: "int \<Rightarrow> sys \<Rightarrow> bool" where
  "reachable now s \<longleftrightarrow> hub_steps (Running (NewHub empty_heap now)) s"

section \<open>One named room per client\<close>

definition one_room :: "hub \<Rightarrow> bool" where
  "one_room h \<longleftrightarrow> (\<forall>r p. r \<noteq> '''' \<longrightarrow> p \<in> room_members h r \<longrightarrow> c_room_id (h_heap h p) = r)"

definition hub_inv :: "hub \<Rightarrow> bool" where
  "hub_inv h \<longleftrightarrow> registry_ok h \<and> chans_ok h \<and> one_room h"

lemma one_room_forget [simp]: "one_room (forget_traffic h) \<longleftrightarrow> one_room h"
  by (simp add: one_room_def)

lemma one_room_cong: "forget_traffic h' = forget_traffic h \<Longrightarrow> one_room h' = one_room h"
  by (metis one_room_forget)

lemma one_room_shrink:
  "one_room h \<Longrightarrow> (\<And>r. room_members h' r \<subseteq> room_members h r) \<Longrightarrow>
     (\<And>p. c_room_id (h_heap h' p) = c_room_id (h_heap h p)) \<Longrightarrow> one_room h'"
  unfolding one_room_def by (metis subsetD)

lemma one_room_Unregister: "one_room h \<Longrightarrow> Unregister now r p h = Return h' \<Longrightarrow> one_room h'"
  by (erule one_room_shrink) (auto simp: Unregister_frame)

lemma one_room_cleanup: "one_room h \<Longrightarrow> cleanup now p h = Return h' \<Longrightarrow> one_room h'"
  by (erule one_room_shrink) (auto simp: cleanup_frame)

lemma one_room_Close: "one_room h \<Longrightarrow> Close now p h = Return h' \<Longrightarrow> one_room h'"
  by (erule one_room_shrink) (auto simp: Close_frame)

lemma one_room_upd_client:
  "one_room h \<Longrightarrow> c_room_id (f (h_heap h p)) = c_room_id (h_heap h p) \<Longrightarrow> one_room (upd_client p f h)"
  by (auto simp: one_room_def)

section \<open>The operations keep the invariant\<close>

named_theorems keeps

lemma hub_inv_Unregister [keeps]: "hub_inv h \<Longrightarrow> Unregister now r p h = Return h' \<Longrightarrow> hub_inv h'"
  unfolding hub_inv_def
  by (blast intro: registry_ok_Unregister chans_ok_Unregister one_room_Unregister)

lemma hub_inv_cleanup [keeps]: "hub_inv h \<Longrightarrow> cleanup now p h = Return h' \<Longrightarrow> hub_inv h'"
  unfolding hub_inv_def by (blast intro: registry_ok_cleanup chans_ok_cleanup one_room_cleanup)

lemma hub_inv_Close [keeps]: "hub_inv h \<Longrightarrow> Close now p h = Return h' \<Longrightarrow> hub_inv h'"
  unfolding hub_inv_def by (blast intro: registry_ok_Close chans_ok_Close one_room_Close)

lemma hub_inv_close_each [keeps]: "hub_inv h \<Longrightarrow> close_each t ps h = Return h' \<Longrightarrow> hub_inv h'"
  unfolding close_each_def by (erule fold_outcome_invariant) (auto intro: hub_inv_Close)

lemma hub_inv_SendMessage [keeps]: "hub_inv h \<Longrightarrow> SendMessage pick p m h = Return h' \<Longrightarrow> hub_inv h'"
  unfolding hub_inv_def
  by (metis chans_ok_SendMessage forget_SendMessage one_room_cong registry_ok_cong)

lemma hub_inv_broadcast [keeps]:
  "hub_inv h \<Longrightarrow> broadcastToRoomInternal pick r m except h = Return h' \<Longrightarrow> hub_inv h'"
  unfolding hub_inv_def
  by (metis chans_ok_broadcastToRoomInternal forget_broadcastToRoomInternal one_room_cong
      registry_ok_cong)

lemma chans_ok_BroadcastToUser:
  "chans_ok h \<Longrightarrow> BroadcastToUser picks u m h = Return h' \<Longrightarrow> chans_ok h'"
  by (auto simp: BroadcastToUser_def Let_def dest: chans_ok_send_in_order split: if_splits)

lemma hub_inv_BroadcastToUser [keeps]:
  "hub_inv h \<Longrightarrow> BroadcastToUser picks u m h = Return h' \<Longrightarrow> hub_inv h'"
  unfolding hub_inv_def
  by (metis chans_ok_BroadcastToUser forget_BroadcastToUser one_room_cong registry_ok_cong)

lemma hub_inv_upd_client:
  assumes "hub_inv h" and "c_user_id (f (h_heap h p)) = user_of h p"
    and "c_room_id (f (h_heap h p)) = c_room_id (h_heap h p)"
    and "c_active (f (h_heap h p)) \<longleftrightarrow> \<not> c_ctx_done (f (h_heap h p))"
    and "client_chans_ok (h_heap h p) \<Longrightarrow> client_chans_ok (f (h_heap h p))"
  shows "hub_inv (upd_client p f h)"
  using assms chans_okD [of h p]
  by (simp add: hub_inv_def registry_ok_upd_client chans_ok_upd_client one_room_upd_client)

lemma hub_inv_flags: "hub_inv h \<Longrightarrow> c_active (h_heap h p) \<longleftrightarrow> \<not> c_ctx_done (h_heap h p)"
  by (simp add: hub_inv_def registry_okD)

lemma hub_inv_updateLastSeen [keeps]: "hub_inv h \<Longrightarrow> hub_inv (updateLastSeen now p h)"
  unfolding updateLastSeen_def
  by (rule hub_inv_upd_client) (auto simp: hub_inv_flags client_chans_ok_def)

lemma hub_inv_closing [keeps]: "hub_inv h \<Longrightarrow> hub_inv (h\<lparr>h_closing := X\<rparr>)"
  by (simp add: hub_inv_def registry_ok_def rooms_ok_def index_ok_def active_ok_def chans_ok_def
      one_room_def)

lemma hub_inv_ctx [keeps]: "hub_inv h \<Longrightarrow> hub_inv (h\<lparr>h_ctx_done := X\<rparr>)"
  by (simp add: hub_inv_def registry_ok_def rooms_ok_def index_ok_def active_ok_def chans_ok_def
      one_room_def)

lemma hub_inv_updateStats [keeps]: "hub_inv h \<Longrightarrow> hub_inv (updateStats f h)"
  by (simp add: hub_inv_def registry_ok_def rooms_ok_def index_ok_def active_ok_def chans_ok_def
      one_room_def)

lemma hub_inv_Register:
  assumes "hub_inv h" and "r \<noteq> '''' \<longrightarrow> c_room_id (h_heap h p) = r"
    and "Register now r p h = Return h'"
  shows "hub_inv h'"
proof -
  have "one_room h'"
    using assms by (auto simp: hub_inv_def one_room_def Register_frame split: if_splits)
  then show ?thesis
    using assms by (auto simp: hub_inv_def dest: registry_ok_Register chans_ok_Register)
qed

section \<open>Incoming messages keep the invariant\<close>

text \<open>
  Joining: the client points to its new room, leaves the old one and enters the new one. Only
  after the three is it in one named room again.
\<close>

lemma hub_inv_joined:
  assumes inv: "hub_inv h"
    and h1: "h1 = upd_client p (\<lambda>c. c\<lparr>c_room_id := r\<rparr>) h"
    and left: "(if old \<noteq> '''' \<and> old \<noteq> r then Unregister t1 old p h1 else Return h1) = Return h2"
    and old: "old = c_room_id (h_heap h p)"
    and joined: "Register t2 r p h2 = Return h3"
  shows "hub_inv h3"
proof -
  have "registry_ok h1" and "chans_ok h1"
    using inv chans_okD [of h p] hub_inv_flags [OF inv] unfolding h1 hub_inv_def
    by (auto intro!: registry_ok_upd_client chans_ok_upd_client simp: client_chans_ok_def)
  then have "registry_ok h2" and "chans_ok h2"
    using left by (auto split: if_splits dest: registry_ok_Unregister chans_ok_Unregister)
  then have "registry_ok h3" and "chans_ok h3"
    using joined by (auto dest: registry_ok_Register chans_ok_Register)
  moreover have "c_room_id (h_heap h3 q) = (if q = p then r else c_room_id (h_heap h q))" for q
    using left joined by (auto simp: h1 Register_frame Unregister_frame split: if_splits)
  moreover have "q \<in> room_members h3 s \<longleftrightarrow> (q = p \<and> s = r) \<or>
      (q \<in> room_members h s \<and> \<not> (q = p \<and> s = old \<and> old \<noteq> '''' \<and> old \<noteq> r))" for q s
    using left joined by (auto simp: h1 Register_frame Unregister_frame split: if_splits)
  moreover have "c_room_id (h_heap h q) = s" if "q \<in> room_members h s" "s \<noteq> ''''" for q s
    using inv that by (simp add: hub_inv_def one_room_def)
  ultimately show ?thesis
    unfolding hub_inv_def one_room_def using old by (metis (no_types, lifting))
qed

lemma hub_inv_handleJoinRoom [keeps]:
  "hub_inv h \<Longrightarrow> handleJoinRoom e p d h = Return h' \<Longrightarrow> hub_inv h'"
  by (auto simp: handleJoinRoom_def Let_def outcome_simps simp del: bind_outcome.simps
      split: option.splits intro: hub_inv_SendMessage hub_inv_joined)

lemma hub_inv_handleLeaveRoom [keeps]:
  "hub_inv h \<Longrightarrow> handleLeaveRoom e p d h = Return h' \<Longrightarrow> hub_inv h'"
  by (auto simp: handleLeaveRoom_def outcome_simps intro: hub_inv_SendMessage hub_inv_Unregister)

lemma hub_inv_handleIncomingMessage [keeps]:
  "hub_inv h \<Longrightarrow> handleIncomingMessage e p m h = Return h' \<Longrightarrow> hub_inv h'"
  by (auto simp: handleIncomingMessage_def handleTypingStart_def handleTypingStop_def
      BroadcastToRoomExcept_def handlePing_def
      intro: hub_inv_handleJoinRoom hub_inv_handleLeaveRoom hub_inv_broadcast hub_inv_SendMessage
      split: option.splits if_splits)

section \<open>The pumps keep the invariant\<close>

lemma hub_inv_read [keeps]:
  assumes "hub_inv h" and "readPump_message e p m h = Return h'"
  shows "hub_inv h'"
proof -
  obtain x r where "select_send x (c_receive (h_heap h p)) = Return r"
    and h': "h' = updateLastSeen (io_t2 e) p
      (upd_client p (\<lambda>c. c\<lparr>c_receive := chan_after (c_receive c) r\<rparr>) h)"
    using assms(2) by (auto simp: readPump_message_def Let_def outcome_simps)
  then have "hub_inv (upd_client p (\<lambda>c. c\<lparr>c_receive := chan_after (c_receive c) r\<rparr>) h)"
    using assms(1)
    by (intro hub_inv_upd_client)
      (auto simp: hub_inv_flags client_chans_ok_def chan_ok_select_send chan_cap_after_send)
  then show ?thesis unfolding h' by (rule hub_inv_updateLastSeen)
qed

lemma chan_ok_tl: "chan_ok c \<Longrightarrow> ch_buf c = m # ms \<Longrightarrow> chan_ok (c\<lparr>ch_buf := drop k ms\<rparr>)"
  by (auto simp: chan_ok_def)

lemma hub_inv_process [keeps]:
  assumes inv: "hub_inv h" and "messagePump_receive e p h = Some (Return h')"
  shows "hub_inv h'"
proof (cases "ch_buf (c_receive (h_heap h p))")
  case Nil
  with assms show ?thesis
    by (auto simp: messagePump_receive_def Let_def split: if_splits intro: hub_inv_handleIncomingMessage)
next
  case (Cons m ms)
  have "hub_inv (upd_client p (\<lambda>c. c\<lparr>c_receive := (c_receive (h_heap h p))\<lparr>ch_buf := ms\<rparr>\<rparr>) h)"
    using inv chan_ok_tl [OF _ Cons, of 0]
    by (intro hub_inv_upd_client) (auto simp: hub_inv_flags client_chans_ok_def)
  with Cons assms(2) show ?thesis
    by (auto simp: messagePump_receive_def intro: hub_inv_handleIncomingMessage)
qed

lemma hub_inv_pump_exit [keeps]:
  "hub_inv h \<Longrightarrow> readPump_exit now p h = Return h' \<Longrightarrow> hub_inv h'"
  "hub_inv h \<Longrightarrow> writePump_exit now p h = Return h' \<Longrightarrow> hub_inv h'"
  "hub_inv h \<Longrightarrow> hub_inv (messagePump_exit p h)"
  unfolding readPump_exit_def writePump_exit_def messagePump_exit_def
  by (erule hub_inv_cleanup [rotated], rule hub_inv_upd_client;
      simp add: hub_inv_flags client_chans_ok_def)+
    (rule hub_inv_upd_client; simp add: hub_inv_flags client_chans_ok_def)

lemma hub_inv_flush [keeps]:
  assumes inv: "hub_inv h" and out: "writePump_send fault now p h = Some (frame, Return h')"
  shows "hub_inv h'"
proof (cases "ch_buf (c_send (h_heap h p))")
  case Nil
  with assms show ?thesis
    by (auto simp: writePump_send_def Let_def split: if_splits intro: hub_inv_pump_exit)
next
  case (Cons m ms)
  have "hub_inv (upd_client p (\<lambda>c. c\<lparr>c_send := (c_send (h_heap h p))\<lparr>ch_buf := drop k ms\<rparr>\<rparr>) h)"
    for k
    using inv chan_ok_tl [OF _ Cons, of k]
    by (intro hub_inv_upd_client) (auto simp: hub_inv_flags client_chans_ok_def)
  from this this [of "length ms"] Cons out show ?thesis
    by (auto simp: writePump_send_def Let_def intro: hub_inv_updateLastSeen hub_inv_pump_exit
        split: option.splits)
qed

section \<open>Every reachable hub satisfies the invariant\<close>

lemma client_chans_ok_NewClient [simp]: "client_chans_ok (NewClient cid s t u r)"
  by (simp add: client_chans_ok_def NewClient_def make_chan_def chan_ok_def)

lemma hub_inv_NewHub: "hub_inv (NewHub empty_heap now)"
  by (simp add: hub_inv_def registry_ok_def rooms_ok_def index_ok_def active_ok_def chans_ok_def
      one_room_def NewHub_def empty_heap_def)
    (simp add: NewClient_def)

lemma hub_inv_connect [keeps]:
  assumes inv: "hub_inv h" and new: "fresh h p"
    and "connect_client cid e p u r h = Return h'"
  shows "hub_inv h'"
proof -
  let ?g = "upd_client p (\<lambda>_. NewClient cid (io_t1 e) (io_t2 e) u r) h"
  have out: "p \<notin> room_members h s" for s
    using inv new by (auto simp: hub_inv_def registry_ok_def index_ok_def fresh_def)
  have "registry_ok ?g"
    using inv new out
    by (auto simp: hub_inv_def registry_ok_def rooms_ok_def index_ok_def active_ok_def fresh_def
        NewClient_def)
  moreover have "chans_ok ?g" using inv by (simp add: hub_inv_def chans_ok_def)
  moreover have "one_room ?g" using inv out by (auto simp: hub_inv_def one_room_def)
  ultimately have "hub_inv ?g" by (simp add: hub_inv_def)
  then show ?thesis
    by (rule hub_inv_Register) (use assms(3) in \<open>simp_all add: NewClient_def connect_client_def\<close>)
qed

lemma settle_Running_iff [simp]: "settle out = Running h \<longleftrightarrow> out = Return h"
  by (cases out) auto

lemma settle_Crashed_iff [simp]: "settle out = Crashed \<longleftrightarrow> out = Panic"
  by (cases out) auto

lemma Running_settle_iff [simp]: "Running h = settle out \<longleftrightarrow> out = Return h"
  by (cases out) auto

lemma hub_inv_sweep [keeps]: "hub_inv h \<Longrightarrow> performCleanup now t ro co h = Return h' \<Longrightarrow> hub_inv h'"
  unfolding performCleanup_def Let_def by (rule hub_inv_close_each)

text \<open>The cleanup goroutine: one run of \<open>performCleanup\<close> on every tick.\<close>

definition cleanupRoutine ::
  "(int \<times> (client_ptr \<Rightarrow> int) \<times> string list \<times> (client_ptr set \<Rightarrow> client_ptr list)) selected list
   \<Rightarrow> hub \<Rightarrow> (bool \<times> hub) outcome" where
  "cleanupRoutine = select_loop (\<lambda>(now, t, ro, co). performCleanup now t ro co)"

interpretation hub_cleaner: background "\<lambda>(now, t, ro, co). performCleanup now t ro co"
  "\<lambda>h h'. hub_inv h \<longrightarrow> hub_inv h'"
  by unfold_locales (auto dest: hub_inv_sweep)

lemma hub_inv_cleanupRoutine [keeps]:
  "hub_inv h \<Longrightarrow> cleanupRoutine es h = Return (stopped, h') \<Longrightarrow> hub_inv h'"
  unfolding cleanupRoutine_def by (drule hub_cleaner.loop_kept) simp

lemma hub_inv_HubClose [keeps]: "hub_inv h \<Longrightarrow> HubClose t ro co h = Return h' \<Longrightarrow> hub_inv h'"
  unfolding HubClose_def Let_def by (erule hub_inv_close_each [OF hub_inv_ctx])

lemma hub_inv_GetHubStats [keeps]: "hub_inv h \<Longrightarrow> hub_inv (snd (GetHubStats h))"
  by (simp add: GetHubStats_def Let_def hub_inv_updateStats)

lemma hub_inv_async_close:
  "hub_inv h \<Longrightarrow> Close now p (h\<lparr>h_closing := X\<rparr>) = Return h' \<Longrightarrow> hub_inv h'"
  by (erule hub_inv_Close [OF hub_inv_closing])

lemma hub_step_inv:
  assumes inv: "hub_inv h" and "hub_step (Running h) (Running h')"
  shows "hub_inv h'"
  using assms(2)
proof (cases "Running h" "Running h'" rule: hub_step.cases)
  case (connect p roomID cid e userID)
  then show ?thesis using hub_inv_connect [OF inv] by simp
next
  case (process p e out)
  then show ?thesis using hub_inv_process [OF inv] by simp
next
  case (flush p fault now frame out)
  then show ?thesis using hub_inv_flush [OF inv] by simp
qed (use hub_inv_read [OF inv] hub_inv_updateLastSeen [OF inv] hub_inv_pump_exit [OF inv]
    hub_inv_async_close [OF inv] hub_inv_sweep [OF inv] hub_inv_broadcast [OF inv]
    hub_inv_BroadcastToUser [OF inv] hub_inv_GetHubStats [OF inv] hub_inv_HubClose [OF inv]
    in \<open>simp_all add: BroadcastToRoom_def\<close>)

lemma reachable_hub_inv: "reachable now (Running h) \<Longrightarrow> hub_inv h"
proof -
  have "hub_steps s s' \<Longrightarrow> (\<forall>h. s = Running h \<longrightarrow> hub_inv h) \<Longrightarrow> \<forall>h. s' = Running h \<longrightarrow> hub_inv h"
    for s s'
  proof (induction rule: rtranclp_induct)
    case (step s t)
    then show ?case by (cases s) (auto intro: hub_step_inv)
  qed
  then show "reachable now (Running h) \<Longrightarrow> hub_inv h"
    unfolding reachable_def using hub_inv_NewHub by blast
qed

end
