(* ===== verification/HubProperties.thy ===== *)
theory HubProperties
  imports HubSystem
begin

text \<open>
  What the hub and its clients promise: delivery of broadcasts, registration, closing,
  cleanup, statistics, the invariant of reachable states, and the runs in which the code does
  not keep its promise. The witnesses run on \<open>example_hub\<close>, two users in one room.
\<close>

section \<open>An example hub\<close>

definition example_client :: "string \<Rightarrow> string \<Rightarrow> client" where
  "example_client u r =
     (NewClient u 0 0 u r)\<lparr>c_write_pumps := 1, c_read_pumps := 1, c_message_pumps := 1\<rparr>"

definition example_heap :: "client_ptr \<Rightarrow> client" where
  "example_heap p =
     (if p = 0 then example_client ''alice'' ''r1''
      else if p = 1 then example_client ''bob'' ''r1'' else NewClient '''' 0 0 '''' '''')"

definition example_hub :: hub where
  "example_hub = (NewHub example_heap 0)\<lparr>h_rooms := [''r1'' \<mapsto> {0, 1}],
     h_user_clients := [''alice'' \<mapsto> [0], ''bob'' \<mapsto> [1]]\<rparr>"

definition example_message :: outgoing_message where
  "example_message = \<lparr>om_type = ''room_update'', om_room_id = '''', om_sender_id = '''',
     om_message_id = '''', om_data = P_Nil, om_timestamp = 7\<rparr>"

lemma example_hub_sel [simp]:
  "h_rooms example_hub = [''r1'' \<mapsto> {0, 1}]"
  "h_user_clients example_hub = [''alice'' \<mapsto> [0], ''bob'' \<mapsto> [1]]"
  "h_heap example_hub = example_heap"
  "h_closing example_hub = {}"
  "h_ctx_done example_hub = False"
  by (simp_all add: example_hub_def NewHub_def)

lemma example_client_sel [simp]:
  "c_user_id (example_client u r) = u"
  "c_room_id (example_client u r) = r"
  "c_active (example_client u r)"
  "\<not> c_ctx_done (example_client u r)"
  "c_send (example_client u r) = make_chan channelBuffer"
  "c_receive (example_client u r) = make_chan channelBuffer"
  "c_last_seen (example_client u r) = 0"
  "client_chans_ok (example_client u r)"
  by (simp_all add: example_client_def NewClient_def client_chans_ok_def)
    (simp_all add: make_chan_def)

lemma example_heap_sel [simp]:
  "example_heap 0 = example_client ''alice'' ''r1''"
  "example_heap (Suc 0) = example_client ''bob'' ''r1''"
  by (simp_all add: example_heap_def)

lemma hub_inv_example: "hub_inv example_hub"
  by (auto simp: hub_inv_def registry_ok_def rooms_ok_def index_ok_def active_ok_def chans_ok_def
      one_room_def set_at_def slice_at_def example_heap_def NewClient_def client_chans_ok_def
      split: if_splits)
    (simp_all add: make_chan_def)

section \<open>Broadcasts\<close>

lemma send_to_all_heap:
  "send_to_all sel T h = Return h' \<Longrightarrow> h_heap h' p =
     (if p \<in> T
      then (case sel p (h_heap h p) of
              Return r \<Rightarrow> (h_heap h p)\<lparr>c_send := chan_after (c_send (h_heap h p)) r\<rparr>
            | Panic \<Rightarrow> h_heap h p)
      else h_heap h p)"
  by (auto simp: send_to_all_def split: if_splits)

text \<open>An active client's context is alive, so a broadcast to it is a plain \<open>select\<close>.\<close>

lemma broadcast_select_active:
  "hub_inv h \<Longrightarrow> IsClientActive h p \<Longrightarrow>
     broadcast_select pick x p (h_heap h p) = select_send x (c_send (h_heap h p))"
  by (simp add: broadcast_select_def IsClientActive_def hub_inv_flags)

lemma select_send_open_cases:
  "\<not> ch_closed c \<Longrightarrow>
     select_send x c = Return (if chan_full c then Buffer_Full else Sent (chan_push x c))"
  by (simp add: select_send_def)

lemma broadcast_Panic_iff:
  assumes inv: "hub_inv h"
  shows "broadcastToRoomInternal pick r m except h = Panic \<longleftrightarrow>
    (\<exists>p \<in> broadcast_targets r except h. ch_closed (c_send (h_heap h p)))"
proof -
  have "broadcast_select pick x p (h_heap h p) = Panic \<longleftrightarrow> ch_closed (c_send (h_heap h p))"
    if "p \<in> broadcast_targets r except h" for p x
    using that
    by (simp add: broadcast_targets_def broadcast_select_active [OF inv] select_send_Panic_iff)
  then show ?thesis
    by (auto simp: broadcastToRoomInternal_def Let_def outcome_simps send_to_all_def)
qed

lemma broadcast_effect:
  assumes inv: "hub_inv h" and ret: "broadcastToRoomInternal pick r m except h = Return h'"
  defines "T \<equiv> broadcast_targets r except h"
  shows "h_heap h' p =
      (if p \<in> T \<and> \<not> chan_full (c_send (h_heap h p))
       then (h_heap h p)\<lparr>c_send := chan_push (marshal_outgoing (m\<lparr>om_room_id := r\<rparr>))
              (c_send (h_heap h p))\<rparr>
       else h_heap h p)"
    and "h_closing h' = h_closing h \<union> {p \<in> T. chan_full (c_send (h_heap h p))}"
    and "hs_message_sent (h_stats h') = hs_message_sent (h_stats h) + word_of_nat (card T)"
proof -
  let ?x = "marshal_outgoing (m\<lparr>om_room_id := r\<rparr>)"
  have opened: "\<not> ch_closed (c_send (h_heap h p))" if "p \<in> T" for p
    using that ret broadcast_Panic_iff [OF inv, of pick r m except] by (auto simp: T_def)
  have sel: "broadcast_select pick ?x p (h_heap h p) =
      Return (if chan_full (c_send (h_heap h p)) then Buffer_Full
              else Sent (chan_push ?x (c_send (h_heap h p))))" if "p \<in> T" for p
    using that opened [OF that]
    by (simp add: T_def broadcast_targets_def broadcast_select_active [OF inv] select_send_def)
  have "h_heap h' p =
      (if p \<in> T \<and> \<not> chan_full (c_send (h_heap h p))
       then (h_heap h p)\<lparr>c_send := chan_push ?x (c_send (h_heap h p))\<rparr> else h_heap h p) \<and>
    h_closing h' = h_closing h \<union> {p \<in> T. chan_full (c_send (h_heap h p))} \<and>
    hs_message_sent (h_stats h') = hs_message_sent (h_stats h) + word_of_nat (card T)"
    using ret
  proof (cases rule: broadcastToRoomInternal_cases)
    case none
    then show ?thesis by (simp add: T_def)
  next
    case (some g slow)
    have "slow = {p \<in> T. chan_full (c_send (h_heap h p))}"
      using sel unfolding some(2) T_def by (auto split: if_splits)
    moreover have "h_stats g = h_stats h"
      using some(1) by (auto simp: send_to_all_def split: if_splits)
    ultimately show ?thesis
      using some(3) send_to_all_heap [OF some(1), of p] closing_send_to_all [OF some(1)] sel [of p]
      by (simp add: T_def)
  qed
  then show "h_heap h' p =
      (if p \<in> T \<and> \<not> chan_full (c_send (h_heap h p))
       then (h_heap h p)\<lparr>c_send := chan_push ?x (c_send (h_heap h p))\<rparr> else h_heap h p)"
    and "h_closing h' = h_closing h \<union> {p \<in> T. chan_full (c_send (h_heap h p))}"
    and "hs_message_sent (h_stats h') = hs_message_sent (h_stats h) + word_of_nat (card T)"
    by blast+
qed

text \<open>
  C2. A room broadcast reaches exactly the active clients of the room: each with space in its
  send buffer gets the marshalled message, stamped with the room, at the end of that buffer;
  each with a full buffer keeps its buffer and is scheduled to be closed; nobody else is
  touched. The registry is unchanged, and the counter of sent messages grows by the number of
  active clients, dropped messages included.
\<close>

theorem broadcast_delivers:
  assumes "hub_inv h" and "BroadcastToRoom pick r m h = Return h'"
  shows "(\<forall>p. h_heap h' p =
      (if p \<in> room_members h r \<and> IsClientActive h p \<and> \<not> chan_full (c_send (h_heap h p))
       then (h_heap h p)\<lparr>c_send := chan_push (marshal_outgoing (m\<lparr>om_room_id := r\<rparr>))
              (c_send (h_heap h p))\<rparr>
       else h_heap h p)) \<and>
    h_closing h' = h_closing h \<union>
      {p \<in> room_members h r. IsClientActive h p \<and> chan_full (c_send (h_heap h p))} \<and>
    h_rooms h' = h_rooms h \<and> h_user_clients h' = h_user_clients h \<and>
    hs_message_sent (h_stats h') = hs_message_sent (h_stats h) +
      word_of_nat (card {p \<in> room_members h r. IsClientActive h p})"
  using broadcast_effect [OF assms(1) assms(2) [unfolded BroadcastToRoom_def]]
    same_trafficD(1,2) [OF forget_broadcastToRoomInternal
      [OF assms(2) [unfolded BroadcastToRoom_def]]]
  by (auto simp: broadcast_targets_def)

lemma broadcast_example:
  "\<exists>h'. BroadcastToRoom pick ''r1'' example_message example_hub = Return h'"
  using broadcast_Panic_iff [OF hub_inv_example, of pick "''r1''" example_message None]
  by (cases "BroadcastToRoom pick ''r1'' example_message example_hub")
    (auto simp: BroadcastToRoom_def broadcast_targets_def make_chan_def)

lemma broadcast_delivers_witness:
  "\<exists>h'. BroadcastToRoom (\<lambda>_. False) ''r1'' example_message example_hub = Return h' \<and>
     ch_buf (c_send (h_heap h' 0)) =
       [marshal_outgoing (example_message\<lparr>om_room_id := ''r1''\<rparr>)]"
proof -
  obtain h' where "BroadcastToRoom (\<lambda>_. False) ''r1'' example_message example_hub = Return h'"
    using broadcast_example by blast
  with broadcast_delivers [OF hub_inv_example this] show ?thesis
    by (auto simp: IsClientActive_def chan_push_def chan_full_def make_chan_def channelBuffer_def)
qed

text \<open>
  C38. A room broadcast panics (a send on a closed channel) exactly when an active client of
  the room has had its send channel closed, as the exit of one of its pumps does while it
  leaves the client marked active.
\<close>

theorem broadcast_panics_iff:
  assumes "hub_inv h"
  shows "BroadcastToRoom pick r m h = Panic \<longleftrightarrow>
    (\<exists>p \<in> room_members h r. IsClientActive h p \<and> ch_closed (c_send (h_heap h p)))"
  using broadcast_Panic_iff [OF assms, of pick r m None]
  by (auto simp: BroadcastToRoom_def broadcast_targets_def)

lemma broadcast_panics_iff_witness:
  "BroadcastToRoom (\<lambda>_. True) ''r1'' example_message example_hub \<noteq> Panic"
  using broadcast_panics_iff [OF hub_inv_example, of "\<lambda>_. True" "''r1''" example_message]
  by (simp add: make_chan_def)

text \<open>
  From the broadcast to the socket: a member whose buffer has space and whose connection
  works gets, in the next frame its write pump writes, all that waited in its buffer, in order,
  followed by the broadcast message, and the buffer is empty after it.
\<close>

theorem broadcast_then_flush:
  assumes "hub_inv h" and "BroadcastToRoom pick r m h = Return h'"
    and "p \<in> room_members h r" and "IsClientActive h p" and "\<not> chan_full (c_send (h_heap h p))"
  shows "\<exists>h''. writePump_send None now p h' =
      Some (ch_buf (c_send (h_heap h p)) @ [marshal_outgoing (m\<lparr>om_room_id := r\<rparr>)], Return h'') \<and>
    ch_buf (c_send (h_heap h'' p)) = [] \<and> GetLastSeen h'' p = now"
proof -
  let ?x = "marshal_outgoing (m\<lparr>om_room_id := r\<rparr>)"
  have buf: "ch_buf (c_send (h_heap h' p)) = ch_buf (c_send (h_heap h p)) @ [?x]"
    using broadcast_effect(1) [OF assms(1) assms(2) [unfolded BroadcastToRoom_def], of p] assms(3-5)
    by (simp add: broadcast_targets_def chan_push_def)
  then obtain y ys where ys: "ch_buf (c_send (h_heap h p)) @ [?x] = y # ys"
    by (cases "ch_buf (c_send (h_heap h p))") auto
  show ?thesis
    using buf ys
    by (simp add: writePump_send_def Let_def GetLastSeen_def updateLastSeen_def)
qed

lemma broadcast_then_flush_witness:
  "\<exists>h' h''. BroadcastToRoom (\<lambda>_. True) ''r1'' example_message example_hub = Return h' \<and>
     writePump_send None 9 1 h' =
       Some ([marshal_outgoing (example_message\<lparr>om_room_id := ''r1''\<rparr>)], Return h'')"
proof -
  obtain h' where "BroadcastToRoom (\<lambda>_. True) ''r1'' example_message example_hub = Return h'"
    using broadcast_example by blast
  with broadcast_then_flush [OF hub_inv_example this, of 1 9] show ?thesis
    by (auto simp: IsClientActive_def chan_full_def make_chan_def channelBuffer_def)
qed

section \<open>Messages to one user\<close>

lemma count_list_Cons_if: "count_list (q # ps) p = (if p = q then Suc (count_list ps p) else count_list ps p)"
  by simp

lemma chan_push_sel [simp]:
  "ch_buf (chan_push x c) = ch_buf c @ [x]"
  "ch_cap (chan_push x c) = ch_cap c"
  "ch_closed (chan_push x c) = ch_closed c"
  by (simp_all add: chan_push_def)

text \<open>
  One copy per entry of the slice, when every active entry has an open channel with room for
  its copies.
\<close>

lemma send_in_order_copies:
  assumes "\<And>p. p \<in> set ps \<Longrightarrow> c_active (h_heap h p) \<Longrightarrow>
      \<not> c_ctx_done (h_heap h p) \<and> \<not> ch_closed (c_send (h_heap h p)) \<and>
      length (ch_buf (c_send (h_heap h p))) + count_list ps p \<le> ch_cap (c_send (h_heap h p))"
  shows "\<exists>h'. send_in_order pick x ps h = Return h' \<and>
    (\<forall>p. ch_buf (c_send (h_heap h' p)) = ch_buf (c_send (h_heap h p)) @
      (if c_active (h_heap h p) then replicate (count_list ps p) x else []))"
  using assms
proof (induction ps arbitrary: h)
  case Nil
  then show ?case by simp
next
  case (Cons q ps)
  show ?case
  proof (cases "c_active (h_heap h q)")
    case False
    then have "\<exists>h'. send_in_order pick x ps h = Return h' \<and>
      (\<forall>p. ch_buf (c_send (h_heap h' p)) = ch_buf (c_send (h_heap h p)) @
        (if c_active (h_heap h p) then replicate (count_list ps p) x else []))"
      using Cons.prems False by (intro Cons.IH) (fastforce split: if_splits)
    with False show ?thesis by (auto simp: IsClientActive_def)
  next
    case True
    define g where "g = upd_client q (\<lambda>c. c\<lparr>c_send := chan_push x (c_send c)\<rparr>) h"
    have "\<exists>h'. send_in_order pick x ps g = Return h' \<and>
      (\<forall>p. ch_buf (c_send (h_heap h' p)) = ch_buf (c_send (h_heap g p)) @
        (if c_active (h_heap g p) then replicate (count_list ps p) x else []))"
      using Cons.prems by (intro Cons.IH) (fastforce simp: g_def split: if_splits)
    then obtain h' where h': "send_in_order pick x ps g = Return h'"
      and buf: "\<And>p. ch_buf (c_send (h_heap h' p)) = ch_buf (c_send (h_heap g p)) @
        (if c_active (h_heap g p) then replicate (count_list ps p) x else [])" by blast
    have q: "\<not> c_ctx_done (h_heap h q)" "\<not> ch_closed (c_send (h_heap h q))"
      "\<not> chan_full (c_send (h_heap h q))"
      using Cons.prems [of q] True by (auto simp: chan_full_def)
    then have "send_in_order pick x (q # ps) h = Return h'"
      using True h' by (simp add: IsClientActive_def select_send_def g_def upd_client_def)
    then show ?thesis using True buf by (auto simp: g_def replicate_append_same)
  qed
qed

lemma BroadcastToUser_in_order:
  "BroadcastToUser pick u m h = send_in_order pick (marshal_outgoing m) (user_tracked h u) h"
  by (simp add: BroadcastToUser_def Let_def)

text \<open>
  A message to a user is appended to each active connection of the user once for every
  time the connection occurs in the user's slice: copies and connections are the same thing
  only while no connection occurs twice.
\<close>

theorem broadcast_to_user_copies:
  assumes "hub_inv h"
    and "\<And>p. p \<in> set (user_tracked h u) \<Longrightarrow> IsClientActive h p \<Longrightarrow>
      \<not> ch_closed (c_send (h_heap h p)) \<and>
      length (ch_buf (c_send (h_heap h p))) + count_list (user_tracked h u) p \<le> channelBuffer"
  shows "\<exists>h'. BroadcastToUser pick u m h = Return h' \<and>
    (\<forall>p. ch_buf (c_send (h_heap h' p)) = ch_buf (c_send (h_heap h p)) @
      (if IsClientActive h p then replicate (count_list (user_tracked h u) p) (marshal_outgoing m)
       else []))"
proof -
  have "\<exists>h'. send_in_order pick (marshal_outgoing m) (user_tracked h u) h = Return h' \<and>
    (\<forall>p. ch_buf (c_send (h_heap h' p)) = ch_buf (c_send (h_heap h p)) @
      (if c_active (h_heap h p)
       then replicate (count_list (user_tracked h u) p) (marshal_outgoing m) else []))"
    using assms chans_okD [of h] hub_inv_flags [OF assms(1)]
    by (intro send_in_order_copies)
      (simp add: IsClientActive_def hub_inv_def client_chans_ok_def)
  then show ?thesis by (simp add: BroadcastToUser_in_order IsClientActive_def)
qed

lemma broadcast_to_user_copies_witness:
  "\<exists>h'. BroadcastToUser (\<lambda>_. True) ''bob'' example_message example_hub = Return h' \<and>
     ch_buf (c_send (h_heap h' 1)) = [marshal_outgoing example_message]"
  using broadcast_to_user_copies [OF hub_inv_example, of "''bob''" "\<lambda>_. True" example_message]
  by (auto simp: slice_at_def make_chan_def channelBuffer_def IsClientActive_def)

lemma after_first_count:
  "after_first p xs = Some ys \<Longrightarrow> count_list xs q = count_list (takeWhile (\<lambda>x. x \<noteq> p) xs) q +
     (if q = p then 1 else 0) + count_list ys q"
  by (induction xs) (auto split: if_splits)

lemma Register_count:
  "Register now r p h = Return h' \<Longrightarrow>
     count_list (user_tracked h' u) p = count_list (user_tracked h u) p + (if u = user_of h p then 1 else 0)"
  by (simp add: Register_frame count_list_append)

lemma Unregister_count:
  "Unregister now r p h = Return h' \<Longrightarrow>
     count_list (user_tracked h u) q \<le> count_list (user_tracked h' u) q"
  by (simp add: Unregister_frame withdrawn_def tracked_untrack_user count_list_append)

section \<open>While every send channel is open\<close>

definition all_open :: "hub \<Rightarrow> bool" where
  "all_open h \<longleftrightarrow> (\<forall>p. \<not> ch_closed (c_send (h_heap h p)))"

definition returns_open :: "hub outcome \<Rightarrow> bool" where
  "returns_open out \<longleftrightarrow> (\<exists>h'. out = Return h' \<and> all_open h')"

lemma returns_open_Return [simp]: "returns_open (Return h) \<longleftrightarrow> all_open h"
  by (simp add: returns_open_def)

lemma returns_open_bind:
  "returns_open m \<Longrightarrow> (\<And>h. all_open h \<Longrightarrow> returns_open (f h)) \<Longrightarrow> returns_open (bind_outcome m f)"
  by (auto simp: returns_open_def)

lemma select_send_open_returns:
  "\<not> ch_closed c \<Longrightarrow> \<exists>r. select_send x c = Return r \<and> \<not> ch_closed (chan_after c r)"
  by (simp add: select_send_def)

lemma select_send_done_open_returns:
  "\<not> ch_closed c \<Longrightarrow> \<exists>r. select_send_done pick d x c = Return r \<and> \<not> ch_closed (chan_after c r)"
  by (simp add: select_send_done_def select_send_open_returns Let_def)

lemma open_send_to_all:
  assumes "all_open h"
    and "\<And>p c. \<not> ch_closed (c_send c) \<Longrightarrow> \<exists>r. sel p c = Return r \<and> \<not> ch_closed (chan_after (c_send c) r)"
  shows "returns_open (send_to_all sel T h)"
proof -
  have sel: "\<exists>r. sel p (h_heap h p) = Return r \<and> \<not> ch_closed (chan_after (c_send (h_heap h p)) r)" for p
    using assms by (simp add: all_open_def)
  then have "\<nexists>p. p \<in> T \<and> sel p (h_heap h p) = Panic" by (metis outcome.distinct(1))
  then obtain h' where h': "send_to_all sel T h = Return h'" by (auto simp: send_to_all_def)
  have "\<not> ch_closed (c_send (h_heap h' p))" for p
    using sel [of p] assms(1) by (auto simp: send_to_all_heap [OF h'] all_open_def)
  with h' show ?thesis by (simp add: returns_open_def all_open_def)
qed

lemma open_broadcastUserStatus: "all_open h \<Longrightarrow> returns_open (broadcastUserStatus now r u b h)"
  unfolding broadcastUserStatus_def broadcaseToRoomExceptUser_def Let_def
  by (erule open_send_to_all) (rule select_send_open_returns)

lemma open_broadcast: "all_open h \<Longrightarrow> returns_open (broadcastToRoomInternal pick r m except h)"
  unfolding broadcastToRoomInternal_def Let_def broadcast_select_def
  by (auto intro!: returns_open_bind open_send_to_all select_send_done_open_returns)
    (simp add: all_open_def)

lemma open_SendMessage: "all_open h \<Longrightarrow> returns_open (SendMessage pick p m h)"
proof -
  assume ok: "all_open h"
  obtain r where "select_send_done pick (c_ctx_done (h_heap h p)) (marshal_outgoing m)
      (c_send (h_heap h p)) = Return r"
    and "\<not> ch_closed (chan_after (c_send (h_heap h p)) r)"
    using ok select_send_done_open_returns by (metis all_open_def)
  with ok show ?thesis
    by (cases r) (simp_all add: SendMessage_def Let_def all_open_def)
qed

lemma open_Register: "all_open h \<Longrightarrow> returns_open (Register now r p h)"
  unfolding Register_enrolled
  by (rule open_broadcastUserStatus) (simp add: all_open_def enrolled_def)

lemma open_Unregister: "all_open h \<Longrightarrow> returns_open (Unregister now r p h)"
  by (auto simp: Unregister_withdrawn all_open_def intro!: open_broadcastUserStatus)

lemma open_handleJoinRoom: "all_open h \<Longrightarrow> returns_open (handleJoinRoom e p data h)"
  unfolding handleJoinRoom_def Let_def
  by (auto split: option.split
      intro!: returns_open_bind open_Unregister open_Register open_SendMessage)
    (simp_all add: all_open_def)

text \<open>
  C39. Safety of the message handlers: while no send channel of the hub is closed, handling any
  message a client can send (known type or not, any payload) returns, and no send channel is
  closed after it.
\<close>

theorem handlers_return_while_open:
  assumes "all_open h"
  shows "\<exists>h'. handleIncomingMessage e p (Some m) h = Return h' \<and> all_open h'"
  unfolding returns_open_def [symmetric] handleIncomingMessage_def
  using assms
  by (auto simp: handleLeaveRoom_def handleTypingStart_def handleTypingStop_def handlePing_def
      BroadcastToRoomExcept_def
      intro!: open_handleJoinRoom returns_open_bind open_Unregister open_SendMessage open_broadcast)

lemma all_open_example: "all_open example_hub"
  by (auto simp: all_open_def example_heap_def make_chan_def NewClient_def)

definition example_join :: json where
  "example_join = JObj [(''room_id'', JStr ''r2'')]"

lemma handlers_return_while_open_witness:
  "\<exists>h'. handleIncomingMessage \<lparr>io_t1 = 1, io_t2 = 2, io_t3 = 3, io_self = True, io_room = (\<lambda>_. True)\<rparr> 0
     (Some \<lparr>im_type = ''join_room'', im_data = Some example_join, im_timestamp = 0, im_client_id = ''''\<rparr>)
     example_hub = Return h'"
  using handlers_return_while_open [OF all_open_example] by blast

text \<open>
  Every \<^verbatim>\<open>join_room\<close> a connection sends adds an occurrence of it to its
  user's slice and none is ever taken out, so from then on it gets one more copy of each
  message sent to the user.
\<close>

theorem join_room_duplicates:
  assumes "handleJoinRoom e p data h = Return h'" and "join_room_data data = Some r"
  shows "count_list (user_tracked h' (user_of h p)) p >
    count_list (user_tracked h (user_of h p)) p"
proof -
  define old where "old = c_room_id (h_heap h p)"
  define h1 where "h1 = upd_client p (\<lambda>c. c\<lparr>c_room_id := r\<rparr>) h"
  obtain h2 h3 where
    left: "(if old \<noteq> '''' \<and> old \<noteq> r then Unregister (io_t1 e) old p h1 else Return h1) = Return h2"
    and joined: "Register (io_t2 e) r p h2 = Return h3"
    and sent: "SendMessage (io_self e) p
      (room_notice ''room_joined'' (io_t3 e) r (user_of h3 p)) h3 = Return h'"
    using assms(1)
    unfolding handleJoinRoom_def Let_def assms(2) option.case bind_outcome_Return_iff
      old_def [symmetric] h1_def [symmetric]
    by blast
  have "user_of h2 p = user_of h p"
    using left by (auto simp: h1_def Unregister_frame split: if_splits)
  moreover have "count_list (user_tracked h (user_of h p)) p
      \<le> count_list (user_tracked h2 (user_of h p)) p"
    using left Unregister_count [of _ _ _ h1] by (auto simp: h1_def split: if_splits)
  moreover have "user_tracked h' = user_tracked h3"
    using same_trafficD(2) [OF forget_SendMessage [OF sent]] by (simp add: slice_at_def fun_eq_iff)
  ultimately show ?thesis using Register_count [OF joined, of "user_of h p"] by simp
qed

lemma join_room_duplicates_witness:
  "\<exists>h'. handleJoinRoom \<lparr>io_t1 = 1, io_t2 = 2, io_t3 = 3, io_self = True, io_room = (\<lambda>_. True)\<rparr> 0
     (Some example_join) example_hub = Return h' \<and> 1 < count_list (user_tracked h' ''alice'') 0"
proof -
  let ?e = "\<lparr>io_t1 = 1, io_t2 = 2, io_t3 = 3, io_self = True, io_room = (\<lambda>_. True)\<rparr>"
  obtain h' where h': "handleJoinRoom ?e 0 (Some example_join) example_hub = Return h'"
    using open_handleJoinRoom [OF all_open_example] unfolding returns_open_def by blast
  have "join_room_data (Some example_join) = Some ''r2''" by code_simp
  from join_room_duplicates [OF h' this] h' show ?thesis by (simp add: slice_at_def)
qed

section \<open>Registration\<close>

text \<open>
  C40. Leaving a room takes the client out of that room and of no other, and removes the room
  itself when it was the last one in it. It does not take the client out of its user's slice:
  the tail behind the client is appended to the slice instead, which never gets shorter.
\<close>

theorem unregister_effect:
  assumes "Unregister now r p h = Return h'"
  shows "room_members h' s = (if s = r then room_members h r - {p} else room_members h s) \<and>
    (room_members h r \<subseteq> {p} \<longrightarrow> h_rooms h' r = None) \<and>
    user_tracked h' (user_of h p) = user_tracked h (user_of h p) @
      (case after_first p (user_tracked h (user_of h p)) of None \<Rightarrow> [] | Some tail \<Rightarrow> tail) \<and>
    (u \<noteq> user_of h p \<longrightarrow> user_tracked h' u = user_tracked h u)"
proof -
  have "h_rooms (remove_from_room r p h) r = None" if "room_members h r \<subseteq> {p}"
    using that by (auto simp: remove_from_room_def Let_def set_at_def split: option.splits)
  then show ?thesis
    by (auto simp: Unregister_frame [OF assms] withdrawn_def tracked_untrack_user)
qed

lemma unregister_effect_witness:
  "\<exists>h'. Unregister 5 ''r1'' 1 example_hub = Return h' \<and> room_members h' ''r1'' = {0} \<and>
     user_tracked h' ''bob'' = [1]"
proof -
  obtain h' where h': "Unregister 5 ''r1'' 1 example_hub = Return h'"
    using open_Unregister [OF all_open_example] unfolding returns_open_def by blast
  from unregister_effect [OF h', of "''r1''"] h' show ?thesis
    by (simp add: slice_at_def set_at_def) blast
qed

lemma plain_send_buf:
  assumes "send_to_all (\<lambda>p c. select_send x (c_send c)) T h = Return h'"
  shows "ch_buf (c_send (h_heap h' q)) =
    (if q \<in> T \<and> \<not> chan_full (c_send (h_heap h q))
     then ch_buf (c_send (h_heap h q)) @ [x] else ch_buf (c_send (h_heap h q)))"
proof -
  have "\<not> ch_closed (c_send (h_heap h q))" if "q \<in> T"
    using that assms by (auto simp: send_to_all_def select_send_Panic_iff split: if_splits)
  then show ?thesis
    by (auto simp: send_to_all_heap [OF assms] select_send_open_cases split: if_splits)
qed

text \<open>
  Registering puts the client into the room and into its user's slice, starts one more of
  each pump for it, counts one connection, and announces the user as online to the other
  users' active clients of the room and to nobody else.
\<close>

theorem register_effect:
  assumes ret: "Register now r p h = Return h'"
  shows "room_members h' r = insert p (room_members h r) \<and>
    user_tracked h' (user_of h p) = user_tracked h (user_of h p) @ [p] \<and>
    hs_total_connections (h_stats h') = hs_total_connections (h_stats h) + 1 \<and>
    c_read_pumps (h_heap h' p) = Suc (c_read_pumps (h_heap h p)) \<and>
    (\<forall>q. ch_buf (c_send (h_heap h' q)) =
      (if q \<in> insert p (room_members h r) \<and> user_of h q \<noteq> user_of h p \<and> IsClientActive h q \<and>
          \<not> chan_full (c_send (h_heap h q))
       then ch_buf (c_send (h_heap h q)) @ [marshal_outgoing \<lparr>om_type = ''user_status'',
          om_room_id = r, om_sender_id = '''', om_message_id = '''',
          om_data = P_Map (Some [(''user_id'', JStr (user_of h p)), (''status'', JStr ''online'')]),
          om_timestamp = unix_seconds now\<rparr>]
       else ch_buf (c_send (h_heap h q))))"
proof -
  note sent = ret [unfolded Register_enrolled broadcastUserStatus_def broadcaseToRoomExceptUser_def
      Let_def]
  have "\<forall>q. ch_buf (c_send (h_heap h' q)) =
      (if q \<in> insert p (room_members h r) \<and> user_of h q \<noteq> user_of h p \<and> IsClientActive h q \<and>
          \<not> chan_full (c_send (h_heap h q))
       then ch_buf (c_send (h_heap h q)) @ [marshal_outgoing \<lparr>om_type = ''user_status'',
          om_room_id = r, om_sender_id = '''', om_message_id = '''',
          om_data = P_Map (Some [(''user_id'', JStr (user_of h p)), (''status'', JStr ''online'')]),
          om_timestamp = unix_seconds now\<rparr>]
       else ch_buf (c_send (h_heap h q)))"
    using plain_send_buf [OF sent] by (simp add: enrolled_def IsClientActive_def conj_commute)
  moreover have "c_read_pumps (h_heap h' p) = Suc (c_read_pumps (h_heap h p))"
    using send_to_all_heap [OF sent, of p]
    by (auto simp: enrolled_def Start_def split: outcome.splits if_splits)
  ultimately show ?thesis using Register_frame [OF ret] by simp
qed

lemma register_effect_witness:
  "\<exists>h'. Register 5 ''r2'' 1 example_hub = Return h' \<and> room_members h' ''r2'' = {1} \<and>
     user_tracked h' ''bob'' = [1, 1]"
proof -
  obtain h' where h': "Register 5 ''r2'' 1 example_hub = Return h'"
    using open_Register [OF all_open_example] unfolding returns_open_def by blast
  from register_effect [OF h'] h' show ?thesis
    by (simp add: slice_at_def set_at_def)
qed

section \<open>Closing\<close>

text \<open>
  Closing a client marks it inactive, cancels its context and takes it out of its room;
  a second close, from any of the places that may issue one, changes nothing.
\<close>

theorem close_once:
  assumes "Close now p h = Return h'"
  shows "\<not> IsClientActive h' p \<and> Close now' p h' = Return h' \<and>
    (IsClientActive h p \<longrightarrow> c_ctx_done (h_heap h' p) \<and>
      (c_room_id (h_heap h p) \<noteq> '''' \<longrightarrow> p \<notin> room_members h' (c_room_id (h_heap h p)))) \<and>
    (\<forall>q. q \<noteq> p \<longrightarrow> IsClientActive h' q = IsClientActive h q)"
  using Close_frame [OF assms] by (simp add: IsClientActive_def Close_def)

lemma open_Close: "all_open h \<Longrightarrow> \<exists>h'. Close now p h = Return h'"
proof -
  assume "all_open h"
  then have "all_open (upd_client p (\<lambda>c. c\<lparr>c_active := False, c_ctx_done := True\<rparr>) h)"
    by (simp add: all_open_def)
  from open_Unregister [OF this] show ?thesis
    by (auto simp: Close_def cleanup_def returns_open_def outcome_simps) (metis bind_outcome.simps(1))
qed

lemma close_once_witness:
  "\<exists>h'. Close 5 1 example_hub = Return h' \<and> Close 6 1 h' = Return h' \<and> 1 \<notin> room_members h' ''r1''"
proof -
  obtain h' where h': "Close 5 1 example_hub = Return h'"
    using open_Close [OF all_open_example] by blast
  from close_once [OF h', of 6] h' show ?thesis by (simp add: IsClientActive_def)
qed

section \<open>Cleanup and shutdown\<close>

lemma close_each_members:
  "close_each t ps h = Return h' \<Longrightarrow> room_members h' r =
     {p \<in> room_members h r. \<not> (p \<in> set ps \<and> c_active (h_heap h p) \<and> c_room_id (h_heap h p) = r \<and> r \<noteq> '''')}"
  unfolding close_each_def
proof (induction ps arbitrary: h)
  case Nil
  then show ?case by simp
next
  case (Cons p ps)
  then obtain g where g: "Close (t p) p h = Return g"
    and "fold_outcome (\<lambda>p. Close (t p) p) ps g = Return h'"
    by (auto simp: outcome_simps)
  with Cons.IH [of g] show ?case by (auto simp: Close_frame [OF g])
qed

lemma close_each_inactive:
  "close_each t ps h = Return h' \<Longrightarrow> c_active (h_heap h' q) = (q \<notin> set ps \<and> c_active (h_heap h q))"
  by (rule close_each_frame)

text \<open>
  One run of the cleanup routine removes from every named room exactly its active clients
  that have not been seen for more than two minutes, and marks them inactive; the others stay,
  clients already marked inactive among them (closing one of those does nothing).
\<close>

theorem cleanup_removes_stale:
  assumes "hub_inv h" and "range_orders ro co h" and "performCleanup now t ro co h = Return h'"
    and "r \<noteq> ''''"
  shows "room_members h' r = {p \<in> room_members h r.
      \<not> (IsClientActive h p \<and> now - GetLastSeen h p > 2 * Minute)} \<and>
    (\<forall>p \<in> room_members h r - room_members h' r. \<not> IsClientActive h' p)"
proof -
  let ?ps = "filter (is_stale now h) (visited ro co h)"
  have run: "close_each t ?ps h = Return h'"
    using assms(3) by (simp add: performCleanup_def Let_def)
  have "p \<in> set ?ps \<longleftrightarrow> is_stale now h p" if "p \<in> room_members h r" for p
    using that by (auto simp: set_visited [OF assms(2)])
  moreover have "c_room_id (h_heap h p) = r" if "p \<in> room_members h r" for p
    using that assms(1,4) by (simp add: hub_inv_def one_room_def)
  ultimately show ?thesis
    using assms(4) close_each_members [OF run, of r] close_each_inactive [OF run]
    by (auto simp: is_stale_def IsClientActive_def inactiveThreshold_def)
qed

lemma example_range: "range_orders [''r1''] (\<lambda>_. [0, 1]) example_hub"
  by (auto simp: range_orders_def split: if_splits)

text \<open>Two minutes exactly are not yet too long.\<close>

lemma cleanup_removes_stale_witness:
  "\<exists>h'. performCleanup (2 * Minute) (\<lambda>_. 5) [''r1''] (\<lambda>_. [0, 1]) example_hub = Return h' \<and>
     room_members h' ''r1'' = {0, 1}"
proof -
  have "performCleanup (2 * Minute) (\<lambda>_. 5) [''r1''] (\<lambda>_. [0, 1]) example_hub = Return example_hub"
    by (simp add: performCleanup_def visited_def is_stale_def IsClientActive_def GetLastSeen_def
        inactiveThreshold_def close_each_def Let_def)
  from cleanup_removes_stale [OF hub_inv_example example_range this, of "''r1''"] this
  show ?thesis by (auto simp: set_at_def GetLastSeen_def)
qed

text \<open>
  Shutting the hub down marks every client of every room inactive and leaves no client
  that was active in a named room.
\<close>

theorem shutdown_closes_all:
  assumes "hub_inv h" and "range_orders ro co h" and "HubClose t ro co h = Return h'"
  shows "h_ctx_done h' \<and> (\<forall>r. \<forall>p \<in> room_members h r. \<not> IsClientActive h' p) \<and>
    (\<forall>r. r \<noteq> '''' \<longrightarrow> room_members h' r = {p \<in> room_members h r. \<not> IsClientActive h p})"
proof -
  let ?h = "h\<lparr>h_ctx_done := True\<rparr>"
  have ro: "range_orders ro co ?h" using assms(2) by (simp add: range_orders_def)
  have run: "close_each t (visited ro co ?h) ?h = Return h'"
    using assms(3) by (simp add: HubClose_def Let_def)
  have "h_ctx_done h'"
    using run unfolding close_each_def
    by (rule fold_outcome_invariant [where P = "\<lambda>h. h_ctx_done h"])
      (auto simp: Close_def cleanup_def outcome_simps Unregister_frame split: if_splits)
  moreover have "p \<in> set (visited ro co ?h)" if "p \<in> room_members h r" for p r
    using that by (auto simp: set_visited [OF ro])
  moreover have "c_room_id (h_heap h p) = r" if "p \<in> room_members h r" "r \<noteq> ''''" for p r
    using that assms(1) by (simp add: hub_inv_def one_room_def)
  ultimately show ?thesis
    using close_each_members [OF run] close_each_inactive [OF run]
    by (auto simp: IsClientActive_def)
qed

lemma Unregister_last:
  "room_members h r \<subseteq> {p} \<Longrightarrow> Unregister now r p h = Return (withdrawn r p h)"
proof -
  assume "room_members h r \<subseteq> {p}"
  then have none: "{q \<in> room_members h r. q \<noteq> p \<and> P q} = {}" for P by auto
  have "send_to_all sel {} g = Return g" for sel g by (simp add: send_to_all_def)
  then show ?thesis
    by (simp add: Unregister_withdrawn broadcastUserStatus_def broadcaseToRoomExceptUser_def
        Let_def none)
qed

lemma shutdown_closes_all_witness:
  "\<exists>h'. HubClose (\<lambda>_. 5) [''r1''] (\<lambda>_. [0, 1]) example_hub = Return h' \<and> room_members h' ''r1'' = {}"
proof -
  let ?h = "example_hub\<lparr>h_ctx_done := True\<rparr>"
  have "all_open ?h" using all_open_example by (simp add: all_open_def)
  then obtain h1 where h1: "Close 5 0 ?h = Return h1" using open_Close by blast
  have "\<exists>h2. Close 5 1 h1 = Return h2"
    by (simp add: Close_def cleanup_def Close_frame [OF h1] Unregister_last subset_iff)
  then obtain h2 where "HubClose (\<lambda>_. 5) [''r1''] (\<lambda>_. [0, 1]) example_hub = Return h2"
    using h1 by (auto simp: HubClose_def close_each_def visited_def Let_def)
  moreover from shutdown_closes_all [OF hub_inv_example example_range this]
  have "room_members h2 ''r1'' = {p \<in> {0, 1}. \<not> c_active (example_heap p)}"
    by (simp add: IsClientActive_def)
  moreover have "{p \<in> {0, 1}. \<not> c_active (example_heap p)} = {}" by (auto simp: example_heap_def)
  ultimately show ?thesis by auto
qed

section \<open>Statistics\<close>

text \<open>
  The client count of \<^verbatim>\<open>GetHubStats\<close>, which the connection limit is checked
  against: every active client in a named room counts once, and once more if it is also in
  the room without a name. The query changes nothing but the two counts.
\<close>

theorem hub_stats_count:
  assumes inv: "hub_inv h"
  shows "hs_total_clients (fst (GetHubStats h)) =
      int (card {p. IsClientActive h p \<and> (\<exists>r. r \<noteq> '''' \<and> p \<in> room_members h r)}) +
      int (card {p \<in> room_members h ''''. IsClientActive h p}) \<and>
    hs_total_rooms (fst (GetHubStats h)) = int (card {r. room_members h r \<noteq> {}}) \<and>
    h_rooms (snd (GetHubStats h)) = h_rooms h \<and> h_heap (snd (GetHubStats h)) = h_heap h"
proof -
  let ?A = "\<lambda>r. {p \<in> room_members h r. IsClientActive h p}"
  let ?D = "dom (h_rooms h)"
  have fin: "finite ?D" "\<And>r. finite (?A r)" "\<And>r S. h_rooms h r = Some S \<Longrightarrow> S \<noteq> {}"
    using inv by (auto simp: hub_inv_def registry_ok_def rooms_ok_def set_at_def split: option.splits)
  have none: "?A r = {}" if "r \<notin> ?D" for r using that by (auto simp: dom_def)
  have disj: "?A r \<inter> ?A s = {}" if "r \<noteq> s" "r \<noteq> ''''" "s \<noteq> ''''" for r s
    using inv that by (auto simp: hub_inv_def one_room_def)
  have "(\<Sum>r \<in> ?D. card (?A r)) = (\<Sum>r \<in> ?D - {''''}. card (?A r)) + card (?A '''')"
  proof (cases "'''' \<in> ?D")
    case True
    then show ?thesis using fin(1) by (simp add: sum.remove)
  next
    case False
    then have "?D - {''''} = ?D" by simp
    then show ?thesis using none [OF False] by (simp only: card.empty)
  qed
  also have "(\<Sum>r \<in> ?D - {''''}. card (?A r)) = card (\<Union>r \<in> ?D - {''''}. ?A r)"
    using fin disj by (subst card_UN_disjoint) auto
  also have "(\<Union>r \<in> ?D - {''''}. ?A r) =
      {p. IsClientActive h p \<and> (\<exists>r. r \<noteq> '''' \<and> p \<in> room_members h r)}"
    using none by blast
  finally have total: "(\<Sum>r \<in> ?D. card (?A r)) =
      card {p. IsClientActive h p \<and> (\<exists>r. r \<noteq> '''' \<and> p \<in> room_members h r)} + card (?A '''')" .
  have rooms: "{r. room_members h r \<noteq> {}} = ?D"
    using fin(3) by (auto simp: set_at_def dom_def split: option.splits)
  show ?thesis
    by (simp add: GetHubStats_def Let_def rooms flip: of_nat_sum total of_nat_add)
qed

lemma hub_stats_count_witness: "hs_total_clients (fst (GetHubStats example_hub)) = 2"
proof -
  have "{p. IsClientActive example_hub p \<and> (\<exists>r. r \<noteq> '''' \<and> p \<in> room_members example_hub r)} = {0, 1}"
    by (auto simp: IsClientActive_def split: if_splits)
  with hub_stats_count [OF hub_inv_example] show ?thesis by simp
qed

section \<open>Reachable hubs\<close>


definition example_io :: io where
  "example_io = \<lparr>io_t1 = 1, io_t2 = 2, io_t3 = 3, io_self = True, io_room = (\<lambda>_. True)\<rparr>"

lemma example_connect:
  obtains h where "hub_step (Running (NewHub empty_heap 0)) (Running h)"
    and "connect_client ''c'' example_io 0 ''alice'' ''r1'' (NewHub empty_heap 0) = Return h"
proof -
  let ?g = "upd_client 0 (\<lambda>_. NewClient ''c'' 1 2 ''alice'' ''r1'') (NewHub empty_heap 0)"
  have "all_open ?g"
    by (simp add: all_open_def NewHub_def empty_heap_def NewClient_def make_chan_def)
  from open_Register [OF this, of 3 "''r1''" 0] obtain h where
    h: "connect_client ''c'' example_io 0 ''alice'' ''r1'' (NewHub empty_heap 0) = Return h"
    by (auto simp: connect_client_def example_io_def returns_open_def)
  moreover have "fresh (NewHub empty_heap 0) 0" by (simp add: fresh_def NewHub_def)
  ultimately have "hub_step (Running (NewHub empty_heap 0)) (Running h)"
    by (intro hub_step.connect) simp_all
  with h that show thesis by blast
qed


section \<open>Disconnecting\<close>

text \<open>
  C37. When a client's connection ends (its read pump returns) while no message of it waits to
  be processed, the deferred cleanup closes its receive channel but neither cancels its context
  nor marks it inactive; the message pump then receives nil from the closed channel and
  dereferences it, a panic in a goroutine of its own.
\<close>

theorem disconnect_panics_message_pump:
  assumes "readPump_exit now p h = Return h'"
    and "ch_buf (c_receive (h_heap h p)) = []"
  shows "messagePump_receive e p h' = Some Panic \<and> IsClientActive h' p = IsClientActive h p \<and>
    c_ctx_done (h_heap h' p) = c_ctx_done (h_heap h p)"
proof -
  have "ch_buf (c_receive (h_heap h' p)) = [] \<and> ch_closed (c_receive (h_heap h' p))"
    using cleanup_frame(5) [OF assms(1) [unfolded readPump_exit_def], of p] assms(2)
    by (simp add: drain_or_close_def)
  then have "messagePump_receive e p h' = Some Panic"
    by (simp add: messagePump_receive_def handleIncomingMessage_def)
  then show ?thesis
    using cleanup_frame(3,4) [OF assms(1) [unfolded readPump_exit_def], of p]
    by (simp add: IsClientActive_def)
qed

lemma open_readPump_exit: "all_open h \<Longrightarrow> \<exists>h'. readPump_exit now p h = Return h'"
proof -
  assume "all_open h"
  then have "all_open (upd_client p (\<lambda>c. c\<lparr>c_read_pumps := c_read_pumps c - 1\<rparr>) h)"
    by (simp add: all_open_def)
  from open_Unregister [OF this] show ?thesis
    by (auto simp: readPump_exit_def cleanup_def returns_open_def outcome_simps)
      (metis bind_outcome.simps(1))
qed

lemma disconnect_panics_message_pump_witness:
  "\<exists>h'. readPump_exit 5 1 example_hub = Return h' \<and> messagePump_receive example_io 1 h' = Some Panic"
proof -
  obtain h' where h': "readPump_exit 5 1 example_hub = Return h'"
    using open_readPump_exit [OF all_open_example] by blast
  from disconnect_panics_message_pump [OF h'] h' show ?thesis
    by (auto simp: make_chan_def)
qed

text \<open>
  The server can crash on its first disconnect: one client connects, its connection ends,
  its message pump runs.
\<close>

theorem crash_is_reachable: "reachable 0 Crashed"
proof -
  let ?c = "NewClient ''c'' 1 2 ''alice'' ''r1''"
  obtain h where step: "hub_step (Running (NewHub empty_heap 0)) (Running h)"
    and h: "connect_client ''c'' example_io 0 ''alice'' ''r1'' (NewHub empty_heap 0) = Return h"
    by (rule example_connect)
  note reg = h [unfolded connect_client_def]
  note sent = reg [unfolded Register_enrolled broadcastUserStatus_def broadcaseToRoomExceptUser_def
      Let_def]
  have all: "h_heap h q = h_heap (enrolled ''r1'' 0 (upd_client 0 (\<lambda>_. ?c) (NewHub empty_heap 0))) q"
    for q
    using send_to_all_at(2) [OF sent, of q]
    by (auto simp: enrolled_def NewClient_def NewHub_def example_io_def)
  have pumps: "c_read_pumps (h_heap h 0) = 1" "c_message_pumps (h_heap h 0) = 1"
    and buf: "ch_buf (c_receive (h_heap h 0)) = []" and "all_open h"
    by (simp_all add: all enrolled_def Start_def NewClient_def make_chan_def all_open_def NewHub_def
        empty_heap_def)
  then obtain h' where h': "readPump_exit 4 0 h = Return h'" using open_readPump_exit by blast
  from cleanup_frame(5) [OF h' [unfolded readPump_exit_def], of 0] buf
  have panic: "messagePump_receive example_io 0 h' = Some Panic"
    by (simp add: drain_or_close_def messagePump_receive_def handleIncomingMessage_def)
  have "hub_step (Running h) (Running h')"
    using hub_step.read_exit [of h 0 4] pumps(1) h' by simp
  moreover have "c_message_pumps (h_heap h' 0) = 1"
    using pumps(2) cleanup_frame(9) [OF h' [unfolded readPump_exit_def], of 0] by simp
  then have "hub_step (Running h') Crashed"
    using hub_step.process [of h' 0 example_io Panic] panic by simp
  ultimately show ?thesis
    unfolding reachable_def using step by (meson converse_rtranclp_into_rtranclp rtranclp.rtrancl_refl)
qed

end
