(* ===== verification/WsHandler.thy ===== *)
theory WsHandler
  imports Http RateLimit HubProperties
begin

text \<open>
  The WebSocket endpoint: \<^verbatim>\<open>internal/websocket/handler.go\<close>,
  \<^verbatim>\<open>helper.go\<close> and \<^verbatim>\<open>auth.go\<close>. What an authenticator has to
  guarantee is the interface \<open>authenticator\<close>; each of the code's authenticators interprets it.
\<close>

section \<open>What the handler reads off the request\<close>

definition extractRoomID :: "http_request \<Rightarrow> string" where
  "extractRoomID r =
     (let roomID = req_query r ''room_id'' in
      if roomID \<noteq> '''' then roomID
      else
        (let pathParts = split_on (CHR ''/'') (trim_char (CHR ''/'') (req_path r)) in
         if length pathParts \<ge> 2 \<and> pathParts ! (length pathParts - 2) = ''rooms''
         then pathParts ! (length pathParts - 1)
         else ''''))"

definition getClientIP :: "http_request \<Rightarrow> string" where
  "getClientIP r =
     (let xff = req_header r ''X-Forwarded-For'' in
      if xff \<noteq> '''' then trim_space (hd (split_on (CHR '','') xff))
      else
        (let xri = req_header r ''X-Real-IP'' in
         if xri \<noteq> '''' then xri else before_last (CHR '':'') (req_remote_addr r)))"

text \<open>The origin check accepts every origin.\<close>

definition CheckOrigin :: "http_request \<Rightarrow> bool" where
  "CheckOrigin r =
     (let origin = req_header r ''Origin'' in
      if contains_str origin ''localhost'' \<or> contains_str origin ''127.0.0.1'' then True
      else if origin \<in> set [''https://yourdomain.com'', ''https://app.yourdomain.com''] then True
      else True)"

section \<open>Authenticators\<close>

datatype auth_error = AuthError string

definition AuthError_text :: "auth_error \<Rightarrow> string" where
  "AuthError_text e = (case e of AuthError m \<Rightarrow> m)"

type_synonym authenticator_func = "http_request \<Rightarrow> (auth_error + string) outcome"

text \<open>Without an authenticator the user is the one the query names.\<close>

definition authenticateConnection :: "authenticator_func option \<Rightarrow> authenticator_func" where
  "authenticateConnection auth r =
     (case auth of
        None \<Rightarrow>
          (let userID = req_query r ''user_id'' in
           Return (if userID = '''' then Inl (AuthError ''user_id is required'') else Inr userID))
      | Some f \<Rightarrow> f r)"

text \<open>The placeholder takes the first eight bytes: a slice out of range panics.\<close>

definition jwt_placeholder_token :: "http_request \<Rightarrow> string" where
  "jwt_placeholder_token r =
     (let token = req_query r ''token'' in
      if token = ''''
      then (let authHeader = req_header r ''Authorization'' in
            if has_prefix authHeader ''Bearer '' then trim_prefix authHeader ''Bearer '' else '''')
      else token)"

definition JWTAuthenticator :: "string \<Rightarrow> authenticator_func" where
  "JWTAuthenticator secretKey r =
     (let token = jwt_placeholder_token r in
      if token = '''' then Return (Inl (AuthError ''authentication token is required''))
      else if length token < 8 then Panic
      else Return (Inr (''user_'' @ take 8 token)))"

text \<open>\<open>GetUserID\<close> is the session store's method; \<open>None\<close> is its error.\<close>

definition SessionAuthenticator :: "(string \<Rightarrow> string option) \<Rightarrow> authenticator_func" where
  "SessionAuthenticator GetUserID r =
     (let sessionID = req_query r ''session_id'' in
      if sessionID = '''' \<and> req_cookie r ''session_id'' = None
      then Return (Inl (AuthError ''session_id is required''))
      else
        (let sessionID' = (if sessionID = '''' then the (req_cookie r ''session_id'') else sessionID)
         in case GetUserID sessionID' of
              None \<Rightarrow> Return (Inl (AuthError ''invalid session''))
            | Some userID \<Rightarrow> Return (Inr userID)))"

definition getTokenFromRequest :: "http_request \<Rightarrow> string" where
  "getTokenFromRequest r =
     (case (if req_header r ''Authorization'' \<noteq> '''' then bearer_token (req_header r ''Authorization'')
            else None) of
        Some tok \<Rightarrow> tok
      | None \<Rightarrow>
          (let token = req_query r ''token'' in
           if token \<noteq> '''' then token
           else (case req_cookie r ''access_token'' of
                   Some v \<Rightarrow> if v \<noteq> '''' then v else ''''
                 | None \<Rightarrow> '''')))"

text \<open>
  \<open>exists_key\<close> is the Redis \<^verbatim>\<open>EXISTS\<close> call, \<open>None\<close> its error. The text of one error
  starts with an i with two dots.
\<close>

definition JWTWebSocketAuth ::
  "((signing_method \<Rightarrow> string + 'pub) \<Rightarrow> string \<Rightarrow> token_error + (claims \<times> bool)) \<Rightarrow> 'pub
   \<Rightarrow> (string \<Rightarrow> int option) \<Rightarrow> int \<Rightarrow> authenticator_func" where
  "JWTWebSocketAuth parse publicKey exists_key now r =
     (case ctx_fingerprint r of
        None \<Rightarrow> Return (Inl (AuthError ''missing device fingerprint''))
      | Some fp \<Rightarrow>
          if fp = '''' then Return (Inl (AuthError ''missing device fingerprint''))
          else
            (case ParseAndVerifySign parse now (getTokenFromRequest r) publicKey of
               Inl err \<Rightarrow>
                 if err = ErrTokenExpired
                 then Return (Inl (AuthError ''token expired, please refresh and reconnect''))
                 else Return (Inl (AuthError
                   ([char_of (0xC3 :: nat), char_of (0xAF :: nat)] @ ''nvalid token'')))
             | Inr c \<Rightarrow>
                 (let sessionKey = ''session:'' @ cl_sub c @ '':'' @ fp in
                  case exists_key sessionKey of
                    None \<Rightarrow> Return (Inl (AuthError ''session not found or revoked''))
                  | Some n \<Rightarrow>
                      if n = 0 then Return (Inl (AuthError ''session not found or revoked''))
                      else Return (Inr (cl_sub c)))))"

section \<open>The endpoint\<close>

datatype ws_reply = Refused int string | Upgrade_failed | Connected

text \<open>
  \<open>upgrade\<close> is whether the library's handshake succeeds; \<open>cid\<close>, \<open>e\<close>, \<open>p\<close> are the new client's
  identifier, clock readings and address.
\<close>

definition HandleWebSocket ::
  "authenticator_func option \<Rightarrow> bool \<Rightarrow> string \<Rightarrow> io \<Rightarrow> client_ptr \<Rightarrow> http_request
   \<Rightarrow> ws_handler \<times> hub \<Rightarrow> (ws_reply \<times> ws_handler \<times> hub) outcome" where
  "HandleWebSocket auth upgrade cid e p r st =
     (case st of (s, h) \<Rightarrow>
      let roomID = extractRoomID r in
      if roomID = '''' then Return (Refused StatusBadRequest ''Room ID is required'', s, h)
      else bind_outcome (authenticateConnection auth r) (\<lambda>who. case who of
        Inl _ \<Rightarrow> Return (Refused StatusUnauthorized ''Authentication failed'', s, h)
      | Inr userID \<Rightarrow>
          (let clientIP = getClientIP r; (allowed, s1) = checkRateLimit clientIP userID s in
           if \<not> allowed then Return (Refused StatusTooManyRequests ''Rate limit exceeded'', s1, h)
           else
             (let (stats, h1) = GetHubStats h in
              if hs_total_clients stats \<ge> wh_max_connections s1
              then Return (Refused StatusServiceUnavailable ''Server at capacity'', s1, h1)
              else if \<not> upgrade then Return (Upgrade_failed, s1, h1)
              else bind_outcome (connect_client cid e p userID roomID h1) (\<lambda>h2.
                Return (Connected, updateConnectionCount clientIP 1 s1, h2))))))"

text \<open>\<^verbatim>\<open>WithRoomValidation\<close> around another handler.\<close>

definition WithRoomValidation ::
  "authenticator_func option \<Rightarrow> (string \<Rightarrow> string \<Rightarrow> bool)
   \<Rightarrow> (http_request \<Rightarrow> ws_handler \<times> hub \<Rightarrow> (ws_reply \<times> ws_handler \<times> hub) outcome)
   \<Rightarrow> http_request \<Rightarrow> ws_handler \<times> hub \<Rightarrow> (ws_reply \<times> ws_handler \<times> hub) outcome" where
  "WithRoomValidation auth roomValidator originalHandler r st =
     (let roomID = extractRoomID r in
      bind_outcome (authenticateConnection auth r) (\<lambda>who. case who of
        Inl _ \<Rightarrow> Return (Refused StatusUnauthorized ''Authentication failed'', st)
      | Inr userID \<Rightarrow>
          if \<not> roomValidator roomID userID then Return (Refused StatusForbidden ''Access denied'', st)
          else originalHandler r st))"

text \<open>
  \<^verbatim>\<open>WithLogging\<close> around another handler: what it writes to the log is the second component. A
  handler that panics keeps the second entry from being written.
\<close>

datatype ws_log = Attempt string string string string | Handled int

definition WithLogging ::
  "string \<Rightarrow> (nat \<Rightarrow> int) \<Rightarrow> (http_request \<Rightarrow> ws_handler \<times> hub \<Rightarrow> (ws_reply \<times> ws_handler \<times> hub) outcome)
   \<Rightarrow> http_request \<Rightarrow> ws_handler \<times> hub \<Rightarrow> (ws_reply \<times> ws_handler \<times> hub) outcome \<times> ws_log list" where
  "WithLogging meth clk originalHandler r st =
     (let start = clk 0;
          attempt = Attempt meth (req_path r) (req_remote_addr r) (req_header r ''User-Agent'')
      in case originalHandler r st of
           Panic \<Rightarrow> (Panic, [attempt])
         | Return answer \<Rightarrow> (Return answer, [attempt, Handled (clk 1 - start)]))"

lemma WithLogging_transparent: "fst (WithLogging meth clk originalHandler r st) = originalHandler r st"
  by (simp add: WithLogging_def Let_def split: outcome.splits)

text \<open>The goroutine that waits for the end of the client's context.\<close>

definition connection_done :: "string \<Rightarrow> client_ptr \<Rightarrow> ws_handler \<times> hub \<Rightarrow> (ws_handler \<times> hub) option" where
  "connection_done clientIP p st =
     (case st of (s, h) \<Rightarrow>
        if c_ctx_done (h_heap h p) then Some (updateConnectionCount clientIP (- 1) s, h) else None)"

section \<open>The interface of an authenticator\<close>

text \<open>
  An authenticator answers with a user it vouches for on the strength of the request. What a
  connection may rely on follows from that alone.
\<close>

locale authenticator =
  fixes auth :: authenticator_func
    and vouched :: "http_request \<Rightarrow> string \<Rightarrow> bool"
  assumes auth_vouched: "auth r = Return (Inr u) \<Longrightarrow> vouched r u"

lemma GetHubStats_frame:
  "h_rooms (snd (GetHubStats h)) = h_rooms h"
  "h_user_clients (snd (GetHubStats h)) = h_user_clients h"
  "h_heap (snd (GetHubStats h)) = h_heap h"
  "h_closing (snd (GetHubStats h)) = h_closing h"
  by (simp_all add: GetHubStats_def Let_def)

text \<open>The ways through \<^verbatim>\<open>HandleWebSocket\<close>.\<close>

lemma HandleWebSocket_cases:
  assumes "HandleWebSocket auth upgrade cid e p r (s, h) = Return (reply, s', h')"
  obtains (connected) u where "reply = Connected" "extractRoomID r \<noteq> ''''"
      "authenticateConnection auth r = Return (Inr u)"
      "fst (checkRateLimit (getClientIP r) u s)"
      "hs_total_clients (fst (GetHubStats h)) < wh_max_connections (snd (checkRateLimit (getClientIP r) u s))"
      "connect_client cid e p u (extractRoomID r) (snd (GetHubStats h)) = Return h'"
      "s' = updateConnectionCount (getClientIP r) 1 (snd (checkRateLimit (getClientIP r) u s))"
  | (refused) "reply \<noteq> Connected" "h' = h \<or> h' = snd (GetHubStats h)"
      "s' = s \<or> (\<exists>u. s' = snd (checkRateLimit (getClientIP r) u s))"
proof (cases "extractRoomID r = ''''")
  case True
  then show ?thesis using assms by (intro refused) (auto simp: HandleWebSocket_def)
next
  case room: False
  then obtain who where who: "authenticateConnection auth r = Return who"
    using assms by (auto simp: HandleWebSocket_def Let_def outcome_simps)
  show ?thesis
  proof (cases who)
    case (Inl err)
    then show ?thesis
      using assms room who by (intro refused) (auto simp: HandleWebSocket_def Let_def)
  next
    case (Inr u)
    let ?c = "checkRateLimit (getClientIP r) u s" and ?g = "GetHubStats h"
    have "HandleWebSocket auth upgrade cid e p r (s, h) = (if \<not> fst ?c then Return (Refused StatusTooManyRequests ''Rate limit exceeded'', snd ?c, h)
       else if hs_total_clients (fst ?g) \<ge> wh_max_connections (snd ?c)
       then Return (Refused StatusServiceUnavailable ''Server at capacity'', snd ?c, snd ?g)
       else if \<not> upgrade then Return (Upgrade_failed, snd ?c, snd ?g)
       else bind_outcome (connect_client cid e p u (extractRoomID r) (snd ?g)) (\<lambda>h2.
         Return (Connected, updateConnectionCount (getClientIP r) 1 (snd ?c), h2)))"
      using room who Inr by (simp add: HandleWebSocket_def Let_def case_prod_beta)
    note run = trans [OF this [symmetric] assms]
    show ?thesis
    proof (cases "fst ?c \<and> \<not> hs_total_clients (fst ?g) \<ge> wh_max_connections (snd ?c) \<and> upgrade")
      case True
      with run room who Inr show ?thesis
        by (intro connected [of u]) (auto simp: outcome_simps)
    next
      case False
      with run show ?thesis by (intro refused) (auto split: if_splits)
    qed
  qed
qed

context authenticator
begin

lemma connected_user:
  assumes "HandleWebSocket (Some auth) upgrade cid e p r (s, h) = Return (Connected, s', h')"
  shows "vouched r (user_of h' p) \<and> p \<in> room_members h' (extractRoomID r)"
  using assms
proof (cases rule: HandleWebSocket_cases)
  case (connected u)
  have "vouched r u"
    using connected(3) by (auto simp: authenticateConnection_def intro: auth_vouched)
  moreover have "user_of h' p = u" and "p \<in> room_members h' (extractRoomID r)"
    using connected(6) by (auto simp: connect_client_def Register_frame NewClient_def)
  ultimately show ?thesis by simp
qed simp

end

interpretation query_auth: authenticator "authenticateConnection None"
  "\<lambda>r u. u = req_query r ''user_id'' \<and> u \<noteq> ''''"
  by unfold_locales (auto simp: authenticateConnection_def Let_def split: if_splits)

interpretation placeholder_auth: authenticator "JWTAuthenticator key"
  "\<lambda>r u. u = ''user_'' @ take 8 (jwt_placeholder_token r) \<and> length (jwt_placeholder_token r) \<ge> 8"
  for key :: string
  by unfold_locales (auto simp: JWTAuthenticator_def Let_def split: if_splits)

interpretation session_auth: authenticator "SessionAuthenticator G"
  "\<lambda>r u. \<exists>sid. G sid = Some u \<and> (sid = req_query r ''session_id'' \<or> req_cookie r ''session_id'' = Some sid)"
  for G :: "string \<Rightarrow> string option"
  by unfold_locales (auto simp: SessionAuthenticator_def Let_def split: if_splits option.splits)

interpretation jwt_auth: authenticator "JWTWebSocketAuth parse pub exists_key now"
  "\<lambda>r u. \<exists>c fp n. ctx_fingerprint r = Some fp \<and> fp \<noteq> '''' \<and> cl_sub c = u \<and>
     ParseAndVerifySign parse now (getTokenFromRequest r) pub = Inr c \<and>
     exists_key (''session:'' @ u @ '':'' @ fp) = Some n \<and> n \<noteq> 0"
  for parse :: "(signing_method \<Rightarrow> string + 'pub) \<Rightarrow> string \<Rightarrow> token_error + (claims \<times> bool)"
    and pub :: 'pub and exists_key :: "string \<Rightarrow> int option" and now :: int
  by unfold_locales
    (auto simp: JWTWebSocketAuth_def Let_def split: if_splits option.splits sum.splits)

section \<open>Properties\<close>

text \<open>
  C11. What a handshake does to the server. A connection is made only for a request that names a
  room and a user the authenticator gave, below the limit of its address and while the hub
  counts fewer clients than the maximum; it puts the new client into that room, for that user,
  and counts one connection for that address alone. Any other answer leaves rooms, user index,
  clients and the counts of all addresses as they were.
\<close>

theorem handshake_effect:
  assumes "HandleWebSocket auth upgrade cid e p r (s, h) = Return (reply, s', h')"
    and "limiter_ok s" and "limiter_limit s = Some limit"
  shows "(reply = Connected \<longrightarrow>
      extractRoomID r \<noteq> '''' \<and> p \<in> room_members h' (extractRoomID r) \<and>
      authenticateConnection auth r = Return (Inr (user_of h' p)) \<and>
      hs_total_clients (fst (GetHubStats h)) < wh_max_connections s \<and>
      limiter_load s (getClientIP r) < limit \<and>
      (\<forall>ip. limiter_load s' ip = limiter_load s ip + (if ip = getClientIP r then 1 else 0))) \<and>
    (reply \<noteq> Connected \<longrightarrow>
      h_rooms h' = h_rooms h \<and> h_user_clients h' = h_user_clients h \<and> h_heap h' = h_heap h \<and>
      (\<forall>ip. limiter_load s' ip = limiter_load s ip))"
  using assms(1)
proof (cases rule: HandleWebSocket_cases)
  case (connected u)
  have "wh_rate_limiters (snd (checkRateLimit (getClientIP r) u s)) (getClientIP r) \<noteq> None"
    using assms(3) exists_checkRateLimit [of s] by (simp add: limiter_limit_def split: if_splits)
  moreover have "limiter_load s (getClientIP r) \<ge> 0" by (rule limiter_load_nonneg [OF assms(2)])
  moreover have "user_of h' p = u" "p \<in> room_members h' (extractRoomID r)"
    using connected(6) by (auto simp: connect_client_def Register_frame NewClient_def)
  moreover have "wh_max_connections (snd (checkRateLimit (getClientIP r) u s)) = wh_max_connections s"
    by (auto simp: checkRateLimit_def Let_def split: option.splits)
  moreover have "limiter_load s (getClientIP r) < limit"
    using connected(4) assms(3) by (simp add: fst_checkRateLimit)
  ultimately show ?thesis
    using connected(1-3,5) by (simp add: connected(7) load_updateConnectionCount)
next
  case refused
  then show ?thesis by (auto simp: GetHubStats_frame)
qed

definition example_handshake :: http_request where
  "example_handshake = empty_request\<lparr>req_path := ''/ws/rooms/r1'',
     req_query := (\<lambda>k. if k = ''user_id'' then ''ann'' else ''''), req_remote_addr := ''10.0.0.1:99''\<rparr>"

lemma example_handshake_parts:
  "extractRoomID example_handshake = ''r1''" "getClientIP example_handshake = ''10.0.0.1''"
  by code_simp+

lemma example_connected:
  assumes "authenticateConnection auth r = Return (Inr ''ann'')"
    and "extractRoomID r = ''r1''" and "getClientIP r = ''10.0.0.1''"
  shows "\<exists>s' h'. HandleWebSocket auth True ''c'' example_io 0 r
    (NewWebSocketHandler, NewHub empty_heap 0) = Return (Connected, s', h')"
proof -
  let ?h = "snd (GetHubStats (NewHub empty_heap 0))"
  have "all_open (upd_client 0 (\<lambda>_. NewClient ''c'' 1 2 ''ann'' ''r1'') ?h)"
    by (simp add: all_open_def GetHubStats_frame)
      (simp add: NewHub_def empty_heap_def NewClient_def make_chan_def)
  from open_Register [OF this, of 3 "''r1''" 0]
  obtain h' where h': "connect_client ''c'' example_io 0 ''ann'' ''r1'' ?h = Return h'"
    by (auto simp: connect_client_def returns_open_def example_io_def)
  have "hs_total_clients (fst (GetHubStats (NewHub empty_heap 0))) = 0"
    by (simp add: GetHubStats_def NewHub_def Let_def)
  then show ?thesis
    using h' assms
    by (auto simp: HandleWebSocket_def Let_def checkRateLimit_def NewWebSocketHandler_def
        new_limiter_def int_at_def case_prod_beta)
qed

lemma handshake_effect_witness:
  "\<exists>s' h'. HandleWebSocket None True ''c'' example_io 0 example_handshake
      (NewWebSocketHandler, NewHub empty_heap 0) = Return (Connected, s', h') \<and>
     limiter_load s' ''10.0.0.1'' = 1"
proof -
  have "authenticateConnection None example_handshake = Return (Inr ''ann'')"
    by (simp add: authenticateConnection_def example_handshake_def)
  then obtain s' h' where run: "HandleWebSocket None True ''c'' example_io 0 example_handshake
      (NewWebSocketHandler, NewHub empty_heap 0) = Return (Connected, s', h')"
    using example_connected example_handshake_parts by blast
  have lim: "limiter_ok NewWebSocketHandler" "limiter_limit NewWebSocketHandler = Some 10"
    "limiter_load NewWebSocketHandler ''10.0.0.1'' = 0"
    by (simp_all add: limiter_ok_def limiter_limit_def limiter_load_def NewWebSocketHandler_def)
  from handshake_effect [OF run lim(1,2)] lim(3) run show ?thesis
    by (simp add: example_handshake_parts)
qed

text \<open>
  C22. Behind the JWT authenticator a connected client is who its token says: the token of the
  request is an RSA token whose signature verifies under the server's key and which has not
  expired, the client's user is its subject, and a session of that user on the request's device
  exists.
\<close>

theorem jwt_connection_is_genuine:
  assumes "jwt_checked parse method_of verifies"
    and "HandleWebSocket (Some (JWTWebSocketAuth parse pub exists_key now)) upgrade cid e p r (s, h)
      = Return (Connected, s', h')"
  shows "\<exists>c fp n. method_of (getTokenFromRequest r) = RSA_method \<and>
    verifies pub (getTokenFromRequest r) \<and>
    parse (rsa_key_func pub) (getTokenFromRequest r) = Inr (c, True) \<and> now \<le> cl_exp c * Second \<and>
    user_of h' p = cl_sub c \<and> ctx_fingerprint r = Some fp \<and>
    exists_key (''session:'' @ cl_sub c @ '':'' @ fp) = Some n \<and> n \<noteq> 0"
proof -
  obtain c fp n where c: "ctx_fingerprint r = Some fp" "cl_sub c = user_of h' p"
    "ParseAndVerifySign parse now (getTokenFromRequest r) pub = Inr c"
    "exists_key (''session:'' @ user_of h' p @ '':'' @ fp) = Some n" "n \<noteq> 0"
    using jwt_auth.connected_user [OF assms(2)] by blast
  have p: "parse (rsa_key_func pub) (getTokenFromRequest r) = Inr (c, True)"
    and "now \<le> cl_exp c * Second"
    using c(3) by (auto simp: ParseAndVerifySign_def split: sum.splits prod.splits if_splits)
  moreover obtain key where "rsa_key_func pub (method_of (getTokenFromRequest r)) = Inr key"
    and "verifies key (getTokenFromRequest r)"
    using assms(1) p unfolding jwt_checked_def by blast
  ultimately show ?thesis
    using c by (auto simp: rsa_key_func_def split: if_splits)
qed

text \<open>A library that knows one good token.\<close>

definition one_token_parse ::
  "(signing_method \<Rightarrow> string + nat) \<Rightarrow> string \<Rightarrow> token_error + (claims \<times> bool)" where
  "one_token_parse kf tok =
     (case kf RSA_method of
        Inl e \<Rightarrow> Inl (Token_error e)
      | Inr key \<Rightarrow> if tok = ''good'' then Inr (zero_claims\<lparr>cl_sub := ''ann'', cl_exp := 9\<rparr>, True)
          else Inl (Token_error ''signature is invalid''))"

lemma one_token_checked: "jwt_checked one_token_parse (\<lambda>_. RSA_method) (\<lambda>key tok. tok = ''good'')"
  by (auto simp: jwt_checked_def one_token_parse_def split: sum.splits if_splits)

lemma jwt_connection_is_genuine_witness:
  "\<exists>s' h'. HandleWebSocket (Some (JWTWebSocketAuth one_token_parse 7 (\<lambda>_. Some 1) 0)) True ''c'' example_io 0
      (example_handshake\<lparr>req_query := (\<lambda>k. if k = ''token'' then ''good'' else ''''),
         ctx_fingerprint := Some ''dev''\<rparr>)
      (NewWebSocketHandler, NewHub empty_heap 0) = Return (Connected, s', h') \<and> user_of h' 0 = ''ann''"
proof -
  let ?r = "example_handshake\<lparr>req_query := (\<lambda>k. if k = ''token'' then ''good'' else ''''),
     ctx_fingerprint := Some ''dev''\<rparr>"
  have "getTokenFromRequest ?r = ''good''"
    by (simp add: getTokenFromRequest_def example_handshake_def empty_request_def)
  then have "authenticateConnection (Some (JWTWebSocketAuth one_token_parse 7 (\<lambda>_. Some 1) 0)) ?r =
      Return (Inr ''ann'')"
    by (simp add: authenticateConnection_def JWTWebSocketAuth_def ParseAndVerifySign_def
        one_token_parse_def rsa_key_func_def zero_claims_def)
  moreover have "extractRoomID ?r = ''r1''" "getClientIP ?r = ''10.0.0.1''" by code_simp+
  ultimately obtain s' h' where
    run: "HandleWebSocket (Some (JWTWebSocketAuth one_token_parse 7 (\<lambda>_. Some 1) 0)) True ''c'' example_io 0
      ?r (NewWebSocketHandler, NewHub empty_heap 0) = Return (Connected, s', h')"
    using example_connected by blast
  have "user_of h' 0 = ''ann''"
    using jwt_connection_is_genuine [OF one_token_checked run]
    by (auto simp: one_token_parse_def rsa_key_func_def zero_claims_def split: if_splits)
  with run show ?thesis by blast
qed

end
