(* ===== verification/Redis.thy ===== *)
theory Redis
  imports GoJson
begin

text \<open>
  The Redis commands the program issues. The server is not part of the repository: a record of
  the client's functions over an unspecified world \<open>'w\<close> is an argument of every definition that
  calls it. \<open>redis_ok\<close> states the documented effect of the commands on what the server stores
  (\<open>store\<close>), and \<open>mem_redis\<close>, a store in memory, is an instance that has it.
\<close>

section \<open>The client's functions\<close>

text \<open>
  A write answers whether it succeeded. \<open>Inl\<close> is an error, \<open>Inr None\<close> the reply
  \<^verbatim>\<open>redis.Nil\<close>. \<open>rd_zrange_first\<close> and \<open>rd_zrem\<close> are the two commands a script may call;
  \<open>rd_eval\<close> runs a script on the server as one step.
\<close>

record 'w redis =
  rd_get :: "string \<Rightarrow> 'w \<Rightarrow> string + text_doc option"
  rd_set :: "string \<Rightarrow> text_doc \<Rightarrow> int \<Rightarrow> 'w \<Rightarrow> bool \<times> 'w"
  rd_del :: "string \<Rightarrow> 'w \<Rightarrow> bool \<times> 'w"
  rd_sadd :: "string \<Rightarrow> string \<Rightarrow> 'w \<Rightarrow> 'w"
  rd_expire_at :: "string \<Rightarrow> int \<Rightarrow> 'w \<Rightarrow> 'w"
  rd_zadd :: "string \<Rightarrow> int \<Rightarrow> text_doc \<Rightarrow> 'w \<Rightarrow> bool \<times> 'w"
  rd_zrange_first :: "string \<Rightarrow> 'w \<Rightarrow> text_doc list"
  rd_zrem :: "string \<Rightarrow> text_doc \<Rightarrow> 'w \<Rightarrow> 'w"
  rd_eval :: "('w \<Rightarrow> text_doc option \<times> 'w) \<Rightarrow> 'w \<Rightarrow> (string + text_doc option) \<times> 'w"
  rd_rpush :: "string \<Rightarrow> text_doc \<Rightarrow> 'w \<Rightarrow> bool \<times> 'w"
  rd_blpop :: "string \<Rightarrow> 'w \<Rightarrow> (string + text_doc option) \<times> 'w"

section \<open>What the server stores\<close>

text \<open>Strings, sorted sets (members with their scores, in ascending order) and lists.\<close>

record store =
  st_kv :: "string \<Rightarrow> text_doc option"
  st_zset :: "string \<Rightarrow> (text_doc \<times> int) list"
  st_list :: "string \<Rightarrow> text_doc list"

definition zset_ok :: "(text_doc \<times> int) list \<Rightarrow> bool" where
  "zset_ok z \<longleftrightarrow> sorted (map snd z) \<and> distinct (map fst z)"

text \<open>
  \<^verbatim>\<open>ZADD\<close>: the member goes, with its new score, between the smaller and the larger
  ones; where among equal scores is the server's business.
\<close>

definition zplaced :: "text_doc \<Rightarrow> int \<Rightarrow> (text_doc \<times> int) list \<Rightarrow> (text_doc \<times> int) list \<Rightarrow> bool" where
  "zplaced m s old new \<longleftrightarrow>
     (\<exists>before after. filter (\<lambda>x. fst x \<noteq> m) old = before @ after \<and> new = before @ (m, s) # after \<and>
        (\<forall>x \<in> set before. snd x \<le> s) \<and> (\<forall>x \<in> set after. s \<le> snd x))"

definition redis_ok :: "'w redis \<Rightarrow> ('w \<Rightarrow> store) \<Rightarrow> bool" where
  "redis_ok rd view \<longleftrightarrow>
     (\<forall>k w r. rd_get rd k w = Inr r \<longrightarrow> r = st_kv (view w) k) \<and>
     (\<forall>k v t w w'. rd_set rd k v t w = (True, w') \<longrightarrow>
        view w' = (view w)\<lparr>st_kv := (st_kv (view w))(k \<mapsto> v)\<rparr>) \<and>
     (\<forall>k v t w w'. rd_set rd k v t w = (False, w') \<longrightarrow> view w' = view w) \<and>
     (\<forall>k w w'. rd_del rd k w = (True, w') \<longrightarrow>
        view w' = (view w)\<lparr>st_kv := (st_kv (view w))(k := None)\<rparr>) \<and>
     (\<forall>k w w'. rd_del rd k w = (False, w') \<longrightarrow> view w' = view w) \<and>
     (\<forall>k s m w w'. zset_ok (st_zset (view w) k) \<longrightarrow> rd_zadd rd k s m w = (True, w') \<longrightarrow>
        (\<exists>z. zplaced m s (st_zset (view w) k) z \<and>
           view w' = (view w)\<lparr>st_zset := (st_zset (view w))(k := z)\<rparr>)) \<and>
     (\<forall>k s m w w'. rd_zadd rd k s m w = (False, w') \<longrightarrow> view w' = view w) \<and>
     (\<forall>k w. rd_zrange_first rd k w = take 1 (map fst (st_zset (view w) k))) \<and>
     (\<forall>k m w. view (rd_zrem rd k m w) = (view w)\<lparr>st_zset :=
        (st_zset (view w))(k := filter (\<lambda>x. fst x \<noteq> m) (st_zset (view w) k))\<rparr>) \<and>
     (\<forall>f w r w'. rd_eval rd f w = (Inr r, w') \<longrightarrow> (r, w') = f w) \<and>
     (\<forall>f w e w'. rd_eval rd f w = (Inl e, w') \<longrightarrow> view w' = view w) \<and>
     (\<forall>k v w w'. rd_rpush rd k v w = (True, w') \<longrightarrow>
        view w' = (view w)\<lparr>st_list := (st_list (view w))(k := st_list (view w) k @ [v])\<rparr>) \<and>
     (\<forall>k v w w'. rd_rpush rd k v w = (False, w') \<longrightarrow> view w' = view w) \<and>
     (\<forall>k w v w'. rd_blpop rd k w = (Inr (Some v), w') \<longrightarrow>
        (\<exists>vs. st_list (view w) k = v # vs \<and>
           view w' = (view w)\<lparr>st_list := (st_list (view w))(k := vs)\<rparr>)) \<and>
     (\<forall>k w w'. rd_blpop rd k w = (Inr None, w') \<longrightarrow> st_list (view w) k = [] \<and> view w' = view w) \<and>
     (\<forall>k w e w'. rd_blpop rd k w = (Inl e, w') \<longrightarrow> view w' = view w)"

text \<open>A server that answers every command: a write succeeds, a read gives no error.\<close>

definition redis_up :: "'w redis \<Rightarrow> bool" where
  "redis_up rd \<longleftrightarrow>
     (\<forall>k w. \<exists>r. rd_get rd k w = Inr r) \<and>
     (\<forall>k v t w. fst (rd_set rd k v t w)) \<and> (\<forall>k w. fst (rd_del rd k w)) \<and>
     (\<forall>k s m w. fst (rd_zadd rd k s m w)) \<and> (\<forall>k v w. fst (rd_rpush rd k v w)) \<and>
     (\<forall>f w. \<exists>r. fst (rd_eval rd f w) = Inr r) \<and> (\<forall>k w. \<exists>r. fst (rd_blpop rd k w) = Inr r)"

section \<open>A store in memory\<close>

fun zput :: "text_doc \<times> int \<Rightarrow> (text_doc \<times> int) list \<Rightarrow> (text_doc \<times> int) list" where
  "zput x [] = [x]"
| "zput x (y # ys) = (if snd x \<le> snd y then x # y # ys else y # zput x ys)"

definition mem_zadd :: "text_doc \<Rightarrow> int \<Rightarrow> (text_doc \<times> int) list \<Rightarrow> (text_doc \<times> int) list" where
  "mem_zadd m s z = zput (m, s) (filter (\<lambda>x. fst x \<noteq> m) z)"

lemma zput_sorted_split:
  "sorted (map snd ys) \<Longrightarrow> \<exists>a b. ys = a @ b \<and> zput x ys = a @ x # b \<and>
     (\<forall>y \<in> set a. snd y \<le> snd x) \<and> (\<forall>y \<in> set b. snd x \<le> snd y)"
proof (induction ys)
  case Nil
  then show ?case by simp
next
  case (Cons y ys)
  show ?case
  proof (cases "snd x \<le> snd y")
    case True
    with Cons.prems show ?thesis
      by (intro exI [of _ "[]"] exI [of _ "y # ys"]) (auto intro: order_trans)
  next
    case False
    from Cons obtain a b where "ys = a @ b" "zput x ys = a @ x # b"
      "\<forall>y \<in> set a. snd y \<le> snd x" "\<forall>y \<in> set b. snd x \<le> snd y" by auto
    with False show ?thesis by (intro exI [of _ "y # a"] exI [of _ b]) auto
  qed
qed

lemma zplaced_mem_zadd:
  assumes "zset_ok z"
  shows "zplaced m s z (mem_zadd m s z)"
proof -
  have "sorted (map snd (filter (\<lambda>x. fst x \<noteq> m) z))"
    using assms by (simp add: zset_ok_def sorted_filter)
  from zput_sorted_split [OF this, of "(m, s)"] show ?thesis
    by (simp add: zplaced_def mem_zadd_def)
qed

lemma zplaced_ok:
  assumes "zset_ok old" and "zplaced m s old new"
  shows "zset_ok new"
proof -
  obtain b a where ba: "filter (\<lambda>x. fst x \<noteq> m) old = b @ a" and new: "new = b @ (m, s) # a"
    and le: "\<forall>x \<in> set b. snd x \<le> s" "\<forall>x \<in> set a. s \<le> snd x"
    using assms(2) by (auto simp: zplaced_def)
  have "sorted (map snd (b @ a))" "distinct (map fst (b @ a))"
    using assms(1) unfolding ba [symmetric]
    by (simp_all add: zset_ok_def sorted_filter distinct_map_filter)
  moreover have "m \<notin> fst ` set (b @ a)" unfolding ba [symmetric] by auto
  ultimately show ?thesis
    using le unfolding zset_ok_def new by (auto simp: sorted_append)
qed

definition mem_redis :: "'a store_scheme redis" where
  "mem_redis = \<lparr>
     rd_get = (\<lambda>k w. Inr (st_kv w k)),
     rd_set = (\<lambda>k v t w. (True, w\<lparr>st_kv := (st_kv w)(k \<mapsto> v)\<rparr>)),
     rd_del = (\<lambda>k w. (True, w\<lparr>st_kv := (st_kv w)(k := None)\<rparr>)),
     rd_sadd = (\<lambda>k v w. w),
     rd_expire_at = (\<lambda>k t w. w),
     rd_zadd = (\<lambda>k s m w. (True, w\<lparr>st_zset := (st_zset w)(k := mem_zadd m s (st_zset w k))\<rparr>)),
     rd_zrange_first = (\<lambda>k w. take 1 (map fst (st_zset w k))),
     rd_zrem = (\<lambda>k m w. w\<lparr>st_zset := (st_zset w)(k := filter (\<lambda>x. fst x \<noteq> m) (st_zset w k))\<rparr>),
     rd_eval = (\<lambda>f w. (Inr (fst (f w)), snd (f w))),
     rd_rpush = (\<lambda>k v w. (True, w\<lparr>st_list := (st_list w)(k := st_list w k @ [v])\<rparr>)),
     rd_blpop = (\<lambda>k w. (case st_list w k of
        [] \<Rightarrow> (Inr None, w) | v # vs \<Rightarrow> (Inr (Some v), w\<lparr>st_list := (st_list w)(k := vs)\<rparr>)))\<rparr>"

definition empty_store :: store where
  "empty_store = \<lparr>st_kv = Map.empty, st_zset = (\<lambda>_. []), st_list = (\<lambda>_. [])\<rparr>"

text \<open>The memory may hold more than the server does: \<open>store.truncate\<close> is the server's part.\<close>

lemma truncate_simps [simp]:
  "st_kv (store.truncate w) = st_kv w" "st_zset (store.truncate w) = st_zset w"
  "st_list (store.truncate w) = st_list w"
  "store.truncate (w\<lparr>st_kv := a\<rparr>) = (store.truncate w)\<lparr>st_kv := a\<rparr>"
  "store.truncate (w\<lparr>st_zset := b\<rparr>) = (store.truncate w)\<lparr>st_zset := b\<rparr>"
  "store.truncate (w\<lparr>st_list := c\<rparr>) = (store.truncate w)\<lparr>st_list := c\<rparr>"
  by (cases w; simp add: store.truncate_def)+

lemma mem_redis_ok_in: "redis_ok mem_redis store.truncate"
proof -
  have "zset_ok (st_zset w k) \<Longrightarrow> \<exists>z. zplaced m s (st_zset w k) z \<and>
      (store.truncate w)\<lparr>st_zset := (st_zset w)(k := mem_zadd m s (st_zset w k))\<rparr> =
      (store.truncate w)\<lparr>st_zset := (st_zset w)(k := z)\<rparr>"
    for w :: "'a store_scheme" and k m s using zplaced_mem_zadd by blast
  then show ?thesis
    by (auto simp: redis_ok_def mem_redis_def split: list.splits)
qed

lemma mem_redis_ok: "redis_ok mem_redis id"
proof -
  have "store.truncate = (id :: store \<Rightarrow> store)" by (rule ext) (simp add: store.truncate_def)
  with mem_redis_ok_in show ?thesis by metis
qed

lemma mem_redis_up: "redis_up mem_redis"
  by (auto simp: redis_up_def mem_redis_def split: list.splits)

section \<open>Reading the laws off\<close>

lemma redis_okD:
  assumes "redis_ok rd view"
  shows "rd_get rd k w = Inr r \<Longrightarrow> r = st_kv (view w) k"
    and "rd_set rd k v t w = (True, w') \<Longrightarrow> view w' = (view w)\<lparr>st_kv := (st_kv (view w))(k \<mapsto> v)\<rparr>"
    and "rd_del rd k w = (True, w') \<Longrightarrow> view w' = (view w)\<lparr>st_kv := (st_kv (view w))(k := None)\<rparr>"
    and "zset_ok (st_zset (view w) k) \<Longrightarrow> rd_zadd rd k s m w = (True, w') \<Longrightarrow>
      \<exists>z. zplaced m s (st_zset (view w) k) z \<and>
        view w' = (view w)\<lparr>st_zset := (st_zset (view w))(k := z)\<rparr>"
    and "rd_zadd rd k s m w = (False, w') \<Longrightarrow> view w' = view w"
    and "rd_zrange_first rd k w = take 1 (map fst (st_zset (view w) k))"
    and "view (rd_zrem rd k m w) = (view w)\<lparr>st_zset :=
      (st_zset (view w))(k := filter (\<lambda>x. fst x \<noteq> m) (st_zset (view w) k))\<rparr>"
    and "rd_eval rd f w = (Inr q, w') \<Longrightarrow> (q, w') = f w"
    and "rd_rpush rd k v w = (True, w') \<Longrightarrow>
      view w' = (view w)\<lparr>st_list := (st_list (view w))(k := st_list (view w) k @ [v])\<rparr>"
    and "rd_blpop rd k w = (Inr (Some v), w') \<Longrightarrow> \<exists>vs. st_list (view w) k = v # vs \<and>
      view w' = (view w)\<lparr>st_list := (st_list (view w))(k := vs)\<rparr>"
    and "rd_blpop rd k w = (Inr None, w') \<Longrightarrow> st_list (view w) k = [] \<and> view w' = view w"
  using assms unfolding redis_ok_def by (elim conjE; simp)+

lemma redis_upD:
  assumes "redis_up rd"
  shows "\<exists>w'. rd_set rd k v t w = (True, w')" and "\<exists>w'. rd_del rd k w = (True, w')"
    and "\<exists>w'. rd_zadd rd k s m w = (True, w')" and "\<exists>w'. rd_rpush rd k v w = (True, w')"
    and "\<exists>r w'. rd_eval rd f w = (Inr r, w')" and "\<exists>r. rd_get rd k w = Inr r"
  using assms unfolding redis_up_def
  by (metis prod.collapse)+


section \<open>What the commands leave alone\<close>

text \<open>
  Sets and expiry times are no part of the \<open>store\<close>, so the commands on them leave it as it is;
  and no command of the Redis server touches another server, whose content is \<open>other\<close>.
\<close>

definition redis_sets_ok :: "'w redis \<Rightarrow> ('w \<Rightarrow> store) \<Rightarrow> bool" where
  "redis_sets_ok rd view \<longleftrightarrow>
     (\<forall>k v w. view (rd_sadd rd k v w) = view w) \<and> (\<forall>k t w. view (rd_expire_at rd k t w) = view w)"

definition redis_leaves :: "'w redis \<Rightarrow> ('w \<Rightarrow> 'o) \<Rightarrow> bool" where
  "redis_leaves rd other \<longleftrightarrow>
     (\<forall>k v t w. other (snd (rd_set rd k v t w)) = other w) \<and>
     (\<forall>k w. other (snd (rd_del rd k w)) = other w) \<and>
     (\<forall>k v w. other (rd_sadd rd k v w) = other w) \<and>
     (\<forall>k t w. other (rd_expire_at rd k t w) = other w) \<and>
     (\<forall>k s m w. other (snd (rd_zadd rd k s m w)) = other w) \<and>
     (\<forall>k m w. other (snd (rd_rpush rd k m w)) = other w) \<and>
     (\<forall>k w. other (snd (rd_blpop rd k w)) = other w)"

lemma redis_leavesD:
  assumes "redis_leaves rd other"
  shows "rd_set rd k v t w = (b, w') \<Longrightarrow> other w' = other w"
    and "rd_del rd k w = (b, w') \<Longrightarrow> other w' = other w"
    and "other (rd_sadd rd k m w) = other w" and "other (rd_expire_at rd k t w) = other w"
    and "rd_zadd rd k s doc w = (b, w') \<Longrightarrow> other w' = other w"
    and "rd_rpush rd k doc w = (b, w') \<Longrightarrow> other w' = other w"
    and "rd_blpop rd k w = (popped, w') \<Longrightarrow> other w' = other w"
  using assms unfolding redis_leaves_def by (metis snd_conv)+

lemma mem_redis_sets_ok: "redis_sets_ok mem_redis view"
  by (simp add: redis_sets_ok_def mem_redis_def)

lemma mem_redis_leaves: "redis_leaves mem_redis store.more"
  by (auto simp: redis_leaves_def mem_redis_def split: list.splits)

end
