(* ===== verification/Cache.thy ===== *)
theory Cache
  imports Redis
begin

text \<open>
  The cache helpers of \<^verbatim>\<open>internal/utils/cache.go\<close> over the Redis commands, calls
  that change the world and may panic, and the refresh sessions
  (\<^verbatim>\<open>internal/utils/types/refresh-session.go\<close>) the user service and the JWT
  middleware keep in the cache.
\<close>

section \<open>Calls with a world\<close>

text \<open>
  A call ends with an outcome and leaves a world, also when it panics: what was written before
  the panic stays.
\<close>

definition bind_call ::
  "'a outcome \<times> 'w \<Rightarrow> ('a \<Rightarrow> 'w \<Rightarrow> 'b outcome \<times> 'w) \<Rightarrow> 'b outcome \<times> 'w" where
  "bind_call m f = (case m of (Return x, w) \<Rightarrow> f x w | (Panic, w) \<Rightarrow> (Panic, w))"

lemma bind_call_simps [simp]:
  "bind_call (Return x, w) f = f x w"
  "bind_call (Panic, w) f = (Panic, w)"
  by (simp_all add: bind_call_def)

section \<open>The cache\<close>

text \<open>\<open>dec\<close> decodes into the type the caller names; \<open>Inr None\<close> is a miss: two nil results.\<close>

definition GetCacheData ::
  "'w redis \<Rightarrow> (json \<Rightarrow> 'a option) \<Rightarrow> string \<Rightarrow> 'w \<Rightarrow> app_error + 'a option" where
  "GetCacheData rd dec cacheKey w =
     (case rd_get rd cacheKey w of
        Inl err \<Rightarrow> Inl (NewAppError StatusInternalServerError
          ''unexpected error occur when trying to get from redis'' ''redis'')
      | Inr None \<Rightarrow> Inr None
      | Inr (Some val) \<Rightarrow>
          (case Option.bind (parse_json val) dec of
             None \<Rightarrow> Inl (NewAppError StatusInternalServerError
               ''unexpected error occur when unmarshal json'' ''json'')
           | Some data \<Rightarrow> Inr (Some data)))"

text \<open>
  The types the program caches are always marshalled, so the first error cannot occur; the
  answer is whether the write succeeded.
\<close>

definition SetCacheData ::
  "'w redis \<Rightarrow> ('a \<Rightarrow> json) \<Rightarrow> string \<Rightarrow> 'a \<Rightarrow> int \<Rightarrow> 'w \<Rightarrow> bool \<times> 'w" where
  "SetCacheData rd enc cacheKey data expire w = rd_set rd cacheKey (JsonText (enc data)) expire w"

definition DeleteCacheData :: "'w redis \<Rightarrow> string \<Rightarrow> 'w \<Rightarrow> bool \<times> 'w" where
  "DeleteCacheData rd cacheKey w = rd_del rd cacheKey w"

lemma GetCacheData_up:
  assumes "redis_ok rd view" and "redis_up rd"
  shows "GetCacheData rd dec k w =
    (case st_kv (view w) k of
       None \<Rightarrow> Inr None
     | Some v \<Rightarrow>
         (case Option.bind (parse_json v) dec of
            None \<Rightarrow> Inl (NewAppError StatusInternalServerError
              ''unexpected error occur when unmarshal json'' ''json'')
          | Some d \<Rightarrow> Inr (Some d)))"
proof -
  obtain r where "rd_get rd k w = Inr r" using redis_upD(6) [OF assms(2)] by blast
  moreover from this have "r = st_kv (view w) k" by (rule redis_okD(1) [OF assms(1)])
  ultimately show ?thesis by (simp add: GetCacheData_def split: option.splits)
qed

lemma GetCacheData_hit:
  assumes "redis_ok rd view" and "GetCacheData rd dec k w = Inr (Some d)"
  shows "\<exists>doc. st_kv (view w) k = Some (JsonText doc) \<and> dec doc = Some d"
proof -
  obtain v where "rd_get rd k w = Inr (Some v)" and v: "Option.bind (parse_json v) dec = Some d"
    using assms(2) by (auto simp: GetCacheData_def split: sum.splits option.splits)
  then have "st_kv (view w) k = Some v" using redis_okD(1) [OF assms(1)] by metis
  with v show ?thesis by (cases v) auto
qed

lemma SetCacheData_up:
  assumes "redis_ok rd view" and "redis_up rd"
  shows "\<exists>w'. SetCacheData rd enc k x t w = (True, w') \<and>
    view w' = (view w)\<lparr>st_kv := (st_kv (view w))(k \<mapsto> JsonText (enc x))\<rparr>"
  using redis_upD(1) [OF assms(2)] redis_okD(2) [OF assms(1)] unfolding SetCacheData_def by metis

section \<open>Refresh sessions\<close>

record refresh_session =
  rs_user_id :: string
  rs_jti :: string
  rs_fingerprint :: string
  rs_issue_at :: int
  rs_expire_at :: int
  rs_status :: string

definition session_json :: "refresh_session \<Rightarrow> json" where
  "session_json s = JObj [(''userId'', JStr (rs_user_id s)), (''jti'', JStr (rs_jti s)),
     (''fingerprint'', JStr (rs_fingerprint s)), (''issue_at'', JInt (rs_issue_at s)),
     (''expires_refresh'', JInt (rs_expire_at s)), (''status'', JStr (rs_status s))]"

definition load_session :: "json \<Rightarrow> refresh_session option" where
  "load_session = load_struct
     \<lparr>rs_user_id = '''', rs_jti = '''', rs_fingerprint = '''', rs_issue_at = 0, rs_expire_at = 0,
      rs_status = ''''\<rparr>
     (\<lambda>kvs. Option.bind (load_field dec_string ''userId'' kvs '''') (\<lambda>userId.
      Option.bind (load_field dec_string ''jti'' kvs '''') (\<lambda>jti.
      Option.bind (load_field dec_string ''fingerprint'' kvs '''') (\<lambda>fingerprint.
      Option.bind (load_field dec_int64 ''issue_at'' kvs 0) (\<lambda>issue_at.
      Option.bind (load_field dec_int64 ''expires_refresh'' kvs 0) (\<lambda>expire_at.
      Option.bind (load_field dec_string ''status'' kvs '''') (\<lambda>status.
        Some \<lparr>rs_user_id = userId, rs_jti = jti, rs_fingerprint = fingerprint, rs_issue_at = issue_at,
          rs_expire_at = expire_at, rs_status = status\<rparr>)))))))"

lemma key_matches_userId [simp]:
  "list_all plain_char k \<Longrightarrow> key_matches k ''userId'' \<longleftrightarrow> k = ''userid''"
  "list_all plain_char k \<Longrightarrow> key_matches ''userId'' k \<longleftrightarrow> k = ''userid''"
  "key_matches ''userId'' ''userId''"
proof -
  have "fold_name ''userId'' = ''userid''" by code_simp
  then show "list_all plain_char k \<Longrightarrow> key_matches k ''userId'' \<longleftrightarrow> k = ''userid''"
    and "list_all plain_char k \<Longrightarrow> key_matches ''userId'' k \<longleftrightarrow> k = ''userid''"
    by (auto simp: key_matches_def fold_name_plain)
  show "key_matches ''userId'' ''userId''" by (simp add: key_matches_def)
qed

lemma load_session_json:
  "in_int64 (rs_issue_at s) \<Longrightarrow> in_int64 (rs_expire_at s) \<Longrightarrow> load_session (session_json s) = Some s"
  by (cases s) (simp add: load_session_def session_json_def)

lemma load_field_int64:
  "load_field dec_int64 name kvs cur = Some n \<Longrightarrow> in_int64 cur \<Longrightarrow> in_int64 n"
proof (induction kvs arbitrary: cur)
  case (Cons kv kvs)
  have "dec_int64 cur v = Some m \<Longrightarrow> in_int64 m" for v m
    using Cons.prems(2) by (cases v) (auto split: if_splits)
  with Cons show ?case by (auto split: if_splits Option.bind_splits)
qed simp

lemma load_session_int64:
  assumes "load_session doc = Some s"
  shows "in_int64 (rs_issue_at s)" and "in_int64 (rs_expire_at s)"
  using assms load_field_int64 [of "''issue_at''" _ 0] load_field_int64 [of "''expires_refresh''" _ 0]
  by (cases doc; auto simp: load_session_def in_int64_def split: Option.bind_splits)+

text \<open>The keys the sessions are kept under.\<close>

definition refresh_key :: "string \<Rightarrow> string \<Rightarrow> string \<Rightarrow> string" where
  "refresh_key userId fingerprint jti = ''refresh:'' @ userId @ '':'' @ fingerprint @ '':'' @ jti"

definition sessions_key :: "string \<Rightarrow> string" where
  "sessions_key userId = ''sessions:'' @ userId"

end
