(* ===== verification/Middleware.thy ===== *)
theory Middleware
  imports Cache Http
begin

text \<open>
  The middleware of \<^verbatim>\<open>internal/middleware\<close>: device fingerprints, request
  identifiers, bearer tokens, and bearer tokens with automatic refresh from the refresh cookie.
  A handler turns a request and a world into a reply and a world; \<open>clk i\<close> is the \<open>i\<close>-th reading of
  the clock in one call.
\<close>

type_synonym 'w http_handler = "http_request \<Rightarrow> 'w \<Rightarrow> http_reply outcome \<times> 'w"

section \<open>Fingerprints and request identifiers\<close>

definition GetDeviceFingerprint :: "'w http_handler \<Rightarrow> 'w http_handler" where
  "GetDeviceFingerprint next_handler r w =
     (let fingerprint = req_header r ''X-Device-Fingerprint'' in
      if fingerprint = ''''
      then (Return (writeAppError (NewAppError StatusBadRequest ''Missing device fingerprint'' ''fingerprint'')), w)
      else next_handler (r\<lparr>ctx_fingerprint := Some fingerprint\<rparr>) w)"

definition WithRequestId :: "string \<Rightarrow> 'w http_handler \<Rightarrow> 'w http_handler" where
  "WithRequestId reqId next_handler r w =
     next_handler (r\<lparr>ctx_request_id := Some reqId, req_header := (req_header r)(''X-Request-ID'' := reqId)\<rparr>) w"

section \<open>Bearer tokens\<close>

definition unauthorized :: "string \<Rightarrow> string \<Rightarrow> http_reply" where
  "unauthorized msg field = writeAppError (NewAppError StatusUnauthorized msg field)"

definition JWTAuth ::
  "((signing_method \<Rightarrow> string + 'pub) \<Rightarrow> string \<Rightarrow> token_error + (claims \<times> bool)) \<Rightarrow> 'pub \<Rightarrow> int
   \<Rightarrow> 'w http_handler \<Rightarrow> 'w http_handler" where
  "JWTAuth parse publicKey now next_handler r w =
     (let authHeader = req_header r ''Authorization'' in
      if authHeader = '''' then (Return (unauthorized ''Missing Authorization header'' ''auth''), w)
      else
        (case bearer_token authHeader of
           None \<Rightarrow> (Return (unauthorized ''Invalid Authorization header format'' ''auth''), w)
         | Some tokenStr \<Rightarrow>
             (case ParseAndVerifySign parse now tokenStr publicKey of
                Inl err \<Rightarrow> (Return (unauthorized ''Invalid or expired token'' ''auth''), w)
              | Inr c \<Rightarrow> next_handler (r\<lparr>ctx_user := Some (Claims_value c)\<rparr>) w)))"

section \<open>Automatic refresh\<close>

abbreviation refreshTTL :: int where "refreshTTL \<equiv> 7 * 24 * Hour"

text \<open>
  The branch for an expired access token: the reply that refuses, or the subject to go on with,
  the new refresh token for the cookie and the new access token for the header. Reading through a
  nil identifier, a nil session or the nil claims of a failed second parse panics.
\<close>

definition refresh_tokens ::
  "((string \<times> json) list \<Rightarrow> 'priv \<Rightarrow> string + string)
   \<Rightarrow> ((signing_method \<Rightarrow> string + 'pub) \<Rightarrow> string \<Rightarrow> token_error + (claims \<times> bool)) \<Rightarrow> 'priv \<Rightarrow> 'pub
   \<Rightarrow> 'w redis \<Rightarrow> (nat \<Rightarrow> int) \<Rightarrow> string \<Rightarrow> string \<Rightarrow> http_request \<Rightarrow> 'w
   \<Rightarrow> (http_reply + (string \<times> string \<times> string)) outcome \<times> 'w" where
  "refresh_tokens sign parse privateKey publicKey rd clk uuid fp r w =
     (case req_cookie r ''refresh_token'' of
        None \<Rightarrow> (Return (Inl (unauthorized ''Refresh token missing'' ''auth'')), w)
      | Some refreshCookie \<Rightarrow>
     (case ParseAndVerifySign parse (clk 1) refreshCookie publicKey of
        Inl rErr \<Rightarrow> (Return (Inl (unauthorized ''Invalid refresh token'' ''auth'')), w)
      | Inr refreshClaims \<Rightarrow>
     (case cl_jti refreshClaims of
        None \<Rightarrow> (Panic, w)
      | Some jti \<Rightarrow>
     (let sessionKey = refresh_key (cl_sub refreshClaims) fp jti in
      case GetCacheData rd load_session sessionKey w of
        Inl err \<Rightarrow> (Return (Inl (unauthorized ''Refresh token revoked or expired'' ''auth'')), w)
      | Inr None \<Rightarrow> (Panic, w)
      | Inr (Some session) \<Rightarrow>
          if rs_status session \<noteq> ''valid'' \<or> rs_expire_at session < unix_seconds (clk 2)
          then (Return (Inl (unauthorized ''Refresh token revoked or expired'' ''auth'')), w)
          else
     (case IssueNewTokens sign (clk 3) uuid (cl_sub refreshClaims) (cl_username refreshClaims) privateKey of
        Inl genErr \<Rightarrow>
          (Return (Inl (writeAppError
             (NewAppError StatusInternalServerError ''Failed to issue new tokens'' ''auth''))), w)
      | Inr (newAccess, newRefresh, newJTI) \<Rightarrow>
     (let issue_at = unix_seconds (clk 4);
          newSession = \<lparr>rs_user_id = cl_sub refreshClaims, rs_jti = newJTI, rs_fingerprint = fp,
            rs_issue_at = issue_at, rs_expire_at = issue_at + refreshTTL div Second,
            rs_status = ''valid''\<rparr>;
          (_, w1) = SetCacheData rd session_json (refresh_key (cl_sub refreshClaims) fp newJTI)
            newSession refreshTTL w;
          revoked = session\<lparr>rs_status := ''revoked''\<rparr>;
          (_, w2) = SetCacheData rd session_json sessionKey revoked
            (rs_expire_at session * Second - clk 5) w1
      in case ParseAndVerifySign parse (clk 6) newAccess publicKey of
           Inl err \<Rightarrow> (Panic, w2)
         | Inr c \<Rightarrow> (Return (Inr (cl_sub c, newRefresh, newAccess)), w2)))))))"

definition JWTAuthWithAutoRefresh ::
  "((string \<times> json) list \<Rightarrow> 'priv \<Rightarrow> string + string)
   \<Rightarrow> ((signing_method \<Rightarrow> string + 'pub) \<Rightarrow> string \<Rightarrow> token_error + (claims \<times> bool)) \<Rightarrow> 'priv \<Rightarrow> 'pub
   \<Rightarrow> 'w redis \<Rightarrow> (nat \<Rightarrow> int) \<Rightarrow> string \<Rightarrow> 'w http_handler \<Rightarrow> 'w http_handler" where
  "JWTAuthWithAutoRefresh sign parse privateKey publicKey rd clk uuid next_handler r w =
     (case ctx_fingerprint r of
        None \<Rightarrow> (Return (unauthorized ''Missing device fingerprint'' ''fingerprint''), w)
      | Some fp \<Rightarrow>
     if fp = '''' then (Return (unauthorized ''Missing device fingerprint'' ''fingerprint''), w)
     else
     (let authHeader = req_header r ''Authorization'' in
      if authHeader = '''' then (Return (unauthorized ''Missing Authorization header'' ''auth''), w)
      else
     (case bearer_token authHeader of
        None \<Rightarrow> (Return (unauthorized ''Invalid Authorization header format'' ''auth''), w)
      | Some tokenStr \<Rightarrow>
     (case ParseAndVerifySign parse (clk 0) tokenStr publicKey of
        Inr c \<Rightarrow> next_handler (r\<lparr>ctx_user := Some (Sub_value (cl_sub c))\<rparr>) w
      | Inl err \<Rightarrow>
          if err = ErrTokenExpired
          then bind_call (refresh_tokens sign parse privateKey publicKey rd clk uuid fp r w)
            (\<lambda>res w1. case res of
               Inl rep \<Rightarrow> (Return rep, w1)
             | Inr (sub, newRefresh, newAccess) \<Rightarrow>
                 bind_call (next_handler (r\<lparr>ctx_user := Some (Sub_value sub)\<rparr>) w1) (\<lambda>rep w2.
                   (Return (rep\<lparr>rep_cookies := (''refresh_token'', newRefresh) # rep_cookies rep,
                      rep_headers := (''X-New-Access-Token'', newAccess) # rep_headers rep\<rparr>), w2)))
          else (Return (unauthorized ''Invalid token'' ''auth''), w)))))"

section \<open>What the branches do\<close>

text \<open>A refresh that goes on has found a verified cookie and its valid session.\<close>

lemma refresh_tokens_goes_on:
  assumes "refresh_tokens sign parse privateKey publicKey rd clk uuid fp r w
      = (Return (Inr (sub, newRefresh, newAccess)), w')"
  obtains rt c jti session newJTI d where
    "req_cookie r ''refresh_token'' = Some rt"
    "ParseAndVerifySign parse (clk 1) rt publicKey = Inr c" "cl_jti c = Some jti"
    "GetCacheData rd load_session (refresh_key (cl_sub c) fp jti) w = Inr (Some session)"
    "rs_status session = ''valid''" "unix_seconds (clk 2) \<le> rs_expire_at session"
    "IssueNewTokens sign (clk 3) uuid (cl_sub c) (cl_username c) privateKey
       = Inr (newAccess, newRefresh, newJTI)"
    "ParseAndVerifySign parse (clk 6) newAccess publicKey = Inr d" "sub = cl_sub d"
proof -
  note def = assms [unfolded refresh_tokens_def]
  obtain rt where rt: "req_cookie r ''refresh_token'' = Some rt"
    using def by (cases "req_cookie r ''refresh_token''") simp_all
  obtain c where c: "ParseAndVerifySign parse (clk 1) rt publicKey = Inr c"
    using def rt by (cases "ParseAndVerifySign parse (clk 1) rt publicKey") simp_all
  obtain jti where jti: "cl_jti c = Some jti"
    using def rt c by (cases "cl_jti c") simp_all
  obtain session where s: "GetCacheData rd load_session (refresh_key (cl_sub c) fp jti) w = Inr (Some session)"
    using def rt c jti by (simp add: Let_def split: sum.splits option.splits)
  have ok: "rs_status session = ''valid''" "unix_seconds (clk 2) \<le> rs_expire_at session"
    using def rt c jti s by (simp_all add: Let_def split: if_splits)
  obtain newJTI where new: "IssueNewTokens sign (clk 3) uuid (cl_sub c) (cl_username c) privateKey
      = Inr (newAccess, newRefresh, newJTI)"
    and "\<exists>d. ParseAndVerifySign parse (clk 6) newAccess publicKey = Inr d \<and> sub = cl_sub d"
    using def rt c jti s ok
    by (simp add: Let_def not_less split: sum.splits prod.splits)
  then show ?thesis using that [OF rt c jti s ok new] by blast
qed

text \<open>
  The four ways through the middleware: an answer before anything is written, the handler with the
  token's subject, a refresh that answers or panics, and the handler after a refresh.
\<close>

lemma JWTAuthWithAutoRefresh_cases:
  assumes "JWTAuthWithAutoRefresh sign parse privateKey publicKey rd clk uuid next_handler r w = (out, w')"
  obtains (refused) msg field where "out = Return (unauthorized msg field)" "w' = w"
  | (valid) fp tok c where "ctx_fingerprint r = Some fp" "fp \<noteq> ''''"
      "bearer_token (req_header r ''Authorization'') = Some tok"
      "ParseAndVerifySign parse (clk 0) tok publicKey = Inr c"
      "next_handler (r\<lparr>ctx_user := Some (Sub_value (cl_sub c))\<rparr>) w = (out, w')"
  | (not_refreshed) fp res where
      "refresh_tokens sign parse privateKey publicKey rd clk uuid fp r w = (res, w')"
      "\<And>rep. out = Return rep \<Longrightarrow> res = Return (Inl rep)"
  | (refreshed) fp tok sub nr na w1 out1 where "ctx_fingerprint r = Some fp" "fp \<noteq> ''''"
      "bearer_token (req_header r ''Authorization'') = Some tok"
      "refresh_tokens sign parse privateKey publicKey rd clk uuid fp r w = (Return (Inr (sub, nr, na)), w1)"
      "next_handler (r\<lparr>ctx_user := Some (Sub_value sub)\<rparr>) w1 = (out1, w')"
      "\<And>rep. out = Return rep \<Longrightarrow> out1 \<noteq> Panic"
proof (cases "\<exists>msg field. out = Return (unauthorized msg field) \<and> w' = w")
  case True
  then show ?thesis using refused by blast
next
  case False
  then obtain fp where fp: "ctx_fingerprint r = Some fp" "fp \<noteq> ''''"
    using assms by (auto simp: JWTAuthWithAutoRefresh_def split: option.splits if_splits)
  have hdr: "req_header r ''Authorization'' \<noteq> ''''"
    using assms fp False by (auto simp: JWTAuthWithAutoRefresh_def Let_def) blast
  obtain tok where tok: "bearer_token (req_header r ''Authorization'') = Some tok"
    using assms fp hdr False
    by (cases "bearer_token (req_header r ''Authorization'')") (auto simp: JWTAuthWithAutoRefresh_def Let_def)
  note run = assms [unfolded JWTAuthWithAutoRefresh_def fp(1) Let_def tok option.case]
  show ?thesis
  proof (cases "ParseAndVerifySign parse (clk 0) tok publicKey")
    case (Inr c)
    show ?thesis by (rule valid [OF fp tok Inr]) (use run fp(2) hdr Inr in simp)
  next
    case (Inl err)
    with run fp(2) hdr False have "err = ErrTokenExpired" by (auto split: if_splits)
    note run = run [unfolded Inl sum.case if_P [OF this] if_not_P [OF fp(2)] if_not_P [OF hdr]]
    obtain res w1 where ref: "refresh_tokens sign parse privateKey publicKey rd clk uuid fp r w = (res, w1)"
      by fastforce
    show ?thesis
    proof (cases "\<exists>sub nr na. res = Return (Inr (sub, nr, na))")
      case True
      then obtain sub nr na where res: "res = Return (Inr (sub, nr, na))" by blast
      obtain o2 w2 where nx: "next_handler (r\<lparr>ctx_user := Some (Sub_value sub)\<rparr>) w1 = (o2, w2)" by fastforce
      with run ref res have "w2 = w'" "o2 = Panic \<Longrightarrow> out = Panic" by (cases o2; auto)+
      with nx show ?thesis by (intro refreshed [OF fp tok ref [unfolded res]]) auto
    next
      case False
      with run ref have "w1 = w'" "\<And>rep. out = Return rep \<Longrightarrow> res = Return (Inl rep)"
        by (cases res; auto split: sum.splits prod.splits)+
      with ref show ?thesis using not_refreshed by blast
    qed
  qed
qed

lemma refresh_tokens_refuses:
  "refresh_tokens sign parse privateKey publicKey rd clk uuid fp r w = (Return (Inl rep), w')
   \<Longrightarrow> rep_status rep \<in> {401, 500}"
  by (auto simp: refresh_tokens_def unauthorized_def writeAppError_def plain_reply_def Let_def
      split: option.splits sum.splits prod.splits if_splits)

lemma auto_refresh_answer:
  assumes "JWTAuthWithAutoRefresh sign parse privateKey publicKey rd clk uuid next_handler r w = (Return rep, w')"
    and "rep_status rep \<notin> {401, 500}"
  obtains fp tok where "ctx_fingerprint r = Some fp" "fp \<noteq> ''''"
    "bearer_token (req_header r ''Authorization'') = Some tok"
    "(\<exists>c. ParseAndVerifySign parse (clk 0) tok publicKey = Inr c \<and>
        next_handler (r\<lparr>ctx_user := Some (Sub_value (cl_sub c))\<rparr>) w = (Return rep, w')) \<or>
     (\<exists>sub nr na w1 rep0. refresh_tokens sign parse privateKey publicKey rd clk uuid fp r w
          = (Return (Inr (sub, nr, na)), w1) \<and>
        next_handler (r\<lparr>ctx_user := Some (Sub_value sub)\<rparr>) w1 = (Return rep0, w'))"
  using assms(1)
proof (cases rule: JWTAuthWithAutoRefresh_cases)
  case (refused msg field)
  with assms(2) show ?thesis by (simp add: unauthorized_def writeAppError_def plain_reply_def)
next
  case (valid fp tok c)
  then show ?thesis by (intro that [of fp tok]) auto
next
  case (not_refreshed fp res)
  with refresh_tokens_refuses [of sign parse privateKey publicKey rd clk uuid fp r w rep w'] assms(2)
  show ?thesis by simp
next
  case (refreshed fp tok sub nr na w1 out1)
  then obtain rep0 where "out1 = Return rep0" by (cases out1) auto
  with refreshed show ?thesis by (intro that [of fp tok]) auto
qed


section \<open>A concrete configuration\<close>

text \<open>
  A request that sends a token with a refresh cookie, and a store with the session of the cookie.
\<close>

definition example_session :: refresh_session where
  "example_session = \<lparr>rs_user_id = ''u'', rs_jti = ''j'', rs_fingerprint = ''f'', rs_issue_at = 0,
     rs_expire_at = 604800, rs_status = ''valid''\<rparr>"

definition example_request :: "string \<Rightarrow> http_request" where
  "example_request tok = empty_request\<lparr>ctx_fingerprint := Some ''f'',
     req_header := (\<lambda>_. '''')(''Authorization'' := ''Bearer '' @ tok),
     req_cookie := [''refresh_token'' \<mapsto> ''cookie'']\<rparr>"

definition example_sessions :: store where
  "example_sessions = empty_store\<lparr>st_kv :=
     [refresh_key ''u'' ''f'' ''j'' \<mapsto> JsonText (session_json example_session)]\<rparr>"

lemma example_loads: "load_session (session_json example_session) = Some example_session"
  by (rule load_session_json) (simp_all add: example_session_def in_int64_def)

section \<open>Properties\<close>

text \<open>
  C4. Behind the automatic refresh a handler runs for a verified user only. An answer that is no
  refusal was written by the handler behind it, for the subject of an access token that verified,
  or for the subject of a refresh token that verified, whose session is in the cache, valid and not
  expired; the signature of that token verifies under the server's key.
\<close>

theorem protected_requests_are_authenticated:
  assumes "redis_ok rd view"
    and "jwt_checked parse method_of verifies" and "jwt_round_trip sign parse matches" and "matches priv pub"
    and "in_int64 (unix_seconds (clk 3))" and "in_int64 (unix_seconds (clk 3) + 604800)"
    and "JWTAuthWithAutoRefresh sign parse priv pub rd clk uuid next_handler r w = (Return rep, w')"
    and "rep_status rep \<notin> {401, 500}"
  shows "\<exists>fp tok c w1 rep1. ctx_fingerprint r = Some fp \<and> fp \<noteq> '''' \<and> verifies pub tok \<and>
    method_of tok = RSA_method \<and>
    next_handler (r\<lparr>ctx_user := Some (Sub_value (cl_sub c))\<rparr>) w1 = (Return rep1, w') \<and>
    (bearer_token (req_header r ''Authorization'') = Some tok \<and> w1 = w \<and>
       ParseAndVerifySign parse (clk 0) tok pub = Inr c \<or>
     req_cookie r ''refresh_token'' = Some tok \<and> ParseAndVerifySign parse (clk 1) tok pub = Inr c \<and>
       (\<exists>jti doc session. cl_jti c = Some jti \<and>
          st_kv (view w) (refresh_key (cl_sub c) fp jti) = Some (JsonText doc) \<and>
          load_session doc = Some session \<and> rs_status session = ''valid'' \<and>
          unix_seconds (clk 2) \<le> rs_expire_at session))"
proof -
  obtain fp tok where fp: "ctx_fingerprint r = Some fp" "fp \<noteq> ''''"
    and tok: "bearer_token (req_header r ''Authorization'') = Some tok"
    and alt: "(\<exists>c. ParseAndVerifySign parse (clk 0) tok pub = Inr c \<and>
        next_handler (r\<lparr>ctx_user := Some (Sub_value (cl_sub c))\<rparr>) w = (Return rep, w')) \<or>
     (\<exists>sub nr na w1 rep0. refresh_tokens sign parse priv pub rd clk uuid fp r w
          = (Return (Inr (sub, nr, na)), w1) \<and>
        next_handler (r\<lparr>ctx_user := Some (Sub_value sub)\<rparr>) w1 = (Return rep0, w'))"
    using auto_refresh_answer [OF assms(7,8)] by metis
  note genuine = ParseAndVerifySign_genuine [OF assms(2)]
  from alt show ?thesis
  proof (elim disjE exE conjE)
    fix c assume "ParseAndVerifySign parse (clk 0) tok pub = Inr c"
      "next_handler (r\<lparr>ctx_user := Some (Sub_value (cl_sub c))\<rparr>) w = (Return rep, w')"
    then show ?thesis using fp tok genuine by blast
  next
    fix sub nr na w1 rep0
    assume ref: "refresh_tokens sign parse priv pub rd clk uuid fp r w = (Return (Inr (sub, nr, na)), w1)"
      and nx: "next_handler (r\<lparr>ctx_user := Some (Sub_value sub)\<rparr>) w1 = (Return rep0, w')"
    obtain rt c jti session newJTI d where
      rt: "req_cookie r ''refresh_token'' = Some rt" "ParseAndVerifySign parse (clk 1) rt pub = Inr c"
        "cl_jti c = Some jti"
      and get: "GetCacheData rd load_session (refresh_key (cl_sub c) fp jti) w = Inr (Some session)"
      and ok: "rs_status session = ''valid''" "unix_seconds (clk 2) \<le> rs_expire_at session"
      and new: "IssueNewTokens sign (clk 3) uuid (cl_sub c) (cl_username c) priv = Inr (na, nr, newJTI)"
        "ParseAndVerifySign parse (clk 6) na pub = Inr d" "sub = cl_sub d"
      by (rule refresh_tokens_goes_on [OF ref])
    have "cl_sub c = sub"
      using issued_access_verifies(2) [OF assms(3,4) new(1) assms(5,6) new(2)] new(3) by simp
    moreover obtain doc where "st_kv (view w) (refresh_key (cl_sub c) fp jti) = Some (JsonText doc)"
      "load_session doc = Some session"
      using GetCacheData_hit [OF assms(1) get] by blast
    ultimately show ?thesis using fp rt ok nx genuine [OF rt(2)] by blast
  qed
qed

definition echo_user :: "store http_handler" where
  "echo_user r w = (Return (plain_reply 200
     (JStr (case ctx_user r of Some (Sub_value s) \<Rightarrow> s | _ \<Rightarrow> ''''))), w)"

lemma protected_requests_are_authenticated_witness:
  "\<exists>(c :: claims) w1 rep1. echo_user ((example_request ''access'')\<lparr>ctx_user := Some (Sub_value (cl_sub c))\<rparr>) w1 =
       (Return rep1, example_sessions) \<and> cl_sub c = ''u''"
proof -
  have bt: "bearer_token (req_header (example_request ''access'') ''Authorization'') = Some ''access''"
    using bearer_token_format [of "''access''"] by (simp add: example_request_def)
  have hdr: "req_header (example_request ''access'') ''Authorization'' \<noteq> ''''"
    using bearer_tokenD [OF bt] by auto
  have run: "JWTAuthWithAutoRefresh (table_sign example_table) (table_parse example_table) 7 7 mem_redis (\<lambda>_. 0)
      ''k'' echo_user (example_request ''access'') example_sessions =
    (Return (plain_reply 200 (JStr ''u'')), example_sessions)"
    using bt hdr
    by (simp add: JWTAuthWithAutoRefresh_def example_parse echo_user_def example_claims_def Let_def
        example_request_def)
  have "rep_status (plain_reply 200 (JStr ''u'')) \<notin> {401, 500}" by (simp add: plain_reply_def)
  from protected_requests_are_authenticated [OF mem_redis_ok table_checked example_jwt refl _ _ run this]
  obtain tok c w1 rep1 where "echo_user ((example_request ''access'')\<lparr>ctx_user := Some (Sub_value (cl_sub c))\<rparr>) w1 =
      (Return rep1, example_sessions)"
    and "ParseAndVerifySign (table_parse example_table) 0 tok 7 = Inr c"
    by (auto simp: unix_seconds_def in_int64_def)
  moreover from this(2) have "cl_sub c = ''u''"
    by (auto simp: ParseAndVerifySign_def table_parse_def rsa_key_func_def example_table_def
        example_claims_def split: if_splits)
  ultimately show ?thesis by blast
qed

text \<open>
  A request whose access token has expired goes on with what the refresh gives; one whose refresh token
  belongs to a session that is not valid any more is refused.
\<close>

lemma expired_goes_on:
  assumes "ctx_fingerprint r = Some fp" and "fp \<noteq> ''''"
    and "bearer_token (req_header r ''Authorization'') = Some tok"
    and "ParseAndVerifySign parse (clk 0) tok pub = Inl ErrTokenExpired"
    and "refresh_tokens sign parse priv pub rd clk uuid fp r w = (Return (Inr (sub, refresh, access)), w1)"
  shows "JWTAuthWithAutoRefresh sign parse priv pub rd clk uuid next_handler r w =
    bind_call (next_handler (r\<lparr>ctx_user := Some (Sub_value sub)\<rparr>) w1) (\<lambda>rep w2.
      (Return (rep\<lparr>rep_cookies := (''refresh_token'', refresh) # rep_cookies rep,
         rep_headers := (''X-New-Access-Token'', access) # rep_headers rep\<rparr>), w2))"
proof -
  have "req_header r ''Authorization'' \<noteq> ''''" using bearer_tokenD [OF assms(3)] by auto
  with assms show ?thesis by (simp add: JWTAuthWithAutoRefresh_def Let_def)
qed

lemma ended_session_refused:
  assumes "ctx_fingerprint r = Some fp" and "fp \<noteq> ''''"
    and "bearer_token (req_header r ''Authorization'') = Some tok"
    and "ParseAndVerifySign parse (clk 0) tok pub = Inl ErrTokenExpired"
    and "req_cookie r ''refresh_token'' = Some rt" and "ParseAndVerifySign parse (clk 1) rt pub = Inr c"
    and "cl_jti c = Some jti"
    and "GetCacheData rd load_session (refresh_key (cl_sub c) fp jti) w = Inr (Some session)"
    and "rs_status session \<noteq> ''valid''"
  shows "JWTAuthWithAutoRefresh sign parse priv pub rd clk uuid next_handler r w =
    (Return (unauthorized ''Refresh token revoked or expired'' ''auth''), w)"
proof -
  have "refresh_tokens sign parse priv pub rd clk uuid fp r w =
      (Return (Inl (unauthorized ''Refresh token revoked or expired'' ''auth'')), w)"
    using assms(5-9) by (simp add: refresh_tokens_def Let_def)
  moreover have "req_header r ''Authorization'' \<noteq> ''''" using bearer_tokenD [OF assms(3)] by auto
  ultimately show ?thesis using assms(1-4) by (simp add: JWTAuthWithAutoRefresh_def Let_def)
qed



end
