(* ===== verification/Float64.thy ===== *)
theory Float64
  imports Prelude
begin

text \<open>
  The \<^verbatim>\<open>float64\<close> arithmetic of the queue's scores. All values are integers far
  below the largest double, so a double is the integer nearest to the exact result that fits a
  significand of 53 bits, ties to even. This is Go's and IEEE 754's rounding, so no line of
  the repository is mapped to it.
\<close>

fun bit_len :: "nat \<Rightarrow> nat" where
  "bit_len n = (if n = 0 then 0 else Suc (bit_len (n div 2)))"

declare bit_len.simps [simp del]

definition round_half_even :: "nat \<Rightarrow> nat \<Rightarrow> nat" where
  "round_half_even k n =
     (let q = n div 2 ^ k; r = n mod 2 ^ k; half = 2 ^ (k - 1)
      in (if r > half \<or> (r = half \<and> odd q) then q + 1 else q) * 2 ^ k)"

definition f64_nat :: "nat \<Rightarrow> nat" where
  "f64_nat n = (if bit_len n \<le> 53 then n else round_half_even (bit_len n - 53) n)"

definition f64 :: "int \<Rightarrow> int" where
  "f64 n = sgn n * int (f64_nat (nat \<bar>n\<bar>))"

lemma bit_len_le: "n < 2 ^ k \<Longrightarrow> bit_len n \<le> k"
proof (induction n arbitrary: k rule: bit_len.induct)
  case (1 n)
  show ?case
  proof (cases "n = 0")
    case False
    then obtain j where k: "k = Suc j" using "1.prems" by (cases k) auto
    then have "bit_len (n div 2) \<le> j" using "1.IH" False "1.prems" by simp
    then show ?thesis using k by (simp add: bit_len.simps [of n])
  qed (simp add: bit_len.simps)
qed

lemma f64_exact: "\<bar>n\<bar> < 2 ^ 53 \<Longrightarrow> f64 n = n"
  using bit_len_le [of "nat \<bar>n\<bar>" 53]
  by (simp add: f64_def f64_nat_def nat_less_iff sgn_mult_abs)

end
