(* ===== verification/JobQueue.thy ===== *)
theory JobQueue
  imports Redis Float64 Channel
begin

text \<open>
  Jobs and the priority queue: \<^verbatim>\<open>internal/queue\<close> and the worker pool of
  \<^verbatim>\<open>internal/worker/worker.go\<close>. The world \<open>'w\<close> is whatever the Redis client and the
  job handlers act on.
\<close>

section \<open>Jobs\<close>

record job =
  jb_id :: string
  jb_type :: string
  jb_payload :: "json option"
  jb_priority :: int
  jb_retry :: int
  jb_max_retry :: int
  jb_error_msg :: string
  jb_created_at :: int
  jb_expire_at :: int

definition zero_job :: job where
  "zero_job = \<lparr>jb_id = '''', jb_type = '''', jb_payload = None, jb_priority = 0, jb_retry = 0,
     jb_max_retry = 0, jb_error_msg = '''', jb_created_at = 0, jb_expire_at = 0\<rparr>"

definition job_json :: "job \<Rightarrow> json" where
  "job_json j = JObj ([(''id'', JStr (jb_id j)), (''type'', JStr (jb_type j)),
     (''payload'', enc_raw (jb_payload j)), (''priority'', JInt (jb_priority j)),
     (''retry'', JInt (jb_retry j)), (''max_retry'', JInt (jb_max_retry j))]
     @ omit_empty_str ''error_msg'' (jb_error_msg j)
     @ [(''created_at'', JInt (jb_created_at j)), (''expired_at'', JInt (jb_expire_at j))])"

definition load_job :: "(string \<times> json) list \<Rightarrow> job option" where
  "load_job kvs =
     Option.bind (load_field dec_string ''id'' kvs '''') (\<lambda>i.
     Option.bind (load_field dec_string ''type'' kvs '''') (\<lambda>ty.
     Option.bind (load_field dec_raw ''payload'' kvs None) (\<lambda>payload.
     Option.bind (load_field dec_int64 ''priority'' kvs 0) (\<lambda>priority.
     Option.bind (load_field dec_int64 ''retry'' kvs 0) (\<lambda>retry.
     Option.bind (load_field dec_int64 ''max_retry'' kvs 0) (\<lambda>max_retry.
     Option.bind (load_field dec_string ''error_msg'' kvs '''') (\<lambda>error_msg.
     Option.bind (load_field dec_int64 ''created_at'' kvs 0) (\<lambda>created_at.
     Option.bind (load_field dec_int64 ''expired_at'' kvs 0) (\<lambda>expire_at.
       Some \<lparr>jb_id = i, jb_type = ty, jb_payload = payload, jb_priority = priority,
         jb_retry = retry, jb_max_retry = max_retry, jb_error_msg = error_msg,
         jb_created_at = created_at, jb_expire_at = expire_at\<rparr>)))))))))"

definition unmarshal_job :: "text_doc \<Rightarrow> job option" where
  "unmarshal_job t = unmarshal_struct zero_job load_job t"

definition marshal_job :: "job \<Rightarrow> text_doc" where
  "marshal_job j = JsonText (job_json j)"

text \<open>Every integer of a job fits an \<^verbatim>\<open>int64\<close>, and its payload is not the nil slice.\<close>

definition job_fits :: "job \<Rightarrow> bool" where
  "job_fits j \<longleftrightarrow> in_int64 (jb_priority j) \<and> in_int64 (jb_retry j) \<and> in_int64 (jb_max_retry j) \<and>
     in_int64 (jb_created_at j) \<and> in_int64 (jb_expire_at j) \<and> jb_payload j \<noteq> None"

lemma unmarshal_marshal_job: "job_fits j \<Longrightarrow> unmarshal_job (marshal_job j) = Some j"
  by (cases j; cases "jb_payload j"; cases "jb_error_msg j = ''''")
    (simp_all add: unmarshal_job_def marshal_job_def unmarshal_struct_def job_json_def load_job_def
      job_fits_def enc_raw_def dec_raw_def omit_empty_str_def)

section \<open>Putting jobs into the queue\<close>

text \<open>\<^verbatim>\<open>float64(priority)*1e10 + float64(t)\<close>: every operation rounds.\<close>

definition job_score :: "int \<Rightarrow> int \<Rightarrow> int" where
  "job_score priority t = f64 (f64 (f64 priority * 10000000000) + f64 t)"

abbreviation priority_queue :: string where "priority_queue \<equiv> ''priority_queue''"
abbreviation priority_queue_dlq :: string where "priority_queue_dlq \<equiv> ''priority_queue_dlq''"

definition Enqueue :: "'w redis \<Rightarrow> job \<Rightarrow> 'w \<Rightarrow> bool \<times> 'w" where
  "Enqueue rd j w =
     rd_zadd rd priority_queue (job_score (jb_priority j) (jb_expire_at j)) (marshal_job j) w"

section \<open>The worker pool\<close>

text \<open>The Lua script.\<close>

definition atomicPopScript :: "'w redis \<Rightarrow> 'w \<Rightarrow> text_doc option \<times> 'w" where
  "atomicPopScript rd w =
     (case rd_zrange_first rd priority_queue w of
        m # _ \<Rightarrow> (Some m, rd_zrem rd priority_queue m w)
      | [] \<Rightarrow> (None, w))"

definition popJob :: "'w redis \<Rightarrow> 'w \<Rightarrow> (string + text_doc option) \<times> 'w" where
  "popJob rd w = rd_eval rd (atomicPopScript rd) w"

definition moveToDLQ :: "'w redis \<Rightarrow> job \<Rightarrow> 'w \<Rightarrow> 'w" where
  "moveToDLQ rd j w = snd (rd_rpush rd priority_queue_dlq (marshal_job j) w)"

definition requeueJob :: "'w redis \<Rightarrow> job \<Rightarrow> 'w \<Rightarrow> 'w" where
  "requeueJob rd j w = snd (rd_zadd rd priority_queue
     (job_score (jb_priority j) (jb_created_at j)) (marshal_job j) w)"

text \<open>
  The back-off in 64 bits: shifting by a negative count panics, bits and nanoseconds beyond the
  word are lost. \<open>now\<close> is in nanoseconds.
\<close>

definition retry_delay :: "int \<Rightarrow> int option" where
  "retry_delay retry =
     (if retry - 1 < 0 then None
      else
        (let backoffSeconds = (5 :: 64 word) * push_bit (nat (retry - 1)) 1
         in Some (sint (backoffSeconds * 1000000000))))"

definition scheduleRetry :: "'w redis \<Rightarrow> int \<Rightarrow> job \<Rightarrow> 'w \<Rightarrow> 'w outcome" where
  "scheduleRetry rd now j w =
     (case retry_delay (jb_retry j) of
        None \<Rightarrow> Panic
      | Some delay \<Rightarrow>
          (let retryAt = unix_seconds (now + delay);
               (ok, w') = rd_zadd rd priority_queue (job_score (jb_priority j) retryAt) (marshal_job j) w
           in Return (if ok then w' else moveToDLQ rd j w')))"

text \<open>\<^verbatim>\<open>sendDLA\<close>: one alert per type in ten minutes; it answers whether it alerts.\<close>

definition sendDLA :: "int \<Rightarrow> job \<Rightarrow> (string \<Rightarrow> int option) \<Rightarrow> bool \<times> (string \<Rightarrow> int option)" where
  "sendDLA now j dlaCache =
     (case dlaCache (jb_type j) of
        Some lastAlert \<Rightarrow>
          if now - lastAlert < 10 * Minute then (False, dlaCache)
          else (True, dlaCache(jb_type j \<mapsto> now))
      | None \<Rightarrow> (True, dlaCache(jb_type j \<mapsto> now)))"

text \<open>
  The retry counter is an \<^verbatim>\<open>int\<close>. \<open>t1\<close>, \<open>t2\<close> are the readings of the clock
  before the decision and in \<^verbatim>\<open>scheduleRetry\<close> or \<^verbatim>\<open>sendDLA\<close>.
\<close>

definition int64_of :: "int \<Rightarrow> int" where
  "int64_of n = sint (word_of_int n :: 64 word)"

definition handlerJobFailure ::
  "'w redis \<Rightarrow> int \<Rightarrow> int \<Rightarrow> job \<Rightarrow> string \<Rightarrow> 'w \<times> (string \<Rightarrow> int option)
   \<Rightarrow> ('w \<times> (string \<Rightarrow> int option)) outcome" where
  "handlerJobFailure rd t1 t2 j jobErr st =
     (case st of (w, dla) \<Rightarrow>
      let j' = j\<lparr>jb_retry := int64_of (jb_retry j + 1), jb_error_msg := jobErr\<rparr>;
          now = unix_seconds t1
      in if jb_retry j' \<ge> jb_max_retry j' \<or> now > jb_expire_at j'
         then Return (moveToDLQ rd j' w, snd (sendDLA t2 j' dla))
         else map_outcome_with (\<lambda>w'. (w', dla)) (scheduleRetry rd t2 j' w))"

section \<open>Producer and workers\<close>

record 'w pool =
  wp_world :: 'w
  wp_channel :: "text_doc channel"
  wp_ctx_done :: bool
  wp_dla :: "string \<Rightarrow> int option"

text \<open>
  One tick of the producer goroutine. \<open>Waiting payload j st\<close>: the channel is full and the context
  alive, so the goroutine waits in \<open>offer_job\<close> with the job in hand. \<open>Ended st\<close>: the context has
  ended, the job was given to \<open>requeueJob\<close> and the goroutine returned. \<open>pick\<close> chooses when the
  channel has space and the context has ended.
\<close>

datatype 'w tick = Ticked "'w pool" | Waiting text_doc job "'w pool" | Ended "'w pool"

definition offer_job :: "'w redis \<Rightarrow> bool \<Rightarrow> text_doc \<Rightarrow> job \<Rightarrow> 'w pool \<Rightarrow> 'w tick" where
  "offer_job rd pick payload j st =
     (if wp_ctx_done st \<and> (pick \<or> chan_full (wp_channel st))
      then Ended (st\<lparr>wp_world := requeueJob rd j (wp_world st)\<rparr>)
      else if chan_full (wp_channel st) then Waiting payload j st
      else Ticked (st\<lparr>wp_channel := chan_push payload (wp_channel st)\<rparr>))"

definition produce_tick :: "'w redis \<Rightarrow> bool \<Rightarrow> int \<Rightarrow> 'w pool \<Rightarrow> 'w tick" where
  "produce_tick rd pick now st =
     (let (r, w) = popJob rd (wp_world st); st1 = st\<lparr>wp_world := w\<rparr> in
      case r of
        Inl err \<Rightarrow> Ticked st1
      | Inr None \<Rightarrow> Ticked st1
      | Inr (Some payload) \<Rightarrow>
          (case unmarshal_job payload of
             None \<Rightarrow> Ticked st1
           | Some j \<Rightarrow>
               if unix_seconds now > jb_expire_at j
               then Ticked (st1\<lparr>wp_world := moveToDLQ rd (j\<lparr>jb_error_msg := ''Job expired''\<rparr>) w\<rparr>)
               else offer_job rd pick payload j st1))"

text \<open>
  An iteration of a worker receives from the channel and unmarshals (\<open>take_job\<close>), then runs
  \<open>handle\<close>, which is \<^verbatim>\<open>HandleJob\<close> and whose \<open>Some\<close> is an error, and deals with a failure
  (\<open>finish_job\<close>). On an empty open channel it waits, on a closed one it returns.
\<close>

definition take_job :: "'w pool \<Rightarrow> (job option \<times> 'w pool) option" where
  "take_job st =
     (case ch_buf (wp_channel st) of
        [] \<Rightarrow> None
      | payload # rest \<Rightarrow>
          Some (unmarshal_job payload, st\<lparr>wp_channel := (wp_channel st)\<lparr>ch_buf := rest\<rparr>\<rparr>))"

definition finish_job ::
  "'w redis \<Rightarrow> (job \<Rightarrow> 'w \<Rightarrow> (string option \<times> 'w) outcome) \<Rightarrow> int \<Rightarrow> int \<Rightarrow> job \<Rightarrow> 'w pool
   \<Rightarrow> 'w pool outcome" where
  "finish_job rd handle t1 t2 j st =
     bind_outcome (handle j (wp_world st)) (\<lambda>(res, w). case res of
         None \<Rightarrow> Return (st\<lparr>wp_world := w\<rparr>)
       | Some err \<Rightarrow> map_outcome_with (\<lambda>(w', dla). st\<lparr>wp_world := w', wp_dla := dla\<rparr>)
           (handlerJobFailure rd t1 t2 j err (w, wp_dla st)))"

definition worker_step ::
  "'w redis \<Rightarrow> (job \<Rightarrow> 'w \<Rightarrow> (string option \<times> 'w) outcome) \<Rightarrow> int \<Rightarrow> int \<Rightarrow> 'w pool
   \<Rightarrow> 'w pool outcome option" where
  "worker_step rd handle t1 t2 st =
     (case take_job st of
        None \<Rightarrow> None
      | Some (None, st1) \<Rightarrow> Some (Return st1)
      | Some (Some j, st1) \<Rightarrow> Some (finish_job rd handle t1 t2 j st1))"

definition NewWorkerPool :: "'w \<Rightarrow> 'w pool" where
  "NewWorkerPool w =
     \<lparr>wp_world = w, wp_channel = make_chan 100, wp_ctx_done = False, wp_dla = Map.empty\<rparr>"

section \<open>Scores\<close>

lemma job_score_exact:
  assumes "\<bar>p\<bar> \<le> 900000" and "\<bar>t\<bar> < 10000000000"
  shows "job_score p t = p * 10000000000 + t"
  using assms by (simp add: job_score_def f64_exact)

text \<open>
  C32. The score orders jobs by priority first and by time second, the smaller number first in
  both, with nothing lost to rounding: for priorities up to nine hundred thousand and times
  below the year 2286.
\<close>

theorem score_is_lexicographic:
  assumes "\<bar>p\<bar> \<le> 900000" and "\<bar>q\<bar> \<le> 900000"
    and "0 \<le> s" and "s < 10000000000" and "0 \<le> t" and "t < 10000000000"
  shows "job_score p s < job_score q t \<longleftrightarrow> p < q \<or> (p = q \<and> s < t)"
proof -
  have "p * 10000000000 + s < q * 10000000000 + t \<longleftrightarrow> p < q \<or> (p = q \<and> s < t)"
    using assms(3-6) by (smt (verit, best))
  then show ?thesis using assms by (simp add: job_score_exact)
qed

lemma score_is_lexicographic_witness: "job_score 1 1800000000 < job_score 2 1700000000"
  using score_is_lexicographic [of 1 2 1800000000 1700000000] by simp

section \<open>Popping\<close>

lemma popJob_Some:
  assumes ok: "redis_ok rd view" and "popJob rd w = (Inr (Some m), w')"
  shows "\<exists>s rest. st_zset (view w) priority_queue = (m, s) # rest \<and>
    view w' = (view w)\<lparr>st_zset := (st_zset (view w))(priority_queue :=
      filter (\<lambda>x. fst x \<noteq> m) rest)\<rparr>"
proof -
  have "(Some m, w') = atomicPopScript rd w"
    using redis_okD(8) [OF ok assms(2) [unfolded popJob_def]] .
  then obtain s rest where "st_zset (view w) priority_queue = (m, s) # rest"
    and "w' = rd_zrem rd priority_queue m w"
    unfolding atomicPopScript_def redis_okD(6) [OF ok]
    by (cases "st_zset (view w) priority_queue") auto
  then show ?thesis by (simp add: redis_okD(7) [OF ok])
qed

lemma popJob_None:
  assumes ok: "redis_ok rd view" and "popJob rd w = (Inr None, w')"
  shows "st_zset (view w) priority_queue = [] \<and> w' = w"
proof -
  have "(None, w') = atomicPopScript rd w"
    using redis_okD(8) [OF ok assms(2) [unfolded popJob_def]] .
  then show ?thesis
    unfolding atomicPopScript_def redis_okD(6) [OF ok]
    by (cases "st_zset (view w) priority_queue") auto
qed

lemma filter_other_members: "m \<notin> fst ` set z \<Longrightarrow> filter (\<lambda>x. fst x \<noteq> m) z = z"
  by (auto simp: filter_id_conv)

text \<open>
  C23. Popping takes exactly one entry of the queue, one with the smallest score, and leaves the
  others as they were; it finds nothing only when the queue is empty. The clock plays no part.
\<close>

theorem pop_takes_smallest:
  assumes "redis_ok rd view" and "zset_ok (st_zset (view w) priority_queue)"
    and "popJob rd w = (Inr r, w')"
  shows "case r of
      None \<Rightarrow> st_zset (view w) priority_queue = [] \<and> w' = w
    | Some m \<Rightarrow> \<exists>s rest. st_zset (view w) priority_queue = (m, s) # rest \<and>
        (\<forall>x \<in> set rest. s \<le> snd x) \<and> st_zset (view w') priority_queue = rest"
proof (cases r)
  case None
  then show ?thesis using popJob_None [OF assms(1)] assms(3) by simp
next
  case (Some m)
  then obtain s rest where q: "st_zset (view w) priority_queue = (m, s) # rest"
    and "st_zset (view w') priority_queue = filter (\<lambda>x. fst x \<noteq> m) rest"
    using popJob_Some [OF assms(1)] assms(3) by force
  moreover have "m \<notin> fst ` set rest" and "\<forall>x \<in> set rest. s \<le> snd x"
    using assms(2) unfolding q zset_ok_def by auto
  ultimately show ?thesis using Some by (simp add: filter_other_members)
qed

definition example_job :: job where
  "example_job = zero_job\<lparr>jb_id := ''j'', jb_type := ''create_user_otp'', jb_payload := Some JNull,
     jb_priority := 1, jb_max_retry := 3, jb_expire_at := 1000\<rparr>"

definition example_queue :: store where
  "example_queue = empty_store\<lparr>st_zset := (\<lambda>k. if k = priority_queue
     then [(marshal_job example_job, job_score 1 1000)] else [])\<rparr>"

lemma example_queue_ok: "zset_ok (st_zset example_queue k)"
  by (simp add: example_queue_def zset_ok_def)

lemma pop_takes_smallest_witness:
  "\<exists>w'. popJob mem_redis example_queue = (Inr (Some (marshal_job example_job)), w') \<and>
     st_zset w' priority_queue = []"
proof -
  obtain w' where run: "popJob mem_redis example_queue = (Inr (Some (marshal_job example_job)), w')"
    by (simp add: popJob_def atomicPopScript_def mem_redis_def example_queue_def)
  have "zset_ok (st_zset (id example_queue) priority_queue)" by (simp add: example_queue_ok)
  from pop_takes_smallest [OF mem_redis_ok this run] have "st_zset w' priority_queue = []"
    by (auto simp: example_queue_def)
  with run show ?thesis by blast
qed



section \<open>Failures\<close>

lemma int64_of_id: "in_int64 n \<Longrightarrow> int64_of n = n"
  by (simp add: int64_of_def in_int64_def sint_sbintrunc' signed_take_bit_int_eq_self)

text \<open>The job as it is after its \<open>k\<close>-th failure.\<close>

definition failed_job :: "job \<Rightarrow> string \<Rightarrow> job" where
  "failed_job j err = j\<lparr>jb_retry := jb_retry j + 1, jb_error_msg := err\<rparr>"

lemma retry_delay_exact: "1 \<le> r \<Longrightarrow> r \<le> 31 \<Longrightarrow> retry_delay r = Some (5 * 2 ^ nat (r - 1) * Second)"
proof -
  assume r: "1 \<le> r" "r \<le> 31"
  define n where "n = nat (r - 1)"
  have n: "n \<le> 30" using r by (simp add: n_def)
  have word: "(5 :: 64 word) * push_bit n 1 * 1000000000 = word_of_int (5 * 2 ^ n * 1000000000)"
    by (simp add: push_bit_eq_mult)
  have "(2 :: int) ^ n \<le> 2 ^ 30" using n by (intro power_increasing) simp_all
  then have "in_int64 (5 * 2 ^ n * 1000000000)"
    by (simp add: in_int64_def) (rule order_trans [of _ 0]; simp)
  then have "sint (word_of_int (5 * 2 ^ n * 1000000000) :: 64 word) = 5 * 2 ^ n * 1000000000"
    using int64_of_id unfolding int64_of_def by blast
  with word show ?thesis using r by (simp add: retry_delay_def n_def Let_def)
qed

text \<open>
  The back-off after the \<open>r\<close>-th failure is five seconds doubled \<open>r - 1\<close> times, exactly, up
  to the thirty-first; the thirty-second would lie in the past.
\<close>

theorem backoff_doubles:
  "(1 \<le> r \<and> r \<le> 31 \<longrightarrow> retry_delay r = Some (5 * 2 ^ nat (r - 1) * Second)) \<and>
   (\<exists>d. retry_delay 32 = Some d \<and> d < 0)"
proof -
  have "retry_delay 32 = Some (- 7709325833709551616)" by code_simp
  then have "\<exists>d. retry_delay 32 = Some d \<and> d < 0" by simp
  then show ?thesis using retry_delay_exact by blast
qed

lemma backoff_doubles_witness: "retry_delay 4 = Some (40 * Second)"
  using backoff_doubles [of 4] by simp

lemma moveToDLQ_view:
  assumes "redis_ok rd view" and "redis_up rd"
  shows "view (moveToDLQ rd j w) = (view w)\<lparr>st_list := (st_list (view w))(priority_queue_dlq :=
    st_list (view w) priority_queue_dlq @ [marshal_job j])\<rparr>"
proof -
  obtain w' where "rd_rpush rd priority_queue_dlq (marshal_job j) w = (True, w')"
    using redis_upD(4) [OF assms(2)] by blast
  then show ?thesis using redis_okD(9) [OF assms(1)] by (simp add: moveToDLQ_def)
qed

lemma scheduleRetry_view:
  assumes "redis_ok rd view" and "redis_up rd" and "zset_ok (st_zset (view w) priority_queue)"
    and "retry_delay (jb_retry j) = Some delay"
  shows "\<exists>w' z. scheduleRetry rd now j w = Return w' \<and>
    zplaced (marshal_job j) (job_score (jb_priority j) (unix_seconds (now + delay)))
      (st_zset (view w) priority_queue) z \<and>
    view w' = (view w)\<lparr>st_zset := (st_zset (view w))(priority_queue := z)\<rparr>"
proof -
  obtain w' where w': "rd_zadd rd priority_queue
      (job_score (jb_priority j) (unix_seconds (now + delay))) (marshal_job j) w = (True, w')"
    using redis_upD(3) [OF assms(2)] by blast
  then have "scheduleRetry rd now j w = Return w'" using assms(4) by (simp add: scheduleRetry_def)
  then show ?thesis using redis_okD(4) [OF assms(1,3) w'] by blast
qed

lemma failed_job_is_kept_lemma:
  assumes "redis_ok rd view" and "redis_up rd" and "zset_ok (st_zset (view w) priority_queue)"
    and "0 \<le> jb_retry j" and "jb_retry j < 31"
  shows "\<exists>w' dla'. handlerJobFailure rd t1 t2 j err (w, dla) = Return (w', dla') \<and>
    (if jb_retry j + 1 \<ge> jb_max_retry j \<or> unix_seconds t1 > jb_expire_at j
     then st_zset (view w') = st_zset (view w) \<and> st_list (view w') priority_queue_dlq =
       st_list (view w) priority_queue_dlq @ [marshal_job (failed_job j err)]
     else st_list (view w') = st_list (view w) \<and>
       zplaced (marshal_job (failed_job j err)) (job_score (jb_priority j)
           (unix_seconds (t2 + 5 * 2 ^ nat (jb_retry j) * Second)))
         (st_zset (view w) priority_queue) (st_zset (view w') priority_queue))"
proof -
  have j': "j\<lparr>jb_retry := int64_of (jb_retry j + 1), jb_error_msg := err\<rparr> = failed_job j err"
    using assms(4,5) by (simp add: failed_job_def int64_of_id in_int64_def)
  show ?thesis
  proof (cases "jb_retry j + 1 \<ge> jb_max_retry j \<or> unix_seconds t1 > jb_expire_at j")
    case True
    then have "handlerJobFailure rd t1 t2 j err (w, dla) =
        Return (moveToDLQ rd (failed_job j err) w, snd (sendDLA t2 (failed_job j err) dla))"
      unfolding handlerJobFailure_def prod.case Let_def j' by (auto simp: failed_job_def)
    then show ?thesis using True by (simp add: moveToDLQ_view [OF assms(1,2)])
  next
    case False
    have "retry_delay (jb_retry (failed_job j err)) = Some (5 * 2 ^ nat (jb_retry j) * Second)"
      using assms(4,5) retry_delay_exact [of "jb_retry j + 1"] by (simp add: failed_job_def)
    from scheduleRetry_view [OF assms(1-3) this, of t2] obtain w' z where
      sched: "scheduleRetry rd t2 (failed_job j err) w = Return w'"
      and placed: "zplaced (marshal_job (failed_job j err)) (job_score (jb_priority (failed_job j err))
        (unix_seconds (t2 + 5 * 2 ^ nat (jb_retry j) * Second))) (st_zset (view w) priority_queue) z"
      and view: "view w' = (view w)\<lparr>st_zset := (st_zset (view w))(priority_queue := z)\<rparr>" by blast
    have "handlerJobFailure rd t1 t2 j err (w, dla) = Return (w', dla)"
      using False sched unfolding handlerJobFailure_def prod.case Let_def j'
      by (auto simp: failed_job_def)
    moreover have "jb_priority (failed_job j err) = jb_priority j" by (simp add: failed_job_def)
    ultimately show ?thesis using False placed by (simp add: view)
  qed
qed

text \<open>
  A failed job is not lost. With a server that answers, a failure either puts the job back
  into the queue, its retry counter one higher and the error recorded, due after the back-off,
  or, exactly when the counter has reached the maximum or the job has expired, appends it to the
  dead letter list; never both, and nothing else in either changes.
\<close>

theorem failed_job_is_kept:
  assumes "redis_ok rd view" and "redis_up rd" and "zset_ok (st_zset (view w) priority_queue)"
    and "0 \<le> jb_retry j" and "jb_retry j < 31"
  shows "\<exists>w' dla'. handlerJobFailure rd t1 t2 j err (w, dla) = Return (w', dla') \<and>
    (if jb_retry j + 1 \<ge> jb_max_retry j \<or> unix_seconds t1 > jb_expire_at j
     then st_zset (view w') = st_zset (view w) \<and> st_list (view w') priority_queue_dlq =
       st_list (view w) priority_queue_dlq @ [marshal_job (failed_job j err)]
     else st_list (view w') = st_list (view w) \<and>
       zplaced (marshal_job (failed_job j err)) (job_score (jb_priority j)
           (unix_seconds (t2 + 5 * 2 ^ nat (jb_retry j) * Second)))
         (st_zset (view w) priority_queue) (st_zset (view w') priority_queue))"
  using assms by (rule failed_job_is_kept_lemma)

lemma failed_job_is_kept_witness:
  "\<exists>w' dla'. handlerJobFailure mem_redis 0 0 example_job ''e'' (empty_store, Map.empty) = Return (w', dla') \<and>
     fst (hd (st_zset w' priority_queue)) = marshal_job (failed_job example_job ''e'')"
proof -
  have "zset_ok (st_zset (id empty_store) priority_queue)" "0 \<le> jb_retry example_job"
    "jb_retry example_job < 31"
    by (simp_all add: zset_ok_def empty_store_def example_job_def zero_job_def)
  from failed_job_is_kept [OF mem_redis_ok mem_redis_up this, of 0 0 "''e''" Map.empty]
  show ?thesis
    by (auto simp: example_job_def zero_job_def unix_seconds_def zplaced_def empty_store_def)
qed

section \<open>A job that always fails\<close>

text \<open>One tick of the producer and one step of a worker, at the same instant.\<close>

definition failing_round :: "'w redis \<Rightarrow> string \<Rightarrow> int \<Rightarrow> 'w pool \<Rightarrow> 'w pool outcome option" where
  "failing_round rd err now st =
     (case produce_tick rd False now st of
        Ticked st1 \<Rightarrow> worker_step rd (\<lambda>j w. Return (Some err, w)) now now st1
      | _ \<Rightarrow> None)"

fun failing_rounds :: "nat \<Rightarrow> 'w redis \<Rightarrow> string \<Rightarrow> int \<Rightarrow> 'w pool \<Rightarrow> 'w pool outcome option" where
  "failing_rounds 0 rd err now st = Some (Return st)"
| "failing_rounds (Suc n) rd err now st =
     (case failing_round rd err now st of
        Some (Return st1) \<Rightarrow> failing_rounds n rd err now st1
      | out \<Rightarrow> out)"

definition idle_pool :: "'w pool \<Rightarrow> bool" where
  "idle_pool st \<longleftrightarrow> wp_channel st = make_chan 100 \<and> \<not> wp_ctx_done st"

definition only_job :: "('w \<Rightarrow> store) \<Rightarrow> 'w pool \<Rightarrow> job \<Rightarrow> bool" where
  "only_job view st j \<longleftrightarrow> (\<exists>s. st_zset (view (wp_world st)) priority_queue = [(marshal_job j, s)])"

lemma popped_only_job:
  assumes "redis_ok rd view" and "redis_up rd" and "only_job view st j" and "idle_pool st"
    and "job_fits j" and "unix_seconds now \<le> jb_expire_at j"
  shows "\<exists>w. produce_tick rd False now st =
      Ticked (st\<lparr>wp_world := w, wp_channel := (make_chan 100)\<lparr>ch_buf := [marshal_job j]\<rparr>\<rparr>) \<and>
    st_zset (view w) priority_queue = [] \<and> st_list (view w) = st_list (view (wp_world st))"
proof -
  obtain s where q: "st_zset (view (wp_world st)) priority_queue = [(marshal_job j, s)]"
    using assms(3) by (auto simp: only_job_def)
  obtain r w where pop: "popJob rd (wp_world st) = (Inr r, w)"
    using redis_upD(5) [OF assms(2)] unfolding popJob_def by blast
  have r: "r = Some (marshal_job j)"
  proof (cases r)
    case None
    then show ?thesis using popJob_None [OF assms(1)] pop q by simp
  next
    case (Some m)
    then show ?thesis using popJob_Some [OF assms(1), of "wp_world st" m w] pop q by auto
  qed
  have view: "view w = (view (wp_world st))\<lparr>st_zset := (st_zset (view (wp_world st)))(priority_queue := [])\<rparr>"
    using popJob_Some [OF assms(1), of "wp_world st" "marshal_job j" w] pop r q by auto
  have "produce_tick rd False now st =
      Ticked (st\<lparr>wp_world := w, wp_channel := (make_chan 100)\<lparr>ch_buf := [marshal_job j]\<rparr>\<rparr>)"
    using assms(4,6) unmarshal_marshal_job [OF assms(5)]
    by (simp add: produce_tick_def pop r offer_job_def idle_pool_def chan_full_def make_chan_def
        chan_push_def)
  then show ?thesis by (intro exI [of _ w]) (simp add: view)
qed

lemma failing_round_step:
  assumes "redis_ok rd view" and "redis_up rd" and "only_job view st j" and "idle_pool st"
    and "job_fits j" and "unix_seconds now \<le> jb_expire_at j" and "0 \<le> jb_retry j" and "jb_retry j < 31"
  shows "\<exists>st'. failing_round rd err now st = Some (Return st') \<and> idle_pool st' \<and>
    (if jb_retry j + 1 \<ge> jb_max_retry j
     then st_zset (view (wp_world st')) priority_queue = [] \<and>
       st_list (view (wp_world st')) priority_queue_dlq =
         st_list (view (wp_world st)) priority_queue_dlq @ [marshal_job (failed_job j err)]
     else only_job view st' (failed_job j err) \<and>
       st_list (view (wp_world st')) = st_list (view (wp_world st)))"
proof -
  obtain w where tick: "produce_tick rd False now st =
      Ticked (st\<lparr>wp_world := w, wp_channel := (make_chan 100)\<lparr>ch_buf := [marshal_job j]\<rparr>\<rparr>)"
    and empty: "st_zset (view w) priority_queue = []"
    and dlq: "st_list (view w) = st_list (view (wp_world st))"
    using popped_only_job [OF assms(1-6)] by blast
  have "zset_ok (st_zset (view w) priority_queue)" by (simp add: empty zset_ok_def)
  from failed_job_is_kept_lemma [OF assms(1,2) this assms(7,8), of now now err "wp_dla st"] assms(6)
  obtain w' dla' where fail: "handlerJobFailure rd now now j err (w, wp_dla st) = Return (w', dla')"
    and kept: "if jb_retry j + 1 \<ge> jb_max_retry j
     then st_zset (view w') = st_zset (view w) \<and> st_list (view w') priority_queue_dlq =
       st_list (view w) priority_queue_dlq @ [marshal_job (failed_job j err)]
     else st_list (view w') = st_list (view w) \<and>
       zplaced (marshal_job (failed_job j err)) (job_score (jb_priority j)
           (unix_seconds (now + 5 * 2 ^ nat (jb_retry j) * Second)))
         (st_zset (view w) priority_queue) (st_zset (view w') priority_queue)" by auto
  have "failing_round rd err now st =
      Some (Return (st\<lparr>wp_world := w', wp_channel := make_chan 100, wp_dla := dla'\<rparr>))"
    using fail unmarshal_marshal_job [OF assms(5)]
    by (simp add: failing_round_def tick worker_step_def take_job_def finish_job_def make_chan_def)
  then show ?thesis
    using kept assms(4) by (auto simp: empty dlq idle_pool_def only_job_def zplaced_def)
qed

lemma failed_job_sel [simp]:
  "jb_retry (failed_job j err) = jb_retry j + 1"
  "jb_max_retry (failed_job j err) = jb_max_retry j"
  "jb_expire_at (failed_job j err) = jb_expire_at j"
  "job_fits (failed_job j err) \<longleftrightarrow> job_fits (j\<lparr>jb_retry := jb_retry j + 1\<rparr>)"
  by (simp_all add: failed_job_def job_fits_def)

lemma failing_rounds_end:
  assumes "redis_ok rd view" and "redis_up rd"
  shows "only_job view st j \<Longrightarrow> idle_pool st \<Longrightarrow> job_fits j \<Longrightarrow> unix_seconds now \<le> jb_expire_at j \<Longrightarrow>
    0 \<le> jb_retry j \<Longrightarrow> jb_max_retry j = jb_retry j + int (Suc n) \<Longrightarrow> jb_max_retry j \<le> 31 \<Longrightarrow>
    \<exists>st'. failing_rounds (Suc n) rd err now st = Some (Return st') \<and>
      st_zset (view (wp_world st')) priority_queue = [] \<and>
      st_list (view (wp_world st')) priority_queue_dlq =
        st_list (view (wp_world st)) priority_queue_dlq
          @ [marshal_job (j\<lparr>jb_retry := jb_max_retry j, jb_error_msg := err\<rparr>)]"
proof (induction n arbitrary: st j)
  case 0
  have "j\<lparr>jb_retry := jb_max_retry j, jb_error_msg := err\<rparr> = failed_job j err"
    using "0.prems" by (simp add: failed_job_def)
  with failing_round_step [OF assms "0.prems"(1-5), of err] "0.prems"(6,7) show ?case by auto
next
  case (Suc n)
  have "jb_retry j < 31" "\<not> jb_retry j + 1 \<ge> jb_max_retry j" using Suc.prems(6,7) by simp_all
  with failing_round_step [OF assms Suc.prems(1-5), of err] obtain st1 where
    r: "failing_round rd err now st = Some (Return st1)" and "idle_pool st1"
    and "only_job view st1 (failed_job j err)"
    and l: "st_list (view (wp_world st1)) = st_list (view (wp_world st))" by auto
  moreover have "job_fits (failed_job j err)"
    using Suc.prems(3,5-7) by (simp add: failed_job_def job_fits_def in_int64_def)
  ultimately have "\<exists>st'. failing_rounds (Suc n) rd err now st1 = Some (Return st') \<and>
      st_zset (view (wp_world st')) priority_queue = [] \<and>
      st_list (view (wp_world st')) priority_queue_dlq =
        st_list (view (wp_world st1)) priority_queue_dlq
          @ [marshal_job ((failed_job j err)\<lparr>jb_retry := jb_max_retry (failed_job j err), jb_error_msg := err\<rparr>)]"
    using Suc.prems(4-7) by (intro Suc.IH) simp_all
  then show ?case by (simp add: r l failed_job_def)
qed

text \<open>
  C18. A job that fails every time is tried \<^verbatim>\<open>MaxRetry\<close> times and then lies in the
  dead letter list, the queue being empty again. All the attempts can happen at one instant: the
  time a retry is due at orders the queue but delays nothing.
\<close>

theorem failing_job_ends_in_dlq:
  assumes "redis_ok rd view" and "redis_up rd" and "only_job view st j" and "idle_pool st"
    and "job_fits j" and "unix_seconds now \<le> jb_expire_at j"
    and "jb_retry j = 0" and "1 \<le> jb_max_retry j" and "jb_max_retry j \<le> 31"
  shows "\<exists>st'. failing_rounds (nat (jb_max_retry j)) rd err now st = Some (Return st') \<and>
    st_zset (view (wp_world st')) priority_queue = [] \<and>
    st_list (view (wp_world st')) priority_queue_dlq =
      st_list (view (wp_world st)) priority_queue_dlq
        @ [marshal_job (j\<lparr>jb_retry := jb_max_retry j, jb_error_msg := err\<rparr>)]"
proof -
  obtain n where n: "nat (jb_max_retry j) = Suc n" using assms(8) by (cases "nat (jb_max_retry j)") auto
  then have "jb_max_retry j = jb_retry j + int (Suc n)" using assms(7,8) by simp
  from failing_rounds_end [OF assms(1-6) _ this] assms(7,9) show ?thesis by (simp add: n)
qed

lemma failing_job_ends_in_dlq_witness:
  "\<exists>st'. failing_rounds 3 mem_redis ''e'' 0 (NewWorkerPool example_queue) = Some (Return st') \<and>
     st_list (wp_world st') priority_queue_dlq =
       [marshal_job (example_job\<lparr>jb_retry := 3, jb_error_msg := ''e''\<rparr>)]"
proof -
  have "only_job id (NewWorkerPool example_queue) example_job" "idle_pool (NewWorkerPool example_queue)"
    by (simp_all add: only_job_def idle_pool_def NewWorkerPool_def example_queue_def)
  from failing_job_ends_in_dlq [OF mem_redis_ok mem_redis_up this, of 0 "''e''"]
  show ?thesis
    by (auto simp: example_job_def zero_job_def job_fits_def in_int64_def unix_seconds_def
        NewWorkerPool_def example_queue_def empty_store_def)
qed

section \<open>Dead letter alerts\<close>

text \<open>The instants at which a run of failures at the given instants alerts for one type.\<close>

fun alert_times :: "job \<Rightarrow> int list \<Rightarrow> (string \<Rightarrow> int option) \<Rightarrow> int list" where
  "alert_times j [] dla = []"
| "alert_times j (t # ts) dla =
     (let (alert, dla') = sendDLA t j dla in
      if alert then t # alert_times j ts dla' else alert_times j ts dla')"

lemma alert_times_spaced:
  "sorted_wrt (\<lambda>a b. b - a \<ge> 10 * Minute) (alert_times j ts dla) \<and>
   (\<forall>last. dla (jb_type j) = Some last \<longrightarrow> (\<forall>t \<in> set (alert_times j ts dla). t - last \<ge> 10 * Minute))"
proof (induction ts arbitrary: dla)
  case Nil
  then show ?case by simp
next
  case (Cons t ts)
  show ?case
  proof (cases "fst (sendDLA t j dla)")
    case True
    then have "snd (sendDLA t j dla) (jb_type j) = Some t"
      and "\<And>last. dla (jb_type j) = Some last \<Longrightarrow> t - last \<ge> 10 * Minute"
      by (auto simp: sendDLA_def split: option.splits if_splits)
    with True Cons.IH [of "snd (sendDLA t j dla)"] show ?thesis
      by (fastforce simp: case_prod_beta)
  next
    case False
    then have "snd (sendDLA t j dla) = dla" by (auto simp: sendDLA_def split: option.splits if_splits)
    with False Cons.IH [of dla] show ?thesis by (simp add: case_prod_beta)
  qed
qed

text \<open>
  Dead letter alerts for one type of job are at least ten minutes apart, whatever sequence
  of permanent failures there is.
\<close>

theorem alerts_are_throttled:
  "sorted_wrt (\<lambda>a b. b - a \<ge> 10 * Minute) (alert_times j ts dla)"
  using alert_times_spaced by blast

end
