(* ===== verification/GoTime.thy ===== *)
theory GoTime
  imports GoJson GoStrings
begin

text \<open>
  A way to write an instant as a text and to read it back, for concrete inputs: nanoseconds in
  decimal. How Go writes a time is an argument of the definitions that use it.
\<close>

definition plain_ftime :: "int \<Rightarrow> string" where
  "plain_ftime t = (if t < 0 then CHR ''-'' # show_nat (nat (- t)) else show_nat (nat t))"

definition plain_ptime :: "string \<Rightarrow> int option" where
  "plain_ptime s =
     (case s of
        [] \<Rightarrow> None
      | c # cs \<Rightarrow> if c = CHR ''-'' then Some (- int (digits_val cs)) else Some (int (digits_val s)))"

lemma plain_time_round_trip: "time_round_trip plain_ptime plain_ftime"
proof -
  have "CHR ''-'' \<notin> set (show_nat n)" for n
    by (rule not_digit_notin_show_nat) (simp add: is_digit_def)
  then have "show_nat n \<noteq> CHR ''-'' # cs" for n cs by (metis list.set_intros(1))
  then have "plain_ptime (plain_ftime t) = Some t" for t
    by (cases "show_nat (nat t)") (auto simp: plain_ptime_def plain_ftime_def dest: sym)
  then show ?thesis by (simp add: time_round_trip_def)
qed

end
