(* ===== verification/WorkerHandlers.thy ===== *)
theory WorkerHandlers
  imports JobQueue GoTime HubProperties
begin

text \<open>
  What the workers do with a job: \<^verbatim>\<open>internal/worker/priority_job_handler.go\<close>,
  \<^verbatim>\<open>worker-handler\<close>, and the payload types of \<^verbatim>\<open>utils/types\<close>. The
  world of a handler is the pair of the Redis world and the hub. \<open>why\<close> is the text of the
  library's error a message ends with.
\<close>

unbundle bit_operations_syntax

section \<open>Payloads\<close>

record edit_entry_payload =
  te_message_id :: string
  te_original_content :: string
  te_new_content :: string
  te_edited_by :: string
  te_edited_at :: int

record reply_to_payload =
  rt_message_id :: string
  rt_content :: string
  rt_sender_id :: string

record attachment_payload =
  ta_type :: string
  ta_url :: string

record broadcast_payload =
  bp_message_id :: string
  bp_room_id :: string
  bp_sender_id :: string
  bp_receiver_id :: string
  bp_content :: string
  bp_is_read :: "bool option"
  bp_is_edited :: "bool option"
  bp_edit_history :: "edit_entry_payload option list"
  bp_attachments :: "attachment_payload option list"
  bp_reply_to :: "reply_to_payload option"
  bp_created_at :: int
  bp_updated_at :: "int option"

definition zero_broadcast :: broadcast_payload where
  "zero_broadcast = \<lparr>bp_message_id = '''', bp_room_id = '''', bp_sender_id = '''', bp_receiver_id = '''',
     bp_content = '''', bp_is_read = None, bp_is_edited = None, bp_edit_history = [],
     bp_attachments = [], bp_reply_to = None, bp_created_at = zero_time, bp_updated_at = None\<rparr>"

definition load_edit_entry ::
  "(string \<Rightarrow> int option) \<Rightarrow> edit_entry_payload \<Rightarrow> (string \<times> json) list \<Rightarrow> edit_entry_payload option" where
  "load_edit_entry ptime cur kvs =
     Option.bind (load_field dec_string ''message_id'' kvs (te_message_id cur)) (\<lambda>i.
     Option.bind (load_field dec_string ''original_content'' kvs (te_original_content cur)) (\<lambda>original.
     Option.bind (load_field dec_string ''new_content'' kvs (te_new_content cur)) (\<lambda>new.
     Option.bind (load_field dec_string ''edited_by'' kvs (te_edited_by cur)) (\<lambda>by_user.
     Option.bind (load_field (dec_time ptime) ''edited_at'' kvs (te_edited_at cur)) (\<lambda>at_time.
       Some \<lparr>te_message_id = i, te_original_content = original, te_new_content = new,
         te_edited_by = by_user, te_edited_at = at_time\<rparr>)))))"

definition load_reply_to ::
  "reply_to_payload \<Rightarrow> (string \<times> json) list \<Rightarrow> reply_to_payload option" where
  "load_reply_to cur kvs =
     Option.bind (load_field dec_string ''message_id'' kvs (rt_message_id cur)) (\<lambda>i.
     Option.bind (load_field dec_string ''content'' kvs (rt_content cur)) (\<lambda>content.
     Option.bind (load_field dec_string ''sender_id'' kvs (rt_sender_id cur)) (\<lambda>sender.
       Some \<lparr>rt_message_id = i, rt_content = content, rt_sender_id = sender\<rparr>)))"

definition load_attachment ::
  "attachment_payload \<Rightarrow> (string \<times> json) list \<Rightarrow> attachment_payload option" where
  "load_attachment cur kvs =
     Option.bind (load_field dec_string ''type'' kvs (ta_type cur)) (\<lambda>ty.
     Option.bind (load_field dec_string ''url'' kvs (ta_url cur)) (\<lambda>url.
       Some \<lparr>ta_type = ty, ta_url = url\<rparr>))"

definition dec_edit_entry where
  "dec_edit_entry ptime = dec_ptr \<lparr>te_message_id = '''', te_original_content = '''',
     te_new_content = '''', te_edited_by = '''', te_edited_at = zero_time\<rparr> (dec_obj (load_edit_entry ptime))"

definition dec_reply_to where
  "dec_reply_to = dec_ptr \<lparr>rt_message_id = '''', rt_content = '''', rt_sender_id = ''''\<rparr>
     (dec_obj load_reply_to)"

definition dec_attachment where
  "dec_attachment = dec_ptr \<lparr>ta_type = '''', ta_url = ''''\<rparr> (dec_obj load_attachment)"

definition load_broadcast ::
  "(string \<Rightarrow> int option) \<Rightarrow> (string \<times> json) list \<Rightarrow> broadcast_payload option" where
  "load_broadcast ptime kvs =
     Option.bind (load_field dec_string ''message_id'' kvs '''') (\<lambda>message_id.
     Option.bind (load_field dec_string ''room_id'' kvs '''') (\<lambda>room_id.
     Option.bind (load_field dec_string ''sender_id'' kvs '''') (\<lambda>sender_id.
     Option.bind (load_field dec_string ''receiver_id'' kvs '''') (\<lambda>receiver_id.
     Option.bind (load_field dec_string ''content'' kvs '''') (\<lambda>content.
     Option.bind (load_field (dec_ptr False dec_bool) ''is_read'' kvs None) (\<lambda>is_read.
     Option.bind (load_field (dec_ptr False dec_bool) ''is_edited'' kvs None) (\<lambda>is_edited.
     Option.bind (load_field (dec_list None (dec_edit_entry ptime)) ''message_edit_history'' kvs []) (\<lambda>history.
     Option.bind (load_field (dec_list None dec_attachment) ''attachments'' kvs []) (\<lambda>attachments.
     Option.bind (load_field dec_reply_to ''reply_to'' kvs None) (\<lambda>reply_to.
     Option.bind (load_field (dec_time ptime) ''created_at'' kvs zero_time) (\<lambda>created_at.
     Option.bind (load_field (dec_ptr zero_time (dec_time ptime)) ''updated_at'' kvs None) (\<lambda>updated_at.
       Some \<lparr>bp_message_id = message_id, bp_room_id = room_id, bp_sender_id = sender_id,
         bp_receiver_id = receiver_id, bp_content = content, bp_is_read = is_read,
         bp_is_edited = is_edited, bp_edit_history = history, bp_attachments = attachments,
         bp_reply_to = reply_to, bp_created_at = created_at, bp_updated_at = updated_at\<rparr>))))))))))))"

text \<open>\<^verbatim>\<open>json.Unmarshal\<close> of a job's payload; the nil payload is no JSON text.\<close>

definition unmarshal_raw :: "'a \<Rightarrow> ((string \<times> json) list \<Rightarrow> 'a option) \<Rightarrow> json option \<Rightarrow> 'a option" where
  "unmarshal_raw zero ld raw = Option.bind raw (load_struct zero ld)"

section \<open>One-time passwords\<close>

text \<open>\<open>None\<close> is a failing random source.\<close>

definition generateOTP :: "(8 word \<times> 8 word \<times> 8 word) option \<Rightarrow> string" where
  "generateOTP rand =
     (case rand of
        None \<Rightarrow> ''000000''
      | Some (b0, b1, b2) \<Rightarrow>
          (let num = push_bit 16 (uint b0) OR push_bit 8 (uint b1) OR uint b2;
               otp = num mod 1000000
           in show_nat_pad 6 (nat otp)))"

text \<open>\<open>mail\<close> is the SMTP delivery of \<^verbatim>\<open>SendMailTrapOTP\<close>, \<open>Some\<close> its error.\<close>

definition SendMailTrapOTP ::
  "(string \<Rightarrow> 'w \<Rightarrow> string option \<times> 'w) \<Rightarrow> string \<Rightarrow> string \<Rightarrow> 'w \<Rightarrow> string option \<times> 'w" where
  "SendMailTrapOTP mail userId otp w =
     (let nl = [char_of (10 :: nat)];
          body = ''Hello user '' @ userId @ '','' @ nl @ nl @ ''Your OTP code is: '' @ otp @ nl @ nl
            @ ''Valid for 5 minutes.'';
          (err, w') = mail body w
      in (map_option (\<lambda>e. ''failed to send OTP email: '' @ e) err, w'))"

definition otp_key :: "string \<Rightarrow> string" where
  "otp_key userId = ''otp:'' @ userId"

definition HandlerCreateUserOTP ::
  "'w redis \<Rightarrow> (string \<Rightarrow> 'w \<Rightarrow> string option \<times> 'w) \<Rightarrow> (string \<Rightarrow> int option)
   \<Rightarrow> (8 word \<times> 8 word \<times> 8 word) option \<Rightarrow> string \<Rightarrow> json option \<Rightarrow> 'w \<Rightarrow> string option \<times> 'w" where
  "HandlerCreateUserOTP rd mail ptime rand why raw w =
     (case unmarshal_raw ('''', zero_time)
         (\<lambda>kvs. Option.bind (load_field dec_string ''user_id'' kvs '''') (\<lambda>u.
            map_option (Pair u) (load_field (dec_time ptime) ''created_at'' kvs zero_time))) raw of
        None \<Rightarrow> (Some (''invalid otp payload: '' @ why), w)
      | Some (userId, createdAt) \<Rightarrow>
          (let otp = generateOTP rand;
               (ok, w1) = rd_set rd (otp_key userId) (JsonText (JStr otp)) (Minute * 5) w
           in if \<not> ok then (Some (''failed to save otp: '' @ why), w1)
              else SendMailTrapOTP mail userId otp w1))"

section \<open>Broadcasts\<close>

text \<open>
  A handler answers the error, if any, with the world after it. \<open>now1\<close>, \<open>now2\<close> are clock readings.
\<close>

definition broadcast_with ::
  "(client_ptr \<Rightarrow> bool) \<Rightarrow> string \<Rightarrow> outgoing_message \<Rightarrow> hub \<Rightarrow> (string option \<times> hub) outcome" where
  "broadcast_with pick roomID msg h = map_outcome_with (Pair None) (BroadcastToRoom pick roomID msg h)"

definition chat_broadcast :: "broadcast_payload \<Rightarrow> reply_message option \<Rightarrow> outgoing_message" where
  "chat_broadcast p reply =
     \<lparr>om_type = MessageTypeChatMessage, om_room_id = bp_room_id p, om_sender_id = bp_sender_id p,
      om_message_id = bp_message_id p,
      om_data = P_Chat \<lparr>cm_type = MessageTypeChatMessage, cm_room_id = bp_room_id p,
        cm_message_id = bp_message_id p, cm_sender_id = bp_sender_id p, cm_receiver_id = '''',
        cm_content = bp_content p, cm_is_edited = False, cm_is_read = False, cm_edit_history = [],
        cm_reply = reply, cm_attachments = [], cm_created_at = unix_seconds (bp_created_at p),
        cm_updated_at = None, cm_timestamp = unix_seconds (bp_created_at p)\<rparr>,
      om_timestamp = unix_seconds (bp_created_at p)\<rparr>"

definition HandleBroadcastPrivateMessage ::
  "(client_ptr \<Rightarrow> bool) \<Rightarrow> (string \<Rightarrow> int option) \<Rightarrow> string \<Rightarrow> json option \<Rightarrow> hub
   \<Rightarrow> (string option \<times> hub) outcome" where
  "HandleBroadcastPrivateMessage pick ptime why raw h =
     (case unmarshal_raw zero_broadcast (load_broadcast ptime) raw of
        None \<Rightarrow> Return (Some (''invalid broadcast payload: '' @ why), h)
      | Some p \<Rightarrow> broadcast_with pick (bp_room_id p) (chat_broadcast p None) h)"

definition HandleBroadcastPrivateMessageReply ::
  "(client_ptr \<Rightarrow> bool) \<Rightarrow> (string \<Rightarrow> int option) \<Rightarrow> string \<Rightarrow> json option \<Rightarrow> hub
   \<Rightarrow> (string option \<times> hub) outcome" where
  "HandleBroadcastPrivateMessageReply pick ptime why raw h =
     (case unmarshal_raw zero_broadcast (load_broadcast ptime) raw of
        None \<Rightarrow> Return (Some (''invalid broadcast payload: '' @ why), h)
      | Some p \<Rightarrow>
          (let replyData = map_option (\<lambda>r. \<lparr>rm_message_id = rt_message_id r,
                 rm_content = rt_content r, rm_sender_id = rt_sender_id r\<rparr>) (bp_reply_to p)
           in broadcast_with pick (bp_room_id p) (chat_broadcast p replyData) h))"

text \<open>
  The edit history of an update: a nil entry and a missing update time are nil dereferences.
\<close>

definition convert_history :: "broadcast_payload \<Rightarrow> message_edit_entry list outcome" where
  "convert_history p =
     (if bp_edit_history p = [] then Return []
      else if None \<in> set (bp_edit_history p) \<or> bp_updated_at p = None then Panic
      else Return (map (\<lambda>edit. \<lparr>ee_message_id = bp_message_id p,
             ee_original_content = te_original_content (the edit),
             ee_new_content = te_new_content (the edit), ee_edited_by = bp_sender_id p,
             ee_edited_at = unix_seconds (the (bp_updated_at p))\<rparr>) (bp_edit_history p)))"

definition HandleBroadcastPrivateMessageUpdate ::
  "(client_ptr \<Rightarrow> bool) \<Rightarrow> (string \<Rightarrow> int option) \<Rightarrow> int \<Rightarrow> int \<Rightarrow> string \<Rightarrow> json option \<Rightarrow> hub
   \<Rightarrow> (string option \<times> hub) outcome" where
  "HandleBroadcastPrivateMessageUpdate pick ptime now1 now2 why raw h =
     (case unmarshal_raw zero_broadcast (load_broadcast ptime) raw of
        None \<Rightarrow> Return (Some (''invalid broadcast payload: '' @ why), h)
      | Some p \<Rightarrow>
          bind_outcome (convert_history p) (\<lambda>editHistory.
            case bp_updated_at p of
              None \<Rightarrow> Panic
            | Some updated \<Rightarrow>
                broadcast_with pick (bp_room_id p)
                  \<lparr>om_type = MessageTypeMessageUpdated, om_room_id = bp_room_id p,
                   om_sender_id = bp_sender_id p, om_message_id = bp_message_id p,
                   om_data = P_Updated \<lparr>mu_type = MessageTypeMessageUpdated,
                     mu_room_id = bp_room_id p, mu_message_id = bp_message_id p,
                     mu_content = bp_content p, mu_is_edited = True,
                     mu_edit_history = editHistory, mu_updated_at = unix_seconds updated,
                     mu_edited_by = bp_sender_id p, mu_timestamp = unix_seconds now1\<rparr>,
                   om_timestamp = unix_seconds now2\<rparr> h))"

definition HandleBroadcastPrivateMessageSimplified ::
  "(client_ptr \<Rightarrow> bool) \<Rightarrow> (string \<Rightarrow> int option) \<Rightarrow> int \<Rightarrow> int \<Rightarrow> int \<Rightarrow> string \<Rightarrow> json option \<Rightarrow> hub
   \<Rightarrow> (string option \<times> hub) outcome" where
  "HandleBroadcastPrivateMessageSimplified pick ptime now1 now2 now3 why raw h =
     (case unmarshal_raw zero_broadcast (load_broadcast ptime) raw of
        None \<Rightarrow> Return (Some (''invalid broadcast payload: '' @ why), h)
      | Some p \<Rightarrow> broadcast_with pick (bp_room_id p)
          (NewChatMessage now1 now2 now3 (bp_room_id p) (bp_message_id p) (bp_sender_id p)
            (bp_content p)) h)"

definition HandleBroadcastPrivateMessageUpdateSimplified ::
  "(client_ptr \<Rightarrow> bool) \<Rightarrow> (string \<Rightarrow> int option) \<Rightarrow> int \<Rightarrow> int \<Rightarrow> int \<Rightarrow> string \<Rightarrow> json option \<Rightarrow> hub
   \<Rightarrow> (string option \<times> hub) outcome" where
  "HandleBroadcastPrivateMessageUpdateSimplified pick ptime now1 now2 now3 why raw h =
     (case unmarshal_raw zero_broadcast (load_broadcast ptime) raw of
        None \<Rightarrow> Return (Some (''invalid broadcast payload: '' @ why), h)
      | Some p \<Rightarrow> bind_outcome (convert_history p) (\<lambda>editHistory.
          broadcast_with pick (bp_room_id p)
            (NewMessageUpdated now1 now2 now3 (bp_room_id p) (bp_message_id p) (bp_content p)
              (bp_sender_id p) editHistory) h))"

section \<open>Dispatch\<close>

text \<open>What a run of a handler takes from outside.\<close>

record 'w job_env =
  je_redis :: "'w redis"
  je_mail :: "string \<Rightarrow> 'w \<Rightarrow> string option \<times> 'w"
  je_ptime :: "string \<Rightarrow> int option"
  je_rand :: "(8 word \<times> 8 word \<times> 8 word) option"
  je_pick :: "client_ptr \<Rightarrow> bool"
  je_now1 :: int
  je_now2 :: int
  je_why :: string

definition HandleJob ::
  "'w job_env \<Rightarrow> job \<Rightarrow> 'w \<times> hub \<Rightarrow> (string option \<times> 'w \<times> hub) outcome" where
  "HandleJob e j st =
     (case st of (w, h) \<Rightarrow>
      let on_hub = map_outcome_with (\<lambda>(err, h'). (err, w, h')) in
      if jb_type j = ''create_user_otp''
      then (let (err, w') = HandlerCreateUserOTP (je_redis e) (je_mail e) (je_ptime e) (je_rand e)
                  (je_why e) (jb_payload j) w
            in Return (err, w', h))
      else if jb_type j = ''broadcast_private_message''
      then on_hub (HandleBroadcastPrivateMessage (je_pick e) (je_ptime e) (je_why e) (jb_payload j) h)
      else if jb_type j = ''broadcast_private_message_reply''
      then on_hub (HandleBroadcastPrivateMessageReply (je_pick e) (je_ptime e) (je_why e) (jb_payload j) h)
      else if jb_type j = ''broadcast_private_message_updated''
      then on_hub (HandleBroadcastPrivateMessageUpdate (je_pick e) (je_ptime e) (je_now1 e) (je_now2 e)
             (je_why e) (jb_payload j) h)
      else Return (Some (''unknown job type: '' @ jb_type j), w, h))"

section \<open>The documents the producers write\<close>

text \<open>\<^verbatim>\<open>MustMarshal\<close> of a payload; a slice without elements is the nil one.\<close>

definition edit_entry_json :: "(int \<Rightarrow> string) \<Rightarrow> edit_entry_payload \<Rightarrow> json" where
  "edit_entry_json ftime x = JObj
     [(''message_id'', JStr (te_message_id x)), (''original_content'', JStr (te_original_content x)),
      (''new_content'', JStr (te_new_content x)), (''edited_by'', JStr (te_edited_by x)),
      (''edited_at'', JStr (ftime (te_edited_at x)))]"

definition reply_to_json :: "reply_to_payload \<Rightarrow> json" where
  "reply_to_json x = JObj
     [(''message_id'', JStr (rt_message_id x)), (''content'', JStr (rt_content x)),
      (''sender_id'', JStr (rt_sender_id x))]"

definition attachment_json :: "attachment_payload \<Rightarrow> json" where
  "attachment_json x = JObj [(''type'', JStr (ta_type x)), (''url'', JStr (ta_url x))]"

definition slice_json :: "('a \<Rightarrow> json) \<Rightarrow> 'a list \<Rightarrow> json" where
  "slice_json enc xs = (if xs = [] then JNull else JArr (map enc xs))"

definition broadcast_json :: "(int \<Rightarrow> string) \<Rightarrow> broadcast_payload \<Rightarrow> json" where
  "broadcast_json ftime p = JObj
     [(''message_id'', JStr (bp_message_id p)), (''room_id'', JStr (bp_room_id p)),
      (''sender_id'', JStr (bp_sender_id p)), (''receiver_id'', JStr (bp_receiver_id p)),
      (''content'', JStr (bp_content p)), (''is_read'', enc_ptr JBool (bp_is_read p)),
      (''is_edited'', enc_ptr JBool (bp_is_edited p)),
      (''message_edit_history'', slice_json (enc_ptr (edit_entry_json ftime)) (bp_edit_history p)),
      (''attachments'', slice_json (enc_ptr attachment_json) (bp_attachments p)),
      (''reply_to'', enc_ptr reply_to_json (bp_reply_to p)),
      (''created_at'', JStr (ftime (bp_created_at p))),
      (''updated_at'', enc_ptr (\<lambda>t. JStr (ftime t)) (bp_updated_at p))]"

lemma dec_slice_json:
  "(\<And>x. dec zero (enc x) = Some x) \<Longrightarrow> dec_list zero dec [] (slice_json enc xs) = Some xs"
  by (cases xs) (simp_all add: slice_json_def dec_elems_map)

lemma dec_ptr_enc:
  "(\<And>x. dec zero (enc x) = Some x) \<Longrightarrow> (\<And>x. enc x \<noteq> JNull) \<Longrightarrow> dec_ptr zero dec None (enc_ptr enc q) = Some q"
  by (cases q) (simp_all add: dec_ptr_def enc_ptr_def)

lemma dec_edit_entry_json:
  "time_round_trip ptime ftime \<Longrightarrow>
     dec_edit_entry ptime None (enc_ptr (edit_entry_json ftime) x) = Some x"
  unfolding dec_edit_entry_def
  by (rule dec_ptr_enc)
    (auto simp: load_edit_entry_def edit_entry_json_def time_round_trip_def)

lemma dec_reply_to_json: "dec_reply_to None (enc_ptr reply_to_json x) = Some x"
  unfolding dec_reply_to_def by (rule dec_ptr_enc) (auto simp: load_reply_to_def reply_to_json_def)

lemma dec_attachment_json: "dec_attachment None (enc_ptr attachment_json x) = Some x"
  unfolding dec_attachment_def
  by (rule dec_ptr_enc) (auto simp: load_attachment_def attachment_json_def)

lemma unmarshal_broadcast_json:
  assumes "time_round_trip ptime ftime"
  shows "unmarshal_raw zero_broadcast (load_broadcast ptime) (Some (broadcast_json ftime p)) = Some p"
proof -
  have t: "ptime (ftime x) = Some x" for x using assms by (simp add: time_round_trip_def)
  have b: "dec_ptr False dec_bool None (enc_ptr JBool q) = Some q" for q by (rule dec_ptr_enc) auto
  have u: "dec_ptr zero_time (dec_time ptime) None (enc_ptr (\<lambda>t. JStr (ftime t)) q) = Some q" for q
    by (rule dec_ptr_enc) (auto simp: t)
  show ?thesis
    by (simp add: unmarshal_raw_def load_broadcast_def broadcast_json_def t b u dec_reply_to_json
        dec_slice_json dec_edit_entry_json [OF assms] dec_attachment_json)
qed

text \<open>The validator of a verification request: the pattern of six digits.\<close>

definition OTPValidator :: "string \<Rightarrow> bool" where
  "OTPValidator s \<longleftrightarrow> length s = 6 \<and> list_all is_digit s"

section \<open>Properties\<close>

text \<open>
  C3. A chat message sent as a job arrives. When a worker handles the job a message was enqueued
  as, it reports no error and every active member of the room with space in its buffer receives
  exactly one document more: a chat message with the message's id, room, sender and content.
\<close>

theorem message_job_delivers:
  assumes "hub_inv h" and "time_round_trip (je_ptime e) ftime"
    and "jb_type j = ''broadcast_private_message''" and "jb_payload j = Some (broadcast_json ftime m)"
    and "HandleJob e j (w, h) = Return (err, w', h')"
    and "p \<in> room_members h (bp_room_id m)" and "IsClientActive h p"
    and "\<not> chan_full (c_send (h_heap h p))"
  shows "err = None \<and> w' = w \<and> (\<exists>doc chat.
    ch_buf (c_send (h_heap h' p)) = ch_buf (c_send (h_heap h p)) @ [doc] \<and>
    json_member ''type'' doc = Some (JStr ''chat_message'') \<and> json_member ''data'' doc = Some chat \<and>
    json_member ''message_id'' chat = Some (JStr (bp_message_id m)) \<and>
    json_member ''room_id'' chat = Some (JStr (bp_room_id m)) \<and>
    json_member ''senderId'' chat = Some (JStr (bp_sender_id m)) \<and>
    json_member ''content'' chat = Some (JStr (bp_content m)))"
proof -
  have sent: "BroadcastToRoom (je_pick e) (bp_room_id m) (chat_broadcast m None) h = Return h'"
    and ret: "err = None" "w' = w"
    using assms(3-5) unmarshal_broadcast_json [OF assms(2)]
    by (auto simp: HandleJob_def HandleBroadcastPrivateMessage_def broadcast_with_def outcome_simps)
  from broadcast_effect(1) [OF assms(1) sent [unfolded BroadcastToRoom_def], of p] assms(6-8)
  have "ch_buf (c_send (h_heap h' p)) = ch_buf (c_send (h_heap h p)) @
      [marshal_outgoing (chat_broadcast m None)]"
    by (simp add: broadcast_targets_def chat_broadcast_def)
  then show ?thesis
    using ret
    by (simp add: marshal_outgoing_def chat_broadcast_def omit_empty_str_def enc_chat_def
        message_type_defs)
qed

definition example_env :: "store job_env" where
  "example_env = \<lparr>je_redis = mem_redis, je_mail = (\<lambda>_ w. (None, w)), je_ptime = plain_ptime,
     je_rand = Some (1, 2, 3), je_pick = (\<lambda>_. True), je_now1 = 0, je_now2 = 0, je_why = ''''\<rparr>"

lemma message_job_delivers_witness:
  "\<exists>h' doc. HandleJob example_env
      (zero_job\<lparr>jb_type := ''broadcast_private_message'',
         jb_payload := Some (broadcast_json plain_ftime
           (zero_broadcast\<lparr>bp_room_id := ''r1'', bp_content := ''hi''\<rparr>))\<rparr>)
      (empty_store, example_hub) = Return (None, empty_store, h') \<and>
    ch_buf (c_send (h_heap h' 1)) = [doc]"
proof -
  let ?m = "zero_broadcast\<lparr>bp_room_id := ''r1'', bp_content := ''hi''\<rparr>"
  let ?j = "zero_job\<lparr>jb_type := ''broadcast_private_message'',
      jb_payload := Some (broadcast_json plain_ftime ?m)\<rparr>"
  have "BroadcastToRoom (\<lambda>_. True) ''r1'' (chat_broadcast ?m None) example_hub \<noteq> Panic"
    using broadcast_Panic_iff [OF hub_inv_example] all_open_example
    by (simp add: BroadcastToRoom_def all_open_def)
  then obtain h' where "BroadcastToRoom (\<lambda>_. True) ''r1'' (chat_broadcast ?m None) example_hub = Return h'"
    by (cases "BroadcastToRoom (\<lambda>_. True) ''r1'' (chat_broadcast ?m None) example_hub") auto
  then have run: "HandleJob example_env ?j (empty_store, example_hub) = Return (None, empty_store, h')"
    using unmarshal_broadcast_json [OF plain_time_round_trip, of ?m]
    by (simp add: HandleJob_def HandleBroadcastPrivateMessage_def broadcast_with_def example_env_def
        zero_broadcast_def)
  have e: "time_round_trip (je_ptime example_env) plain_ftime"
    by (simp add: example_env_def plain_time_round_trip)
  have "1 \<in> room_members example_hub (bp_room_id ?m)" "IsClientActive example_hub 1"
    "\<not> chan_full (c_send (h_heap example_hub 1))"
    by (simp_all add: IsClientActive_def chan_full_def make_chan_def channelBuffer_def)
  from message_job_delivers [OF hub_inv_example e _ _ run this] run show ?thesis
    by (auto simp: make_chan_def)
qed

text \<open>
  A one-time password is six decimal digits, whatever the random source gives and also when
  it fails: the validator of the verification request accepts it.
\<close>

theorem generated_otp_is_valid: "OTPValidator (generateOTP rand)"
proof -
  have "length (show_nat_pad 6 (nat (n mod 1000000))) = 6" for n :: int
    by (rule length_show_nat_pad) (simp_all add: nat_less_iff)
  moreover have "list_all is_digit (show_nat_pad 6 n)" for n
    by (simp add: list_all_iff show_nat_pad_digits)
  moreover have "list_all is_digit ''000000''" by (simp add: is_digit_def)
  ultimately show ?thesis
    by (simp add: OTPValidator_def generateOTP_def Let_def split: option.split prod.split)
qed

end
