(* ===== verification/DeadLetters.thy ===== *)
theory DeadLetters
  imports WorkerHandlers SelectLoop
begin

text \<open>
  The dead letter queue: the worker that moves jobs from the Redis list into MongoDB
  (\<^verbatim>\<open>start-dlq-worker.go\<close>) and the consumer that retries them
  (\<^verbatim>\<open>retry-dlq-worker.go\<close>). The collection is an argument like the Redis client;
  \<open>dlq_store_ok\<close> states what its operations do to the documents it holds.
\<close>

section \<open>Documents\<close>

text \<open>
  \<open>dl_reason\<close> is the field \<^verbatim>\<open>reason\<close> that one update writes and the struct does
  not have.
\<close>

record dlq_job =
  dl_id :: nat
  dl_job_id :: string
  dl_type :: string
  dl_payload :: "json option"
  dl_error_msg :: string
  dl_status :: string
  dl_retry_count :: int
  dl_original_retry_count :: int
  dl_next_retry_at :: "int option"
  dl_created_at :: int
  dl_updated_at :: int
  dl_completed_at :: "int option"
  dl_failed_at :: "int option"
  dl_expire_at :: int
  dl_reason :: "string option"

record dlq_config =
  dc_batch_size :: nat
  dc_retry_interval :: int
  dc_max_retry_count :: int
  dc_backoff_factor :: nat

definition DLQConfig :: dlq_config where
  "DLQConfig = \<lparr>dc_batch_size = 10, dc_retry_interval = 1 * Minute, dc_max_retry_count = 3,
     dc_backoff_factor = 2\<rparr>"

section \<open>The collection\<close>

text \<open>
  \<open>ds_find P n\<close> is \<^verbatim>\<open>Find\<close> of the documents with \<open>P\<close>, the oldest first, at most
  \<open>n\<close>; \<open>ds_update i f\<close> is \<^verbatim>\<open>UpdateOne\<close> by identifier; \<open>None\<close> and \<open>False\<close> are errors.
\<close>

record 'w dlq_store =
  ds_ping :: "'w \<Rightarrow> bool"
  ds_insert :: "dlq_job \<Rightarrow> 'w \<Rightarrow> bool \<times> 'w"
  ds_find :: "(dlq_job \<Rightarrow> bool) \<Rightarrow> nat \<Rightarrow> 'w \<Rightarrow> dlq_job list option"
  ds_update :: "nat \<Rightarrow> (dlq_job \<Rightarrow> dlq_job) \<Rightarrow> 'w \<Rightarrow> bool \<times> 'w"

definition dlq_store_ok :: "'w dlq_store \<Rightarrow> ('w \<Rightarrow> dlq_job list) \<Rightarrow> bool" where
  "dlq_store_ok ds docs \<longleftrightarrow>
     (\<forall>d w w'. ds_insert ds d w = (True, w') \<longrightarrow>
        (\<exists>i. i \<notin> dl_id ` set (docs w) \<and> docs w' = docs w @ [d\<lparr>dl_id := i\<rparr>])) \<and>
     (\<forall>d w w'. ds_insert ds d w = (False, w') \<longrightarrow> docs w' = docs w) \<and>
     (\<forall>P n w ds'. ds_find ds P n w = Some ds' \<longrightarrow>
        set ds' \<subseteq> {d \<in> set (docs w). P d} \<and> length ds' \<le> n \<and> sorted (map dl_created_at ds') \<and>
        (length ds' < n \<longrightarrow> set ds' = {d \<in> set (docs w). P d})) \<and>
     (\<forall>i f w w'. ds_update ds i f w = (True, w') \<longrightarrow>
        docs w' = map (\<lambda>d. if dl_id d = i then f d else d) (docs w)) \<and>
     (\<forall>i f w w'. ds_update ds i f w = (False, w') \<longrightarrow> docs w' = docs w)"

section \<open>From Redis to MongoDB\<close>

definition dlq_document :: "int \<Rightarrow> int \<Rightarrow> job \<Rightarrow> dlq_job" where
  "dlq_document now1 now2 j =
     \<lparr>dl_id = 0, dl_job_id = jb_id j, dl_type = jb_type j, dl_payload = jb_payload j,
      dl_error_msg = jb_error_msg j, dl_status = ''pending'', dl_retry_count = 0,
      dl_original_retry_count = jb_retry j, dl_next_retry_at = None, dl_created_at = now1,
      dl_updated_at = zero_time, dl_completed_at = None, dl_failed_at = None,
      dl_expire_at = now2 + 7 * 24 * Hour, dl_reason = None\<rparr>"

text \<open>One iteration of \<^verbatim>\<open>StartDLQWorker\<close>; the insertion gives the document its identifier.\<close>

definition dlq_worker_step :: "'w redis \<Rightarrow> 'w dlq_store \<Rightarrow> int \<Rightarrow> int \<Rightarrow> 'w \<Rightarrow> 'w" where
  "dlq_worker_step rd ds now1 now2 w =
     (let (r, w1) = rd_blpop rd priority_queue_dlq w in
      case r of
        Inl err \<Rightarrow> w1
      | Inr None \<Rightarrow> w1
      | Inr (Some payload) \<Rightarrow>
          (case unmarshal_job payload of
             None \<Rightarrow> w1
           | Some j \<Rightarrow>
               (let (ok, w2) = ds_insert ds (dlq_document now1 now2 j) w1
                in if ok then w2 else snd (rd_rpush rd priority_queue_dlq payload w2))))"

text \<open>
  The goroutine: one iteration after the other until the pool's context has ended. Its iterations
  are those before the end; the commands of one that the end interrupts are the client's.
\<close>

definition StartDLQWorker ::
  "'w redis \<Rightarrow> 'w dlq_store \<Rightarrow> (int \<times> int) selected list \<Rightarrow> 'w \<Rightarrow> (bool \<times> 'w) outcome" where
  "StartDLQWorker rd ds = select_loop (\<lambda>(now1, now2) w. Return (dlq_worker_step rd ds now1 now2 w))"

section \<open>Retrying\<close>

definition ready_for_retry :: "dlq_config \<Rightarrow> int \<Rightarrow> dlq_job \<Rightarrow> bool" where
  "ready_for_retry cfg now d \<longleftrightarrow>
     dl_status d \<in> set [''pending'', ''failed''] \<and> dl_retry_count d < dc_max_retry_count cfg \<and>
     (case dl_next_retry_at d of None \<Rightarrow> True | Some t \<Rightarrow> t \<le> now)"

definition markDLQJobAsCompleted :: "'w dlq_store \<Rightarrow> int \<Rightarrow> int \<Rightarrow> nat \<Rightarrow> 'w \<Rightarrow> 'w" where
  "markDLQJobAsCompleted ds t1 t2 i w = snd (ds_update ds i (\<lambda>d. d\<lparr>dl_status := ''completed'',
     dl_completed_at := Some t1, dl_updated_at := t2\<rparr>) w)"

definition markDLQJobAsPermanentlyFailed ::
  "'w dlq_store \<Rightarrow> int \<Rightarrow> int \<Rightarrow> nat \<Rightarrow> string \<Rightarrow> 'w \<Rightarrow> 'w" where
  "markDLQJobAsPermanentlyFailed ds t1 t2 i errorMsg w =
     snd (ds_update ds i (\<lambda>d. d\<lparr>dl_status := ''permanently_failed'', dl_error_msg := errorMsg,
       dl_failed_at := Some t1, dl_updated_at := t2\<rparr>) w)"

definition markDLQJobAsFailed ::
  "'w dlq_store \<Rightarrow> int \<Rightarrow> nat \<Rightarrow> string \<Rightarrow> string \<Rightarrow> 'w \<Rightarrow> 'w" where
  "markDLQJobAsFailed ds t1 i reason errorMsg w =
     snd (ds_update ds i (\<lambda>d. d\<lparr>dl_status := ''failed'', dl_reason := Some reason,
       dl_error_msg := errorMsg, dl_updated_at := t1\<rparr>) w)"

text \<open>
  \<^verbatim>\<open>float64(interval) * math.Pow(factor, n)\<close> with the factor a power of two and counts
  that are not negative: the product is exact up to the rounding of a double.
\<close>

definition dlq_backoff :: "dlq_config \<Rightarrow> int \<Rightarrow> int" where
  "dlq_backoff cfg n = f64 (f64 (dc_retry_interval cfg) * int (dc_backoff_factor cfg) ^ nat n)"

definition handleDLQRetryFailure ::
  "'w dlq_store \<Rightarrow> dlq_config \<Rightarrow> int \<Rightarrow> int \<Rightarrow> dlq_job \<Rightarrow> string \<Rightarrow> 'w \<Rightarrow> 'w" where
  "handleDLQRetryFailure ds cfg t1 t2 d errorMsg w =
     (let newRetryCount = dl_retry_count d + 1 in
      if newRetryCount \<ge> dc_max_retry_count cfg
      then markDLQJobAsPermanentlyFailed ds t1 t2 (dl_id d) errorMsg w
      else
        (let nextRetryAt = t1 + dlq_backoff cfg newRetryCount
         in snd (ds_update ds (dl_id d) (\<lambda>d. d\<lparr>dl_status := ''failed'',
              dl_retry_count := newRetryCount, dl_error_msg := errorMsg,
              dl_next_retry_at := Some nextRetryAt, dl_updated_at := t2\<rparr>) w)))"

text \<open>
  \<open>handle\<close> is \<^verbatim>\<open>HandleJob\<close>; \<open>why\<close> the library's error text of an unreadable payload.
\<close>

definition retryDLQJob ::
  "'w dlq_store \<Rightarrow> (job \<Rightarrow> 'w \<Rightarrow> (string option \<times> 'w) outcome) \<Rightarrow> dlq_config \<Rightarrow> int \<Rightarrow> int \<Rightarrow> int \<Rightarrow> string
   \<Rightarrow> dlq_job \<Rightarrow> 'w \<Rightarrow> 'w outcome" where
  "retryDLQJob ds handle cfg t0 t1 t2 why d w =
     (let (ok, w1) = ds_update ds (dl_id d) (\<lambda>d. d\<lparr>dl_status := ''processing'', dl_updated_at := t0\<rparr>) w
      in if \<not> ok then Return w1
         else
           (case unmarshal_raw zero_job load_job (dl_payload d) of
              None \<Rightarrow> Return (markDLQJobAsFailed ds t1 (dl_id d) ''invalid_payload'' why w1)
            | Some j \<Rightarrow>
                bind_outcome (handle (j\<lparr>jb_retry := 0, jb_error_msg := ''''\<rparr>) w1) (\<lambda>(res, w2).
                  Return (case res of
                      Some err \<Rightarrow> handleDLQRetryFailure ds cfg t1 t2 d err w2
                    | None \<Rightarrow> markDLQJobAsCompleted ds t1 t2 (dl_id d) w2))))"

definition processDLQJobs ::
  "'w dlq_store option \<Rightarrow> (job \<Rightarrow> 'w \<Rightarrow> (string option \<times> 'w) outcome) \<Rightarrow> dlq_config \<Rightarrow> int
   \<Rightarrow> (nat \<Rightarrow> int \<times> int \<times> int) \<Rightarrow> string \<Rightarrow> 'w \<Rightarrow> 'w outcome" where
  "processDLQJobs store handle cfg now clock why w =
     (case store of
        None \<Rightarrow> Return w
      | Some ds \<Rightarrow>
          if \<not> ds_ping ds w then Return w
          else
            (case ds_find ds (ready_for_retry cfg now) (dc_batch_size cfg) w of
               None \<Rightarrow> Return w
             | Some jobs \<Rightarrow>
                 fold_outcome (\<lambda>d. case clock (dl_id d) of (t0, t1, t2) \<Rightarrow>
                   retryDLQJob ds handle cfg t0 t1 t2 why d) jobs w))"

text \<open>The goroutine that retries on every tick.\<close>

definition StartDLQRetryConsumer ::
  "'w dlq_store option \<Rightarrow> (job \<Rightarrow> 'w \<Rightarrow> (string option \<times> 'w) outcome) \<Rightarrow> dlq_config
   \<Rightarrow> (int \<times> (nat \<Rightarrow> int \<times> int \<times> int) \<times> string) selected list \<Rightarrow> 'w \<Rightarrow> (bool \<times> 'w) outcome" where
  "StartDLQRetryConsumer store handle cfg =
     select_loop (\<lambda>(now, clock, why). processDLQJobs store handle cfg now clock why)"

text \<open>
  \<^verbatim>\<open>GetDLQStats\<close> takes its counts out of the aggregate's documents with
  \<^verbatim>\<open>.(int64)\<close>, which panics on an \<^verbatim>\<open>int32\<close>.
\<close>

datatype bson_int = Bson_int32 int | Bson_int64 int

definition GetDLQStats :: "(string \<times> bson_int) list option \<Rightarrow> (string \<Rightarrow> int option) option outcome" where
  "GetDLQStats groups =
     (case groups of
        None \<Rightarrow> Return None
      | Some gs \<Rightarrow> map_outcome_with Some (fold_outcome (\<lambda>(status, n) stats.
          case n of Bson_int64 c \<Rightarrow> Return (stats(status \<mapsto> c)) | Bson_int32 c \<Rightarrow> Panic) gs Map.empty))"

section \<open>A collection in memory\<close>

definition mem_docs :: "(dlq_job list) dlq_store" where
  "mem_docs = \<lparr>ds_ping = (\<lambda>_. True),
     ds_insert = (\<lambda>d w. (True, w @ [d\<lparr>dl_id := Suc (Max (insert 0 (dl_id ` set w)))\<rparr>])),
     ds_find = (\<lambda>P n w. Some (take n (sort_key dl_created_at (filter P w)))),
     ds_update = (\<lambda>i f w. (True, map (\<lambda>d. if dl_id d = i then f d else d) w))\<rparr>"

lemma mem_docs_ok: "dlq_store_ok mem_docs id"
proof -
  have "Suc (Max (insert 0 (dl_id ` set w))) \<notin> dl_id ` set w" for w :: "dlq_job list"
  proof
    assume "Suc (Max (insert 0 (dl_id ` set w))) \<in> dl_id ` set w"
    then have "Suc (Max (insert 0 (dl_id ` set w))) \<le> Max (insert 0 (dl_id ` set w))"
      by (intro Max_ge) auto
    then show False by simp
  qed
  moreover have "sorted (map dl_created_at (take n (sort_key dl_created_at (filter P w))))" for n P w
    by (simp add: sorted_wrt_take flip: take_map)
  ultimately show ?thesis
    by (auto simp: dlq_store_ok_def mem_docs_def dest: in_set_takeD)
qed

section \<open>Properties\<close>

text \<open>A collection that accepts every update.\<close>

definition dlq_store_up :: "'w dlq_store \<Rightarrow> bool" where
  "dlq_store_up ds \<longleftrightarrow> (\<forall>i f w. fst (ds_update ds i f w))"

lemma mem_docs_up: "dlq_store_up mem_docs"
  by (simp add: dlq_store_up_def mem_docs_def)

lemma ds_update_docs:
  assumes "dlq_store_ok ds docs" and "dlq_store_up ds"
  shows "docs (snd (ds_update ds i f w)) = map (\<lambda>d. if dl_id d = i then f d else d) (docs w)"
    and "fst (ds_update ds i f w)"
proof -
  show up: "fst (ds_update ds i f w)" using assms(2) by (simp add: dlq_store_up_def)
  then have "ds_update ds i f w = (True, snd (ds_update ds i f w))" by (simp add: prod_eq_iff)
  then show "docs (snd (ds_update ds i f w)) = map (\<lambda>d. if dl_id d = i then f d else d) (docs w)"
    using assms(1) unfolding dlq_store_ok_def by blast
qed

lemma job_needs_number:
  assumes "(''created_at'', JStr s) \<in> set kvs"
  shows "load_job kvs = None"
proof -
  have "load_field dec_int64 ''created_at'' kvs cur = None" for cur
    by (rule load_field_mismatch [OF assms]) simp_all
  then show ?thesis by (simp add: load_job_def bind_eq_None_conv)
qed

text \<open>
  What is left of a letter by a retry that gives it up: everything but its status, which is
  \<^verbatim>\<open>failed\<close>, and what explains it.
\<close>

definition unreadable :: "dlq_job \<Rightarrow> bool" where
  "unreadable d \<longleftrightarrow> unmarshal_raw zero_job load_job (dl_payload d) = None"

definition given_up :: "dlq_job \<Rightarrow> dlq_job \<Rightarrow> bool" where
  "given_up d d' \<longleftrightarrow> dl_id d' = dl_id d \<and> dl_payload d' = dl_payload d \<and>
     dl_retry_count d' = dl_retry_count d \<and> dl_next_retry_at d' = dl_next_retry_at d \<and>
     (dl_status d' = dl_status d \<or> dl_status d' = ''failed'')"

lemma given_up_trans: "given_up d e \<Longrightarrow> given_up e f \<Longrightarrow> given_up d f"
  by (auto simp: given_up_def)

lemma given_up_letters_trans:
  "list_all2 given_up ds es \<Longrightarrow> list_all2 given_up es fs \<Longrightarrow> list_all2 given_up ds fs"
  using given_up_trans by (rule list_all2_trans)

lemma given_up_letters_refl: "list_all2 given_up ds ds"
  by (rule list_all2_refl) (simp add: given_up_def)

lemma given_up_ready:
  "given_up d d' \<Longrightarrow> ready_for_retry cfg now d \<Longrightarrow> now \<le> later \<Longrightarrow> ready_for_retry cfg later d'"
  by (auto simp: given_up_def ready_for_retry_def split: option.splits)

lemma unreadable_letter:
  assumes "dl_payload d = Some (JObj kvs)" and "(''created_at'', JStr s) \<in> set kvs"
  shows "unreadable d"
  by (simp add: unreadable_def assms(1) unmarshal_raw_def job_needs_number [OF assms(2)])

lemma unreadable_given_up: "given_up d d' \<Longrightarrow> unreadable d \<Longrightarrow> unreadable d'"
  by (simp add: given_up_def unreadable_def)

lemma unreadable_letters:
  "list_all2 given_up ds es \<Longrightarrow> \<forall>d \<in> set ds. unreadable d \<Longrightarrow> \<forall>d \<in> set es. unreadable d"
  by (metis in_set_conv_nth list_all2_conv_all_nth unreadable_given_up)

text \<open>A retry of an unreadable letter does the same whatever the handler is.\<close>

lemma retry_unreadable:
  assumes "dlq_store_ok ds docs" and "dlq_store_up ds" and "unreadable d"
  shows "\<exists>w'. (\<forall>handle. retryDLQJob ds handle cfg t0 t1 t2 why d w = Return w') \<and>
    docs w' = map (\<lambda>x. if dl_id x = dl_id d then x\<lparr>dl_status := ''failed'', dl_updated_at := t1,
      dl_reason := Some ''invalid_payload'', dl_error_msg := why\<rparr> else x) (docs w)"
proof -
  define w1 where "w1 = snd (ds_update ds (dl_id d)
      (\<lambda>d. d\<lparr>dl_status := ''processing'', dl_updated_at := t0\<rparr>) w)"
  define w' where "w' = markDLQJobAsFailed ds t1 (dl_id d) ''invalid_payload'' why w1"
  have "retryDLQJob ds handle cfg t0 t1 t2 why d w = Return w'" for handle
    using ds_update_docs(2) [OF assms(1,2)] assms(3)
    by (simp add: retryDLQJob_def case_prod_beta unreadable_def w'_def w1_def)
  moreover have "docs w' = map (\<lambda>x. if dl_id x = dl_id d then x\<lparr>dl_status := ''failed'',
      dl_updated_at := t1, dl_reason := Some ''invalid_payload'', dl_error_msg := why\<rparr> else x) (docs w)"
    by (simp add: w'_def w1_def markDLQJobAsFailed_def ds_update_docs [OF assms(1,2)] comp_def
        if_distrib cong: map_cong)
  ultimately show ?thesis by blast
qed

lemma retries_unreadable:
  assumes "dlq_store_ok ds docs" and "dlq_store_up ds" and "\<forall>d \<in> set jobs. unreadable d"
  shows "\<exists>w'. (\<forall>handle. fold_outcome (\<lambda>d. case clock (dl_id d) of (t0, t1, t2) \<Rightarrow>
      retryDLQJob ds handle cfg t0 t1 t2 why d) jobs w = Return w') \<and>
    list_all2 given_up (docs w) (docs w')"
  using assms(3)
proof (induction jobs arbitrary: w)
  case Nil
  then show ?case by (simp add: given_up_letters_refl)
next
  case (Cons d jobs)
  obtain t0 t1 t2 where clock: "clock (dl_id d) = (t0, t1, t2)" by (cases "clock (dl_id d)")
  from Cons.prems have "unreadable d" and others: "\<forall>d \<in> set jobs. unreadable d" by simp_all
  from retry_unreadable [OF assms(1,2) this(1), of cfg t0 t1 t2 why w] obtain w1
    where step: "\<And>handle. retryDLQJob ds handle cfg t0 t1 t2 why d w = Return w1"
      and docs1: "docs w1 = map (\<lambda>x. if dl_id x = dl_id d then x\<lparr>dl_status := ''failed'', dl_updated_at := t1,
      dl_reason := Some ''invalid_payload'', dl_error_msg := why\<rparr> else x) (docs w)" by blast
  from docs1 have up1: "list_all2 given_up (docs w) (docs w1)"
    by (auto simp: list_all2_conv_all_nth given_up_def)
  from Cons.IH [OF others, of w1] obtain w'
    where rest: "\<And>handle. fold_outcome (\<lambda>d. case clock (dl_id d) of (t0, t1, t2) \<Rightarrow>
        retryDLQJob ds handle cfg t0 t1 t2 why d) jobs w1 = Return w'"
      and up: "list_all2 given_up (docs w1) (docs w')" by blast
  have "fold_outcome (\<lambda>d. case clock (dl_id d) of (t0, t1, t2) \<Rightarrow>
        retryDLQJob ds handle cfg t0 t1 t2 why d) (d # jobs) w = Return w'" for handle
    by (simp add: clock step rest)
  with given_up_letters_trans [OF up1 up] show ?case by blast
qed

text \<open>One run: it returns, the handlers are never called, and no letter comes nearer to an end.\<close>

lemma run_unreadable:
  assumes "dlq_store_ok ds docs" and "dlq_store_up ds" and "\<forall>d \<in> set (docs w). unreadable d"
  shows "\<exists>w'. (\<forall>handle. processDLQJobs (Some ds) handle cfg now clock why w = Return w') \<and>
    list_all2 given_up (docs w) (docs w')"
proof (cases "ds_ping ds w")
  case False
  then show ?thesis by (auto simp: processDLQJobs_def given_up_letters_refl)
next
  case True
  show ?thesis
  proof (cases "ds_find ds (ready_for_retry cfg now) (dc_batch_size cfg) w")
    case None
    with True show ?thesis by (auto simp: processDLQJobs_def given_up_letters_refl)
  next
    case (Some jobs)
    from Some assms(1) have "set jobs \<subseteq> set (docs w)" unfolding dlq_store_ok_def by blast
    with assms(3) have "\<forall>d \<in> set jobs. unreadable d" by blast
    from retries_unreadable [where clock = clock and cfg = cfg and why = why and w = w, OF assms(1,2) this]
    obtain w' where "\<And>handle. fold_outcome (\<lambda>d. case clock (dl_id d) of (t0, t1, t2) \<Rightarrow>
        retryDLQJob ds handle cfg t0 t1 t2 why d) jobs w = Return w'"
      and "list_all2 given_up (docs w) (docs w')" by blast
    with True Some show ?thesis by (auto simp: processDLQJobs_def)
  qed
qed

text \<open>
  C29. The retry consumer never gets a dead letter off its hands. It unmarshals the stored payload,
  which is a job's payload, as a whole job; the payloads of all the program's jobs carry their
  creation time as text where a job has a number, so every attempt is given up before any handler
  runs. However often the consumer runs, with whatever handlers, every letter keeps its retry count
  and its retry time and is pending or failed: none is ever completed or permanently failed, and each
  is ready for retry again at once.
\<close>

theorem dead_letters_never_retried:
  assumes "dlq_store_ok ds docs" and "dlq_store_up ds"
    and "\<forall>d \<in> set (docs w). \<exists>kvs s. dl_payload d = Some (JObj kvs) \<and> (''created_at'', JStr s) \<in> set kvs"
    and "\<forall>d \<in> set (docs w). ready_for_retry cfg now d"
  shows "\<exists>w'. (\<forall>handle. StartDLQRetryConsumer (Some ds) handle cfg es w = Return (Ctx_done \<in> set es, w')) \<and>
    list_all2 (\<lambda>d d'. dl_id d' = dl_id d \<and> dl_payload d' = dl_payload d \<and>
      dl_retry_count d' = dl_retry_count d \<and> (\<forall>later \<ge> now. ready_for_retry cfg later d')) (docs w) (docs w')"
proof -
  have unread: "\<forall>d \<in> set (docs w). unreadable d" using assms(3) unreadable_letter by blast
  have "\<exists>w'. (\<forall>handle. StartDLQRetryConsumer (Some ds) handle cfg es w = Return (Ctx_done \<in> set es, w')) \<and>
    list_all2 given_up (docs w) (docs w')"
    using unread
  proof (induction es arbitrary: w)
    case Nil
    then show ?case by (auto simp: StartDLQRetryConsumer_def given_up_letters_refl)
  next
    case (Cons e es)
    show ?case
    proof (cases e)
      case Ctx_done
      then show ?thesis by (auto simp: StartDLQRetryConsumer_def given_up_letters_refl)
    next
      case (Work r)
      obtain now clock why where r: "r = (now, clock, why)" by (cases r)
      from run_unreadable [OF assms(1,2) Cons.prems, of cfg now clock why] obtain w1
        where step: "\<And>handle. processDLQJobs (Some ds) handle cfg now clock why w = Return w1"
          and up1: "list_all2 given_up (docs w) (docs w1)" by blast
      from Cons.IH [OF unreadable_letters [OF up1 Cons.prems]] obtain w'
        where rest: "\<And>handle. StartDLQRetryConsumer (Some ds) handle cfg es w1 = Return (Ctx_done \<in> set es, w')"
          and up: "list_all2 given_up (docs w1) (docs w')" by blast
      from rest have "StartDLQRetryConsumer (Some ds) handle cfg (e # es) w = Return (Ctx_done \<in> set (e # es), w')"
        for handle by (simp add: StartDLQRetryConsumer_def Work r step)
      with given_up_letters_trans [OF up1 up] show ?thesis by blast
    qed
  qed
  moreover have "list_all2 (\<lambda>d d'. dl_id d' = dl_id d \<and> dl_payload d' = dl_payload d \<and>
      dl_retry_count d' = dl_retry_count d \<and> (\<forall>later \<ge> now. ready_for_retry cfg later d')) (docs w) (docs w')"
    if "list_all2 given_up (docs w) (docs w')" for w'
    using that
  proof (rule list.rel_mono_strong)
    fix d d' assume "d \<in> set (docs w)" and up: "given_up d d'"
    with assms(4) have "ready_for_retry cfg now d" by blast
    with up show "dl_id d' = dl_id d \<and> dl_payload d' = dl_payload d \<and>
        dl_retry_count d' = dl_retry_count d \<and> (\<forall>later \<ge> now. ready_for_retry cfg later d')"
      by (auto simp: given_up_def intro: given_up_ready [OF up])
  qed
  ultimately show ?thesis by blast
qed

definition example_letter :: dlq_job where
  "example_letter = (dlq_document 0 0 (zero_job\<lparr>jb_type := ''broadcast_private_message'',
     jb_payload := Some (broadcast_json plain_ftime zero_broadcast)\<rparr>))\<lparr>dl_id := 1\<rparr>"

lemma dead_letters_never_retried_witness:
  "\<exists>w'. StartDLQRetryConsumer (Some mem_docs) (\<lambda>j w. Return (None, w)) DLQConfig
      [Work (0, \<lambda>_. (0, 0, 0), ''e''), Work (9, \<lambda>_. (9, 9, 9), ''e''), Ctx_done] [example_letter] = Return (True, w') \<and>
    (\<exists>d'. w' = [d'] \<and> dl_retry_count d' = 0 \<and> ready_for_retry DLQConfig 10 d')"
proof -
  have payload: "\<forall>d \<in> set (id [example_letter]).
      \<exists>kvs s. dl_payload d = Some (JObj kvs) \<and> (''created_at'', JStr s) \<in> set kvs"
    by (simp add: example_letter_def dlq_document_def broadcast_json_def)
  have ready: "\<forall>d \<in> set (id [example_letter]). ready_for_retry DLQConfig 0 d"
    by (simp add: ready_for_retry_def example_letter_def dlq_document_def DLQConfig_def)
  have "dl_retry_count example_letter = 0" by (simp add: example_letter_def dlq_document_def)
  moreover from dead_letters_never_retried [OF mem_docs_ok mem_docs_up payload ready,
      of "[Work (0, \<lambda>_. (0, 0, 0), ''e''), Work (9, \<lambda>_. (9, 9, 9), ''e''), Ctx_done]"]
  obtain w' where "StartDLQRetryConsumer (Some mem_docs) (\<lambda>j w. Return (None, w)) DLQConfig
      [Work (0, \<lambda>_. (0, 0, 0), ''e''), Work (9, \<lambda>_. (9, 9, 9), ''e''), Ctx_done] [example_letter] = Return (True, w')"
    and "list_all2 (\<lambda>d d'. dl_id d' = dl_id d \<and> dl_payload d' = dl_payload d \<and>
      dl_retry_count d' = dl_retry_count d \<and> (\<forall>later \<ge> 0. ready_for_retry DLQConfig later d')) [example_letter] w'"
    by auto
  ultimately show ?thesis by (intro exI [of _ w']) (auto simp: list_all2_Cons1)
qed

text \<open>
  What a retry of a readable letter does to its document, for a handler that leaves the
  collection alone: completed when the handler succeeds; otherwise one attempt more is counted,
  and below the maximum the letter waits the retry interval doubled once per attempt, while the
  attempt that reaches the maximum marks it permanently failed. Other documents are not touched.
\<close>

theorem dlq_retry_outcome:
  assumes "dlq_store_ok ds docs" and "dlq_store_up ds" and "d \<in> set (docs w)"
    and "distinct (map dl_id (docs w))"
    and "unmarshal_raw zero_job load_job (dl_payload d) = Some j"
    and "\<And>u. \<exists>u'. handle (j\<lparr>jb_retry := 0, jb_error_msg := ''''\<rparr>) u = Return (res, u') \<and> docs u' = docs u"
    and "0 \<le> dl_retry_count d" and "dl_retry_count d < 3"
  shows "\<exists>w'. retryDLQJob ds handle DLQConfig t0 t1 t2 why d w = Return w' \<and>
    docs w' = map (\<lambda>x. if dl_id x \<noteq> dl_id d then x else
      (case res of
         None \<Rightarrow> d\<lparr>dl_status := ''completed'', dl_completed_at := Some t1, dl_updated_at := t2\<rparr>
       | Some err \<Rightarrow>
           if dl_retry_count d = 2
           then d\<lparr>dl_status := ''permanently_failed'', dl_error_msg := err, dl_failed_at := Some t1,
             dl_updated_at := t2\<rparr>
           else d\<lparr>dl_status := ''failed'', dl_retry_count := dl_retry_count d + 1, dl_error_msg := err,
             dl_next_retry_at := Some (t1 + Minute * 2 ^ nat (dl_retry_count d + 1)),
             dl_updated_at := t2\<rparr>)) (docs w)"
proof -
  define w1 where "w1 = snd (ds_update ds (dl_id d)
      (\<lambda>d. d\<lparr>dl_status := ''processing'', dl_updated_at := t0\<rparr>) w)"
  obtain w2 where h: "handle (j\<lparr>jb_retry := 0, jb_error_msg := ''''\<rparr>) w1 = Return (res, w2)"
    and w2: "docs w2 = docs w1" using assms(6) by blast
  have docs1: "docs w2 = map (\<lambda>x. if dl_id x = dl_id d
      then x\<lparr>dl_status := ''processing'', dl_updated_at := t0\<rparr> else x) (docs w)"
    by (simp add: w2 w1_def ds_update_docs [OF assms(1,2)])
  have same: "x = d" if "x \<in> set (docs w)" "dl_id x = dl_id d" for x
    using that assms(3,4) by (metis distinct_map inj_onD)
  have backoff: "dlq_backoff DLQConfig (dl_retry_count d + 1) = Minute * 2 ^ nat (dl_retry_count d + 1)"
    if "dl_retry_count d \<noteq> 2"
  proof -
    have "dl_retry_count d = 0 \<or> dl_retry_count d = 1" using that assms(7,8) by arith
    then show ?thesis by (auto simp: dlq_backoff_def DLQConfig_def f64_exact)
  qed
  have run: "retryDLQJob ds handle DLQConfig t0 t1 t2 why d w = Return (case res of
      Some err \<Rightarrow> handleDLQRetryFailure ds DLQConfig t1 t2 d err w2
    | None \<Rightarrow> markDLQJobAsCompleted ds t1 t2 (dl_id d) w2)"
    using ds_update_docs(2) [OF assms(1,2)] h
    by (simp add: retryDLQJob_def case_prod_beta assms(5) w1_def)
  show ?thesis
  proof (cases res)
    case None
    with run show ?thesis
      by (simp add: markDLQJobAsCompleted_def ds_update_docs [OF assms(1,2)] docs1)
        (use same in auto)
  next
    case (Some err)
    have "dl_retry_count d + 1 \<ge> dc_max_retry_count DLQConfig \<longleftrightarrow> dl_retry_count d = 2"
      using assms(8) by (auto simp: DLQConfig_def)
    with Some run show ?thesis
      by (cases "dl_retry_count d = 2";
          simp add: handleDLQRetryFailure_def markDLQJobAsPermanentlyFailed_def backoff
            ds_update_docs [OF assms(1,2)] docs1 Let_def;
          use same in auto)
  qed
qed

definition readable_letter :: dlq_job where
  "readable_letter = example_letter\<lparr>dl_payload := Some (job_json example_job)\<rparr>"

lemma dlq_retry_outcome_witness:
  "\<exists>d'. retryDLQJob mem_docs (\<lambda>j w. Return (Some ''e'', w)) DLQConfig 0 7 8 '''' readable_letter
      [readable_letter] = Return [d'] \<and> dl_retry_count d' = 1 \<and> dl_next_retry_at d' = Some (7 + 2 * Minute)"
proof -
  have "job_fits example_job" by (simp add: job_fits_def example_job_def zero_job_def in_int64_def)
  from unmarshal_marshal_job [OF this]
  have payload: "unmarshal_raw zero_job load_job (dl_payload readable_letter) = Some example_job"
    by (simp add: readable_letter_def unmarshal_raw_def unmarshal_job_def unmarshal_struct_def
        marshal_job_def)
  have letter: "readable_letter \<in> set (id [readable_letter])"
    "distinct (map dl_id (id [readable_letter]))" "dl_retry_count readable_letter = 0"
    by (simp_all add: readable_letter_def example_letter_def dlq_document_def)
  have "\<exists>u'. (\<lambda>j w. Return (Some ''e'', w)) (example_job\<lparr>jb_retry := 0, jb_error_msg := ''''\<rparr>) u =
      Return (Some ''e'', u') \<and> id u' = id u" for u :: "dlq_job list" by simp
  from dlq_retry_outcome [OF mem_docs_ok mem_docs_up letter(1,2) payload this] letter(3)
  show ?thesis by fastforce
qed

end
