(* ===== verification/UserRepo.thy ===== *)
theory UserRepo
  imports Redis
begin

text \<open>
  Users (\<^verbatim>\<open>internal/entity/user.go\<close>) and their repository
  (\<^verbatim>\<open>internal/repo/user/user-repo.go\<close>). The database behind gorm is a record of the
  queries the repository builds, over the world \<open>'w\<close>; \<open>user_table_ok\<close> states their documented effect on
  the table.
\<close>

section \<open>Users\<close>

record user =
  us_id :: string
  us_username :: string
  us_email :: string
  us_password_hash :: string
  us_is_active :: bool
  us_created_at :: int
  us_updated_at :: int

record user_filter =
  uf_email :: "string option"
  uf_username :: "string option"

section \<open>The table\<close>

text \<open>The conditions of \<^verbatim>\<open>Where\<close>, which gorm joins with \<^verbatim>\<open>AND\<close>.\<close>

datatype user_cond = Email_is string | Username_is string | Id_is string

primrec holds_cond :: "user \<Rightarrow> user_cond \<Rightarrow> bool" where
  "holds_cond u (Email_is e) \<longleftrightarrow> us_email u = e"
| "holds_cond u (Username_is n) \<longleftrightarrow> us_username u = n"
| "holds_cond u (Id_is i) \<longleftrightarrow> us_id u = i"

definition meets :: "user_cond list \<Rightarrow> user \<Rightarrow> bool" where
  "meets cs u \<longleftrightarrow> list_all (holds_cond u) cs"

datatype db_error = ErrRecordNotFound | ErrEmptySlice | Db_error string

text \<open>
  \<open>Count\<close>, \<open>Create\<close>, \<open>First\<close> and \<open>Updates\<close>, which writes the fields of the struct that are not the
  zero value and sets the time of the update.
\<close>

record 'w user_table =
  ut_count :: "user_cond list \<Rightarrow> 'w \<Rightarrow> db_error + int"
  ut_create :: "user \<Rightarrow> 'w \<Rightarrow> db_error option \<times> 'w"
  ut_first :: "user_cond list \<Rightarrow> 'w \<Rightarrow> db_error + user"
  ut_updates :: "user_cond list \<Rightarrow> user \<Rightarrow> 'w \<Rightarrow> db_error option \<times> 'w"

section \<open>The repository\<close>

text \<open>With both filters set the query repeats both conditions.\<close>

definition CountUser :: "'w user_table \<Rightarrow> user_filter \<Rightarrow> 'w \<Rightarrow> app_error + int" where
  "CountUser ut f w =
     (let q1 = (case uf_email f of None \<Rightarrow> [] | Some e \<Rightarrow> [Email_is e]);
          q2 = (case uf_username f of None \<Rightarrow> q1 | Some n \<Rightarrow> q1 @ [Username_is n]);
          q3 = (case (uf_email f, uf_username f) of
                  (Some e, Some n) \<Rightarrow> q2 @ [Email_is e, Username_is n] | _ \<Rightarrow> q2)
      in case ut_count ut q3 w of
           Inl err \<Rightarrow>
             if err = ErrEmptySlice then Inr 0
             else Inl (NewAppError StatusInternalServerError ''unexpected server error'' ''db-count'')
         | Inr count \<Rightarrow> Inr count)"

definition SaveUser :: "'w user_table \<Rightarrow> user \<Rightarrow> 'w \<Rightarrow> app_error option \<times> 'w" where
  "SaveUser ut model w =
     (case ut_create ut model w of
        (Some err, w') \<Rightarrow>
          (Some (NewAppError StatusInternalServerError
             ''unexpected error occur when trying to create user'' ''db-create''), w')
      | (None, w') \<Rightarrow> (None, w'))"

definition fetch_error :: "string \<Rightarrow> db_error \<Rightarrow> app_error" where
  "fetch_error field err =
     (if err = ErrRecordNotFound then NewAppError StatusNotFound ''cannot find user'' field
      else NewAppError StatusInternalServerError ''unexpected error occur when fetch user'' ''db-error'')"

definition VerifyUser :: "'w user_table \<Rightarrow> string \<Rightarrow> 'w \<Rightarrow> (app_error + user) \<times> 'w" where
  "VerifyUser ut userId w =
     (case ut_first ut [Id_is userId] w of
        Inl err \<Rightarrow> (Inl (fetch_error ''user-id'' err), w)
      | Inr u \<Rightarrow>
          (let user' = u\<lparr>us_is_active := True\<rparr> in
           case ut_updates ut [Id_is userId] user' w of
             (Some err, w') \<Rightarrow>
               (Inl (NewAppError StatusInternalServerError
                  ''unexpected error occured when verifying user'' ''db-update''), w')
           | (None, w') \<Rightarrow> (Inr user', w')))"

definition FindUserByCredential :: "'w user_table \<Rightarrow> string \<Rightarrow> 'w \<Rightarrow> app_error + user" where
  "FindUserByCredential ut username w =
     (case ut_first ut [Username_is username] w of
        Inl err \<Rightarrow> Inl (fetch_error ''user-credential'' err)
      | Inr u \<Rightarrow> Inr u)"

section \<open>What the database is relied on for\<close>

text \<open>What \<open>Updates\<close> leaves of a row, but for the time of the update.\<close>

definition merge_user :: "user \<Rightarrow> user \<Rightarrow> user" where
  "merge_user new old =
     (let pick = (\<lambda>a b. if a = '''' then b else a)
      in old\<lparr>us_username := pick (us_username new) (us_username old),
           us_email := pick (us_email new) (us_email old),
           us_password_hash := pick (us_password_hash new) (us_password_hash old),
           us_is_active := us_is_active new \<or> us_is_active old\<rparr>)"

text \<open>
  The table has unique indices on the identifier, the name and the address, so a row is created only
  where none has the same. Reading with \<open>First\<close> gives a row that meets the conditions, and
  \<open>ErrRecordNotFound\<close> means there is none.
\<close>

definition user_table_ok :: "'w user_table \<Rightarrow> ('w \<Rightarrow> user list) \<Rightarrow> bool" where
  "user_table_ok ut rows \<longleftrightarrow>
     (\<forall>cs w n. ut_count ut cs w = Inr n \<longrightarrow> n = int (length (filter (meets cs) (rows w)))) \<and>
     (\<forall>u w w'. ut_create ut u w = (None, w') \<longrightarrow> rows w' = rows w @ [u] \<and>
        (\<forall>v \<in> set (rows w). us_id v \<noteq> us_id u \<and> us_username v \<noteq> us_username u \<and> us_email v \<noteq> us_email u)) \<and>
     (\<forall>u w e w'. ut_create ut u w = (Some e, w') \<longrightarrow> rows w' = rows w) \<and>
     (\<forall>cs w u. ut_first ut cs w = Inr u \<longrightarrow> u \<in> set (rows w) \<and> meets cs u) \<and>
     (\<forall>cs w. ut_first ut cs w = Inl ErrRecordNotFound \<longrightarrow> (\<forall>u \<in> set (rows w). \<not> meets cs u)) \<and>
     (\<forall>cs m w w'. ut_updates ut cs m w = (None, w') \<longrightarrow>
        (\<exists>t. rows w' = map (\<lambda>u. if meets cs u \<and> us_id u = us_id m
           then (merge_user m u)\<lparr>us_updated_at := t\<rparr> else u) (rows w))) \<and>
     (\<forall>cs m w e w'. ut_updates ut cs m w = (Some e, w') \<longrightarrow> rows w' = rows w)"

text \<open>A database that answers: queries find what is there, rows that fit are created.\<close>

definition user_table_up :: "'w user_table \<Rightarrow> ('w \<Rightarrow> user list) \<Rightarrow> bool" where
  "user_table_up ut rows \<longleftrightarrow>
     (\<forall>cs w. \<exists>n. ut_count ut cs w = Inr n) \<and>
     (\<forall>cs w e. ut_first ut cs w = Inl e \<longrightarrow> e = ErrRecordNotFound) \<and>
     (\<forall>cs m w. fst (ut_updates ut cs m w) = None)"

lemma user_table_okD:
  assumes "user_table_ok ut rows"
  shows "ut_count ut cs w = Inr n \<Longrightarrow> n = int (length (filter (meets cs) (rows w)))"
    and "ut_create ut u w = (None, w') \<Longrightarrow> rows w' = rows w @ [u]"
    and "ut_create ut u w = (None, w') \<Longrightarrow> v \<in> set (rows w) \<Longrightarrow>
      us_id v \<noteq> us_id u \<and> us_username v \<noteq> us_username u \<and> us_email v \<noteq> us_email u"
    and "ut_first ut cs w = Inr u \<Longrightarrow> u \<in> set (rows w) \<and> meets cs u"
    and "ut_first ut cs w = Inl ErrRecordNotFound \<Longrightarrow> v \<in> set (rows w) \<Longrightarrow> \<not> meets cs v"
    and "ut_updates ut cs m w = (None, w') \<Longrightarrow>
      \<exists>t. rows w' = map (\<lambda>u. if meets cs u \<and> us_id u = us_id m
           then (merge_user m u)\<lparr>us_updated_at := t\<rparr> else u) (rows w)"
  using assms unfolding user_table_ok_def by (elim conjE; simp)+

lemma meets_simps [simp]:
  "meets [] u" "meets (c # cs) u \<longleftrightarrow> holds_cond u c \<and> meets cs u"
  by (simp_all add: meets_def)

lemma merge_active:
  "merge_user (u\<lparr>us_is_active := True\<rparr>) u = u\<lparr>us_is_active := True\<rparr>"
  by (cases u) (simp add: merge_user_def Let_def)

text \<open>Rows with different identifiers and names.\<close>

definition distinct_users :: "user list \<Rightarrow> bool" where
  "distinct_users us \<longleftrightarrow> distinct (map us_id us) \<and> distinct (map us_username us)"

lemma distinct_usersD:
  "distinct_users us \<Longrightarrow> u \<in> set us \<Longrightarrow> v \<in> set us \<Longrightarrow> us_id u = us_id v \<Longrightarrow> u = v"
  "distinct_users us \<Longrightarrow> u \<in> set us \<Longrightarrow> v \<in> set us \<Longrightarrow> us_username u = us_username v \<Longrightarrow> u = v"
  unfolding distinct_users_def distinct_map by (auto dest: inj_onD)

lemma distinct_users_snoc:
  "distinct_users us \<Longrightarrow> \<forall>v \<in> set us. us_id v \<noteq> us_id u \<and> us_username v \<noteq> us_username u \<Longrightarrow>
   distinct_users (us @ [u])"
  unfolding distinct_users_def by (simp add: image_iff) metis

lemma distinct_users_map:
  "distinct_users us \<Longrightarrow> (\<And>u. us_id (f u) = us_id u \<and> us_username (f u) = us_username u) \<Longrightarrow>
   distinct_users (map f us)"
  by (simp add: distinct_users_def comp_def)

text \<open>No query touches another server, whose content is \<open>other\<close>.\<close>

definition user_table_leaves :: "'w user_table \<Rightarrow> ('w \<Rightarrow> 'o) \<Rightarrow> bool" where
  "user_table_leaves ut other \<longleftrightarrow>
     (\<forall>u w. other (snd (ut_create ut u w)) = other w) \<and>
     (\<forall>cs m w. other (snd (ut_updates ut cs m w)) = other w)"

lemma user_table_leavesD:
  assumes "user_table_leaves ut other"
  shows "ut_create ut u w = (e, w') \<Longrightarrow> other w' = other w"
    and "ut_updates ut cs u w = (e, w') \<Longrightarrow> other w' = other w"
  using assms unfolding user_table_leaves_def by (metis snd_conv)+

section \<open>A table in memory\<close>

record users_world = store +
  uw_users :: "user list"

definition mem_users :: "'a users_world_scheme user_table" where
  "mem_users = \<lparr>
     ut_count = (\<lambda>cs w. Inr (int (length (filter (meets cs) (uw_users w))))),
     ut_create = (\<lambda>u w.
       if list_all (\<lambda>v. us_id v \<noteq> us_id u \<and> us_username v \<noteq> us_username u \<and> us_email v \<noteq> us_email u) (uw_users w)
       then (None, w\<lparr>uw_users := uw_users w @ [u]\<rparr>) else (Some (Db_error ''duplicate key''), w)),
     ut_first = (\<lambda>cs w. case List.find (meets cs) (uw_users w) of
       None \<Rightarrow> Inl ErrRecordNotFound | Some u \<Rightarrow> Inr u),
     ut_updates = (\<lambda>cs m w. (None, w\<lparr>uw_users := map (\<lambda>u. if meets cs u \<and> us_id u = us_id m
       then (merge_user m u)\<lparr>us_updated_at := 0\<rparr> else u) (uw_users w)\<rparr>))\<rparr>"

lemma mem_users_ok: "user_table_ok mem_users uw_users"
  by (auto simp: user_table_ok_def mem_users_def list_all_iff find_None_set dest!: find_SomeD
      split: option.splits if_splits)

lemma mem_users_up: "user_table_up mem_users uw_users"
  by (auto simp: user_table_up_def mem_users_def split: option.splits)

lemma mem_worlds_apart:
  "user_table_leaves mem_users store.truncate" "redis_leaves mem_redis uw_users"
  by (simp_all add: user_table_leaves_def mem_users_def redis_leaves_def mem_redis_def
      store.truncate_def split: list.splits)

end
