(* ===== verification/PasswordHash.thy ===== *)
theory PasswordHash
  imports GoStrings
begin

text \<open>
  Password hashes: \<^verbatim>\<open>internal/utils/hash.go\<close>. Argon2 itself
  (\<^verbatim>\<open>argon2.IDKey\<close>) is an argument; the text format with its unpadded base64,
  the parser of the parameters and the comparison are written out.
\<close>

section \<open>Unpadded base64\<close>

text \<open>\<^verbatim>\<open>base64.RawStdEncoding\<close>: groups of three bytes as four characters.\<close>

definition b64_alphabet :: string where
  "b64_alphabet = ''ABCDEFGHIJKLMNOPQRSTUVWXYZabcdefghijklmnopqrstuvwxyz0123456789+/''"

definition b64_char :: "nat \<Rightarrow> char" where
  "b64_char n = b64_alphabet ! n"

fun index_of :: "'a \<Rightarrow> 'a list \<Rightarrow> nat option" where
  "index_of x [] = None"
| "index_of x (y # ys) = (if x = y then Some 0 else map_option Suc (index_of x ys))"

definition b64_val :: "char \<Rightarrow> nat option" where
  "b64_val c = index_of c b64_alphabet"

text \<open>Bytes are naturals below 256.\<close>

fun b64_encode :: "nat list \<Rightarrow> string" where
  "b64_encode [] = []"
| "b64_encode [a] = [b64_char (a div 4), b64_char (a mod 4 * 16)]"
| "b64_encode [a, b] =
     [b64_char (a div 4), b64_char (a mod 4 * 16 + b div 16), b64_char (b mod 16 * 4)]"
| "b64_encode (a # b # c # rest) =
     b64_char (a div 4) # b64_char (a mod 4 * 16 + b div 16)
       # b64_char (b mod 16 * 4 + c div 64) # b64_char (c mod 64) # b64_encode rest"

text \<open>
  Decoding skips carriage returns and newlines, as the library does, and ignores the spare bits
  of an incomplete last group; one character left over is an error.
\<close>

fun b64_groups :: "nat list \<Rightarrow> nat list option" where
  "b64_groups [] = Some []"
| "b64_groups [w] = None"
| "b64_groups [w, x] = Some [w * 4 + x div 16]"
| "b64_groups [w, x, y] = Some [w * 4 + x div 16, x mod 16 * 16 + y div 4]"
| "b64_groups (w # x # y # z # rest) =
     map_option (\<lambda>bs. (w * 4 + x div 16) # (x mod 16 * 16 + y div 4) # (y mod 4 * 64 + z) # bs)
       (b64_groups rest)"

fun b64_values :: "string \<Rightarrow> nat list option" where
  "b64_values [] = Some []"
| "b64_values (c # cs) =
     (case b64_val c of None \<Rightarrow> None | Some v \<Rightarrow> map_option ((#) v) (b64_values cs))"

definition b64_decode :: "string \<Rightarrow> nat list option" where
  "b64_decode s = Option.bind
     (b64_values (filter (\<lambda>c. c \<noteq> char_of (10 :: nat) \<and> c \<noteq> char_of (13 :: nat)) s)) b64_groups"

lemma index_of_nth: "distinct xs \<Longrightarrow> n < length xs \<Longrightarrow> index_of (xs ! n) xs = Some n"
proof (induction xs arbitrary: n)
  case (Cons x xs)
  then show ?case by (cases n) auto
qed simp

lemma b64_val_char: "n < 64 \<Longrightarrow> b64_val (b64_char n) = Some n"
  unfolding b64_val_def b64_char_def by (rule index_of_nth) (simp_all add: b64_alphabet_def)

lemma b64_char_in: "n < 64 \<Longrightarrow> b64_char n \<in> set b64_alphabet"
  unfolding b64_char_def by (rule nth_mem) (simp add: b64_alphabet_def)

lemma b64_bounds:
  "a < 256 \<Longrightarrow> a div 4 < (64 :: nat)"
  "b < 256 \<Longrightarrow> a mod 4 * 16 + b div 16 < (64 :: nat)"
  "c < 256 \<Longrightarrow> b mod 16 * 4 + c div 64 < (64 :: nat)"
  "a mod 4 * 16 < (64 :: nat)" "b mod 16 * 4 < (64 :: nat)" "c mod 64 < (64 :: nat)"
  by linarith+

lemma b64_first: "b < 256 \<Longrightarrow> a div 4 * 4 + (a mod 4 * 16 + b div 16) div 16 = (a :: nat)"
proof -
  assume "b < 256"
  then have "(a mod 4 * 16 + b div 16) div 16 = a mod 4" by linarith
  then show ?thesis by simp
qed

lemma b64_second:
  "b < 256 \<Longrightarrow> c < 256 \<Longrightarrow>
     (a mod 4 * 16 + b div 16) mod 16 * 16 + (b mod 16 * 4 + c div 64) div 4 = (b :: nat)"
proof -
  assume b: "b < 256" and c: "c < 256"
  have "(a mod 4 * 16 + b div 16) mod 16 = b div 16" using b by simp
  moreover have "(b mod 16 * 4 + c div 64) div 4 = b mod 16" using c by linarith
  ultimately show ?thesis by simp
qed

lemma b64_third: "c < 256 \<Longrightarrow> (b mod 16 * 4 + c div 64) mod 4 * 64 + c mod 64 = (c :: nat)"
proof -
  assume "c < 256"
  then have "(b mod 16 * 4 + c div 64) mod 4 = c div 64" by simp
  then show ?thesis by simp
qed

definition bytes :: "nat list \<Rightarrow> bool" where
  "bytes bs \<longleftrightarrow> list_all (\<lambda>x. x < 256) bs"

lemma bytes_simps [simp]: "bytes []" "bytes (b # bs) \<longleftrightarrow> b < 256 \<and> bytes bs"
  by (simp_all add: bytes_def)

lemma b64_encode_chars: "bytes bs \<Longrightarrow> set (b64_encode bs) \<subseteq> set b64_alphabet"
  by (induction bs rule: b64_encode.induct) (simp_all add: b64_char_in b64_bounds)

lemma b64_round_values: "bytes bs \<Longrightarrow> Option.bind (b64_values (b64_encode bs)) b64_groups = Some bs"
proof (induction bs rule: b64_encode.induct)
  case (2 a)
  then show ?case using b64_first [of 0 a] by (simp add: b64_val_char b64_bounds)
next
  case (3 a b)
  then show ?case
    using b64_first [of b a] b64_second [of b 0 a] by (simp add: b64_val_char b64_bounds)
next
  case (4 a b c rest)
  then obtain vs where "b64_values (b64_encode rest) = Some vs" "b64_groups vs = Some rest"
    by (cases "b64_values (b64_encode rest)") auto
  then show ?case
    using 4 b64_first [of b a] b64_second [of b c a] b64_third [of c b]
    by (simp add: b64_val_char b64_bounds)
qed simp

lemma b64_round_trip:
  assumes "bytes bs"
  shows "b64_decode (b64_encode bs) = Some bs"
proof -
  have "char_of (10 :: nat) \<notin> set b64_alphabet" "char_of (13 :: nat) \<notin> set b64_alphabet"
    by code_simp+
  then have "filter (\<lambda>c. c \<noteq> char_of (10 :: nat) \<and> c \<noteq> char_of (13 :: nat)) (b64_encode bs) = b64_encode bs"
    using b64_encode_chars [OF assms] by (auto simp: filter_id_conv)
  then show ?thesis using b64_round_values [OF assms] by (simp add: b64_decode_def)
qed

section \<open>Hashing and verifying\<close>

text \<open>
  \<open>idkey password salt time memory threads keyLen\<close> is \<^verbatim>\<open>argon2.IDKey\<close>: it panics
  without rounds or threads and otherwise derives a key of the length asked for.
\<close>

type_synonym argon2 = "string \<Rightarrow> nat list \<Rightarrow> nat \<Rightarrow> nat \<Rightarrow> nat \<Rightarrow> nat \<Rightarrow> nat list outcome"

definition argon2_ok :: "argon2 \<Rightarrow> bool" where
  "argon2_ok idkey \<longleftrightarrow>
     (\<forall>pw salt t m p n. if t = 0 \<or> p = 0 then idkey pw salt t m p n = Panic
        else \<exists>key. idkey pw salt t m p n = Return key \<and> length key = n \<and> bytes key)"

text \<open>\<open>salt\<close> is what the random source gives, \<open>None\<close> its error.\<close>

definition GenerateHash :: "argon2 \<Rightarrow> nat list option \<Rightarrow> string \<Rightarrow> (string + string) outcome" where
  "GenerateHash idkey salt payload =
     (case salt of
        None \<Rightarrow> Return (Inl ''random source failed'')
      | Some s \<Rightarrow>
          (let t = 3; memory = 64 * 1024; threads = 2; keyLen = 32
           in bind_outcome (idkey payload s t memory threads keyLen) (\<lambda>hash.
             Return (Inr (''$argon2id$v=19$m='' @ show_nat memory @ '',t='' @ show_nat t @ '',p=''
               @ show_nat threads @ ''$'' @ b64_encode s @ ''$'' @ b64_encode hash)))))"

datatype hash_error =
    Invalid_hash_format
  | Invalid_param_format
  | Invalid_key_value
  | Bad_number
  | Unknown_parameter string
  | Bad_base64

text \<open>The loop over the parameters, from memory, time and threads zero.\<close>

fun parse_params :: "string list \<Rightarrow> nat \<times> nat \<times> nat \<Rightarrow> hash_error + (nat \<times> nat \<times> nat)" where
  "parse_params [] acc = Inr acc"
| "parse_params (item # items) (memory, time, threads) =
     (case split_on (CHR ''='') item of
        [key, val] \<Rightarrow>
          (if key = ''m''
           then (case parse_uint 32 val of
                   None \<Rightarrow> Inl Bad_number | Some n \<Rightarrow> parse_params items (n, time, threads))
           else if key = ''t''
           then (case parse_uint 32 val of
                   None \<Rightarrow> Inl Bad_number | Some n \<Rightarrow> parse_params items (memory, n, threads))
           else if key = ''p''
           then (case parse_uint 8 val of
                   None \<Rightarrow> Inl Bad_number | Some n \<Rightarrow> parse_params items (memory, time, n))
           else Inl (Unknown_parameter key))
      | _ \<Rightarrow> Inl Invalid_key_value)"

definition VerifyHash :: "argon2 \<Rightarrow> string \<Rightarrow> string \<Rightarrow> (hash_error + bool) outcome" where
  "VerifyHash idkey hashed plain =
     (let parts = split_on (CHR ''$'') hashed in
      if length parts \<noteq> 6 then Return (Inl Invalid_hash_format)
      else
        (let paramItems = split_on (CHR '','') (parts ! 3) in
         if length paramItems \<noteq> 3 then Return (Inl Invalid_param_format)
         else
           (case parse_params paramItems (0, 0, 0) of
              Inl err \<Rightarrow> Return (Inl err)
            | Inr (memory, time, threads) \<Rightarrow>
                (case b64_decode (parts ! 4) of
                   None \<Rightarrow> Return (Inl Bad_base64)
                 | Some salt \<Rightarrow>
                     (case b64_decode (parts ! 5) of
                        None \<Rightarrow> Return (Inl Bad_base64)
                      | Some expectedHash \<Rightarrow>
                          bind_outcome (idkey plain salt time memory threads
                              (length expectedHash mod 2 ^ 32)) (\<lambda>computeHash.
                            Return (Inr (expectedHash = computeHash))))))))"

text \<open>The text with the fixed parameters written out, and how the verifier splits it.\<close>

definition hash_text :: "nat list \<Rightarrow> nat list \<Rightarrow> string" where
  "hash_text salt key = ''$argon2id$v=19$m='' @ show_nat 65536 @ '',t='' @ show_nat 3 @ '',p=''
     @ show_nat 2 @ ''$'' @ b64_encode salt @ ''$'' @ b64_encode key"

lemma hash_text_segments:
  "hash_text salt key = [] @ CHR ''$'' # ''argon2id'' @ CHR ''$'' # ''v=19'' @ CHR ''$'' #
     ''m=65536,t=3,p=2'' @ CHR ''$'' # b64_encode salt @ CHR ''$'' # b64_encode key"
proof -
  have "show_nat 65536 = ''65536''" "show_nat 3 = ''3''" "show_nat 2 = ''2''"
    by (simp_all add: show_nat.simps digit_char_def)
  then show ?thesis by (simp add: hash_text_def)
qed

lemma hash_text_parts:
  assumes "bytes salt" and "bytes key"
  shows "split_on (CHR ''$'') (hash_text salt key) =
    ['''', ''argon2id'', ''v=19'', ''m=65536,t=3,p=2'', b64_encode salt, b64_encode key]"
proof -
  have "CHR ''$'' \<notin> set b64_alphabet" by (simp add: b64_alphabet_def)
  then have "CHR ''$'' \<notin> set (b64_encode salt)" "CHR ''$'' \<notin> set (b64_encode key)"
    using b64_encode_chars [OF assms(1)] b64_encode_chars [OF assms(2)] by auto
  moreover have "CHR ''$'' \<notin> set ''argon2id''" "CHR ''$'' \<notin> set ''v=19''"
      "CHR ''$'' \<notin> set ''m=65536,t=3,p=2''" "CHR ''$'' \<notin> set []"
    by simp_all
  ultimately show ?thesis
    by (simp only: hash_text_segments split_on_append_sep split_on_no_sep not_False_eq_True)
qed

lemma hash_param_items: "split_on (CHR '','') ''m=65536,t=3,p=2'' = [''m=65536'', ''t=3'', ''p=2'']"
  by code_simp

lemma hash_params: "parse_params [''m=65536'', ''t=3'', ''p=2''] (0, 0, 0) = Inr (65536, 3, 2)"
proof -
  have keys: "split_on (CHR ''='') ''m=65536'' = [''m'', ''65536'']"
      "split_on (CHR ''='') ''t=3'' = [''t'', ''3'']" "split_on (CHR ''='') ''p=2'' = [''p'', ''2'']"
    by code_simp+
  have vals: "parse_uint 32 ''65536'' = Some 65536" "parse_uint 32 ''3'' = Some 3"
      "parse_uint 8 ''2'' = Some 2"
    by (simp_all add: parse_uint_def digits_val_def digit_val_def is_digit_def)
  show ?thesis by (simp only: parse_params.simps keys vals list.case option.case simp_thms if_True
      if_False list.inject char.inject list.distinct)
qed

lemma VerifyHash_hash_text:
  assumes "bytes salt" and "bytes key" and "length key = 32"
  shows "VerifyHash idkey (hash_text salt key) other =
    bind_outcome (idkey other salt 3 65536 2 32) (\<lambda>k. Return (Inr (key = k)))"
proof -
  note parts = hash_text_parts [OF assms(1,2)]
  have nth: "[a, b, c, d, e, f] ! 3 = d" "[a, b, c, d, e, f] ! 4 = e" "[a, b, c, d, e, f] ! 5 = f"
    for a b c d e f :: string
    by simp_all
  have len: "length [a, b, c, d, e, f] = 6" "length [a, b, c] = 3" for a b c d e f :: string
    by simp_all
  show ?thesis
    unfolding VerifyHash_def Let_def parts nth hash_param_items hash_params len
      b64_round_trip [OF assms(1)] b64_round_trip [OF assms(2)]
    by (simp add: assms(3))
qed

lemma GenerateHash_verifies:
  assumes "argon2_ok idkey" and "bytes salt"
    and "GenerateHash idkey (Some salt) password = Return (Inr hashed)"
  shows "VerifyHash idkey hashed password = Return (Inr True)"
proof -
  obtain key where key: "idkey password salt 3 65536 2 32 = Return key" "length key = 32" "bytes key"
    using assms(1) unfolding argon2_ok_def by (metis zero_neq_numeral)
  then have "hashed = hash_text salt key"
    using assms(3) by (simp add: GenerateHash_def hash_text_def Let_def)
  then show ?thesis using VerifyHash_hash_text [OF assms(2) key(3,2), of idkey password] key(1) by simp
qed

text \<open>
  C25. A stored hash verifies the password it was made from, and another password exactly when
  Argon2 derives the same key from it: the parameters, the salt and the key survive the text
  format, for any salt.
\<close>

theorem hash_then_verify:
  assumes "argon2_ok idkey" and "bytes salt"
  shows "\<exists>hashed. GenerateHash idkey (Some salt) password = Return (Inr hashed) \<and>
    VerifyHash idkey hashed password = Return (Inr True) \<and>
    (\<forall>other. VerifyHash idkey hashed other = Return (Inr True) \<longleftrightarrow>
      idkey other salt 3 65536 2 32 = idkey password salt 3 65536 2 32)"
proof -
  obtain key where key: "idkey password salt 3 65536 2 32 = Return key" "length key = 32" "bytes key"
    using assms(1) unfolding argon2_ok_def by (metis zero_neq_numeral)
  have gen: "GenerateHash idkey (Some salt) password = Return (Inr (hash_text salt key))"
    by (simp add: GenerateHash_def key hash_text_def Let_def)
  note ver = VerifyHash_hash_text [OF assms(2) key(3,2), of idkey]
  have "VerifyHash idkey (hash_text salt key) other = Return (Inr True) \<longleftrightarrow>
      idkey other salt 3 65536 2 32 = Return key" for other
    by (cases "idkey other salt 3 65536 2 32") (auto simp: ver)
  with gen key(1) show ?thesis by auto
qed

text \<open>An instance: the key is the password's length, repeated.\<close>

definition weak_argon2 :: argon2 where
  "weak_argon2 pw salt t m p n =
     (if t = 0 \<or> p = 0 then Panic else Return (replicate n (length pw mod 256)))"

lemma weak_argon2_ok: "argon2_ok weak_argon2"
  by (auto simp: argon2_ok_def weak_argon2_def bytes_def list_all_iff)

lemma hash_then_verify_witness:
  "\<exists>hashed. GenerateHash weak_argon2 (Some (replicate 16 7)) ''secret'' = Return (Inr hashed) \<and>
     VerifyHash weak_argon2 hashed ''secret'' = Return (Inr True) \<and>
     VerifyHash weak_argon2 hashed ''guess'' \<noteq> Return (Inr True)"
proof -
  have "bytes (replicate 16 7)" by (simp add: bytes_def list_all_iff)
  from hash_then_verify [OF weak_argon2_ok this, of "''secret''"] obtain hashed where
    "GenerateHash weak_argon2 (Some (replicate 16 7)) ''secret'' = Return (Inr hashed)"
    "VerifyHash weak_argon2 hashed ''secret'' = Return (Inr True)"
    "VerifyHash weak_argon2 hashed ''guess'' = Return (Inr True) \<longleftrightarrow>
      weak_argon2 ''guess'' (replicate 16 7) 3 65536 2 32 = weak_argon2 ''secret'' (replicate 16 7) 3 65536 2 32"
    by blast
  moreover have "weak_argon2 ''guess'' (replicate 16 7) 3 65536 2 32 \<noteq>
      weak_argon2 ''secret'' (replicate 16 7) 3 65536 2 32"
    by (simp add: weak_argon2_def)
  ultimately show ?thesis by blast
qed

end
