(* ===== verification/UserService.thy ===== *)
theory UserService
  imports Cache UserRepo PasswordHash Sign
begin

text \<open>
  Registration, verification and login: \<^verbatim>\<open>internal/use-case/user-case/user-service.go\<close>
  with the requests and responses of \<^verbatim>\<open>internal/dtos/user_dto\<close>. \<open>clk i\<close> is the \<open>i\<close>-th
  reading of the clock in one call; gorm, Redis, Argon2, the JWT library and the random source are
  arguments.
\<close>

section \<open>Requests and responses\<close>

record create_user_request =
  cu_username :: string
  cu_email :: string
  cu_password :: string

record login_user_request =
  lu_username :: string
  lu_password :: string

record verify_user_request =
  vu_otp :: string

record user_response =
  ur_id :: string
  ur_username :: "string option"
  ur_email :: "string option"
  ur_is_verified :: bool
  ur_created_at :: int

record auth_response =
  ar_id :: string
  ar_is_verified :: bool
  ar_token :: string
  ar_refresh :: string

section \<open>Registration\<close>

text \<open>\<open>why\<close> is the text of the random source's error.\<close>

definition Register_user ::
  "'w user_table \<Rightarrow> argon2 \<Rightarrow> nat list option \<Rightarrow> (nat \<Rightarrow> int) \<Rightarrow> string \<Rightarrow> create_user_request \<Rightarrow> 'w
   \<Rightarrow> (app_error + user_response) outcome \<times> 'w" where
  "Register_user ut idkey salt clk uuid req w =
     (case CountUser ut \<lparr>uf_email = Some (cu_email req), uf_username = Some (cu_username req)\<rparr> w of
        Inl err \<Rightarrow> (Return (Inl err), w)
      | Inr count \<Rightarrow>
          if count > 0
          then (Return (Inl (NewAppError StatusConflict
            ''username or email already registered'' ''credential-registered'')), w)
          else
            (case GenerateHash idkey salt (cu_password req) of
               Panic \<Rightarrow> (Panic, w)
             | Return (Inl hashErr) \<Rightarrow>
                 (Return (Inl (NewAppError StatusInternalServerError hashErr ''password'')), w)
             | Return (Inr hashed) \<Rightarrow>
                 (let u = \<lparr>us_id = uuid, us_username = cu_username req, us_email = cu_email req,
                        us_password_hash = hashed, us_is_active = False, us_created_at = clk 0,
                        us_updated_at = clk 1\<rparr>
                  in case SaveUser ut u w of
                       (Some err, w') \<Rightarrow> (Return (Inl err), w')
                     | (None, w') \<Rightarrow>
                         (Return (Inr \<lparr>ur_id = us_id u, ur_username = Some (us_username u),
                            ur_email = Some (us_email u), ur_is_verified = False,
                            ur_created_at = us_created_at u\<rparr>), w'))))"

section \<open>Sessions\<close>

text \<open>
  How verification and login end, in the same words: a token pair, a refresh session in the cache
  (whose write may fail unnoticed), and the session's identifier in the user's set.
\<close>

definition open_session ::
  "'w redis \<Rightarrow> ((string \<times> json) list \<Rightarrow> 'priv \<Rightarrow> string + string) \<Rightarrow> 'priv \<Rightarrow> (nat \<Rightarrow> int) \<Rightarrow> string
   \<Rightarrow> string \<Rightarrow> user \<Rightarrow> string \<Rightarrow> 'w \<Rightarrow> (app_error + auth_response) \<times> 'w" where
  "open_session rd sign privateKey clk uuid userId user fingerprint w =
     (let issue_at = unix_seconds (clk 0);
          expires_refresh = issue_at + 7 * 24 * 3600
      in case IssueNewTokens sign (clk 1) uuid userId (us_username user) privateKey of
           Inl e \<Rightarrow> (Inl (NewAppError StatusInternalServerError
             (''unexpected error occured when sign token: '' @ e) ''token-sign''), w)
         | Inr (access, refresh, jti) \<Rightarrow>
             (let session = \<lparr>rs_user_id = userId, rs_jti = jti, rs_fingerprint = fingerprint,
                    rs_issue_at = issue_at, rs_expire_at = expires_refresh, rs_status = ''valid''\<rparr>;
                  (_, w1) = SetCacheData rd session_json (refresh_key userId fingerprint jti) session
                    (expires_refresh * Second - clk 2) w;
                  w2 = rd_sadd rd (sessions_key userId) jti w1;
                  w3 = rd_expire_at rd (sessions_key userId) (expires_refresh * Second) w2
              in (Inr \<lparr>ar_id = userId, ar_is_verified = us_is_active user, ar_token = access,
                    ar_refresh = refresh\<rparr>, w3)))"

text \<open>A missing one-time password is a nil pointer the comparison reads through.\<close>

definition VerifyRegister ::
  "'w redis \<Rightarrow> 'w user_table \<Rightarrow> ((string \<times> json) list \<Rightarrow> 'priv \<Rightarrow> string + string) \<Rightarrow> 'priv
   \<Rightarrow> (nat \<Rightarrow> int) \<Rightarrow> string \<Rightarrow> verify_user_request \<Rightarrow> string \<Rightarrow> string \<Rightarrow> 'w
   \<Rightarrow> (app_error + auth_response) outcome \<times> 'w" where
  "VerifyRegister rd ut sign privateKey clk uuid req fingerprint userId w =
     (let key = ''otp:'' @ userId in
      case GetCacheData rd (dec_string '''') key w of
        Inl err \<Rightarrow> (Return (Inl err), w)
      | Inr None \<Rightarrow> (Panic, w)
      | Inr (Some otp) \<Rightarrow>
          if otp \<noteq> vu_otp req
          then (Return (Inl (NewAppError StatusBadRequest ''otp mismatch'' ''otp-mismatch'')), w)
          else
            (let (_, w1) = rd_del rd key w in
             case VerifyUser ut userId w1 of
               (Inl r_err, w2) \<Rightarrow> (Return (Inl r_err), w2)
             | (Inr user, w2) \<Rightarrow>
                 (let (res, w3) = open_session rd sign privateKey clk uuid userId user fingerprint w2
                  in (Return res, w3))))"

definition Login ::
  "'w redis \<Rightarrow> 'w user_table \<Rightarrow> argon2 \<Rightarrow> ((string \<times> json) list \<Rightarrow> 'priv \<Rightarrow> string + string) \<Rightarrow> 'priv
   \<Rightarrow> (nat \<Rightarrow> int) \<Rightarrow> string \<Rightarrow> login_user_request \<Rightarrow> string \<Rightarrow> 'w
   \<Rightarrow> (app_error + auth_response) outcome \<times> 'w" where
  "Login rd ut idkey sign privateKey clk uuid req fingerprint w =
     (case FindUserByCredential ut (lu_username req) w of
        Inl err \<Rightarrow> (Return (Inl (NewAppError StatusUnauthorized
          ''invalid username or password'' ''credential-invalid'')), w)
      | Inr user \<Rightarrow>
          if \<not> us_is_active user
          then (Return (Inl (NewAppError StatusForbidden
            ''user is not active, please verify your account'' ''user-inactive'')), w)
          else
            (case VerifyHash idkey (us_password_hash user) (lu_password req) of
               Panic \<Rightarrow> (Panic, w)
             | Return verified \<Rightarrow>
                 if verified \<noteq> Inr True
                 then (Return (Inl (NewAppError StatusUnauthorized
                   ''invalid username or password'' ''credential-invalid'')), w)
                 else
                   (let (res, w1) = open_session rd sign privateKey clk uuid (us_id user) user fingerprint w
                    in (Return res, w1))))"

section \<open>What each step does\<close>

text \<open>
  The worlds of the two servers: what Redis stores and the rows of the user table, each left alone
  by the other's client.
\<close>

definition servers_ok ::
  "'w redis \<Rightarrow> ('w \<Rightarrow> store) \<Rightarrow> 'w user_table \<Rightarrow> ('w \<Rightarrow> user list) \<Rightarrow> bool" where
  "servers_ok rd view ut rows \<longleftrightarrow>
     redis_ok rd view \<and> redis_up rd \<and> redis_sets_ok rd view \<and> redis_leaves rd rows \<and>
     user_table_ok ut rows \<and> user_table_up ut rows \<and> user_table_leaves ut view"

lemma servers_okD:
  assumes "servers_ok rd view ut rows"
  shows "redis_ok rd view" "redis_up rd" "redis_sets_ok rd view" "redis_leaves rd rows"
    "user_table_ok ut rows" "user_table_up ut rows" "user_table_leaves ut view"
  using assms by (simp_all add: servers_ok_def)

lemma mem_servers_ok: "servers_ok mem_redis store.truncate mem_users uw_users"
  by (simp add: servers_ok_def mem_redis_ok_in mem_redis_up mem_redis_sets_ok mem_users_ok mem_users_up
      mem_worlds_apart)

lemma open_session_effect:
  assumes "servers_ok rd view ut rows"
    and "IssueNewTokens sign (clk 1) uuid userId (us_username user) priv = Inr (access, refresh, jti)"
  shows "\<exists>w'. open_session rd sign priv clk uuid userId user fp w =
      (Inr \<lparr>ar_id = userId, ar_is_verified = us_is_active user, ar_token = access, ar_refresh = refresh\<rparr>, w') \<and>
    rows w' = rows w \<and>
    view w' = (view w)\<lparr>st_kv := (st_kv (view w))(refresh_key userId fp jti \<mapsto> JsonText (session_json
      \<lparr>rs_user_id = userId, rs_jti = jti, rs_fingerprint = fp, rs_issue_at = unix_seconds (clk 0),
       rs_expire_at = unix_seconds (clk 0) + 604800, rs_status = ''valid''\<rparr>))\<rparr>"
proof -
  note laws = servers_okD [OF assms(1)]
  define session where "session = \<lparr>rs_user_id = userId, rs_jti = jti, rs_fingerprint = fp,
       rs_issue_at = unix_seconds (clk 0), rs_expire_at = unix_seconds (clk 0) + 604800,
       rs_status = ''valid''\<rparr>"
  define life where "life = (unix_seconds (clk 0) + 604800) * Second - clk 2"
  obtain w1 where w1: "SetCacheData rd session_json (refresh_key userId fp jti) session life w = (True, w1)"
    and v1: "view w1 = (view w)\<lparr>st_kv := (st_kv (view w))(refresh_key userId fp jti \<mapsto> JsonText (session_json session))\<rparr>"
    using SetCacheData_up [OF laws(1,2), where enc = session_json and k = "refresh_key userId fp jti"
        and x = session and t = life and w = w] by blast
  define w3 where "w3 = rd_expire_at rd (sessions_key userId) ((unix_seconds (clk 0) + 604800) * Second)
    (rd_sadd rd (sessions_key userId) jti w1)"
  have "rows w3 = rows w"
    using w1 redis_leavesD [OF laws(4)] by (simp add: w3_def SetCacheData_def)
  moreover have "view w3 = view w1"
    using laws(3) by (simp add: w3_def redis_sets_ok_def)
  moreover have "open_session rd sign priv clk uuid userId user fp w =
      (Inr \<lparr>ar_id = userId, ar_is_verified = us_is_active user, ar_token = access, ar_refresh = refresh\<rparr>, w3)"
    using w1 assms(2) by (simp add: open_session_def Let_def session_def life_def w3_def)
  ultimately show ?thesis using v1 by (auto simp: session_def)
qed

lemma open_session_Inr:
  assumes "open_session rd sign priv clk uuid userId user fp w = (Inr resp, w')"
  obtains access refresh jti where
    "IssueNewTokens sign (clk 1) uuid userId (us_username user) priv = Inr (access, refresh, jti)"
  using assms by (auto simp: open_session_def Let_def split: sum.splits)

lemma Register_user_effect:
  assumes "servers_ok rd view ut rows"
    and "Register_user ut idkey salt clk uuid req w = (Return (Inr resp), w')"
  obtains hashed where "GenerateHash idkey salt (cu_password req) = Return (Inr hashed)"
    and "rows w' = rows w @ [\<lparr>us_id = uuid, us_username = cu_username req, us_email = cu_email req,
      us_password_hash = hashed, us_is_active = False, us_created_at = clk 0, us_updated_at = clk 1\<rparr>]"
    and "\<forall>v \<in> set (rows w). us_id v \<noteq> uuid \<and> us_username v \<noteq> cu_username req"
    and "view w' = view w" and "ur_id resp = uuid" and "ur_created_at resp = clk 0"
proof -
  note laws = servers_okD [OF assms(1)]
  obtain count where count: "CountUser ut \<lparr>uf_email = Some (cu_email req), uf_username = Some (cu_username req)\<rparr> w = Inr count"
    and "\<not> count > 0"
    using assms(2) by (auto simp: Register_user_def split: sum.splits if_splits)
  then obtain hashed where hashed: "GenerateHash idkey salt (cu_password req) = Return (Inr hashed)"
    using assms(2) by (auto simp: Register_user_def split: outcome.splits sum.splits)
  define u where "u = \<lparr>us_id = uuid, us_username = cu_username req, us_email = cu_email req,
      us_password_hash = hashed, us_is_active = False, us_created_at = clk 0, us_updated_at = clk 1\<rparr>"
  have sv: "SaveUser ut u w = (None, w')" and resp: "ur_id resp = uuid" "ur_created_at resp = clk 0"
    using assms(2) count \<open>\<not> count > 0\<close> hashed
    by (auto simp: Register_user_def Let_def u_def split: prod.splits option.splits)
  then have cr: "ut_create ut u w = (None, w')"
    by (auto simp: SaveUser_def split: prod.splits option.splits)
  have fresh: "\<forall>v \<in> set (rows w). us_id v \<noteq> uuid \<and> us_username v \<noteq> cu_username req"
    using user_table_okD(3) [OF laws(5) cr] by (auto simp: u_def)
  have add: "rows w' = rows w @ [u]" using user_table_okD(2) [OF laws(5) cr] .
  have same: "view w' = view w" using user_table_leavesD(1) [OF laws(7) cr] .
  show ?thesis by (rule that [OF hashed add [unfolded u_def] fresh same resp])
qed

lemma VerifyUser_effect:
  assumes "servers_ok rd view ut rows" and "distinct_users (rows w)"
    and "u \<in> set (rows w)" and "us_id u = userId"
  shows "\<exists>w' t. VerifyUser ut userId w = (Inr (u\<lparr>us_is_active := True\<rparr>), w') \<and> view w' = view w \<and>
    rows w' = map (\<lambda>v. if us_id v = userId
      then v\<lparr>us_is_active := True, us_updated_at := t\<rparr> else v) (rows w)"
proof -
  note laws = servers_okD [OF assms(1)]
  have "\<exists>v. ut_first ut [Id_is userId] w = Inr v"
    using user_table_okD(5) [OF laws(5), of "[Id_is userId]" w u] laws(6) assms(3,4)
    by (cases "ut_first ut [Id_is userId] w") (auto simp: user_table_up_def)
  then obtain v where v: "ut_first ut [Id_is userId] w = Inr v" by blast
  from user_table_okD(4) [OF laws(5) v] have "v = u"
    using assms(3,4) distinct_usersD(1) [OF assms(2)] by auto
  obtain w' where upd: "ut_updates ut [Id_is userId] (u\<lparr>us_is_active := True\<rparr>) w = (None, w')"
    using laws(6) unfolding user_table_up_def by (metis prod.collapse)
  have "rows w' = map (\<lambda>v. if us_id v = userId
      then v\<lparr>us_is_active := True, us_updated_at := t\<rparr> else v) (rows w)"
    if r: "rows w' = map (\<lambda>x. if meets [Id_is userId] x \<and> us_id x = us_id (u\<lparr>us_is_active := True\<rparr>)
           then (merge_user (u\<lparr>us_is_active := True\<rparr>) x)\<lparr>us_updated_at := t\<rparr> else x) (rows w)" for t
    unfolding r
  proof (rule map_cong [OF refl])
    fix x assume "x \<in> set (rows w)"
    then have "us_id x = userId \<Longrightarrow> x = u" using assms(3,4) distinct_usersD(1) [OF assms(2)] by auto
    then show "(if meets [Id_is userId] x \<and> us_id x = us_id (u\<lparr>us_is_active := True\<rparr>)
        then (merge_user (u\<lparr>us_is_active := True\<rparr>) x)\<lparr>us_updated_at := t\<rparr> else x) =
      (if us_id x = userId then x\<lparr>us_is_active := True, us_updated_at := t\<rparr> else x)"
      using assms(4) merge_active [of u] by auto
  qed
  with user_table_okD(6) [OF laws(5) upd] obtain t where
    "rows w' = map (\<lambda>v. if us_id v = userId
      then v\<lparr>us_is_active := True, us_updated_at := t\<rparr> else v) (rows w)" by blast
  moreover have "view w' = view w" using user_table_leavesD(2) [OF laws(7) upd] .
  moreover have "VerifyUser ut userId w = (Inr (u\<lparr>us_is_active := True\<rparr>), w')"
    using v upd \<open>v = u\<close> by (simp add: VerifyUser_def Let_def)
  ultimately show ?thesis by blast
qed

section \<open>Properties\<close>

lemma VerifyRegister_cases:
  assumes "servers_ok rd view ut rows"
  shows "st_kv (view w) (''otp:'' @ userId) = None \<Longrightarrow>
      VerifyRegister rd ut sign priv clk uuid req fp userId w = (Panic, w)"
    and "st_kv (view w) (''otp:'' @ userId) = Some (JsonText (JStr otp)) \<Longrightarrow> otp \<noteq> vu_otp req \<Longrightarrow>
      VerifyRegister rd ut sign priv clk uuid req fp userId w =
        (Return (Inl (NewAppError StatusBadRequest ''otp mismatch'' ''otp-mismatch'')), w)"
  using servers_okD [OF assms]
  by (simp_all add: VerifyRegister_def GetCacheData_up [of rd view] Let_def)

lemma VerifyRegister_match:
  assumes "servers_ok rd view ut rows" and "distinct_users (rows w)"
    and "u \<in> set (rows w)" and "us_id u = userId"
    and "st_kv (view w) (''otp:'' @ userId) = Some (JsonText (JStr (vu_otp req)))"
    and "IssueNewTokens sign (clk 1) uuid userId (us_username u) priv = Inr (access, refresh, jti)"
  shows "\<exists>w' t. VerifyRegister rd ut sign priv clk uuid req fp userId w =
      (Return (Inr \<lparr>ar_id = userId, ar_is_verified = True, ar_token = access, ar_refresh = refresh\<rparr>), w') \<and>
    rows w' = map (\<lambda>v. if us_id v = userId
      then v\<lparr>us_is_active := True, us_updated_at := t\<rparr> else v) (rows w) \<and>
    st_kv (view w') = (st_kv (view w))(''otp:'' @ userId := None, refresh_key userId fp jti \<mapsto>
      JsonText (session_json \<lparr>rs_user_id = userId, rs_jti = jti, rs_fingerprint = fp,
        rs_issue_at = unix_seconds (clk 0), rs_expire_at = unix_seconds (clk 0) + 604800,
        rs_status = ''valid''\<rparr>))"
proof -
  note laws = servers_okD [OF assms(1)]
  obtain w1 where del: "rd_del rd (''otp:'' @ userId) w = (True, w1)"
    using redis_upD(2) [OF laws(2)] by blast
  have v1: "view w1 = (view w)\<lparr>st_kv := (st_kv (view w))(''otp:'' @ userId := None)\<rparr>"
    and r1: "rows w1 = rows w"
    using redis_okD(3) [OF laws(1) del] redis_leavesD(2) [OF laws(4) del] .
  obtain w2 t where ver: "VerifyUser ut userId w1 = (Inr (u\<lparr>us_is_active := True\<rparr>), w2)"
    and v2: "view w2 = view w1" and r2: "rows w2 = map (\<lambda>v. if us_id v = userId
      then v\<lparr>us_is_active := True, us_updated_at := t\<rparr> else v) (rows w1)"
    using VerifyUser_effect [OF assms(1), of w1 u userId] assms(2-4) r1 by auto
  have iss: "IssueNewTokens sign (clk 1) uuid userId (us_username (u\<lparr>us_is_active := True\<rparr>)) priv
      = Inr (access, refresh, jti)" using assms(6) by simp
  obtain w3 where op: "open_session rd sign priv clk uuid userId (u\<lparr>us_is_active := True\<rparr>) fp w2 =
      (Inr \<lparr>ar_id = userId, ar_is_verified = us_is_active (u\<lparr>us_is_active := True\<rparr>), ar_token = access,
        ar_refresh = refresh\<rparr>, w3)" "rows w3 = rows w2"
      "view w3 = (view w2)\<lparr>st_kv := (st_kv (view w2))(refresh_key userId fp jti \<mapsto> JsonText (session_json
      \<lparr>rs_user_id = userId, rs_jti = jti, rs_fingerprint = fp, rs_issue_at = unix_seconds (clk 0),
       rs_expire_at = unix_seconds (clk 0) + 604800, rs_status = ''valid''\<rparr>))\<rparr>"
    using open_session_effect [where clk = clk, OF assms(1) iss] by blast
  have "VerifyRegister rd ut sign priv clk uuid req fp userId w =
      (Return (Inr \<lparr>ar_id = userId, ar_is_verified = True, ar_token = access, ar_refresh = refresh\<rparr>), w3)"
    using assms(5) del ver op(1)
    by (simp add: VerifyRegister_def GetCacheData_up [OF laws(1,2)] Let_def)
  then show ?thesis using op(2,3) r1 r2 v1 v2 by auto
qed

text \<open>
  C8. Login is authentic. Whoever gets tokens named a user of the table, active, whose stored hash
  the password verifies; the answer carries that user's identifier, the access token verifies as
  that user's for six hours, and the cache holds a valid session for the device, which expires with
  the refresh token. Nothing else in the table or the cache changes.
\<close>

theorem login_is_authentic:
  assumes "servers_ok rd view ut rows" and "jwt_round_trip sign parse matches" and "matches priv pub"
    and "in_int64 (unix_seconds (clk 1))" and "in_int64 (unix_seconds (clk 1) + 604800)"
    and "Login rd ut idkey sign priv clk uuid req fp w = (Return (Inr resp), w')"
  shows "\<exists>u \<in> set (rows w). us_username u = lu_username req \<and> us_is_active u \<and>
    VerifyHash idkey (us_password_hash u) (lu_password req) = Return (Inr True) \<and>
    ar_id resp = us_id u \<and> rows w' = rows w \<and>
    (\<forall>t. t \<le> (unix_seconds (clk 1) + 21600) * Second \<longrightarrow>
       (\<exists>c. ParseAndVerifySign parse t (ar_token resp) pub = Inr c \<and> cl_sub c = us_id u)) \<and>
    st_kv (view w') = (st_kv (view w))(refresh_key (us_id u) fp uuid \<mapsto> JsonText (session_json
      \<lparr>rs_user_id = us_id u, rs_jti = uuid, rs_fingerprint = fp, rs_issue_at = unix_seconds (clk 0),
       rs_expire_at = unix_seconds (clk 0) + 604800, rs_status = ''valid''\<rparr>))"
proof -
  note laws = servers_okD [OF assms(1)]
  obtain u where find: "FindUserByCredential ut (lu_username req) w = Inr u"
    using assms(6) by (auto simp: Login_def split: sum.splits)
  then have "ut_first ut [Username_is (lu_username req)] w = Inr u"
    by (auto simp: FindUserByCredential_def split: sum.splits)
  from user_table_okD(4) [OF laws(5) this] have u: "u \<in> set (rows w)" "us_username u = lu_username req"
    by simp_all
  have act: "us_is_active u" and ver: "VerifyHash idkey (us_password_hash u) (lu_password req) = Return (Inr True)"
    and op: "open_session rd sign priv clk uuid (us_id u) u fp w = (Inr resp, w')"
    using assms(6) find by (auto simp: Login_def split: if_splits outcome.splits prod.splits)
  obtain access refresh jti where iss: "IssueNewTokens sign (clk 1) uuid (us_id u) (us_username u) priv
      = Inr (access, refresh, jti)"
    by (rule open_session_Inr [OF op])
  from open_session_effect [where clk = clk and fp = fp and w = w, OF assms(1) iss] op
  have eff: "resp = \<lparr>ar_id = us_id u, ar_is_verified = us_is_active u, ar_token = access, ar_refresh = refresh\<rparr>"
      "rows w' = rows w"
      "st_kv (view w') = (st_kv (view w))(refresh_key (us_id u) fp jti \<mapsto> JsonText (session_json
        \<lparr>rs_user_id = us_id u, rs_jti = jti, rs_fingerprint = fp, rs_issue_at = unix_seconds (clk 0),
         rs_expire_at = unix_seconds (clk 0) + 604800, rs_status = ''valid''\<rparr>))"
    by auto
  note tok = issued_access_verifies [OF assms(2,3) iss assms(4,5)]
  have "\<exists>c. ParseAndVerifySign parse t (ar_token resp) pub = Inr c \<and> cl_sub c = us_id u"
    if "t \<le> (unix_seconds (clk 1) + 21600) * Second" for t
    using tok(2,3) that eff(1) by fastforce
  then show ?thesis using u act ver eff tok(1) by (intro bexI [of _ u]) simp_all
qed

text \<open>A table with one active user, and one who can register.\<close>

definition example_hash :: string where
  "example_hash = hash_text (replicate 16 7) (replicate 32 6)"

definition example_users :: "bool \<Rightarrow> users_world" where
  "example_users active = store.extend empty_store (users_world.fields
     [\<lparr>us_id = ''u'', us_username = ''ann'', us_email = ''a@b'', us_password_hash = example_hash,
       us_is_active = active, us_created_at = 0, us_updated_at = 0\<rparr>])"

lemma example_hash_verifies: "VerifyHash weak_argon2 example_hash ''secret'' = Return (Inr True)"
proof -
  have "bytes (replicate 16 7)" "bytes (replicate 32 6)" by (simp_all add: bytes_def list_all_iff)
  from VerifyHash_hash_text [OF this] show ?thesis
    by (simp add: example_hash_def weak_argon2_def)
qed

lemma login_is_authentic_witness:
  "\<exists>resp w'. Login mem_redis mem_users weak_argon2 (table_sign example_table) 7 (\<lambda>_. 0) ''k''
      \<lparr>lu_username = ''ann'', lu_password = ''secret''\<rparr> ''f'' (example_users True) = (Return (Inr resp), w') \<and>
    ar_id resp = ''u'' \<and> uw_users w' = uw_users (example_users True)"
proof -
  have "FindUserByCredential mem_users ''ann'' (example_users True) = Inr
      \<lparr>us_id = ''u'', us_username = ''ann'', us_email = ''a@b'', us_password_hash = example_hash,
       us_is_active = True, us_created_at = 0, us_updated_at = 0\<rparr>"
    by (simp add: FindUserByCredential_def mem_users_def example_users_def store.defs users_world.defs)
  moreover have "\<exists>resp w'. open_session mem_redis (table_sign example_table) 7 (\<lambda>_. 0) ''k'' ''u''
      \<lparr>us_id = ''u'', us_username = ''ann'', us_email = ''a@b'', us_password_hash = example_hash,
       us_is_active = True, us_created_at = 0, us_updated_at = 0\<rparr> ''f'' (example_users True) = (Inr resp, w')"
    by (simp add: open_session_def example_issue Let_def split: prod.splits)
  ultimately obtain resp w' where run: "Login mem_redis mem_users weak_argon2 (table_sign example_table) 7 (\<lambda>_. 0) ''k''
      \<lparr>lu_username = ''ann'', lu_password = ''secret''\<rparr> ''f'' (example_users True) = (Return (Inr resp), w')"
    by (auto simp: Login_def example_hash_verifies)
  from login_is_authentic [OF mem_servers_ok example_jwt refl _ _ this]
  have "\<exists>u \<in> set (uw_users (example_users True)). ar_id resp = us_id u \<and> uw_users w' = uw_users (example_users True)"
    by (simp add: unix_seconds_def in_int64_def) blast
  then show ?thesis using run by (auto simp: example_users_def store.defs users_world.defs)
qed

end
