(* ===== verification/Handlers.thy ===== *)
theory Handlers
  imports Http
begin

text \<open>
  \<^verbatim>\<open>internal/handlers/handler-utils.go\<close>: how a handler that may fail becomes an HTTP
  handler, and the envelope of a successful reply. A handler returns an error, or what it wrote
  together with the goroutine it started: the effect that goroutine has when it runs, after the
  reply.
\<close>

type_synonym 'w app_handler =
  "http_request \<Rightarrow> 'w \<Rightarrow> (app_error + http_reply \<times> ('w \<Rightarrow> 'w)) outcome \<times> 'w"

text \<open>The document of an error: maps are written with sorted keys.\<close>

definition error_envelope :: "app_error \<Rightarrow> string \<Rightarrow> json" where
  "error_envelope e requestId = JObj [(''data'', JNull),
     (''errors'', JObj [(''code'', JInt (ae_code e)), (''field'', JStr (ae_field e)),
        (''message'', JStr (ae_message e))]),
     (''message'', JStr ''Error occur''), (''request_id'', JStr requestId)]"

definition WrapHandler ::
  "'w app_handler \<Rightarrow> http_request \<Rightarrow> 'w \<Rightarrow> (http_reply \<times> ('w \<Rightarrow> 'w)) outcome \<times> 'w" where
  "WrapHandler fn r w =
     (case fn r w of
        (Panic, w1) \<Rightarrow> (Panic, w1)
      | (Return (Inr done), w1) \<Rightarrow> (Return done, w1)
      | (Return (Inl err), w1) \<Rightarrow>
          (Return (plain_reply (ae_code err)
             (error_envelope err (req_header r ''X-Request-ID'')), id), w1))"

text \<open>\<open>CreateResponse\<close> with its encoding: the empty identifier and the nil errors are left out.\<close>

definition CreateResponse :: "string \<Rightarrow> json \<Rightarrow> string \<Rightarrow> json" where
  "CreateResponse message data requestId =
     JObj ([(''message'', JStr message), (''data'', data)] @ omit_empty_str ''request_id'' requestId)"

text \<open>The request identifier a handler reads from the context.\<close>

definition request_id_of :: "http_request \<Rightarrow> string" where
  "request_id_of r = (case ctx_request_id r of None \<Rightarrow> ''unknown'' | Some i \<Rightarrow> i)"

text \<open>
  \<^verbatim>\<open>json.NewDecoder(r.Body).Decode\<close> reads the first JSON value of the body, which is
  what \<open>req_body\<close> stands for.
\<close>

definition decode_body :: "'a \<Rightarrow> ((string \<times> json) list \<Rightarrow> 'a option) \<Rightarrow> http_request \<Rightarrow> 'a option" where
  "decode_body zero ld r = unmarshal_struct zero ld (req_body r)"

text \<open>Go's length of a string in runes, as the validator counts it: bytes that start a rune.\<close>

definition rune_count :: "string \<Rightarrow> nat" where
  "rune_count s = length (filter (\<lambda>c. \<not> (128 \<le> (of_char c :: nat) \<and> (of_char c :: nat) < 192)) s)"

text \<open>
  What a handler starts when a call it makes succeeds, and how it fails before: the common shape of
  the handlers' last steps.
\<close>

definition reply_ok :: "string \<Rightarrow> json \<Rightarrow> http_request \<Rightarrow> http_reply" where
  "reply_ok message data r = plain_reply 200 (CreateResponse message data (request_id_of r))"

lemma WrapHandler_simps:
  "fn r w = (Return (Inr d), w1) \<Longrightarrow> WrapHandler fn r w = (Return d, w1)"
  "fn r w = (Panic, w1) \<Longrightarrow> WrapHandler fn r w = (Panic, w1)"
  "fn r w = (Return (Inl e), w1) \<Longrightarrow> WrapHandler fn r w =
     (Return (plain_reply (ae_code e) (error_envelope e (req_header r ''X-Request-ID'')), id), w1)"
  by (simp_all add: WrapHandler_def)

end
