(* ===== verification/UserHandler.thy ===== *)
theory UserHandler
  imports UserService Handlers WorkerHandlers
begin

text \<open>
  The HTTP handlers for users: \<^verbatim>\<open>internal/handlers/user-handler/user-handler.go\<close>, with the
  validation tags of \<^verbatim>\<open>internal/dtos/user_dto/request.go\<close>. The validator's test of an address
  (\<open>email_ok\<close>) and its error text (\<open>vtext\<close>) are arguments.
\<close>

section \<open>Requests\<close>

definition load_create_user :: "(string \<times> json) list \<Rightarrow> create_user_request option" where
  "load_create_user kvs =
     Option.bind (load_field dec_string ''username'' kvs '''') (\<lambda>username.
     Option.bind (load_field dec_string ''email'' kvs '''') (\<lambda>email.
     Option.bind (load_field dec_string ''password'' kvs '''') (\<lambda>password.
       Some \<lparr>cu_username = username, cu_email = email, cu_password = password\<rparr>)))"

definition load_login_user :: "(string \<times> json) list \<Rightarrow> login_user_request option" where
  "load_login_user kvs =
     Option.bind (load_field dec_string ''username'' kvs '''') (\<lambda>username.
     Option.bind (load_field dec_string ''password'' kvs '''') (\<lambda>password.
       Some \<lparr>lu_username = username, lu_password = password\<rparr>))"

definition load_verify_user :: "(string \<times> json) list \<Rightarrow> verify_user_request option" where
  "load_verify_user kvs =
     Option.bind (load_field dec_string ''otp'' kvs '''') (\<lambda>otp. Some \<lparr>vu_otp = otp\<rparr>)"

definition zero_create_user :: create_user_request where
  "zero_create_user = \<lparr>cu_username = '''', cu_email = '''', cu_password = ''''\<rparr>"

definition zero_login_user :: login_user_request where
  "zero_login_user = \<lparr>lu_username = '''', lu_password = ''''\<rparr>"

definition zero_verify_user :: verify_user_request where
  "zero_verify_user = \<lparr>vu_otp = ''''\<rparr>"

text \<open>The tags: \<^verbatim>\<open>min\<close> and \<^verbatim>\<open>max\<close> count runes.\<close>

definition valid_username :: "string \<Rightarrow> bool" where
  "valid_username s \<longleftrightarrow> s \<noteq> '''' \<and> 3 \<le> rune_count s \<and> rune_count s \<le> 50"

definition valid_create_user :: "(string \<Rightarrow> bool) \<Rightarrow> create_user_request \<Rightarrow> bool" where
  "valid_create_user email_ok req \<longleftrightarrow> valid_username (cu_username req) \<and>
     cu_email req \<noteq> '''' \<and> email_ok (cu_email req) \<and>
     cu_password req \<noteq> '''' \<and> 6 \<le> rune_count (cu_password req) \<and> rune_count (cu_password req) \<le> 100"

definition valid_login_user :: "login_user_request \<Rightarrow> bool" where
  "valid_login_user req \<longleftrightarrow> valid_username (lu_username req) \<and> lu_password req \<noteq> ''''"

definition valid_verify_user :: "verify_user_request \<Rightarrow> bool" where
  "valid_verify_user req \<longleftrightarrow> vu_otp req \<noteq> '''' \<and> OTPValidator (vu_otp req)"

section \<open>Responses\<close>

definition user_response_json :: "(int \<Rightarrow> string) \<Rightarrow> user_response \<Rightarrow> json" where
  "user_response_json ftime u = JObj [(''id'', JStr (ur_id u)),
     (''username'', enc_ptr JStr (ur_username u)), (''email'', enc_ptr JStr (ur_email u)),
     (''is_verified'', JBool (ur_is_verified u)), (''created_at'', JStr (ftime (ur_created_at u)))]"

definition auth_response_json :: "auth_response \<Rightarrow> json" where
  "auth_response_json a = JObj [(''id'', JStr (ar_id a)), (''is_verified'', JBool (ar_is_verified a)),
     (''token'', JStr (ar_token a)), (''refresh'', JStr (ar_refresh a))]"

section \<open>Handlers\<close>

text \<open>The job for the one-time password; \<open>ftime\<close> writes its time.\<close>

definition create_otp_job :: "(int \<Rightarrow> string) \<Rightarrow> user_response \<Rightarrow> string \<Rightarrow> int \<Rightarrow> int \<Rightarrow> job" where
  "create_otp_job ftime resp jobId now1 now2 =
     \<lparr>jb_id = jobId, jb_type = ''create_user_otp'',
      jb_payload = Some (JObj [(''created_at'', JStr (ftime (ur_created_at resp))),
        (''user_id'', JStr (ur_id resp))]),
      jb_priority = 1, jb_retry = 0, jb_max_retry = 5, jb_error_msg = '''',
      jb_created_at = unix_seconds now1, jb_expire_at = unix_seconds (now2 + 5 * Minute)\<rparr>"

definition bad_request :: "string \<Rightarrow> string \<Rightarrow> app_error" where
  "bad_request msg field = NewAppError StatusBadRequest msg field"

definition CreateUser ::
  "'w redis \<Rightarrow> 'w user_table \<Rightarrow> argon2 \<Rightarrow> nat list option \<Rightarrow> (string \<Rightarrow> bool)
   \<Rightarrow> (create_user_request \<Rightarrow> string) \<Rightarrow> (int \<Rightarrow> string) \<Rightarrow> (nat \<Rightarrow> int) \<Rightarrow> string \<Rightarrow> string
   \<Rightarrow> 'w app_handler" where
  "CreateUser rd ut idkey salt email_ok vtext ftime clk uuid jobId r w =
     (case decode_body zero_create_user load_create_user r of
        None \<Rightarrow> (Return (Inl (bad_request ''Invalid JSON'' ''body'')), w)
      | Some req \<Rightarrow>
          if \<not> valid_create_user email_ok req
          then (Return (Inl (bad_request (''Invalid fields: '' @ vtext req) ''validation'')), w)
          else
            (case Register_user ut idkey salt clk uuid req w of
               (Panic, w1) \<Rightarrow> (Panic, w1)
             | (Return (Inl err), w1) \<Rightarrow> (Return (Inl err), w1)
             | (Return (Inr resp), w1) \<Rightarrow>
                 (Return (Inr (reply_ok ''user registered successfully'' (user_response_json ftime resp) r,
                    \<lambda>w'. snd (Enqueue rd (create_otp_job ftime resp jobId (clk 2) (clk 3)) w'))), w1)))"

text \<open>How both authenticating handlers end.\<close>

definition auth_reply :: "http_request \<Rightarrow> auth_response \<Rightarrow> app_error + http_reply \<times> ('w \<Rightarrow> 'w)" where
  "auth_reply r resp =
     (if ar_refresh resp = ''''
      then Inl (NewAppError StatusInternalServerError ''failed to prepare refresh token'' ''server'')
      else Inr ((reply_ok ''user registered successfully'' (auth_response_json resp) r)
        \<lparr>rep_cookies := [(''refresh_token'', ar_refresh resp)]\<rparr>, id))"

text \<open>The fingerprint is read with a type assertion that panics when the middleware did not set it.\<close>

definition VerifyUser_handler ::
  "'w redis \<Rightarrow> 'w user_table \<Rightarrow> ((string \<times> json) list \<Rightarrow> 'priv \<Rightarrow> string + string) \<Rightarrow> 'priv
   \<Rightarrow> (verify_user_request \<Rightarrow> string) \<Rightarrow> (nat \<Rightarrow> int) \<Rightarrow> string \<Rightarrow> 'w app_handler" where
  "VerifyUser_handler rd ut sign privateKey vtext clk uuid r w =
     (case ctx_fingerprint r of
        None \<Rightarrow> (Panic, w)
      | Some fp \<Rightarrow>
     if fp = '''' then (Return (Inl (bad_request ''Missing device fingerprint'' ''fingerprint'')), w)
     else
     (case decode_body zero_verify_user load_verify_user r of
        None \<Rightarrow> (Return (Inl (bad_request ''Invalid JSON'' ''body'')), w)
      | Some req \<Rightarrow>
          if \<not> valid_verify_user req
          then (Return (Inl (bad_request (''Invalid fields: '' @ vtext req) ''validation'')), w)
          else
            (case VerifyRegister rd ut sign privateKey clk uuid req fp (req_params r ''userId'') w of
               (Panic, w1) \<Rightarrow> (Panic, w1)
             | (Return (Inl err), w1) \<Rightarrow> (Return (Inl err), w1)
             | (Return (Inr resp), w1) \<Rightarrow> (Return (auth_reply r resp), w1))))"

definition LoginUser ::
  "'w redis \<Rightarrow> 'w user_table \<Rightarrow> argon2 \<Rightarrow> ((string \<times> json) list \<Rightarrow> 'priv \<Rightarrow> string + string) \<Rightarrow> 'priv
   \<Rightarrow> (login_user_request \<Rightarrow> string) \<Rightarrow> (nat \<Rightarrow> int) \<Rightarrow> string \<Rightarrow> 'w app_handler" where
  "LoginUser rd ut idkey sign privateKey vtext clk uuid r w =
     (case ctx_fingerprint r of
        None \<Rightarrow> (Panic, w)
      | Some fp \<Rightarrow>
     if fp = '''' then (Return (Inl (bad_request ''Missing device fingerprint'' ''fingerprint'')), w)
     else
     (case decode_body zero_login_user load_login_user r of
        None \<Rightarrow> (Return (Inl (bad_request ''Invalid JSON'' ''body'')), w)
      | Some req \<Rightarrow>
          if \<not> valid_login_user req
          then (Return (Inl (bad_request (''Invalid fields: '' @ vtext req) ''validation'')), w)
          else
            (case Login rd ut idkey sign privateKey clk uuid req fp w of
               (Panic, w1) \<Rightarrow> (Panic, w1)
             | (Return (Inl err), w1) \<Rightarrow> (Return (Inl err), w1)
             | (Return (Inr resp), w1) \<Rightarrow> (Return (auth_reply r resp), w1))))"

section \<open>From registration to login\<close>

lemma otp_payload:
  assumes "time_round_trip ptime ftime" and "redis_up rd"
  shows "\<exists>w1. rd_set rd (otp_key (ur_id resp)) (JsonText (JStr (generateOTP rand))) (Minute * 5) w = (True, w1) \<and>
    HandlerCreateUserOTP rd mail ptime rand why (jb_payload (create_otp_job ftime resp i t1 t2)) w =
      SendMailTrapOTP mail (ur_id resp) (generateOTP rand) w1"
proof -
  obtain w1 where "rd_set rd (otp_key (ur_id resp)) (JsonText (JStr (generateOTP rand))) (Minute * 5) w = (True, w1)"
    using redis_upD(1) [OF assms(2)] by blast
  moreover have "ptime (ftime t) = Some t" for t using assms(1) by (simp add: time_round_trip_def)
  ultimately show ?thesis
    by (simp add: HandlerCreateUserOTP_def create_otp_job_def unmarshal_raw_def Let_def)
qed

text \<open>Delivering mail touches neither server.\<close>

definition mail_leaves :: "(string \<Rightarrow> 'w \<Rightarrow> string option \<times> 'w) \<Rightarrow> ('w \<Rightarrow> 'o) \<Rightarrow> bool" where
  "mail_leaves mail other \<longleftrightarrow> (\<forall>m w. other (snd (mail m w)) = other w)"

lemma SendMailTrapOTP_leaves:
  "mail_leaves mail other \<Longrightarrow> SendMailTrapOTP mail u otp w = (e, w') \<Longrightarrow> other w' = other w"
  unfolding mail_leaves_def SendMailTrapOTP_def
  by (auto split: prod.splits option.splits) (metis snd_conv)+

lemma FindUser_hit:
  assumes "servers_ok rd view ut rows" and "distinct_users (rows w)" and "u \<in> set (rows w)"
  shows "FindUserByCredential ut (us_username u) w = Inr u"
proof -
  note laws = servers_okD [OF assms(1)]
  have "\<exists>v. ut_first ut [Username_is (us_username u)] w = Inr v"
    using user_table_okD(5) [OF laws(5), of "[Username_is (us_username u)]" w u] laws(6) assms(3)
    by (cases "ut_first ut [Username_is (us_username u)] w") (auto simp: user_table_up_def)
  then obtain v where v: "ut_first ut [Username_is (us_username u)] w = Inr v" by blast
  from user_table_okD(4) [OF laws(5) v] have "v = u"
    using assms(3) distinct_usersD(2) [OF assms(2)] by auto
  with v show ?thesis by (simp add: FindUserByCredential_def)
qed

lemma Login_success:
  assumes "servers_ok rd view ut rows" and "distinct_users (rows w)" and "u \<in> set (rows w)"
    and "us_is_active u" and "VerifyHash idkey (us_password_hash u) pw = Return (Inr True)"
    and "IssueNewTokens sign (clk 1) uuid (us_id u) (us_username u) priv = Inr (access, refresh, jti)"
  shows "\<exists>w'. Login rd ut idkey sign priv clk uuid \<lparr>lu_username = us_username u, lu_password = pw\<rparr> fp w =
    (Return (Inr \<lparr>ar_id = us_id u, ar_is_verified = True, ar_token = access, ar_refresh = refresh\<rparr>), w')"
proof -
  obtain w' where "open_session rd sign priv clk uuid (us_id u) u fp w =
      (Inr \<lparr>ar_id = us_id u, ar_is_verified = us_is_active u, ar_token = access, ar_refresh = refresh\<rparr>, w')"
    using open_session_effect [where clk = clk and w = w and fp = fp, OF assms(1,6)] by blast
  then show ?thesis
    using FindUser_hit [OF assms(1-3)] assms(4,5) by (simp add: Login_def)
qed

lemma Login_inactive:
  assumes "servers_ok rd view ut rows" and "distinct_users (rows w)" and "u \<in> set (rows w)"
    and "\<not> us_is_active u"
  shows "Login rd ut idkey sign priv clk uuid \<lparr>lu_username = us_username u, lu_password = pw\<rparr> fp w =
    (Return (Inl (NewAppError StatusForbidden
       ''user is not active, please verify your account'' ''user-inactive'')), w)"
  using FindUser_hit [OF assms(1-3)] assms(4) by (simp add: Login_def)

definition signs :: "((string \<times> json) list \<Rightarrow> 'priv \<Rightarrow> string + string) \<Rightarrow> 'priv \<Rightarrow> bool" where
  "signs sign priv \<longleftrightarrow> (\<forall>kvs. \<exists>tok. sign kvs priv = Inr tok)"

lemma signs_issue:
  "signs sign priv \<Longrightarrow> \<exists>access refresh. IssueNewTokens sign now uuid u n priv = Inr (access, refresh, uuid)"
proof -
  assume s: "signs sign priv"
  have "\<exists>access. GenerateSign sign c priv = Inr access" for c
    using s by (simp add: signs_def GenerateSign_def)
  then show ?thesis unfolding IssueNewTokens_def Let_def by (metis sum.case(2))
qed

text \<open>
  The two halves of the way: what is there when the worker has handled the job of a registration,
  and what a verification makes of it.
\<close>

lemma registered_state:
  assumes "servers_ok rd view ut rows" and "distinct_users (rows w)"
    and "mail_leaves mail view" and "mail_leaves mail rows" and "time_round_trip ptime ftime"
    and "Register_user ut idkey salt clk uuid req w = (Return (Inr resp), w1)"
    and "HandlerCreateUserOTP rd mail ptime rand why
      (jb_payload (create_otp_job ftime resp jobId t1 t2)) w1 = (None, w2)"
  obtains u where "u \<in> set (rows w2)" "us_username u = cu_username req" "us_id u = uuid" "\<not> us_is_active u"
    "GenerateHash idkey salt (cu_password req) = Return (Inr (us_password_hash u))"
    "distinct_users (rows w2)"
    "st_kv (view w2) (''otp:'' @ uuid) = Some (JsonText (JStr (generateOTP rand)))"
proof -
  note laws = servers_okD [OF assms(1)]
  obtain hashed where hashed: "GenerateHash idkey salt (cu_password req) = Return (Inr hashed)"
    and rows1: "rows w1 = rows w @ [\<lparr>us_id = uuid, us_username = cu_username req, us_email = cu_email req,
      us_password_hash = hashed, us_is_active = False, us_created_at = clk 0, us_updated_at = clk 1\<rparr>]"
    and fresh: "\<forall>v \<in> set (rows w). us_id v \<noteq> uuid \<and> us_username v \<noteq> cu_username req"
    and resp: "ur_id resp = uuid"
    using Register_user_effect [OF assms(1,6)] by metis
  define u where "u = \<lparr>us_id = uuid, us_username = cu_username req, us_email = cu_email req,
      us_password_hash = hashed, us_is_active = False, us_created_at = clk 0, us_updated_at = clk 1\<rparr>"
  obtain wo where set: "rd_set rd (otp_key uuid) (JsonText (JStr (generateOTP rand))) (Minute * 5) w1 = (True, wo)"
    and mail: "SendMailTrapOTP mail uuid (generateOTP rand) wo = (None, w2)"
    using otp_payload [OF assms(5) laws(2), of resp rand w1] assms(7) resp by metis
  have rows2: "rows w2 = rows w @ [u]"
    using SendMailTrapOTP_leaves [OF assms(4) mail] redis_leavesD(1) [OF laws(4) set] rows1
    by (simp add: u_def)
  have "st_kv (view w2) (''otp:'' @ uuid) = Some (JsonText (JStr (generateOTP rand)))"
    using SendMailTrapOTP_leaves [OF assms(3) mail] redis_okD(2) [OF laws(1) set]
    by (simp add: otp_key_def)
  moreover have "distinct_users (rows w2)"
    unfolding rows2 by (rule distinct_users_snoc [OF assms(2)]) (use fresh in \<open>simp add: u_def\<close>)
  moreover have "u \<in> set (rows w2)" by (simp add: rows2)
  ultimately show ?thesis using that [of u] hashed by (simp add: u_def)
qed

lemma verified_state:
  assumes "servers_ok rd view ut rows" and "distinct_users (rows w)"
    and "u \<in> set (rows w)" and "us_id u = userId"
    and "st_kv (view w) (''otp:'' @ userId) = Some (JsonText (JStr otp))" and "signs sign priv"
  obtains a w' u' where
    "VerifyRegister rd ut sign priv clk uuid \<lparr>vu_otp = otp\<rparr> fp userId w = (Return (Inr a), w')"
    "ar_id a = userId" "u' \<in> set (rows w')" "us_username u' = us_username u" "us_id u' = userId"
    "us_is_active u'" "us_password_hash u' = us_password_hash u" "distinct_users (rows w')"
    "st_kv (view w') (''otp:'' @ userId) = None"
proof -
  obtain access refresh where iss: "IssueNewTokens sign (clk 1) uuid userId (us_username u) priv
      = Inr (access, refresh, uuid)"
    using signs_issue [OF assms(6)] by blast
  have otp: "st_kv (view w) (''otp:'' @ userId) = Some (JsonText (JStr (vu_otp \<lparr>vu_otp = otp\<rparr>)))"
    using assms(5) by simp
  obtain w' t where run: "VerifyRegister rd ut sign priv clk uuid \<lparr>vu_otp = otp\<rparr> fp userId w =
      (Return (Inr \<lparr>ar_id = userId, ar_is_verified = True, ar_token = access, ar_refresh = refresh\<rparr>), w')"
    and rows': "rows w' = map (\<lambda>v. if us_id v = userId
      then v\<lparr>us_is_active := True, us_updated_at := t\<rparr> else v) (rows w)"
    and kv: "st_kv (view w') = (st_kv (view w))(''otp:'' @ userId := None, refresh_key userId fp uuid \<mapsto>
      JsonText (session_json \<lparr>rs_user_id = userId, rs_jti = uuid, rs_fingerprint = fp,
        rs_issue_at = unix_seconds (clk 0), rs_expire_at = unix_seconds (clk 0) + 604800,
        rs_status = ''valid''\<rparr>))"
    using VerifyRegister_match [where clk = clk and fp = fp, OF assms(1-4) otp iss] by blast
  have "st_kv (view w') (''otp:'' @ userId) = None" by (simp add: kv refresh_key_def)
  moreover have "distinct_users (rows w')" unfolding rows' by (rule distinct_users_map [OF assms(2)]) simp
  moreover have "u\<lparr>us_is_active := True, us_updated_at := t\<rparr> \<in> set (rows w')"
    using assms(3,4) by (auto simp: rows' image_iff)
  ultimately show ?thesis using that [OF run] assms(4) by fastforce
qed

text \<open>
  C9. From registration to login, over both servers. After a registration the account exists and
  cannot log in; when the worker has handled the job the handler queued, the password it stored,
  and no other, verifies the account; from then on the registered name and password log in, and
  the one-time password is gone: sending it again makes the service read through a nil pointer.
\<close>

theorem registered_user_can_login:
  assumes "servers_ok rd view ut rows" and "distinct_users (rows w)"
    and "mail_leaves mail view" and "mail_leaves mail rows" and "time_round_trip ptime ftime"
    and "argon2_ok idkey" and "bytes salt" and "signs sign priv"
    and "Register_user ut idkey (Some salt) clk uuid req w = (Return (Inr resp), w1)"
    and "HandlerCreateUserOTP rd mail ptime rand why
      (jb_payload (create_otp_job ftime resp jobId t1 t2)) w1 = (None, w2)"
  shows "Login rd ut idkey sign priv clk' ja
        \<lparr>lu_username = cu_username req, lu_password = cu_password req\<rparr> fp w2 =
      (Return (Inl (NewAppError StatusForbidden
         ''user is not active, please verify your account'' ''user-inactive'')), w2) \<and>
    (\<forall>other. other \<noteq> generateOTP rand \<longrightarrow>
      VerifyRegister rd ut sign priv clk' ja \<lparr>vu_otp = other\<rparr> fp uuid w2 =
        (Return (Inl (NewAppError StatusBadRequest ''otp mismatch'' ''otp-mismatch'')), w2)) \<and>
    (\<exists>a w3. VerifyRegister rd ut sign priv clk' ja \<lparr>vu_otp = generateOTP rand\<rparr> fp uuid w2 =
        (Return (Inr a), w3) \<and> ar_id a = uuid \<and>
      VerifyRegister rd ut sign priv clk'' jb \<lparr>vu_otp = generateOTP rand\<rparr> fp uuid w3 = (Panic, w3) \<and>
      (\<exists>b w4. Login rd ut idkey sign priv clk'' jb
          \<lparr>lu_username = cu_username req, lu_password = cu_password req\<rparr> fp w3 = (Return (Inr b), w4) \<and>
        ar_id b = uuid))"
proof -
  obtain u where u: "u \<in> set (rows w2)" "us_username u = cu_username req" "us_id u = uuid" "\<not> us_is_active u"
    and hashed: "GenerateHash idkey (Some salt) (cu_password req) = Return (Inr (us_password_hash u))"
    and dist2: "distinct_users (rows w2)"
    and otp: "st_kv (view w2) (''otp:'' @ uuid) = Some (JsonText (JStr (generateOTP rand)))"
    by (rule registered_state [OF assms(1-5,9,10)])
  obtain a w3 u' where
    ver: "VerifyRegister rd ut sign priv clk' ja \<lparr>vu_otp = generateOTP rand\<rparr> fp uuid w2 = (Return (Inr a), w3)"
      "ar_id a = uuid"
    and u': "u' \<in> set (rows w3)" "us_username u' = us_username u" "us_id u' = uuid"
      "us_is_active u'" "us_password_hash u' = us_password_hash u"
    and dist3: "distinct_users (rows w3)" and gone: "st_kv (view w3) (''otp:'' @ uuid) = None"
    by (rule verified_state [OF assms(1) dist2 u(1,3) otp assms(8)])
  obtain a2 r2 where iss: "IssueNewTokens sign (clk'' 1) jb (us_id u') (us_username u') priv = Inr (a2, r2, jb)"
    using signs_issue [OF assms(8)] by blast
  have "VerifyHash idkey (us_password_hash u') (cu_password req) = Return (Inr True)"
    using GenerateHash_verifies [OF assms(6,7) hashed] u'(5) by simp
  from Login_success [where clk = clk'' and fp = fp, OF assms(1) dist3 u'(1,4) this iss]
  have "\<exists>b w4. Login rd ut idkey sign priv clk'' jb
          \<lparr>lu_username = cu_username req, lu_password = cu_password req\<rparr> fp w3 = (Return (Inr b), w4) \<and>
        ar_id b = uuid"
    using u'(2,3) u(2) by auto
  moreover have "Login rd ut idkey sign priv clk' ja
        \<lparr>lu_username = cu_username req, lu_password = cu_password req\<rparr> fp w2 =
      (Return (Inl (NewAppError StatusForbidden
         ''user is not active, please verify your account'' ''user-inactive'')), w2)"
    using Login_inactive [OF assms(1) dist2 u(1,4)] u(2) by simp
  moreover have "VerifyRegister rd ut sign priv clk'' jb \<lparr>vu_otp = generateOTP rand\<rparr> fp uuid w3 = (Panic, w3)"
    by (rule VerifyRegister_cases(1) [OF assms(1) gone])
  moreover have "VerifyRegister rd ut sign priv clk' ja \<lparr>vu_otp = other\<rparr> fp uuid w2 =
        (Return (Inl (NewAppError StatusBadRequest ''otp mismatch'' ''otp-mismatch'')), w2)"
    if "other \<noteq> generateOTP rand" for other
    by (rule VerifyRegister_cases(2) [OF assms(1) otp]) (use that in simp)
  ultimately show ?thesis using ver by blast
qed

definition no_users :: users_world where
  "no_users = store.extend empty_store (users_world.fields [])"

lemma registered_user_can_login_witness:
  "\<exists>(w2 :: users_world) a w3 b w4.
     VerifyRegister mem_redis mem_users (\<lambda>_ _. Inr ''t'') (0 :: nat) (\<lambda>_. 0) ''j''
       \<lparr>vu_otp = generateOTP (Some (1, 2, 3))\<rparr> ''f'' ''u'' w2 = (Return (Inr a), w3) \<and>
     Login mem_redis mem_users weak_argon2 (\<lambda>_ _. Inr ''t'') (0 :: nat) (\<lambda>_. 0) ''k''
       \<lparr>lu_username = ''ann'', lu_password = ''secret''\<rparr> ''f'' w3 = (Return (Inr b), w4) \<and> ar_id b = ''u''"
proof -
  define req where "req = \<lparr>cu_username = ''ann'', cu_email = ''a@b'', cu_password = ''secret''\<rparr>"
  define mail :: "string \<Rightarrow> users_world \<Rightarrow> string option \<times> users_world" where "mail = (\<lambda>_ w. (None, w))"
  have salt: "bytes (replicate 16 7)" by (simp add: bytes_def list_all_iff)
  have "\<exists>hashed. GenerateHash weak_argon2 (Some (replicate 16 7)) ''secret'' = Return (Inr hashed)"
    by (simp add: GenerateHash_def weak_argon2_def Let_def)
  then obtain hashed where "GenerateHash weak_argon2 (Some (replicate 16 7)) ''secret'' = Return (Inr hashed)"
    by blast
  then obtain resp w1 where reg: "Register_user mem_users weak_argon2 (Some (replicate 16 7)) (\<lambda>_. 0) ''u'' req no_users
      = (Return (Inr resp), w1)"
    by (simp add: Register_user_def CountUser_def SaveUser_def mem_users_def no_users_def req_def
        store.defs users_world.defs Let_def)
  have left: "mail_leaves mail store.truncate" "mail_leaves mail uw_users"
    by (simp_all add: mail_leaves_def mail_def)
  have dist: "distinct_users (uw_users no_users)"
    by (simp add: no_users_def store.defs users_world.defs distinct_users_def)
  have sig: "signs (\<lambda>_ _. Inr ''t'') (0 :: nat)" by (simp add: signs_def)
  obtain w2 where "HandlerCreateUserOTP mem_redis mail plain_ptime (Some (1, 2, 3)) ''''
      (jb_payload (create_otp_job plain_ftime resp ''i'' 0 0)) w1 = (None, w2)"
    using otp_payload [OF plain_time_round_trip mem_redis_up, of resp "Some (1, 2, 3)" w1 mail "''''" "''i''" 0 0]
    by (auto simp: SendMailTrapOTP_def mail_def Let_def)
  note all = registered_user_can_login [where fp = "''f''" and clk' = "\<lambda>_. 0" and clk'' = "\<lambda>_. 0" and ja = "''j''"
      and jb = "''k''", OF mem_servers_ok dist left plain_time_round_trip weak_argon2_ok salt sig reg this]
  have rq: "cu_username req = ''ann''" "cu_password req = ''secret''" by (simp_all add: req_def)
  from all [unfolded rq] show ?thesis by (elim conjE exE) (intro exI conjI, assumption+)
qed

end
