(* ===== verification/ChatRepo.thy ===== *)
theory ChatRepo
  imports Cache UserRepo GoStrings "HOL-Library.Multiset"
begin

text \<open>
  Rooms, members and messages (\<^verbatim>\<open>internal/entity/rooms.go\<close>,
  \<^verbatim>\<open>internal/entity/message.go\<close>) and the chat repository
  (\<^verbatim>\<open>internal/repo/chat/chat-repo.go\<close>) over two databases: gorm's tables with their
  transactions (\<open>rooms_db\<close>) and the Mongo collection of messages (\<open>messages_db\<close>). Identifiers of
  messages are of an ordered type \<open>'o\<close>, written and read in hexadecimal by an \<open>oid_codec\<close>.
\<close>

section \<open>Entities\<close>

record room =
  rm_id :: string
  rm_rt :: string
  rm_name :: string
  rm_created_by :: string
  rm_created_at :: int
  rm_updated_at :: "int option"
  rm_deleted_at :: "int option"

record room_member =
  me_id :: int
  me_room_id :: string
  me_user_id :: string
  me_role :: string
  me_joined_at :: int
  me_left_at :: "int option"
  me_last_read_msg_id :: string
  me_last_message_at :: int
  me_unread_count :: int

record 'o edit_entry =
  ee_message_id :: 'o
  ee_original_content :: string
  ee_new_content :: string
  ee_edited_by :: string
  ee_edited_at :: int

record 'o reply_to =
  rp_message_id :: 'o
  rp_content :: string
  rp_sender_id :: string

record attachment =
  at_type :: string
  at_url :: string

record 'o message =
  ms_id :: 'o
  ms_room_id :: string
  ms_sender_id :: string
  ms_receiver_id :: string
  ms_content :: string
  ms_is_read :: bool
  ms_is_edited :: bool
  ms_history :: "'o edit_entry list"
  ms_attachments :: "attachment list"
  ms_reply_to :: "'o reply_to option"
  ms_created_at :: int
  ms_updated_at :: "int option"

section \<open>The databases\<close>

text \<open>
  \<open>rb_query_room\<close> runs a query for one room whose condition reads the members table; a transaction
  is a value of type \<open>'t\<close> that \<open>rb_commit\<close> writes back.
\<close>

record ('w, 't) rooms_db =
  rb_query_room :: "(room_member list \<Rightarrow> room \<Rightarrow> bool) \<Rightarrow> 'w \<Rightarrow> db_error + room"
  rb_members :: "(room_member \<Rightarrow> bool) \<Rightarrow> 'w \<Rightarrow> db_error + room_member list"
  rb_begin :: "'w \<Rightarrow> 't"
  rb_create_room :: "room \<Rightarrow> 't \<Rightarrow> (db_error + room) \<times> 't"
  rb_create_members :: "room_member list \<Rightarrow> 't \<Rightarrow> db_error option \<times> 't"
  rb_update_members :: "(room_member \<Rightarrow> bool) \<Rightarrow> (room_member \<Rightarrow> room_member) \<Rightarrow> 't \<Rightarrow> db_error option \<times> 't"
  rb_commit :: "'t \<Rightarrow> 'w \<Rightarrow> db_error option \<times> 'w"
  rb_rollback :: "'t \<Rightarrow> 'w \<Rightarrow> 'w"

datatype find_error = ErrNoDocuments | Mongo_error string

text \<open>
  \<open>mb_find P n\<close> finds the documents with \<open>P\<close>, the largest identifier first, at most \<open>n\<close>;
  \<open>mb_update_one P f\<close> answers how many documents matched.
\<close>

record ('w, 'o) messages_db =
  mb_find :: "('o message \<Rightarrow> bool) \<Rightarrow> int \<Rightarrow> 'w \<Rightarrow> string + 'o message list"
  mb_find_one :: "('o message \<Rightarrow> bool) \<Rightarrow> 'w \<Rightarrow> find_error + 'o message"
  mb_insert :: "'o message \<Rightarrow> 'w \<Rightarrow> string option \<times> 'w"
  mb_update_one :: "('o message \<Rightarrow> bool) \<Rightarrow> ('o message \<Rightarrow> 'o message) \<Rightarrow> 'w \<Rightarrow> (string + int) \<times> 'w"

record 'o oid_codec =
  oc_hex :: "'o \<Rightarrow> string"
  oc_from_hex :: "string \<Rightarrow> string + 'o"

section \<open>Rooms\<close>

text \<open>The SQL condition of \<^verbatim>\<open>findPrivateRoom\<close>.\<close>

definition private_room_sql :: "string \<Rightarrow> string \<Rightarrow> room_member list \<Rightarrow> room \<Rightarrow> bool" where
  "private_room_sql senderID receiverID members r \<longleftrightarrow>
     rm_rt r = ''private'' \<and>
     list_ex (\<lambda>rm1. me_room_id rm1 = rm_id r \<and> me_user_id rm1 = senderID \<and>
       list_ex (\<lambda>rm2. me_room_id rm2 = me_room_id rm1 \<and> me_user_id rm2 = receiverID) members \<and>
       length (filter (\<lambda>rm3. me_room_id rm3 = me_room_id rm1) members) = 2) members"

definition findPrivateRoom :: "('w, 't) rooms_db \<Rightarrow> string \<Rightarrow> string \<Rightarrow> 'w \<Rightarrow> db_error + room" where
  "findPrivateRoom rb senderID receiverID w = rb_query_room rb (private_room_sql senderID receiverID) w"

definition db_failure :: "string \<Rightarrow> app_error" where
  "db_failure msg = NewAppError StatusInternalServerError msg ''db-error''"

definition new_member :: "string \<Rightarrow> string \<Rightarrow> room_member" where
  "new_member roomID userID = \<lparr>me_id = 0, me_room_id = roomID, me_user_id = userID, me_role = ''member'',
     me_joined_at = zero_time, me_left_at = None, me_last_read_msg_id = '''',
     me_last_message_at = zero_time, me_unread_count = 0\<rparr>"

text \<open>\<open>uuid\<close> is the new room's identifier. A failed commit leaves the transaction to the server.\<close>

definition createPrivateRoom ::
  "('w, 't) rooms_db \<Rightarrow> string \<Rightarrow> string \<Rightarrow> string \<Rightarrow> 'w \<Rightarrow> (app_error + room) \<times> 'w" where
  "createPrivateRoom rb uuid senderID receiverID w =
     (let tx = rb_begin rb w;
          newRoom = \<lparr>rm_id = uuid, rm_rt = ''private'', rm_name = '''', rm_created_by = senderID,
            rm_created_at = zero_time, rm_updated_at = None, rm_deleted_at = None\<rparr>
      in case rb_create_room rb newRoom tx of
           (Inl err, tx1) \<Rightarrow> (Inl (db_failure ''failed to create private room''), rb_rollback rb tx1 w)
         | (Inr created, tx1) \<Rightarrow>
             (case rb_create_members rb [new_member (rm_id created) senderID,
                  new_member (rm_id created) receiverID] tx1 of
                (Some err, tx2) \<Rightarrow>
                  (Inl (db_failure ''failed to add members to private room''), rb_rollback rb tx2 w)
              | (None, tx2) \<Rightarrow>
                  (case rb_commit rb tx2 w of
                     (Some err, w') \<Rightarrow> (Inl (db_failure ''failed to commit room creation''), w')
                   | (None, w') \<Rightarrow> (Inr created, w'))))"

definition FindOrCreateRoom ::
  "('w, 't) rooms_db \<Rightarrow> string \<Rightarrow> string \<Rightarrow> string \<Rightarrow> 'w \<Rightarrow> (app_error + room) \<times> 'w" where
  "FindOrCreateRoom rb uuid senderID receiverID w =
     (case findPrivateRoom rb senderID receiverID w of
        Inr r \<Rightarrow> (Inr r, w)
      | Inl err \<Rightarrow>
          if err \<noteq> ErrRecordNotFound then (Inl (db_failure ''failed to query private room''), w)
          else
            (case createPrivateRoom rb uuid senderID receiverID w of
               (Inr newRoom, w') \<Rightarrow> (Inr newRoom, w')
             | (Inl appErr, w') \<Rightarrow>
                 if contains_str (ae_message appErr) ''duplicate'' \<or> contains_str (ae_message appErr) ''unique''
                 then (case findPrivateRoom rb senderID receiverID w' of
                         Inr r \<Rightarrow> (Inr r, w') | Inl _ \<Rightarrow> (Inl appErr, w'))
                 else (Inl appErr, w')))"

definition FindRoomByID :: "('w, 't) rooms_db \<Rightarrow> string \<Rightarrow> 'w \<Rightarrow> app_error + room" where
  "FindRoomByID rb roomID w =
     (case rb_query_room rb (\<lambda>_ r. rm_id r = roomID) w of
        Inl err \<Rightarrow>
          Inl (if err = ErrRecordNotFound then NewAppError StatusNotFound ''room not found'' ''not-found''
               else db_failure ''failed to fetch room'')
      | Inr r \<Rightarrow> Inr r)"

definition FindRoomMembers :: "('w, 't) rooms_db \<Rightarrow> string \<Rightarrow> 'w \<Rightarrow> app_error + room_member list" where
  "FindRoomMembers rb roomID w =
     (case rb_members rb (\<lambda>m. me_room_id m = roomID) w of
        Inl err \<Rightarrow>
          Inl (if err = ErrRecordNotFound then NewAppError StatusNotFound ''room not found'' ''not-found''
               else db_failure ''failed to fetch room members'')
      | Inr members \<Rightarrow> Inr members)"

text \<open>\<open>None\<close> is the nil error; a failed commit answers the driver's error.\<close>

definition UpdateRoomMetadata ::
  "('w, 't) rooms_db \<Rightarrow> 'o oid_codec \<Rightarrow> int \<Rightarrow> string \<Rightarrow> string \<Rightarrow> string \<Rightarrow> 'o \<Rightarrow> 'w \<Rightarrow> string option \<times> 'w" where
  "UpdateRoomMetadata rb oc now why roomID senderID msgId w =
     (let tx = rb_begin rb w in
      case rb_update_members rb (\<lambda>m. me_room_id m = roomID \<and> me_user_id m = senderID)
          (\<lambda>m. m\<lparr>me_last_read_msg_id := oc_hex oc msgId, me_last_message_at := now,
             me_unread_count := me_unread_count m + 1\<rparr>) tx of
        (Some err, tx1) \<Rightarrow> (Some ''failed to update last message metadata'', rb_rollback rb tx1 w)
      | (None, tx1) \<Rightarrow>
          (case rb_commit rb tx1 w of
             (Some err, w') \<Rightarrow> (Some why, w') | (None, w') \<Rightarrow> (None, w')))"

section \<open>Messages\<close>

definition mongo_failure :: "string \<Rightarrow> app_error" where
  "mongo_failure msg = NewAppError StatusInternalServerError msg ''mongo''"

definition bad_oid :: "string \<Rightarrow> string \<Rightarrow> string \<Rightarrow> app_error" where
  "bad_oid text err field = NewAppError StatusBadRequest (text @ err) field"

text \<open>The loop that reverses the slice in place swaps towards the middle.\<close>

function reverse_loop :: "'a list \<Rightarrow> nat \<Rightarrow> nat \<Rightarrow> 'a list" where
  "reverse_loop xs i j =
     (if i < j then reverse_loop (xs[i := xs ! j, j := xs ! i]) (i + 1) (j - 1) else xs)"
  by pat_completeness auto
termination by (relation "measure (\<lambda>(xs, i, j). j - i)") auto

declare reverse_loop.simps [simp del]

definition GetPrivateMessages ::
  "('w, 'o :: linorder) messages_db \<Rightarrow> 'o oid_codec \<Rightarrow> string \<Rightarrow> int \<Rightarrow> string option \<Rightarrow> 'w
   \<Rightarrow> app_error + 'o message list" where
  "GetPrivateMessages mb oc roomID limit beforeID w =
     (case (case beforeID of None \<Rightarrow> Inr None | Some b \<Rightarrow> map_sum id Some (oc_from_hex oc b)) of
        Inl err \<Rightarrow> Inl (bad_oid ''error when trying to parse before_id: '' err ''before-id'')
      | Inr before \<Rightarrow>
          (case mb_find mb (\<lambda>m. ms_room_id m = roomID \<and>
               (case before of None \<Rightarrow> True | Some objID \<Rightarrow> ms_id m < objID)) limit w of
             Inl err \<Rightarrow> Inl (mongo_failure (''failed to fetch messages: '' @ err))
           | Inr messages \<Rightarrow> Inr (reverse_loop messages 0 (length messages - 1))))"

definition FindMessageByID ::
  "('w, 'o) messages_db \<Rightarrow> 'o oid_codec \<Rightarrow> string \<Rightarrow> 'w \<Rightarrow> app_error + 'o message" where
  "FindMessageByID mb oc messageID w =
     (case oc_from_hex oc messageID of
        Inl err \<Rightarrow> Inl (bad_oid ''invalid message ID: '' err ''invalid-id'')
      | Inr objID \<Rightarrow>
          (case mb_find_one mb (\<lambda>m. ms_id m = objID) w of
             Inr m \<Rightarrow> Inr m
           | Inl ErrNoDocuments \<Rightarrow>
               Inl (NewAppError StatusNotFound ''message not found or has been deleted'' ''not-found'')
           | Inl (Mongo_error err) \<Rightarrow> Inl (mongo_failure (''failed to fetch message: '' @ err))))"

definition CreateMessage ::
  "('w, 'o) messages_db \<Rightarrow> 'o message \<Rightarrow> 'w \<Rightarrow> (app_error + 'o) \<times> 'w" where
  "CreateMessage mb msg w =
     (case mb_insert mb msg w of
        (Some err, w') \<Rightarrow> (Inl (mongo_failure (''failed to create message: '' @ err)), w')
      | (None, w') \<Rightarrow> (Inr (ms_id msg), w'))"

text \<open>A message without a replied message would be read through a nil pointer.\<close>

definition ReplyMessage ::
  "('w, 't) rooms_db \<Rightarrow> ('w, 'o) messages_db \<Rightarrow> 'o oid_codec \<Rightarrow> int \<Rightarrow> string \<Rightarrow> 'o message \<Rightarrow> 'w
   \<Rightarrow> (app_error + 'o) outcome \<times> 'w" where
  "ReplyMessage rb mb oc now why msg w =
     (case CreateMessage mb msg w of
        (Inl err, w1) \<Rightarrow> (Return (Inl err), w1)
      | (Inr _, w1) \<Rightarrow>
          (case ms_reply_to msg of
             None \<Rightarrow> (Panic, w1)
           | Some rp \<Rightarrow>
               (case mb_update_one mb (\<lambda>m. ms_id m = rp_message_id rp) (\<lambda>m. m\<lparr>ms_is_read := True\<rparr>) w1 of
                  (Inl err, w2) \<Rightarrow>
                    (Return (Inl (mongo_failure (''failed to update replied message is_read status: '' @ err))), w2)
                | (Inr _, w2) \<Rightarrow>
                    (case UpdateRoomMetadata rb oc now why (ms_room_id msg) (ms_sender_id msg) (ms_id msg) w2 of
                       (Some err, w3) \<Rightarrow>
                         (Return (Inl (db_failure
                            (''failed to update room metadata after reply message: '' @ err))), w3)
                     | (None, w3) \<Rightarrow> (Return (Inr (ms_id msg)), w3)))))"

definition MarkMessageAsRead ::
  "('w, 'o) messages_db \<Rightarrow> 'o oid_codec \<Rightarrow> string \<Rightarrow> 'w \<Rightarrow> app_error option \<times> 'w" where
  "MarkMessageAsRead mb oc messageID w =
     (case oc_from_hex oc messageID of
        Inl err \<Rightarrow> (Some (bad_oid ''invalid message ID: '' err ''invalid-id''), w)
      | Inr objID \<Rightarrow>
          (case mb_update_one mb (\<lambda>m. ms_id m = objID) (\<lambda>m. m\<lparr>ms_is_read := True\<rparr>) w of
             (Inl err, w') \<Rightarrow>
               (Some (mongo_failure (''failed to update replied message is_read status: '' @ err)), w')
           | (Inr _, w') \<Rightarrow> (None, w')))"

text \<open>
  The condition on the time of the last update compares dates only: a document without one does not
  match. The history is built from the message passed in, whose own history is empty.
\<close>

definition UpdateMessage ::
  "('w, 'o) messages_db \<Rightarrow> 'o message \<Rightarrow> 'o edit_entry \<Rightarrow> int option \<Rightarrow> 'w \<Rightarrow> app_error option \<times> 'w" where
  "UpdateMessage mb msg entry originalTimestamp w =
     (case mb_update_one mb
        (\<lambda>m. ms_id m = ms_id msg \<and>
           (case originalTimestamp of
              None \<Rightarrow> True
            | Some t \<Rightarrow> (case ms_updated_at m of None \<Rightarrow> False | Some u \<Rightarrow> u \<le> t)))
        (\<lambda>m. m\<lparr>ms_content := ms_content msg, ms_is_edited := True, ms_updated_at := ms_updated_at msg,
           ms_history := ms_history msg @ [entry]\<rparr>) w of
        (Inl err, w') \<Rightarrow>
          (Some (NewAppError StatusInternalServerError ''failed to update message'' ''database''), w')
      | (Inr matched, w') \<Rightarrow>
          if matched = 0
          then (Some (NewAppError StatusConflict ''Message was modified by another operation''
                  ''concurrent_update''), w')
          else (None, w'))"

end
