(* ===== verification/ChatService.thy ===== *)
theory ChatService
  imports ChatRepo
begin

text \<open>
  \<^verbatim>\<open>internal/use-case/chat-case/chat-service.go\<close> with the requests and responses of
  \<^verbatim>\<open>internal/dtos/chat_dto\<close>. \<open>clk i\<close> is the \<open>i\<close>-th reading of the clock in one call, \<open>oid\<close> and
  \<open>uuid\<close> are the identifiers drawn for a new message and a new room, \<open>why\<close> the text of a driver's error.
\<close>

section \<open>Requests and responses\<close>

record send_request =
  sq_content :: string

record get_request =
  gq_limit :: int
  gq_before_id :: "string option"

record reply_request =
  rq_content :: string
  rq_reply_to :: string
  rq_receiver_id :: string

record update_request =
  uq_content :: string

record send_response =
  sr_message_id :: string
  sr_room_id :: string
  sr_sender_id :: string
  sr_receiver_id :: string
  sr_content :: string
  sr_is_read :: bool
  sr_created_at :: int

record reply_dto =
  rd_replied_message_id :: string
  rd_content :: string
  rd_sender_id :: string

record edit_entry_dto =
  ed_message_id :: string
  ed_original_content :: string
  ed_new_content :: string
  ed_edited_by :: string
  ed_edited_at :: int

record update_response =
  up_message_id :: string
  up_room_id :: string
  up_sender_id :: string
  up_receiver_id :: string
  up_content :: string
  up_history :: "edit_entry_dto list"
  up_reply_to :: "reply_dto option"
  up_is_read :: bool
  up_is_edited :: bool
  up_updated_at :: int

record reply_response =
  rr_message_id :: string
  rr_room_id :: string
  rr_sender_id :: string
  rr_receiver_id :: string
  rr_content :: string
  rr_reply_to :: reply_dto
  rr_is_read :: bool
  rr_created_at :: int

record private_message =
  pm_message_id :: string
  pm_room_id :: string
  pm_sender_id :: string
  pm_receiver_id :: string
  pm_content :: string
  pm_reply_to :: "reply_dto option"
  pm_is_read :: bool
  pm_created_at :: int

record get_response =
  gr_messages :: "private_message list"
  gr_next_cursor :: "string option"
  gr_has_more :: bool

section \<open>The cached page\<close>

definition reply_dto_json :: "reply_dto \<Rightarrow> json" where
  "reply_dto_json q = JObj [(''message_id'', JStr (rd_replied_message_id q)),
     (''content'', JStr (rd_content q)), (''sender_id'', JStr (rd_sender_id q))]"

definition private_message_json :: "(int \<Rightarrow> string) \<Rightarrow> private_message \<Rightarrow> json" where
  "private_message_json ftime p = JObj ([(''message_id'', JStr (pm_message_id p)),
     (''room_id'', JStr (pm_room_id p)), (''sender_id'', JStr (pm_sender_id p)),
     (''receiver_id'', JStr (pm_receiver_id p)), (''content'', JStr (pm_content p))]
     @ (case pm_reply_to p of None \<Rightarrow> [] | Some q \<Rightarrow> [(''reply_to'', reply_dto_json q)])
     @ [(''is_read'', JBool (pm_is_read p)), (''created_at'', JStr (ftime (pm_created_at p)))])"

text \<open>The service makes the slice of messages, so it is never the nil slice.\<close>

definition get_response_json :: "(int \<Rightarrow> string) \<Rightarrow> get_response \<Rightarrow> json" where
  "get_response_json ftime g = JObj ([(''messages'', JArr (map (private_message_json ftime) (gr_messages g)))]
     @ (case gr_next_cursor g of None \<Rightarrow> [] | Some c \<Rightarrow> [(''next_cursor'', JStr c)])
     @ [(''has_more'', JBool (gr_has_more g))])"

definition zero_reply_dto :: reply_dto where
  "zero_reply_dto = \<lparr>rd_replied_message_id = '''', rd_content = '''', rd_sender_id = ''''\<rparr>"

definition load_reply_dto :: "reply_dto \<Rightarrow> (string \<times> json) list \<Rightarrow> reply_dto option" where
  "load_reply_dto cur kvs =
     Option.bind (load_field dec_string ''message_id'' kvs (rd_replied_message_id cur)) (\<lambda>i.
     Option.bind (load_field dec_string ''content'' kvs (rd_content cur)) (\<lambda>content.
     Option.bind (load_field dec_string ''sender_id'' kvs (rd_sender_id cur)) (\<lambda>sender.
       Some \<lparr>rd_replied_message_id = i, rd_content = content, rd_sender_id = sender\<rparr>)))"

definition zero_private_message :: private_message where
  "zero_private_message = \<lparr>pm_message_id = '''', pm_room_id = '''', pm_sender_id = '''',
     pm_receiver_id = '''', pm_content = '''', pm_reply_to = None, pm_is_read = False,
     pm_created_at = zero_time\<rparr>"

definition load_private_message ::
  "(string \<Rightarrow> int option) \<Rightarrow> private_message \<Rightarrow> (string \<times> json) list \<Rightarrow> private_message option" where
  "load_private_message ptime cur kvs =
     Option.bind (load_field dec_string ''message_id'' kvs (pm_message_id cur)) (\<lambda>i.
     Option.bind (load_field dec_string ''room_id'' kvs (pm_room_id cur)) (\<lambda>room.
     Option.bind (load_field dec_string ''sender_id'' kvs (pm_sender_id cur)) (\<lambda>sender.
     Option.bind (load_field dec_string ''receiver_id'' kvs (pm_receiver_id cur)) (\<lambda>receiver.
     Option.bind (load_field dec_string ''content'' kvs (pm_content cur)) (\<lambda>content.
     Option.bind (load_field (dec_ptr zero_reply_dto (dec_obj load_reply_dto)) ''reply_to'' kvs (pm_reply_to cur)) (\<lambda>reply.
     Option.bind (load_field dec_bool ''is_read'' kvs (pm_is_read cur)) (\<lambda>is_read.
     Option.bind (load_field (dec_time ptime) ''created_at'' kvs (pm_created_at cur)) (\<lambda>created.
       Some \<lparr>pm_message_id = i, pm_room_id = room, pm_sender_id = sender, pm_receiver_id = receiver,
         pm_content = content, pm_reply_to = reply, pm_is_read = is_read, pm_created_at = created\<rparr>))))))))"

definition load_get_response :: "(string \<Rightarrow> int option) \<Rightarrow> json \<Rightarrow> get_response option" where
  "load_get_response ptime = load_struct \<lparr>gr_messages = [], gr_next_cursor = None, gr_has_more = False\<rparr>
     (\<lambda>kvs. Option.bind (load_field (dec_list zero_private_message (dec_obj (load_private_message ptime)))
         ''messages'' kvs []) (\<lambda>messages.
      Option.bind (load_field (dec_ptr '''' dec_string) ''next_cursor'' kvs None) (\<lambda>cursor.
      Option.bind (load_field dec_bool ''has_more'' kvs False) (\<lambda>more.
        Some \<lparr>gr_messages = messages, gr_next_cursor = cursor, gr_has_more = more\<rparr>))))"

definition createMessageCacheKey :: "string \<Rightarrow> string" where
  "createMessageCacheKey roomId = ''chat:'' @ roomId"

section \<open>Sending\<close>

definition SendPrivateMessage ::
  "('w, 't) rooms_db \<Rightarrow> ('w, 'o) messages_db \<Rightarrow> 'o oid_codec \<Rightarrow> (nat \<Rightarrow> int) \<Rightarrow> string \<Rightarrow> 'o \<Rightarrow> string
   \<Rightarrow> send_request \<Rightarrow> string \<Rightarrow> string \<Rightarrow> 'w \<Rightarrow> (app_error + send_response) \<times> 'w" where
  "SendPrivateMessage rb mb oc clk uuid oid why req senderID receiverID w =
     (case FindOrCreateRoom rb uuid senderID receiverID w of
        (Inl err, w1) \<Rightarrow> (Inl err, w1)
      | (Inr r, w1) \<Rightarrow>
          (let msg = \<lparr>ms_id = oid, ms_room_id = rm_id r, ms_sender_id = senderID,
                 ms_receiver_id = receiverID, ms_content = sq_content req, ms_is_read = False,
                 ms_is_edited = False, ms_history = [], ms_attachments = [], ms_reply_to = None,
                 ms_created_at = clk 0, ms_updated_at = None\<rparr>
           in case CreateMessage mb msg w1 of
                (Inl err, w2) \<Rightarrow> (Inl err, w2)
              | (Inr msgId, w2) \<Rightarrow>
                  (case UpdateRoomMetadata rb oc (clk 1) why (rm_id r) senderID msgId w2 of
                     (Some err, w3) \<Rightarrow>
                       (Inl (NewAppError StatusInternalServerError
                          (''failed to update metadata message: '' @ err) ''update-room-meta''), w3)
                   | (None, w3) \<Rightarrow>
                       (Inr \<lparr>sr_message_id = oc_hex oc msgId, sr_room_id = rm_id r, sr_sender_id = senderID,
                          sr_receiver_id = receiverID, sr_content = sq_content req,
                          sr_is_read = ms_is_read msg, sr_created_at = rm_created_at r\<rparr>, w3))))"

section \<open>Reading a page\<close>

definition dto_of_reply :: "'o oid_codec \<Rightarrow> 'o reply_to \<Rightarrow> reply_dto" where
  "dto_of_reply oc q = \<lparr>rd_replied_message_id = oc_hex oc (rp_message_id q), rd_content = rp_content q,
     rd_sender_id = rp_sender_id q\<rparr>"

definition dto_of_message :: "'o oid_codec \<Rightarrow> 'o message \<Rightarrow> private_message" where
  "dto_of_message oc m = \<lparr>pm_message_id = oc_hex oc (ms_id m), pm_room_id = ms_room_id m,
     pm_sender_id = ms_sender_id m, pm_receiver_id = ms_receiver_id m, pm_content = ms_content m,
     pm_reply_to = map_option (dto_of_reply oc) (ms_reply_to m), pm_is_read = ms_is_read m,
     pm_created_at = ms_created_at m\<rparr>"

text \<open>A cache that answers an error is treated as a miss. The page is cached for five minutes.\<close>

definition GetPrivateMessage ::
  "'w redis \<Rightarrow> ('w, 't) rooms_db \<Rightarrow> ('w, 'o :: linorder) messages_db \<Rightarrow> 'o oid_codec
   \<Rightarrow> (string \<Rightarrow> int option) \<Rightarrow> (int \<Rightarrow> string) \<Rightarrow> get_request \<Rightarrow> string \<Rightarrow> 'w
   \<Rightarrow> (app_error + get_response) \<times> 'w" where
  "GetPrivateMessage rd rb mb oc ptime ftime req roomID w =
     (let cacheKey = createMessageCacheKey roomID in
      case GetCacheData rd (load_get_response ptime) cacheKey w of
        Inr (Some cachedMessage) \<Rightarrow> (Inr cachedMessage, w)
      | _ \<Rightarrow>
     (case FindRoomByID rb roomID w of
        Inl err \<Rightarrow> (Inl err, w)
      | Inr r \<Rightarrow>
     (let limit = (if gq_limit req = 0 then 20 else gq_limit req) in
      case GetPrivateMessages mb oc (rm_id r) limit (gq_before_id req) w of
        Inl err \<Rightarrow> (Inl err, w)
      | Inr messages \<Rightarrow>
          (let res = \<lparr>gr_messages = map (dto_of_message oc) messages,
                 gr_next_cursor = (if length messages > 0
                   then Some (oc_hex oc (ms_id (messages ! (length messages - 1)))) else None),
                 gr_has_more = (int (length messages) = gq_limit req)\<rparr>;
               (_, w') = SetCacheData rd (get_response_json ftime) cacheKey res (5 * Minute) w
           in (Inr res, w')))))"

section \<open>Membership\<close>

text \<open>The first row of the user decides.\<close>

fun isUserMemberOfRoom :: "room_member list \<Rightarrow> string \<Rightarrow> bool" where
  "isUserMemberOfRoom [] userID = False"
| "isUserMemberOfRoom (m # ms) userID =
     (if me_user_id m = userID then me_left_at m = None else isUserMemberOfRoom ms userID)"

definition PrivateRoomMemberCount :: nat where
  "PrivateRoomMemberCount = 2"

definition not_private :: app_error where
  "not_private = NewAppError StatusBadRequest ''room must have exactly 2 members, not private'' ''invalid-room''"

definition not_member :: app_error where
  "not_member = NewAppError StatusForbidden ''you are not a member of this room'' ''forbidden''"

section \<open>Replying\<close>

definition ReplyPrivateMessage ::
  "'w redis \<Rightarrow> ('w, 't) rooms_db \<Rightarrow> ('w, 'o) messages_db \<Rightarrow> 'o oid_codec \<Rightarrow> (nat \<Rightarrow> int) \<Rightarrow> 'o \<Rightarrow> string
   \<Rightarrow> reply_request \<Rightarrow> string \<Rightarrow> string \<Rightarrow> 'w \<Rightarrow> (app_error + reply_response) outcome \<times> 'w" where
  "ReplyPrivateMessage rd rb mb oc clk oid why req senderID roomID w =
     (case FindRoomByID rb roomID w of
        Inl err \<Rightarrow> (Return (Inl err), w)
      | Inr _ \<Rightarrow>
     (case FindRoomMembers rb roomID w of
        Inl err \<Rightarrow> (Return (Inl err), w)
      | Inr members \<Rightarrow>
     if length members \<noteq> 2 then (Return (Inl not_private), w)
     else if \<not> list_ex (\<lambda>m. me_user_id m = senderID \<or> me_user_id m = rq_receiver_id req) members
     then (Return (Inl not_member), w)
     else
     (case FindMessageByID mb oc (rq_reply_to req) w of
        Inl err \<Rightarrow> (Return (Inl err), w)
      | Inr repliedMsg \<Rightarrow>
     if ms_room_id repliedMsg \<noteq> roomID
     then (Return (Inl (NewAppError StatusBadRequest
       ''the message you are replying to does not belong to this room'' ''forbidden'')), w)
     else
     (let msg = \<lparr>ms_id = oid, ms_room_id = roomID, ms_sender_id = senderID,
            ms_receiver_id = rq_receiver_id req, ms_content = rq_content req, ms_is_read = False,
            ms_is_edited = False, ms_history = [], ms_attachments = [],
            ms_reply_to = Some \<lparr>rp_message_id = ms_id repliedMsg, rp_content = ms_content repliedMsg,
              rp_sender_id = ms_sender_id repliedMsg\<rparr>,
            ms_created_at = clk 0, ms_updated_at = None\<rparr>
      in bind_call (ReplyMessage rb mb oc (clk 1) why msg w) (\<lambda>res w1. case res of
           Inl err \<Rightarrow> (Return (Inl err), w1)
         | Inr objID \<Rightarrow>
             (let (_, w2) = DeleteCacheData rd (createMessageCacheKey roomID) w1
              in (Return (Inr \<lparr>rr_message_id = oc_hex oc objID, rr_room_id = roomID,
                   rr_sender_id = senderID, rr_receiver_id = ms_receiver_id msg,
                   rr_content = ms_content msg,
                   rr_reply_to = \<lparr>rd_replied_message_id = oc_hex oc (ms_id repliedMsg),
                     rd_content = ms_content repliedMsg, rd_sender_id = ms_sender_id repliedMsg\<rparr>,
                   rr_is_read = ms_is_read msg, rr_created_at = ms_created_at msg\<rparr>), w2)))))))"

section \<open>Marking as read\<close>

definition MarkPrivateMessageAsRead ::
  "'w redis \<Rightarrow> ('w, 't) rooms_db \<Rightarrow> ('w, 'o) messages_db \<Rightarrow> 'o oid_codec \<Rightarrow> string \<Rightarrow> string \<Rightarrow> string
   \<Rightarrow> 'w \<Rightarrow> app_error option \<times> 'w" where
  "MarkPrivateMessageAsRead rd rb mb oc receiverID roomID messageID w =
     (case FindRoomMembers rb roomID w of
        Inl err \<Rightarrow> (Some err, w)
      | Inr roomMember \<Rightarrow>
     if length roomMember \<noteq> PrivateRoomMemberCount then (Some not_private, w)
     else if \<not> isUserMemberOfRoom roomMember receiverID then (Some not_member, w)
     else
     (case FindMessageByID mb oc messageID w of
        Inl err \<Rightarrow> (Some err, w)
      | Inr msg \<Rightarrow>
     if ms_room_id msg \<noteq> roomID
     then (Some (NewAppError StatusBadRequest ''the message does not belong to this room'' ''forbidden''), w)
     else if ms_sender_id msg = receiverID
     then (Some (NewAppError StatusBadRequest ''cannot mark your own message as read'' ''invalid-action''), w)
     else if ms_is_read msg then (None, w)
     else
     (let (_, w1) = DeleteCacheData rd (createMessageCacheKey roomID) w
      in MarkMessageAsRead mb oc messageID w1)))"

section \<open>Editing\<close>

definition dto_of_entry :: "'o oid_codec \<Rightarrow> 'o edit_entry \<Rightarrow> edit_entry_dto" where
  "dto_of_entry oc e = \<lparr>ed_message_id = oc_hex oc (ee_message_id e),
     ed_original_content = ee_original_content e, ed_new_content = ee_new_content e,
     ed_edited_by = ee_edited_by e, ed_edited_at = ee_edited_at e\<rparr>"

definition editWindow :: int where
  "editWindow = 15 * Minute"

text \<open>
  The room is logged before its error is looked at: a room that cannot be read is a nil pointer.
  The members' error is looked at after the membership of the empty list was logged.
\<close>

definition UpdatePrivateMessage ::
  "'w redis \<Rightarrow> ('w, 't) rooms_db \<Rightarrow> ('w, 'o) messages_db \<Rightarrow> 'o oid_codec \<Rightarrow> (nat \<Rightarrow> int)
   \<Rightarrow> update_request \<Rightarrow> string \<Rightarrow> string \<Rightarrow> string \<Rightarrow> 'w \<Rightarrow> (app_error + update_response) outcome \<times> 'w" where
  "UpdatePrivateMessage rd rb mb oc clk req senderID roomID messageID w =
     (case FindMessageByID mb oc messageID w of
        Inl err \<Rightarrow> (Return (Inl err), w)
      | Inr originalMsg \<Rightarrow>
     if ms_sender_id originalMsg \<noteq> senderID
     then (Return (Inl (NewAppError StatusForbidden ''You can only update your own message'' ''authorization'')), w)
     else if ms_room_id originalMsg \<noteq> roomID
     then (Return (Inl (NewAppError StatusForbidden ''You are not a member of this chat room'' ''authorization'')), w)
     else if clk 0 - ms_created_at originalMsg > editWindow
     then (Return (Inl (NewAppError StatusForbidden ''Message edit time window expired'' ''time_expired'')), w)
     else
     (case FindRoomByID rb (ms_room_id originalMsg) w of
        Inl err \<Rightarrow> (Panic, w)
      | Inr r \<Rightarrow>
     if rm_deleted_at r \<noteq> None
     then (Return (Inl (NewAppError StatusNotFound ''Room not found or inactive'' ''room'')), w)
     else if (case FindRoomMembers rb (ms_room_id originalMsg) w of
                Inl err \<Rightarrow> True | Inr members \<Rightarrow> \<not> isUserMemberOfRoom members senderID)
     then (Return (Inl (NewAppError StatusForbidden
       (senderID @ '', you are not a member of this room'') ''forbidden'')), w)
     else if trim_space (uq_content req) = trim_space (ms_content originalMsg)
     then (Return (Inl (NewAppError StatusBadRequest ''New content must be different'' ''content'')), w)
     else
     (let now = clk 1;
          updatedMsg = \<lparr>ms_id = ms_id originalMsg, ms_room_id = '''', ms_sender_id = '''',
            ms_receiver_id = '''', ms_content = uq_content req, ms_is_read = False, ms_is_edited = True,
            ms_history = [], ms_attachments = [], ms_reply_to = None, ms_created_at = zero_time,
            ms_updated_at = Some now\<rparr>;
          messageEdit = \<lparr>ee_message_id = ms_id originalMsg, ee_original_content = ms_content originalMsg,
            ee_new_content = uq_content req, ee_edited_by = ms_sender_id originalMsg, ee_edited_at = now\<rparr>
      in case UpdateMessage mb updatedMsg messageEdit (ms_updated_at originalMsg) w of
           (Some err, w1) \<Rightarrow> (Return (Inl err), w1)
         | (None, w1) \<Rightarrow>
             (let (_, w2) = DeleteCacheData rd (createMessageCacheKey roomID) w1;
                  history = (if ms_history originalMsg = [] then [messageEdit] else ms_history originalMsg)
              in (Return (Inr \<lparr>up_message_id = oc_hex oc (ms_id originalMsg),
                   up_room_id = ms_room_id originalMsg, up_sender_id = ms_sender_id originalMsg,
                   up_receiver_id = ms_receiver_id originalMsg, up_content = ms_content updatedMsg,
                   up_history = map (dto_of_entry oc) history,
                   up_reply_to = map_option (dto_of_reply oc) (ms_reply_to originalMsg),
                   up_is_read = ms_is_read originalMsg, up_is_edited = ms_is_edited updatedMsg,
                   up_updated_at = now\<rparr>), w2)))))"

end
