(* ===== verification/ChatServers.thy ===== *)
theory ChatServers
  imports ChatService
begin

text \<open>
  What the chat service relies on from the two databases, stated over views of the world: the rows
  of the tables, the rows inside a transaction and the documents of the collection. An instance
  keeps all of them in memory.
\<close>

section \<open>The tables\<close>

text \<open>
  A transaction starts from the tables, and a commit makes its rows the tables'; gorm fills in the
  times of a room, the identifiers and the joining times of members.
\<close>

definition stored_as :: "room_member \<Rightarrow> room_member \<Rightarrow> bool" where
  "stored_as a b \<longleftrightarrow> b = a\<lparr>me_id := me_id b, me_joined_at := me_joined_at b\<rparr>"

definition rooms_db_ok ::
  "('w, 't) rooms_db \<Rightarrow> ('w \<Rightarrow> room list) \<Rightarrow> ('w \<Rightarrow> room_member list) \<Rightarrow> ('t \<Rightarrow> room list) \<Rightarrow>
   ('t \<Rightarrow> room_member list) \<Rightarrow> bool" where
  "rooms_db_ok rb rooms members trooms tmembers \<longleftrightarrow>
     (\<forall>c w r. rb_query_room rb c w = Inr r \<longrightarrow> r \<in> set (rooms w) \<and> c (members w) r) \<and>
     (\<forall>c w. rb_query_room rb c w = Inl ErrRecordNotFound \<longrightarrow> (\<forall>r \<in> set (rooms w). \<not> c (members w) r)) \<and>
     (\<forall>p w ms. rb_members rb p w = Inr ms \<longrightarrow> mset ms = mset (filter p (members w))) \<and>
     (\<forall>w. trooms (rb_begin rb w) = rooms w \<and> tmembers (rb_begin rb w) = members w) \<and>
     (\<forall>r t r' t'. rb_create_room rb r t = (Inr r', t') \<longrightarrow>
        (\<exists>c u. r' = r\<lparr>rm_created_at := c, rm_updated_at := u\<rparr>) \<and> trooms t' = trooms t @ [r'] \<and>
        tmembers t' = tmembers t) \<and>
     (\<forall>ms t t'. rb_create_members rb ms t = (None, t') \<longrightarrow> trooms t' = trooms t \<and>
        (\<exists>new. list_all2 stored_as ms new \<and> tmembers t' = tmembers t @ new)) \<and>
     (\<forall>p f t t'. rb_update_members rb p f t = (None, t') \<longrightarrow> trooms t' = trooms t \<and>
        tmembers t' = map (\<lambda>m. if p m then f m else m) (tmembers t)) \<and>
     (\<forall>t w w'. rb_commit rb t w = (None, w') \<longrightarrow> rooms w' = trooms t \<and> members w' = tmembers t) \<and>
     (\<forall>t w e w'. rb_commit rb t w = (Some e, w') \<longrightarrow> rooms w' = rooms w \<and> members w' = members w) \<and>
     (\<forall>t w. rooms (rb_rollback rb t w) = rooms w \<and> members (rb_rollback rb t w) = members w)"

lemma rooms_db_okD:
  assumes "rooms_db_ok rb rooms members trooms tmembers"
  shows "rb_query_room rb c w = Inr r \<Longrightarrow> r \<in> set (rooms w) \<and> c (members w) r"
    and "rb_query_room rb c w = Inl ErrRecordNotFound \<Longrightarrow> r \<in> set (rooms w) \<Longrightarrow> \<not> c (members w) r"
    and "rb_members rb p w = Inr ms \<Longrightarrow> mset ms = mset (filter p (members w))"
    and "trooms (rb_begin rb w) = rooms w" and "tmembers (rb_begin rb w) = members w"
    and "rb_create_room rb q t = (Inr r', t') \<Longrightarrow> (\<exists>c u. r' = q\<lparr>rm_created_at := c, rm_updated_at := u\<rparr>) \<and>
      trooms t' = trooms t @ [r'] \<and> tmembers t' = tmembers t"
    and "rb_create_members rb ms t = (None, t') \<Longrightarrow> trooms t' = trooms t \<and>
      (\<exists>new. list_all2 stored_as ms new \<and> tmembers t' = tmembers t @ new)"
    and "rb_update_members rb p f t = (None, t') \<Longrightarrow> trooms t' = trooms t \<and>
      tmembers t' = map (\<lambda>m. if p m then f m else m) (tmembers t)"
    and "rb_commit rb t w = (None, w') \<Longrightarrow> rooms w' = trooms t \<and> members w' = tmembers t"
    and "rb_commit rb t w = (Some e, w') \<Longrightarrow> rooms w' = rooms w \<and> members w' = members w"
    and "rooms (rb_rollback rb t w) = rooms w \<and> members (rb_rollback rb t w) = members w"
  using assms unfolding rooms_db_ok_def by (elim conjE; (blast | metis))+

section \<open>The collection\<close>

text \<open>BSON keeps times in milliseconds.\<close>

definition bson_time :: "int \<Rightarrow> int" where
  "bson_time t = t div 1000000 * 1000000"

definition bson_message :: "'o message \<Rightarrow> 'o message" where
  "bson_message m = m\<lparr>ms_created_at := bson_time (ms_created_at m),
     ms_updated_at := map_option bson_time (ms_updated_at m),
     ms_history := map (\<lambda>e. e\<lparr>ee_edited_at := bson_time (ee_edited_at e)\<rparr>) (ms_history m)\<rparr>"

text \<open>The first document that matches is updated.\<close>

fun update_first :: "('a \<Rightarrow> bool) \<Rightarrow> ('a \<Rightarrow> 'a) \<Rightarrow> 'a list \<Rightarrow> 'a list" where
  "update_first p f [] = []"
| "update_first p f (x # xs) = (if p x then f x # xs else x # update_first p f xs)"

text \<open>A page of a find: the documents that match, the largest identifier first, cut to the limit.\<close>

definition descending_page :: "('o :: linorder message \<Rightarrow> bool) \<Rightarrow> int \<Rightarrow> 'o message list \<Rightarrow> 'o message list" where
  "descending_page p n docs = take (nat n) (rev (sort_key ms_id (filter p docs)))"

definition messages_db_ok ::
  "('w, 'o :: linorder) messages_db \<Rightarrow> ('w \<Rightarrow> 'o message list) \<Rightarrow> bool" where
  "messages_db_ok mb docs \<longleftrightarrow>
     (\<forall>p n w ms. 0 < n \<longrightarrow> distinct (map ms_id (docs w)) \<longrightarrow> mb_find mb p n w = Inr ms \<longrightarrow>
        ms = descending_page p n (docs w)) \<and>
     (\<forall>p w m. mb_find_one mb p w = Inr m \<longrightarrow> m \<in> set (docs w) \<and> p m) \<and>
     (\<forall>p w. mb_find_one mb p w = Inl ErrNoDocuments \<longrightarrow> (\<forall>m \<in> set (docs w). \<not> p m)) \<and>
     (\<forall>m w w'. mb_insert mb m w = (None, w') \<longrightarrow>
        docs w' = docs w @ [bson_message m] \<and> ms_id m \<notin> ms_id ` set (docs w)) \<and>
     (\<forall>m w e w'. mb_insert mb m w = (Some e, w') \<longrightarrow> docs w' = docs w) \<and>
     (\<forall>p f w n w'. mb_update_one mb p f w = (Inr n, w') \<longrightarrow>
        n = (if \<exists>m \<in> set (docs w). p m then 1 else 0) \<and>
        docs w' = update_first p (\<lambda>m. bson_message (f m)) (docs w)) \<and>
     (\<forall>p f w e w'. mb_update_one mb p f w = (Inl e, w') \<longrightarrow> docs w' = docs w)"

lemma messages_db_okD:
  assumes "messages_db_ok mb docs"
  shows "0 < n \<Longrightarrow> distinct (map ms_id (docs w)) \<Longrightarrow> mb_find mb p n w = Inr ms \<Longrightarrow>
      ms = descending_page p n (docs w)"
    and "mb_find_one mb p w = Inr m \<Longrightarrow> m \<in> set (docs w) \<and> p m"
    and "mb_find_one mb p w = Inl ErrNoDocuments \<Longrightarrow> m \<in> set (docs w) \<Longrightarrow> \<not> p m"
    and "mb_insert mb m w = (None, w') \<Longrightarrow> docs w' = docs w @ [bson_message m]"
    and "mb_insert mb m w = (None, w') \<Longrightarrow> ms_id m \<notin> ms_id ` set (docs w)"
    and "mb_update_one mb p f w = (Inr k, w') \<Longrightarrow> k = (if \<exists>m \<in> set (docs w). p m then 1 else 0)"
    and "mb_update_one mb p f w = (Inr k, w') \<Longrightarrow> docs w' = update_first p (\<lambda>m. bson_message (f m)) (docs w)"
    and "mb_update_one mb p f w = (Inl e, w') \<Longrightarrow> docs w' = docs w"
    and "mb_insert mb m w = (Some e', w') \<Longrightarrow> docs w' = docs w"
  using assms unfolding messages_db_ok_def by (elim conjE; metis)+

section \<open>Each server leaves the others alone\<close>

definition rooms_db_leaves :: "('w, 't) rooms_db \<Rightarrow> ('w \<Rightarrow> 'x) \<Rightarrow> bool" where
  "rooms_db_leaves rb other \<longleftrightarrow>
     (\<forall>t w. other (snd (rb_commit rb t w)) = other w) \<and> (\<forall>t w. other (rb_rollback rb t w) = other w)"

definition messages_db_leaves :: "('w, 'o) messages_db \<Rightarrow> ('w \<Rightarrow> 'x) \<Rightarrow> bool" where
  "messages_db_leaves mb other \<longleftrightarrow>
     (\<forall>m w. other (snd (mb_insert mb m w)) = other w) \<and>
     (\<forall>p f w. other (snd (mb_update_one mb p f w)) = other w)"

lemma leavesD:
  "rooms_db_leaves rb other \<Longrightarrow> rb_commit rb t w = (e, w') \<Longrightarrow> other w' = other w"
  "rooms_db_leaves rb other \<Longrightarrow> other (rb_rollback rb t w) = other w"
  "messages_db_leaves mb other \<Longrightarrow> mb_insert mb m w = (f, w') \<Longrightarrow> other w' = other w"
  "messages_db_leaves mb other \<Longrightarrow> mb_update_one mb p g w = (k, w') \<Longrightarrow> other w' = other w"
  unfolding rooms_db_leaves_def messages_db_leaves_def by (metis snd_conv)+

record ('w, 't, 'o) chat_view =
  cv_store :: "'w \<Rightarrow> store"
  cv_rooms :: "'w \<Rightarrow> room list"
  cv_members :: "'w \<Rightarrow> room_member list"
  cv_trooms :: "'t \<Rightarrow> room list"
  cv_tmembers :: "'t \<Rightarrow> room_member list"
  cv_docs :: "'w \<Rightarrow> 'o message list"

definition chat_servers_ok ::
  "'w redis \<Rightarrow> ('w, 't) rooms_db \<Rightarrow> ('w, 'o :: linorder) messages_db \<Rightarrow> ('w, 't, 'o) chat_view \<Rightarrow> bool" where
  "chat_servers_ok rd rb mb v \<longleftrightarrow>
     redis_ok rd (cv_store v) \<and> redis_up rd \<and>
     rooms_db_ok rb (cv_rooms v) (cv_members v) (cv_trooms v) (cv_tmembers v) \<and>
     messages_db_ok mb (cv_docs v) \<and>
     redis_leaves rd (cv_rooms v) \<and> redis_leaves rd (cv_members v) \<and> redis_leaves rd (cv_docs v) \<and>
     rooms_db_leaves rb (cv_store v) \<and> rooms_db_leaves rb (cv_docs v) \<and>
     messages_db_leaves mb (cv_store v) \<and> messages_db_leaves mb (cv_rooms v) \<and>
     messages_db_leaves mb (cv_members v)"

lemma chat_servers_okD:
  assumes "chat_servers_ok rd rb mb v"
  shows "redis_ok rd (cv_store v)" "redis_up rd"
    "rooms_db_ok rb (cv_rooms v) (cv_members v) (cv_trooms v) (cv_tmembers v)"
    "messages_db_ok mb (cv_docs v)"
    "redis_leaves rd (cv_rooms v)" "redis_leaves rd (cv_members v)" "redis_leaves rd (cv_docs v)"
    "rooms_db_leaves rb (cv_store v)" "rooms_db_leaves rb (cv_docs v)"
    "messages_db_leaves mb (cv_store v)" "messages_db_leaves mb (cv_rooms v)"
    "messages_db_leaves mb (cv_members v)"
  using assms by (simp_all add: chat_servers_ok_def)

section \<open>Everything in memory\<close>

record 'o chat_world = store +
  cw_rooms :: "room list"
  cw_members :: "room_member list"
  cw_docs :: "'o message list"

type_synonym mem_tx = "room list \<times> room_member list"

definition mem_rooms :: "('o chat_world, mem_tx) rooms_db" where
  "mem_rooms = \<lparr>
     rb_query_room = (\<lambda>c w. case List.find (c (cw_members w)) (cw_rooms w) of
       None \<Rightarrow> Inl ErrRecordNotFound | Some r \<Rightarrow> Inr r),
     rb_members = (\<lambda>p w. Inr (filter p (cw_members w))),
     rb_begin = (\<lambda>w. (cw_rooms w, cw_members w)),
     rb_create_room = (\<lambda>r t. (Inr r, (fst t @ [r], snd t))),
     rb_create_members = (\<lambda>ms t. (None, (fst t, snd t @ ms))),
     rb_update_members = (\<lambda>p f t. (None, (fst t, map (\<lambda>m. if p m then f m else m) (snd t)))),
     rb_commit = (\<lambda>t w. (None, w\<lparr>cw_rooms := fst t, cw_members := snd t\<rparr>)),
     rb_rollback = (\<lambda>t w. w)\<rparr>"

definition mem_messages :: "('o chat_world, 'o :: linorder) messages_db" where
  "mem_messages = \<lparr>
     mb_find = (\<lambda>p n w. Inr (descending_page p n (cw_docs w))),
     mb_find_one = (\<lambda>p w. case List.find p (cw_docs w) of None \<Rightarrow> Inl ErrNoDocuments | Some m \<Rightarrow> Inr m),
     mb_insert = (\<lambda>m w. if ms_id m \<in> ms_id ` set (cw_docs w) then (Some ''duplicate key'', w)
       else (None, w\<lparr>cw_docs := cw_docs w @ [bson_message m]\<rparr>)),
     mb_update_one = (\<lambda>p f w. (Inr (if list_ex p (cw_docs w) then 1 else 0),
       w\<lparr>cw_docs := update_first p (\<lambda>m. bson_message (f m)) (cw_docs w)\<rparr>))\<rparr>"

definition mem_view :: "('o chat_world, mem_tx, 'o) chat_view" where
  "mem_view = \<lparr>cv_store = store.truncate, cv_rooms = cw_rooms, cv_members = cw_members,
     cv_trooms = fst, cv_tmembers = snd, cv_docs = cw_docs\<rparr>"

lemma stored_as_refl: "list_all2 stored_as ms ms"
  by (rule list_all2_refl) (simp add: stored_as_def)

lemma mem_rooms_ok: "rooms_db_ok mem_rooms cw_rooms cw_members fst snd"
proof -
  have "\<exists>c u. r = r\<lparr>rm_created_at := c, rm_updated_at := u\<rparr>" for r :: room
    by (rule exI [of _ "rm_created_at r"], rule exI [of _ "rm_updated_at r"]) simp
  then show ?thesis
    using stored_as_refl
    by (auto simp: rooms_db_ok_def mem_rooms_def find_None_set dest!: find_SomeD split: option.splits)
qed

lemma mem_messages_ok: "messages_db_ok mem_messages cw_docs"
  by (auto simp: messages_db_ok_def mem_messages_def find_None_set list_ex_iff dest!: find_SomeD
      split: option.splits if_splits)

lemma mem_chat_ok: "chat_servers_ok mem_redis mem_rooms mem_messages mem_view"
  unfolding chat_servers_ok_def mem_view_def
  by (simp add: mem_redis_ok_in mem_redis_up mem_rooms_ok mem_messages_ok)
    (simp add: redis_leaves_def rooms_db_leaves_def messages_db_leaves_def mem_redis_def mem_rooms_def
      mem_messages_def store.truncate_def split: list.splits)

end
