(* ===== verification/ChatProperties.thy ===== *)
theory ChatProperties
  imports ChatServers GoTime
begin

text \<open>
  What the chat repository and service do to the rooms, the messages and the cached page.
\<close>

section \<open>Reversing a page\<close>

lemma length_reverse_loop [simp]: "length (reverse_loop xs i j) = length xs"
  by (induction xs i j rule: reverse_loop.induct) (subst reverse_loop.simps, simp)

lemma nth_reverse_loop:
  "j < length xs \<Longrightarrow> k < length xs \<Longrightarrow>
     reverse_loop xs i j ! k = (if i \<le> k \<and> k \<le> j then xs ! (i + j - k) else xs ! k)"
proof (induction xs i j rule: reverse_loop.induct)
  case (1 xs i j)
  show ?case
  proof (cases "i < j")
    case True
    define ys where "ys = xs[i := xs ! j, j := xs ! i]"
    have "reverse_loop xs i j ! k = reverse_loop ys (i + 1) (j - 1) ! k"
      using True by (subst reverse_loop.simps) (simp add: ys_def)
    also have "\<dots> = (if i + 1 \<le> k \<and> k \<le> j - 1 then ys ! (i + 1 + (j - 1) - k) else ys ! k)"
      using "1.IH" [OF True] "1.prems" by (simp add: ys_def)
    also have "\<dots> = (if i \<le> k \<and> k \<le> j then xs ! (i + j - k) else xs ! k)"
      using True "1.prems" by (auto simp: ys_def nth_list_update)
    finally show ?thesis .
  next
    case False
    then have "reverse_loop xs i j = xs" by (simp add: reverse_loop.simps)
    moreover have "i \<le> k \<and> k \<le> j \<Longrightarrow> i + j - k = k" using False by linarith
    ultimately show ?thesis by auto
  qed
qed

lemma reverse_loop_rev: "reverse_loop xs 0 (length xs - 1) = rev xs"
proof (rule nth_equalityI)
  fix k assume "k < length (reverse_loop xs 0 (length xs - 1))"
  then show "reverse_loop xs 0 (length xs - 1) ! k = rev xs ! k"
    by (simp add: nth_reverse_loop rev_nth) (auto intro!: arg_cong [where f = "(!) xs"])
qed simp

section \<open>Pages\<close>

text \<open>The messages of a room below a cursor, in ascending order: what the pages are cut from.\<close>

definition thread :: "string \<Rightarrow> 'o :: linorder option \<Rightarrow> 'o message list \<Rightarrow> 'o message list" where
  "thread roomID before docs = sort_key ms_id (filter (\<lambda>m. ms_room_id m = roomID \<and>
     (case before of None \<Rightarrow> True | Some b \<Rightarrow> ms_id m < b)) docs)"

lemma distinct_sort_key: "distinct (map f (sort_key f xs)) = distinct (map f xs)"
  by (induction xs) (simp_all add: distinct_insort_key)

lemma distinct_thread: "distinct (map ms_id docs) \<Longrightarrow> distinct (map ms_id (thread roomID before docs))"
  by (simp add: thread_def distinct_sort_key distinct_map_filter)

lemma thread_strict:
  "distinct (map ms_id docs) \<Longrightarrow> sorted_wrt (<) (map ms_id (thread roomID before docs))"
  by (simp add: strict_sorted_iff distinct_thread) (simp add: thread_def)

lemma set_thread:
  "m \<in> set (thread roomID before docs) \<longleftrightarrow> m \<in> set docs \<and> ms_room_id m = roomID \<and>
     (case before of None \<Rightarrow> True | Some b \<Rightarrow> ms_id m < b)"
  by (auto simp: thread_def)

text \<open>The last \<open>n\<close> elements of a list.\<close>

definition lastn :: "nat \<Rightarrow> 'a list \<Rightarrow> 'a list" where
  "lastn n xs = drop (length xs - n) xs"

lemma rev_take_rev: "rev (take n (rev xs)) = lastn n xs"
  by (simp add: lastn_def take_rev)

definition decode_cursor :: "'o oid_codec \<Rightarrow> string option \<Rightarrow> string + 'o option" where
  "decode_cursor oc b = (case b of None \<Rightarrow> Inr None | Some s \<Rightarrow> map_sum id Some (oc_from_hex oc s))"

lemma GetPrivateMessages_page:
  assumes "messages_db_ok mb docs" and "distinct (map ms_id (docs w))" and "0 < limit"
    and "GetPrivateMessages mb oc roomID limit beforeID w = Inr ms"
  obtains before where "decode_cursor oc beforeID = Inr before"
    and "ms = lastn (nat limit) (thread roomID before (docs w))"
proof -
  obtain before where before: "decode_cursor oc beforeID = Inr before"
    using assms(4) by (auto simp: GetPrivateMessages_def decode_cursor_def split: sum.splits)
  obtain found where find: "mb_find mb (\<lambda>m. ms_room_id m = roomID \<and>
        (case before of None \<Rightarrow> True | Some objID \<Rightarrow> ms_id m < objID)) limit w = Inr found"
    and ms: "ms = reverse_loop found 0 (length found - 1)"
    using assms(4) before by (auto simp: GetPrivateMessages_def decode_cursor_def split: sum.splits)
  have "ms = lastn (nat limit) (thread roomID before (docs w))"
    unfolding ms reverse_loop_rev messages_db_okD(1) [OF assms(1,3,2) find] descending_page_def
      rev_take_rev thread_def ..
  with before show ?thesis by (rule that)
qed

text \<open>
  C12. A page of messages, whatever the store returned: the page is in strictly ascending order,
  every message on it belongs to the room and lies below the cursor, it is as long as the limit
  allows, and a message of the room below the cursor that is not on it is older than all that are.
\<close>

theorem page_is_latest:
  assumes "messages_db_ok mb docs" and "distinct (map ms_id (docs w))" and "0 < limit"
    and "GetPrivateMessages mb oc roomID limit beforeID w = Inr ms"
  shows "\<exists>before. decode_cursor oc beforeID = Inr before \<and>
    sorted_wrt (<) (map ms_id ms) \<and>
    (\<forall>m \<in> set ms. m \<in> set (docs w) \<and> ms_room_id m = roomID \<and>
       (case before of None \<Rightarrow> True | Some b \<Rightarrow> ms_id m < b)) \<and>
    length ms = min (nat limit) (length (thread roomID before (docs w))) \<and>
    (\<forall>m \<in> set (docs w). ms_room_id m = roomID \<longrightarrow> (case before of None \<Rightarrow> True | Some b \<Rightarrow> ms_id m < b) \<longrightarrow>
       m \<in> set ms \<or> (\<forall>x \<in> set ms. ms_id m < ms_id x))"
proof -
  obtain before where before: "decode_cursor oc beforeID = Inr before"
    and ms: "ms = lastn (nat limit) (thread roomID before (docs w))"
    by (rule GetPrivateMessages_page [OF assms])
  define all where "all = thread roomID before (docs w)"
  define older where "older = take (length all - nat limit) all"
  have split: "all = older @ ms" by (simp add: older_def ms lastn_def all_def [symmetric])
  have strict: "sorted_wrt (<) (map ms_id older @ map ms_id ms)"
    using thread_strict [OF assms(2), of roomID before] split by (simp add: all_def)
  have "ms_id m < ms_id x" if "m \<in> set older" "x \<in> set ms" for m x
    using strict that by (auto simp: sorted_wrt_append)
  moreover have "m \<in> set all \<longleftrightarrow> m \<in> set (docs w) \<and> ms_room_id m = roomID \<and>
      (case before of None \<Rightarrow> True | Some b \<Rightarrow> ms_id m < b)" for m
    unfolding all_def by (rule set_thread)
  moreover have "length ms = min (nat limit) (length all)" by (simp add: ms lastn_def all_def)
  ultimately show ?thesis
    using before strict split unfolding all_def [symmetric]
    by (intro exI [of _ before]) (auto simp: sorted_wrt_append all_def)
qed

section \<open>The cached page\<close>

lemma load_private_message_json:
  "time_round_trip ptime ftime \<Longrightarrow>
     dec_obj (load_private_message ptime) zero_private_message (private_message_json ftime p) = Some p"
  by (cases p; cases "pm_reply_to p")
    (auto simp: load_private_message_def private_message_json_def zero_private_message_def
      time_round_trip_def dec_ptr_def reply_dto_json_def load_reply_dto_def zero_reply_dto_def)

lemma load_get_response_json:
  assumes "time_round_trip ptime ftime"
  shows "load_get_response ptime (get_response_json ftime g) = Some g"
proof -
  have "dec_elems zero_private_message (dec_obj (load_private_message ptime)) []
      (map (private_message_json ftime) ps) = Some ps" for ps
    by (rule dec_elems_map) (rule load_private_message_json [OF assms])
  then show ?thesis
    by (cases g; cases "gr_next_cursor g")
      (auto simp: load_get_response_def get_response_json_def dec_ptr_def)
qed

lemma GetPrivateMessage_cached:
  assumes "redis_ok rd view" and "redis_up rd"
    and "st_kv (view w) (createMessageCacheKey roomID) = Some (JsonText doc)"
    and "load_get_response ptime doc = Some res"
  shows "GetPrivateMessage rd rb mb oc ptime ftime req roomID w = (Inr res, w)"
  using assms(3,4) by (simp add: GetPrivateMessage_def GetCacheData_up [OF assms(1,2)] Let_def)

lemma GetPrivateMessage_caches:
  assumes "redis_ok rd view" and "redis_up rd" and "time_round_trip ptime ftime"
    and "GetPrivateMessage rd rb mb oc ptime ftime req roomID w = (Inr res, w')"
  shows "\<exists>doc. st_kv (view w') (createMessageCacheKey roomID) = Some (JsonText doc) \<and>
    load_get_response ptime doc = Some res"
proof (cases "\<exists>c. GetCacheData rd (load_get_response ptime) (createMessageCacheKey roomID) w = Inr (Some c)")
  case True
  then obtain c where c: "GetCacheData rd (load_get_response ptime) (createMessageCacheKey roomID) w = Inr (Some c)"
    by blast
  with assms(4) have "c = res" "w' = w" by (simp_all add: GetPrivateMessage_def Let_def)
  with GetCacheData_hit [OF assms(1) c] show ?thesis by blast
next
  case False
  have "\<exists>v. (Inr res, w') = (Inr v, snd (SetCacheData rd (get_response_json ftime)
      (createMessageCacheKey roomID) v (5 * Minute) w))"
    using assms(4) False
    by (auto simp: GetPrivateMessage_def Let_def split: sum.splits option.splits prod.splits)
  then have "w' = snd (SetCacheData rd (get_response_json ftime) (createMessageCacheKey roomID) res (5 * Minute) w)"
    by auto
  moreover obtain w1 where "SetCacheData rd (get_response_json ftime) (createMessageCacheKey roomID) res (5 * Minute) w
      = (True, w1)"
    and "view w1 = (view w)\<lparr>st_kv := (st_kv (view w))(createMessageCacheKey roomID \<mapsto>
      JsonText (get_response_json ftime res))\<rparr>"
    using SetCacheData_up [OF assms(1,2), where enc = "get_response_json ftime"
        and k = "createMessageCacheKey roomID" and x = res and t = "5 * Minute" and w = w] by blast
  ultimately show ?thesis using load_get_response_json [OF assms(3)] by simp
qed

section \<open>Rooms and sending\<close>

text \<open>What a call of the repository leaves alone.\<close>

lemma FindOrCreateRoom_leaves:
  assumes "rooms_db_leaves rb other" and "FindOrCreateRoom rb uuid s r w = (res, w')"
  shows "other w' = other w"
proof -
  have create: "other w2 = other w1" if "createPrivateRoom rb uuid s r w1 = (c, w2)" for c w1 w2
    using that leavesD(1,2) [OF assms(1)]
    by (auto simp: createPrivateRoom_def Let_def split: prod.splits sum.splits option.splits)
  show ?thesis
    using assms(2) create by (auto simp: FindOrCreateRoom_def split: sum.splits prod.splits if_splits)
qed

lemma CreateMessage_leaves:
  "messages_db_leaves mb other \<Longrightarrow> CreateMessage mb msg w = (res, w') \<Longrightarrow> other w' = other w"
  using leavesD(3) [of mb other] by (auto simp: CreateMessage_def split: prod.splits option.splits)

lemma UpdateRoomMetadata_leaves:
  "rooms_db_leaves rb other \<Longrightarrow> UpdateRoomMetadata rb oc now why room s i w = (res, w') \<Longrightarrow> other w' = other w"
  using leavesD(1,2) [of rb other]
  by (auto simp: UpdateRoomMetadata_def Let_def split: prod.splits option.splits)

lemma SendPrivateMessage_leaves:
  assumes "rooms_db_leaves rb other" and "messages_db_leaves mb other"
    and "SendPrivateMessage rb mb oc clk uuid oid why req s r w = (res, w')"
  shows "other w' = other w"
proof -
  obtain q w1 where f: "FindOrCreateRoom rb uuid s r w = (q, w1)" by fastforce
  note o1 = FindOrCreateRoom_leaves [OF assms(1) f]
  show ?thesis
  proof (cases q)
    case (Inl e)
    with assms(3) f o1 show ?thesis by (simp add: SendPrivateMessage_def)
  next
    case (Inr room)
    define msg where "msg = \<lparr>ms_id = oid, ms_room_id = rm_id room, ms_sender_id = s, ms_receiver_id = r,
      ms_content = sq_content req, ms_is_read = False, ms_is_edited = False, ms_history = [],
      ms_attachments = [], ms_reply_to = None, ms_created_at = clk 0, ms_updated_at = None\<rparr>"
    obtain c w2 where c: "CreateMessage mb msg w1 = (c, w2)" by fastforce
    note o2 = CreateMessage_leaves [OF assms(2) c]
    obtain u w3 where u: "UpdateRoomMetadata rb oc (clk 1) why (rm_id room) s oid w2 = (u, w3)" by fastforce
    note o3 = UpdateRoomMetadata_leaves [OF assms(1) u]
    have "c = Inr i \<Longrightarrow> i = oid" for i
      using c by (auto simp: CreateMessage_def msg_def split: prod.splits option.splits)
    then have "w' = w2 \<or> w' = w3"
      using assms(3) f Inr c u
      by (auto simp: SendPrivateMessage_def msg_def Let_def split: sum.splits option.splits)
    then show ?thesis using o1 o2 o3 by auto
  qed
qed


lemma createPrivateRoom_effect:
  assumes "rooms_db_ok rb rooms members trooms tmembers"
    and "createPrivateRoom rb uuid s r w = (Inr room, w')"
  obtains m1 m2 where "rooms w' = rooms w @ [room]" "rm_id room = uuid" "rm_rt room = ''private''"
    "rm_deleted_at room = None" "members w' = members w @ [m1, m2]" "me_room_id m1 = uuid" "me_user_id m1 = s"
    "me_room_id m2 = uuid" "me_user_id m2 = r" "me_left_at m1 = None" "me_left_at m2 = None"
proof -
  define q where "q = \<lparr>rm_id = uuid, rm_rt = ''private'', rm_name = '''', rm_created_by = s,
      rm_created_at = zero_time, rm_updated_at = None, rm_deleted_at = None\<rparr>"
  define t where "t = rb_begin rb w"
  obtain room' t1 where cr: "rb_create_room rb q t = (Inr room', t1)"
    using assms(2) by (auto simp: createPrivateRoom_def Let_def q_def t_def split: prod.splits sum.splits)
  obtain t2 where cm: "rb_create_members rb [new_member (rm_id room') s, new_member (rm_id room') r] t1 = (None, t2)"
    and co: "rb_commit rb t2 w = (None, w')" and "room = room'"
    using assms(2) cr
    by (auto simp: createPrivateRoom_def Let_def q_def t_def split: prod.splits option.splits)
  have r1: "(\<exists>c u. room' = q\<lparr>rm_created_at := c, rm_updated_at := u\<rparr>) \<and>
      trooms t1 = rooms w @ [room'] \<and> tmembers t1 = members w"
    using rooms_db_okD(6) [OF assms(1) cr] rooms_db_okD(4,5) [OF assms(1)] by (simp add: t_def)
  obtain new where new: "list_all2 stored_as [new_member (rm_id room') s, new_member (rm_id room') r] new"
    and t2: "trooms t2 = trooms t1" "tmembers t2 = tmembers t1 @ new"
    using rooms_db_okD(7) [OF assms(1) cm] by blast
  obtain m1 m2 where m: "new = [m1, m2]" "stored_as (new_member (rm_id room') s) m1"
    "stored_as (new_member (rm_id room') r) m2"
    using new by (auto simp: list_all2_Cons1)
  have id: "rm_id room' = uuid" "rm_rt room' = ''private''" "rm_deleted_at room' = None"
    using r1 by (auto simp: q_def)
  have flds: "me_room_id b = uuid \<and> me_user_id b = u \<and> me_left_at b = None"
    if "stored_as (new_member (rm_id room') u) b" for u b
  proof -
    have "b = (new_member (rm_id room') u)\<lparr>me_id := me_id b, me_joined_at := me_joined_at b\<rparr>"
      using that by (simp add: stored_as_def)
    from arg_cong [OF this, of me_room_id] arg_cong [OF this, of me_user_id] arg_cong [OF this, of me_left_at]
    show ?thesis by (simp add: new_member_def id)
  qed
  show ?thesis
    using that [of m1 m2] rooms_db_okD(9) [OF assms(1) co] r1 t2 m(1) id \<open>room = room'\<close>
      flds [OF m(2)] flds [OF m(3)]
    by simp
qed

lemma private_room_swap:
  assumes "private_room_sql s r ms room"
  shows "private_room_sql r s ms room"
proof -
  obtain rm1 rm2 where "rm1 \<in> set ms" "me_room_id rm1 = rm_id room" "me_user_id rm1 = s"
    "rm2 \<in> set ms" "me_room_id rm2 = rm_id room" "me_user_id rm2 = r"
    "length (filter (\<lambda>m. me_room_id m = rm_id room) ms) = 2" "rm_rt room = ''private''"
    using assms unfolding private_room_sql_def list_ex_iff by auto
  then show ?thesis unfolding private_room_sql_def list_ex_iff
    by (intro conjI bexI [of _ rm2] bexI [of _ rm1]) simp_all
qed

text \<open>The second try after a lost race never happens: no error text of the creation names a duplicate.\<close>

lemma create_errors_name_no_duplicate:
  assumes "createPrivateRoom rb uuid s r w = (Inl e, w')"
  shows "\<not> contains_str (ae_message e) ''duplicate'' \<and> \<not> contains_str (ae_message e) ''unique''"
proof -
  have "ae_message e \<in> {''failed to create private room'', ''failed to add members to private room'',
      ''failed to commit room creation''}"
    using assms by (auto simp: createPrivateRoom_def db_failure_def Let_def split: prod.splits sum.splits option.splits)
  moreover have "\<not> contains_str ''failed to create private room'' ''duplicate''"
    "\<not> contains_str ''failed to create private room'' ''unique''"
    "\<not> contains_str ''failed to add members to private room'' ''duplicate''"
    "\<not> contains_str ''failed to add members to private room'' ''unique''"
    "\<not> contains_str ''failed to commit room creation'' ''duplicate''"
    "\<not> contains_str ''failed to commit room creation'' ''unique''"
    by code_simp+
  ultimately show ?thesis
    by (elim insertE emptyE) (simp_all only: not_False_eq_True simp_thms)
qed

text \<open>
  C27. Find or create, as one reads it: the room is the one the query finds; only when there is none is
  one created, and then the answer is the creation's, error or room. The branch that searches again
  after an error that names a duplicate is never taken, as no error of the creation does.
\<close>

theorem find_or_create_simplified:
  "FindOrCreateRoom rb uuid s r w =
     (case findPrivateRoom rb s r w of
        Inr room \<Rightarrow> (Inr room, w)
      | Inl err \<Rightarrow> if err = ErrRecordNotFound then createPrivateRoom rb uuid s r w
                    else (Inl (db_failure ''failed to query private room''), w))"
  using create_errors_name_no_duplicate [of rb uuid s r w]
  by (auto simp: FindOrCreateRoom_def split: sum.splits prod.splits)

text \<open>The database answers queries: the only error is that there is no such row.\<close>

definition rooms_db_up :: "('w, 't) rooms_db \<Rightarrow> bool" where
  "rooms_db_up rb \<longleftrightarrow> (\<forall>c w e. rb_query_room rb c w = Inl e \<longrightarrow> e = ErrRecordNotFound) \<and>
     (\<forall>p w. \<exists>ms. rb_members rb p w = Inr ms)"

lemma find_existing_room:
  assumes "rooms_db_ok rb rooms members trooms tmembers" and "rooms_db_up rb"
    and "room \<in> set (rooms w)" and "private_room_sql s r (members w) room"
  shows "\<exists>room'. FindOrCreateRoom rb uuid s r w = (Inr room', w)"
proof -
  have "\<exists>room'. rb_query_room rb (private_room_sql s r) w = Inr room'"
    using rooms_db_okD(2) [OF assms(1), of "private_room_sql s r" w room] assms(2-4)
    by (cases "rb_query_room rb (private_room_sql s r) w") (auto simp: rooms_db_up_def)
  then show ?thesis by (auto simp: FindOrCreateRoom_def findPrivateRoom_def)
qed

lemma FindOrCreateRoom_effect:
  assumes "rooms_db_ok rb rooms members trooms tmembers" and "s \<noteq> r"
    and "\<forall>m \<in> set (members w). me_room_id m \<noteq> uuid"
    and "FindOrCreateRoom rb uuid s r w = (Inr room, w')"
  shows "room \<in> set (rooms w') \<and> private_room_sql s r (members w') room"
proof (cases "findPrivateRoom rb s r w")
  case (Inr found)
  with assms(4) have "room = found" "w' = w" by (simp_all add: FindOrCreateRoom_def)
  with rooms_db_okD(1) [OF assms(1)] Inr show ?thesis by (auto simp: findPrivateRoom_def)
next
  case (Inl e)
  with assms(4) create_errors_name_no_duplicate [of rb uuid s r w]
  have "createPrivateRoom rb uuid s r w = (Inr room, w')"
    by (auto simp: FindOrCreateRoom_def split: if_splits prod.splits sum.splits)
  then obtain m1 m2 where new: "rooms w' = rooms w @ [room]" "rm_id room = uuid" "rm_rt room = ''private''"
    "members w' = members w @ [m1, m2]" "me_room_id m1 = uuid" "me_user_id m1 = s"
    "me_room_id m2 = uuid" "me_user_id m2 = r"
    using createPrivateRoom_effect [OF assms(1)] by metis
  have "filter (\<lambda>m. me_room_id m = uuid) (members w) = []"
    using assms(3) by (simp add: filter_empty_conv)
  with new show ?thesis by (auto simp: private_room_sql_def list_ex_iff)
qed

text \<open>
  C21. A private room is found again. The room a first message gets contains both users and nobody
  else; whichever of the two writes next finds a room of theirs, and no second one is created.
\<close>

theorem private_room_is_shared:
  assumes "rooms_db_ok rb rooms members trooms tmembers" and "rooms_db_up rb" and "s \<noteq> r"
    and "\<forall>m \<in> set (members w). me_room_id m \<noteq> uuid"
    and "FindOrCreateRoom rb uuid s r w = (Inr room, w')"
  shows "room \<in> set (rooms w') \<and> private_room_sql s r (members w') room \<and>
    (\<forall>other. (\<exists>room'. FindOrCreateRoom rb other s r w' = (Inr room', w')) \<and>
      (\<exists>room'. FindOrCreateRoom rb other r s w' = (Inr room', w')))"
proof -
  have "room \<in> set (rooms w')" "private_room_sql s r (members w') room"
    using FindOrCreateRoom_effect [OF assms(1,3-5)] by auto
  then show ?thesis
    using find_existing_room [OF assms(1,2)] private_room_swap by blast
qed

lemma UpdateRoomMetadata_rooms:
  assumes "rooms_db_ok rb rooms members trooms tmembers"
    and "UpdateRoomMetadata rb oc now why roomID s i w = (res, w')"
  shows "rooms w' = rooms w"
proof -
  have "rooms w2 = rooms w" if "rb_update_members rb p f (rb_begin rb w) = (None, t)"
    "rb_commit rb t w = (None, w2)" for p f t w2
    using rooms_db_okD(8) [OF assms(1) that(1)] rooms_db_okD(9) [OF assms(1) that(2)]
      rooms_db_okD(4) [OF assms(1), of w] by simp
  moreover have "rooms w2 = rooms w" if "rb_commit rb t w = (Some e, w2)" for t e w2
    using rooms_db_okD(10) [OF assms(1) that] by simp
  moreover have "rooms (rb_rollback rb t w) = rooms w" for t
    using rooms_db_okD(11) [OF assms(1), of t w] by simp
  ultimately show ?thesis
    using assms(2) by (auto simp: UpdateRoomMetadata_def Let_def split: prod.splits option.splits)
qed

lemma FindRoomByID_hit:
  assumes "rooms_db_ok rb rooms members trooms tmembers" and "rooms_db_up rb" and "room \<in> set (rooms w)"
  shows "\<exists>room'. FindRoomByID rb (rm_id room) w = Inr room' \<and> rm_id room' = rm_id room"
proof -
  have "\<exists>room'. rb_query_room rb (\<lambda>_ q. rm_id q = rm_id room) w = Inr room'"
    using rooms_db_okD(2) [OF assms(1), of "\<lambda>_ q. rm_id q = rm_id room" w room] assms(2,3)
    by (cases "rb_query_room rb (\<lambda>_ q. rm_id q = rm_id room) w") (auto simp: rooms_db_up_def)
  then obtain room' where q: "rb_query_room rb (\<lambda>_ q. rm_id q = rm_id room) w = Inr room'" by blast
  from rooms_db_okD(1) [OF assms(1) q] q show ?thesis by (simp add: FindRoomByID_def)
qed

section \<open>Sending and reading back\<close>

lemma insort_key_snoc: "f a \<le> f m \<Longrightarrow> insort_key f a (ys @ [m]) = insort_key f a ys @ [m]"
  by (induction ys) auto

lemma sort_key_snoc: "\<forall>x \<in> set xs. f x \<le> f m \<Longrightarrow> sort_key f (xs @ [m]) = sort_key f xs @ [m]"
  by (induction xs) (simp_all add: insort_key_snoc)

lemma thread_snoc:
  assumes "ms_room_id m = roomID" and "\<forall>x \<in> set docs. ms_room_id x = roomID \<longrightarrow> ms_id x < ms_id m"
  shows "thread roomID None (docs @ [m]) = thread roomID None docs @ [m]"
  unfolding thread_def using assms by (auto intro!: sort_key_snoc simp: less_imp_le)

lemma lastn_snoc: "0 < n \<Longrightarrow> lastn n (xs @ [x]) = lastn (n - 1) xs @ [x]"
  by (cases n) (auto simp: lastn_def)

text \<open>The collection answers queries.\<close>

definition messages_db_up :: "('w, 'o) messages_db \<Rightarrow> bool" where
  "messages_db_up mb \<longleftrightarrow> (\<forall>p n w. \<exists>ms. mb_find mb p n w = Inr ms)"

lemma GetPrivateMessages_first_page:
  assumes "messages_db_ok mb docs" and "messages_db_up mb" and "distinct (map ms_id (docs w))" and "0 < limit"
  shows "GetPrivateMessages mb oc roomID limit None w = Inr (lastn (nat limit) (thread roomID None (docs w)))"
proof -
  obtain found where find: "mb_find mb (\<lambda>m. ms_room_id m = roomID \<and>
        (case None of None \<Rightarrow> True | Some objID \<Rightarrow> ms_id m < objID)) limit w = Inr found"
    using assms(2) unfolding messages_db_up_def by blast
  then have "\<exists>ms. GetPrivateMessages mb oc roomID limit None w = Inr ms"
    by (simp add: GetPrivateMessages_def)
  then obtain ms where ms: "GetPrivateMessages mb oc roomID limit None w = Inr ms" by blast
  show ?thesis
    by (rule GetPrivateMessages_page [OF assms(1,3,4) ms]) (simp add: ms decode_cursor_def)
qed

definition sent_message :: "'o \<Rightarrow> string \<Rightarrow> string \<Rightarrow> string \<Rightarrow> string \<Rightarrow> int \<Rightarrow> 'o message" where
  "sent_message oid roomID s r content now = \<lparr>ms_id = oid, ms_room_id = roomID, ms_sender_id = s,
     ms_receiver_id = r, ms_content = content, ms_is_read = False, ms_is_edited = False, ms_history = [],
     ms_attachments = [], ms_reply_to = None, ms_created_at = now, ms_updated_at = None\<rparr>"

lemma SendPrivateMessage_steps:
  assumes "SendPrivateMessage rb mb oc clk uuid oid why req s r w = (Inr resp, w')"
  obtains room w1 w2 where "FindOrCreateRoom rb uuid s r w = (Inr room, w1)"
    "mb_insert mb (sent_message oid (rm_id room) s r (sq_content req) (clk 0)) w1 = (None, w2)"
    "UpdateRoomMetadata rb oc (clk 1) why (rm_id room) s oid w2 = (None, w')"
    "sr_room_id resp = rm_id room" "sr_message_id resp = oc_hex oc oid" "sr_content resp = sq_content req"
proof -
  obtain room w1 where f: "FindOrCreateRoom rb uuid s r w = (Inr room, w1)"
    using assms by (auto simp: SendPrivateMessage_def split: prod.splits sum.splits)
  define msg where "msg = sent_message oid (rm_id room) s r (sq_content req) (clk 0)"
  obtain i w2 where c: "CreateMessage mb msg w1 = (Inr i, w2)"
    using assms f by (auto simp: SendPrivateMessage_def Let_def msg_def sent_message_def split: prod.splits sum.splits)
  then have ins: "mb_insert mb msg w1 = (None, w2)" and i: "i = oid"
    by (auto simp: CreateMessage_def msg_def sent_message_def split: prod.splits option.splits)
  have "UpdateRoomMetadata rb oc (clk 1) why (rm_id room) s oid w2 = (None, w')"
    "sr_room_id resp = rm_id room" "sr_message_id resp = oc_hex oc oid" "sr_content resp = sq_content req"
    using assms f c i
    by (auto simp: SendPrivateMessage_def Let_def msg_def sent_message_def split: prod.splits option.splits)
  with f ins show ?thesis unfolding msg_def by (rule that)
qed

text \<open>
  C7. A message that was sent is read back. It is one more document of the collection, in a room of
  both users; and with no page cached, the next page of the room ends with it, provided its identifier
  is larger than the room's others, as a new identifier is.
\<close>

theorem sent_message_is_listed:
  assumes "chat_servers_ok rd rb mb v" and "rooms_db_up rb" and "messages_db_up mb" and "s \<noteq> r"
    and "distinct (map ms_id (cv_docs v w))" and "\<forall>m \<in> set (cv_members v w). me_room_id m \<noteq> uuid"
    and "SendPrivateMessage rb mb oc clk uuid oid why req s r w = (Inr resp, w')"
    and "\<forall>m \<in> set (cv_docs v w). ms_room_id m = sr_room_id resp \<longrightarrow> ms_id m < oid"
    and "st_kv (cv_store v w') (createMessageCacheKey (sr_room_id resp)) = None"
    and "0 \<le> gq_limit q" and "gq_before_id q = None"
  shows "cv_docs v w' = cv_docs v w @ [bson_message
      (sent_message oid (sr_room_id resp) s r (sq_content req) (clk 0))] \<and>
    (\<exists>page w2 older. GetPrivateMessage rd rb mb oc ptime ftime q (sr_room_id resp) w' = (Inr page, w2) \<and>
      gr_messages page = older @ [\<lparr>pm_message_id = sr_message_id resp, pm_room_id = sr_room_id resp,
        pm_sender_id = s, pm_receiver_id = r, pm_content = sq_content req, pm_reply_to = None,
        pm_is_read = False, pm_created_at = bson_time (clk 0)\<rparr>])"
proof -
  note laws = chat_servers_okD [OF assms(1)]
  obtain room w1 w2 where find: "FindOrCreateRoom rb uuid s r w = (Inr room, w1)"
    and ins: "mb_insert mb (sent_message oid (rm_id room) s r (sq_content req) (clk 0)) w1 = (None, w2)"
    and upd: "UpdateRoomMetadata rb oc (clk 1) why (rm_id room) s oid w2 = (None, w')"
    and resp: "sr_room_id resp = rm_id room" "sr_message_id resp = oc_hex oc oid" "sr_content resp = sq_content req"
    by (rule SendPrivateMessage_steps [OF assms(7)])
  define msg where "msg = bson_message (sent_message oid (rm_id room) s r (sq_content req) (clk 0))"
  have docs: "cv_docs v w' = cv_docs v w @ [msg]"
    using messages_db_okD(4) [OF laws(4) ins] FindOrCreateRoom_leaves [OF laws(9) find]
      UpdateRoomMetadata_leaves [OF laws(9) upd]
    by (simp add: msg_def)
  have flds: "ms_id msg = oid" "ms_room_id msg = rm_id room"
    by (simp_all add: msg_def bson_message_def sent_message_def)
  have dist: "distinct (map ms_id (cv_docs v w'))"
    using assms(5) messages_db_okD(5) [OF laws(4) ins] FindOrCreateRoom_leaves [OF laws(9) find] flds
    by (simp add: docs sent_message_def)
  define limit where "limit = (if gq_limit q = 0 then 20 else gq_limit q)"
  have "0 < limit" using assms(10) by (simp add: limit_def)
  have "thread (rm_id room) None (cv_docs v w') = thread (rm_id room) None (cv_docs v w) @ [msg]"
    unfolding docs by (rule thread_snoc) (use flds assms(8) resp in simp_all)
  then obtain older where page: "GetPrivateMessages mb oc (rm_id room) limit None w' = Inr (older @ [msg])"
    using GetPrivateMessages_first_page [OF laws(4) assms(3) dist \<open>0 < limit\<close>] \<open>0 < limit\<close>
    by (simp add: lastn_snoc)
  have "room \<in> set (cv_rooms v w')"
  proof -
    have "room \<in> set (cv_rooms v w1)"
      using FindOrCreateRoom_effect [OF laws(3) assms(4,6) find] by blast
    then show ?thesis
      using leavesD(3) [OF laws(11) ins] UpdateRoomMetadata_rooms [OF laws(3) upd] by simp
  qed
  then obtain room' where room': "FindRoomByID rb (rm_id room) w' = Inr room'" "rm_id room' = rm_id room"
    using FindRoomByID_hit [OF laws(3) assms(2)] by blast
  have "GetCacheData rd (load_get_response ptime) (createMessageCacheKey (rm_id room)) w' = Inr None"
    using assms(9) resp(1) by (simp add: GetCacheData_up [OF laws(1,2)])
  then have "\<exists>page w2. GetPrivateMessage rd rb mb oc ptime ftime q (rm_id room) w' = (Inr page, w2) \<and>
      gr_messages page = map (dto_of_message oc) (older @ [msg])"
    using room' page assms(11) by (simp add: GetPrivateMessage_def Let_def limit_def split: prod.split)
  moreover have "dto_of_message oc msg = \<lparr>pm_message_id = oc_hex oc oid, pm_room_id = rm_id room,
        pm_sender_id = s, pm_receiver_id = r, pm_content = sq_content req, pm_reply_to = None,
        pm_is_read = False, pm_created_at = bson_time (clk 0)\<rparr>"
    by (simp add: dto_of_message_def msg_def bson_message_def sent_message_def)
  ultimately show ?thesis using docs resp by (auto simp: msg_def)
qed

lemma FindRoomByID_found:
  assumes "rooms_db_ok rb rooms members trooms tmembers" and "FindRoomByID rb roomID w = Inr room"
  shows "room \<in> set (rooms w) \<and> rm_id room = roomID"
proof -
  have "rb_query_room rb (\<lambda>_ r. rm_id r = roomID) w = Inr room"
    using assms(2) by (simp add: FindRoomByID_def split: sum.splits)
  from rooms_db_okD(1) [OF assms(1) this] show ?thesis .
qed

section \<open>Editing and marking as read\<close>

text \<open>Changing the one document with an identifier.\<close>

definition change_doc :: "'o \<Rightarrow> ('o message \<Rightarrow> 'o message) \<Rightarrow> 'o message list \<Rightarrow> 'o message list" where
  "change_doc i f docs = map (\<lambda>m. if ms_id m = i then bson_message (f m) else m) docs"

lemma update_first_change:
  assumes "distinct (map ms_id docs)" and "\<And>m. p m \<Longrightarrow> ms_id m = i" and "\<exists>m \<in> set docs. p m"
  shows "update_first p (\<lambda>m. bson_message (f m)) docs = change_doc i f docs"
  using assms(1,3)
proof (induction docs)
  case Nil
  then show ?case by simp
next
  case (Cons m docs)
  show ?case
  proof (cases "p m")
    case True
    then have "ms_id m = i" by (rule assms(2))
    with Cons.prems(1) have "i \<notin> set (map ms_id docs)" by simp
    then have "change_doc i f docs = docs"
      unfolding change_doc_def by (intro map_idI) auto
    with True \<open>ms_id m = i\<close> show ?thesis by (simp add: change_doc_def)
  next
    case False
    with Cons.prems(2) obtain x where x: "x \<in> set docs" "p x" by auto
    have "ms_id x = i" by (rule assms(2) [OF x(2)])
    then have "ms_id m \<noteq> i" using Cons.prems(1) x(1) by auto
    with False Cons x show ?thesis by (auto simp: change_doc_def)
  qed
qed

lemma FindMessageByID_hit:
  assumes "messages_db_ok mb docs" and "FindMessageByID mb oc messageID w = Inr m"
  shows "m \<in> set (docs w)" and "oc_from_hex oc messageID = Inr (ms_id m)"
proof -
  obtain i where i: "oc_from_hex oc messageID = Inr i" and f: "mb_find_one mb (\<lambda>m. ms_id m = i) w = Inr m"
    using assms(2) by (auto simp: FindMessageByID_def split: sum.splits find_error.splits)
  from messages_db_okD(2) [OF assms(1) f] i show "m \<in> set (docs w)" and "oc_from_hex oc messageID = Inr (ms_id m)"
    by simp_all
qed

lemma FindRoomMembers_set:
  assumes "rooms_db_ok rb rooms members trooms tmembers" and "FindRoomMembers rb roomID w = Inr ms"
  shows "set ms = {m \<in> set (members w). me_room_id m = roomID}"
proof -
  have "rb_members rb (\<lambda>m. me_room_id m = roomID) w = Inr ms"
    using assms(2) by (simp add: FindRoomMembers_def split: sum.splits)
  from mset_eq_setD [OF rooms_db_okD(3) [OF assms(1) this]] show ?thesis by auto
qed

lemma isUserMemberOfRoom_ex:
  "isUserMemberOfRoom ms u \<Longrightarrow> \<exists>m \<in> set ms. me_user_id m = u \<and> me_left_at m = None"
  by (induction ms) (auto split: if_splits)

text \<open>The room of a user with a current membership.\<close>

definition current_member :: "room_member list \<Rightarrow> string \<Rightarrow> string \<Rightarrow> bool" where
  "current_member ms roomID u \<longleftrightarrow>
     (\<exists>m \<in> set ms. me_room_id m = roomID \<and> me_user_id m = u \<and> me_left_at m = None)"

lemma FindRoomMembers_current:
  assumes "rooms_db_ok rb rooms members trooms tmembers" and "FindRoomMembers rb roomID w = Inr ms"
    and "isUserMemberOfRoom ms u"
  shows "current_member (members w) roomID u"
  using isUserMemberOfRoom_ex [OF assms(3)] FindRoomMembers_set [OF assms(1,2)]
  by (auto simp: current_member_def)

text \<open>What an edit makes of a document.\<close>

definition edited :: "string \<Rightarrow> int \<Rightarrow> 'o message \<Rightarrow> 'o message \<Rightarrow> 'o message" where
  "edited content now original m = m\<lparr>ms_content := content, ms_is_edited := True, ms_updated_at := Some now,
     ms_history := [\<lparr>ee_message_id = ms_id original, ee_original_content = ms_content original,
       ee_new_content = content, ee_edited_by = ms_sender_id original, ee_edited_at = now\<rparr>]\<rparr>"

lemma UpdateMessage_effect:
  fixes mb :: "('w, 'o :: linorder) messages_db"
  assumes "messages_db_ok mb docs" and "distinct (map ms_id (docs w))"
    and "UpdateMessage mb msg entry t w = (None, w')"
  shows "docs w' = change_doc (ms_id msg) (\<lambda>m. m\<lparr>ms_content := ms_content msg, ms_is_edited := True,
      ms_updated_at := ms_updated_at msg, ms_history := ms_history msg @ [entry]\<rparr>) (docs w)"
proof -
  define p :: "'o message \<Rightarrow> bool" where "p = (\<lambda>m. ms_id m = ms_id msg \<and> (case t of None \<Rightarrow> True
      | Some t \<Rightarrow> (case ms_updated_at m of None \<Rightarrow> False | Some u \<Rightarrow> u \<le> t)))"
  define f :: "'o message \<Rightarrow> 'o message" where "f = (\<lambda>m. m\<lparr>ms_content := ms_content msg, ms_is_edited := True,
      ms_updated_at := ms_updated_at msg, ms_history := ms_history msg @ [entry]\<rparr>)"
  obtain k where up: "mb_update_one mb p f w = (Inr k, w')" and "k \<noteq> 0"
    using assms(3) unfolding UpdateMessage_def p_def [symmetric] f_def [symmetric]
    by (auto split: prod.splits sum.splits if_splits)
  then have "\<exists>m \<in> set (docs w). p m" using messages_db_okD(6) [OF assms(1) up] by presburger
  moreover have "\<And>m. p m \<Longrightarrow> ms_id m = ms_id msg" by (simp add: p_def)
  ultimately show ?thesis
    using update_first_change [OF assms(2), of p] messages_db_okD(7) [OF assms(1) up]
    unfolding f_def by metis
qed

lemma DeleteCacheData_up:
  assumes "redis_ok rd view" and "redis_up rd"
  shows "\<exists>w'. DeleteCacheData rd k w = (True, w') \<and> view w' = (view w)\<lparr>st_kv := (st_kv (view w))(k := None)\<rparr>"
  using redis_upD(2) [OF assms(2)] redis_okD(3) [OF assms(1)] unfolding DeleteCacheData_def by metis

text \<open>The message an edit hands to the repository, and its entry of the history.\<close>

definition edit_message :: "'o message \<Rightarrow> string \<Rightarrow> int \<Rightarrow> 'o message" where
  "edit_message m content now = \<lparr>ms_id = ms_id m, ms_room_id = '''', ms_sender_id = '''',
     ms_receiver_id = '''', ms_content = content, ms_is_read = False, ms_is_edited = True,
     ms_history = [], ms_attachments = [], ms_reply_to = None, ms_created_at = zero_time,
     ms_updated_at = Some now\<rparr>"

definition edit_entry_of :: "'o message \<Rightarrow> string \<Rightarrow> int \<Rightarrow> 'o edit_entry" where
  "edit_entry_of m content now = \<lparr>ee_message_id = ms_id m, ee_original_content = ms_content m,
     ee_new_content = content, ee_edited_by = ms_sender_id m, ee_edited_at = now\<rparr>"

lemma UpdatePrivateMessage_steps:
  assumes "UpdatePrivateMessage rd rb mb oc clk req senderID roomID messageID w = (Return (Inr resp), w')"
  obtains m room ms w1 where "FindMessageByID mb oc messageID w = Inr m"
    "ms_sender_id m = senderID" "ms_room_id m = roomID" "clk 0 - ms_created_at m \<le> 15 * Minute"
    "FindRoomByID rb roomID w = Inr room" "rm_deleted_at room = None"
    "FindRoomMembers rb roomID w = Inr ms" "isUserMemberOfRoom ms senderID"
    "trim_space (uq_content req) \<noteq> trim_space (ms_content m)"
    "UpdateMessage mb (edit_message m (uq_content req) (clk 1)) (edit_entry_of m (uq_content req) (clk 1))
       (ms_updated_at m) w = (None, w1)"
    "w' = snd (DeleteCacheData rd (createMessageCacheKey roomID) w1)"
    "up_content resp = uq_content req" "up_message_id resp = oc_hex oc (ms_id m)"
proof -
  note run = assms [unfolded UpdatePrivateMessage_def]
  obtain m where m: "FindMessageByID mb oc messageID w = Inr m"
    using run by (auto split: sum.splits)
  have guards: "ms_sender_id m = senderID" "ms_room_id m = roomID" "clk 0 - ms_created_at m \<le> 15 * Minute"
    using run m by (auto simp: editWindow_def split: if_splits)
  obtain room where room: "FindRoomByID rb roomID w = Inr room"
    using run m guards by (auto simp: editWindow_def split: sum.splits)
  have open_room: "rm_deleted_at room = None"
    using run m guards room by (auto simp: editWindow_def split: if_splits)
  obtain ms where ms: "FindRoomMembers rb roomID w = Inr ms" "isUserMemberOfRoom ms senderID"
    using run m guards room open_room by (auto simp: editWindow_def split: sum.splits if_splits)
  have differs: "trim_space (uq_content req) \<noteq> trim_space (ms_content m)"
    using run m guards room open_room ms by (auto simp: editWindow_def split: if_splits)
  obtain w1 where up: "UpdateMessage mb (edit_message m (uq_content req) (clk 1))
      (edit_entry_of m (uq_content req) (clk 1)) (ms_updated_at m) w = (None, w1)"
    using run m guards room open_room ms differs unfolding edit_message_def edit_entry_of_def
    by (auto simp: editWindow_def Let_def split: prod.splits option.splits)
  have "w' = snd (DeleteCacheData rd (createMessageCacheKey roomID) w1)"
    "up_content resp = uq_content req" "up_message_id resp = oc_hex oc (ms_id m)"
    using run m guards room open_room ms differs up unfolding edit_message_def edit_entry_of_def
    by (auto simp: editWindow_def Let_def split: prod.splits)
  then show ?thesis by (rule that [OF m guards room open_room ms differs up])
qed

text \<open>
  C6. Who may edit what, and what an edit does. An edit goes through only for the sender of the
  message, in its room, within a quarter of an hour of sending it, while the room is not deleted and the
  sender still a member of it, and with a text that differs; it changes that one document, whose
  history is then this edit alone, and drops the room's cached page.
\<close>

theorem edit_effect:
  assumes "chat_servers_ok rd rb mb v" and "distinct (map ms_id (cv_docs v w))"
    and "UpdatePrivateMessage rd rb mb oc clk req senderID roomID messageID w = (Return (Inr resp), w')"
  shows "\<exists>m \<in> set (cv_docs v w). oc_from_hex oc messageID = Inr (ms_id m) \<and>
    ms_sender_id m = senderID \<and> ms_room_id m = roomID \<and> clk 0 - ms_created_at m \<le> 15 * Minute \<and>
    (\<exists>room \<in> set (cv_rooms v w). rm_id room = roomID \<and> rm_deleted_at room = None) \<and>
    current_member (cv_members v w) roomID senderID \<and>
    trim_space (uq_content req) \<noteq> trim_space (ms_content m) \<and>
    up_content resp = uq_content req \<and> up_message_id resp = oc_hex oc (ms_id m) \<and>
    cv_docs v w' = change_doc (ms_id m) (edited (uq_content req) (clk 1) m) (cv_docs v w) \<and>
    cv_rooms v w' = cv_rooms v w \<and> cv_members v w' = cv_members v w \<and>
    st_kv (cv_store v w') = (st_kv (cv_store v w))(createMessageCacheKey roomID := None)"
proof -
  note laws = chat_servers_okD [OF assms(1)]
  obtain m room ms w1 where m: "FindMessageByID mb oc messageID w = Inr m"
    and guards: "ms_sender_id m = senderID" "ms_room_id m = roomID" "clk 0 - ms_created_at m \<le> 15 * Minute"
    and room: "FindRoomByID rb roomID w = Inr room" "rm_deleted_at room = None"
    and ms: "FindRoomMembers rb roomID w = Inr ms" "isUserMemberOfRoom ms senderID"
    and differs: "trim_space (uq_content req) \<noteq> trim_space (ms_content m)"
    and up: "UpdateMessage mb (edit_message m (uq_content req) (clk 1))
      (edit_entry_of m (uq_content req) (clk 1)) (ms_updated_at m) w = (None, w1)"
    and w': "w' = snd (DeleteCacheData rd (createMessageCacheKey roomID) w1)"
    and resp: "up_content resp = uq_content req" "up_message_id resp = oc_hex oc (ms_id m)"
    by (rule UpdatePrivateMessage_steps [OF assms(3)])
  obtain w2 where del: "DeleteCacheData rd (createMessageCacheKey roomID) w1 = (True, w2)"
    and kv: "cv_store v w2 = (cv_store v w1)\<lparr>st_kv := (st_kv (cv_store v w1))(createMessageCacheKey roomID := None)\<rparr>"
    using DeleteCacheData_up [OF laws(1,2)] by blast
  obtain k where one: "\<exists>p f. mb_update_one mb p f w = (k, w1)"
    using up by (auto simp: UpdateMessage_def split: prod.splits sum.splits if_splits)
  have "cv_docs v w' = cv_docs v w1" "cv_rooms v w' = cv_rooms v w1" "cv_members v w' = cv_members v w1"
    using redis_leavesD(2) [OF laws(7)] redis_leavesD(2) [OF laws(5)] redis_leavesD(2) [OF laws(6)] del w'
    by (auto simp: DeleteCacheData_def)
  moreover have "cv_store v w1 = cv_store v w" "cv_rooms v w1 = cv_rooms v w" "cv_members v w1 = cv_members v w"
    using one leavesD(4) [OF laws(10)] leavesD(4) [OF laws(11)] leavesD(4) [OF laws(12)] by blast+
  moreover have "cv_docs v w1 = change_doc (ms_id m) (edited (uq_content req) (clk 1) m) (cv_docs v w)"
    using UpdateMessage_effect [OF laws(4) assms(2) up]
    by (simp add: edit_message_def edit_entry_of_def edited_def [abs_def])
  moreover have "\<exists>room \<in> set (cv_rooms v w). rm_id room = roomID \<and> rm_deleted_at room = None"
    using FindRoomByID_found [OF laws(3) room(1)] room(2) by blast
  moreover have "current_member (cv_members v w) roomID senderID"
    by (rule FindRoomMembers_current [OF laws(3) ms])
  ultimately show ?thesis
    using FindMessageByID_hit [OF laws(4) m] guards differs resp kv del w' by (intro bexI [of _ m]) simp_all
qed

text \<open>
  C20. Who may mark what as read. It succeeds only for a current member of a room of exactly two
  who is not the sender, for a message of that room; then the message is marked and the cached page
  dropped, and a message already marked is left alone with the page.
\<close>

theorem mark_read_effect:
  assumes "chat_servers_ok rd rb mb v" and "distinct (map ms_id (cv_docs v w))"
    and "MarkPrivateMessageAsRead rd rb mb oc u roomID messageID w = (None, w')"
  shows "\<exists>m \<in> set (cv_docs v w). oc_from_hex oc messageID = Inr (ms_id m) \<and> ms_room_id m = roomID \<and>
    ms_sender_id m \<noteq> u \<and> current_member (cv_members v w) roomID u \<and>
    length (filter (\<lambda>x. me_room_id x = roomID) (cv_members v w)) = 2 \<and>
    (if ms_is_read m then w' = w
     else cv_docs v w' = change_doc (ms_id m) (\<lambda>x. x\<lparr>ms_is_read := True\<rparr>) (cv_docs v w) \<and>
       st_kv (cv_store v w') = (st_kv (cv_store v w))(createMessageCacheKey roomID := None))"
proof -
  note laws = chat_servers_okD [OF assms(1)]
  note run = assms(3) [unfolded MarkPrivateMessageAsRead_def]
  obtain ms where ms: "FindRoomMembers rb roomID w = Inr ms"
    using run by (auto split: sum.splits)
  have two: "length ms = 2" "isUserMemberOfRoom ms u"
    using run ms by (auto simp: PrivateRoomMemberCount_def split: if_splits)
  obtain m where m: "FindMessageByID mb oc messageID w = Inr m"
    using run ms two by (auto simp: PrivateRoomMemberCount_def split: sum.splits)
  note hit = FindMessageByID_hit [OF laws(4) m]
  have guards: "ms_room_id m = roomID" "ms_sender_id m \<noteq> u"
    using run ms two m by (auto simp: PrivateRoomMemberCount_def split: if_splits)
  have "rb_members rb (\<lambda>x. me_room_id x = roomID) w = Inr ms"
    using ms by (simp add: FindRoomMembers_def split: sum.splits)
  from mset_eq_length [OF rooms_db_okD(3) [OF laws(3) this]] two
  have count: "length (filter (\<lambda>x. me_room_id x = roomID) (cv_members v w)) = 2" by simp
  note member = FindRoomMembers_current [OF laws(3) ms two(2)]
  show ?thesis
  proof (cases "ms_is_read m")
    case True
    then have "w' = w" using run ms two m guards by (simp add: PrivateRoomMemberCount_def)
    with True show ?thesis using hit guards count member by (intro bexI [of _ m]) simp_all
  next
    case False
    obtain w1 where del: "DeleteCacheData rd (createMessageCacheKey roomID) w = (True, w1)"
      and kv: "cv_store v w1 = (cv_store v w)\<lparr>st_kv := (st_kv (cv_store v w))(createMessageCacheKey roomID := None)\<rparr>"
      using DeleteCacheData_up [OF laws(1,2)] by blast
    have "MarkMessageAsRead mb oc messageID w1 = (None, w')"
      using run ms two m guards False del by (simp add: PrivateRoomMemberCount_def Let_def)
    then obtain k where up: "mb_update_one mb (\<lambda>x. ms_id x = ms_id m) (\<lambda>x. x\<lparr>ms_is_read := True\<rparr>) w1 = (Inr k, w')"
      using hit(2) by (auto simp: MarkMessageAsRead_def split: prod.splits sum.splits)
    have docs1: "cv_docs v w1 = cv_docs v w"
      using redis_leavesD(2) [OF laws(7)] del by (simp add: DeleteCacheData_def)
    have "cv_docs v w' = change_doc (ms_id m) (\<lambda>x. x\<lparr>ms_is_read := True\<rparr>) (cv_docs v w)"
      using messages_db_okD(7) [OF laws(4) up] hit(1) docs1
        update_first_change [OF assms(2), of "\<lambda>x. ms_id x = ms_id m" "ms_id m" "\<lambda>x. x\<lparr>ms_is_read := True\<rparr>"]
      by auto
    moreover have "cv_store v w' = cv_store v w1" using leavesD(4) [OF laws(10) up] .
    ultimately show ?thesis using False hit guards count member kv by (intro bexI [of _ m]) simp_all
  qed
qed

section \<open>A concrete chat\<close>

text \<open>One room of two users, with a message of the first; identifiers are numbers, written in decimal.\<close>

definition number_codec :: "nat oid_codec" where
  "number_codec = \<lparr>oc_hex = show_nat,
     oc_from_hex = (\<lambda>s. case parse_uint 64 s of None \<Rightarrow> Inl ''not an identifier'' | Some n \<Rightarrow> Inr n)\<rparr>"

definition example_room :: room where
  "example_room = \<lparr>rm_id = ''r'', rm_rt = ''private'', rm_name = '''', rm_created_by = ''ann'',
     rm_created_at = 0, rm_updated_at = None, rm_deleted_at = None\<rparr>"

definition example_chat :: "nat chat_world" where
  "example_chat = store.extend empty_store (chat_world.fields [example_room]
     [new_member ''r'' ''ann'', new_member ''r'' ''bob'']
     [sent_message 1 ''r'' ''ann'' ''bob'' ''hello'' 0])"

definition empty_chat :: "nat chat_world" where
  "empty_chat = store.extend empty_store (chat_world.fields [] [] [])"

lemma example_chat_simps [simp]:
  "cw_rooms example_chat = [example_room]"
  "cw_members example_chat = [new_member ''r'' ''ann'', new_member ''r'' ''bob'']"
  "cw_docs example_chat = [sent_message 1 ''r'' ''ann'' ''bob'' ''hello'' 0]"
  "st_kv example_chat = Map.empty"
  "cw_rooms empty_chat = []" "cw_members empty_chat = []" "cw_docs empty_chat = []"
  "st_kv empty_chat = Map.empty"
  by (simp_all add: example_chat_def empty_chat_def store.defs chat_world.defs empty_store_def)

lemma mem_view_simps [simp]:
  "cv_docs mem_view = cw_docs" "cv_rooms mem_view = cw_rooms" "cv_members mem_view = cw_members"
  "cv_store mem_view = store.truncate"
  by (simp_all add: mem_view_def)

lemma new_member_sel [simp]:
  "me_room_id (new_member r u) = r" "me_user_id (new_member r u) = u" "me_left_at (new_member r u) = None"
  by (simp_all add: new_member_def)

lemma mem_dbs_up: "rooms_db_up mem_rooms" "messages_db_up mem_messages"
  by (auto simp: rooms_db_up_def messages_db_up_def mem_rooms_def mem_messages_def split: option.splits)

lemma page_is_latest_witness:
  "GetPrivateMessages mem_messages number_codec ''r'' 5 None example_chat =
     Inr [sent_message 1 ''r'' ''ann'' ''bob'' ''hello'' 0] \<and>
   length [sent_message 1 ''r'' ''ann'' ''bob'' ''hello'' (0 :: int)] =
     min 5 (length (thread ''r'' None (cw_docs example_chat)))"
proof -
  have "thread ''r'' None (cw_docs example_chat) = [sent_message 1 ''r'' ''ann'' ''bob'' ''hello'' 0]"
    by (simp add: thread_def sent_message_def)
  then have run: "GetPrivateMessages mem_messages number_codec ''r'' 5 None example_chat =
     Inr [sent_message 1 ''r'' ''ann'' ''bob'' ''hello'' 0]"
    using GetPrivateMessages_first_page [OF mem_messages_ok mem_dbs_up(2), of example_chat 5]
    by (simp add: lastn_def)
  from page_is_latest [OF mem_messages_ok _ _ this] show ?thesis
    by (auto simp: decode_cursor_def run)
qed

lemma example_page:
  "\<exists>res w. GetPrivateMessage mem_redis mem_rooms mem_messages number_codec plain_ptime plain_ftime
     \<lparr>gq_limit = 5, gq_before_id = None\<rparr> ''r'' example_chat = (Inr res, w)"
proof -
  have "GetCacheData mem_redis (load_get_response plain_ptime) (createMessageCacheKey ''r'') example_chat = Inr None"
    by (simp add: GetCacheData_def mem_redis_def)
  moreover have "FindRoomByID mem_rooms ''r'' example_chat = Inr example_room"
    by (simp add: FindRoomByID_def mem_rooms_def example_room_def)
  moreover have "\<exists>ms. GetPrivateMessages mem_messages number_codec (rm_id example_room) 5 None example_chat = Inr ms"
    using GetPrivateMessages_first_page [OF mem_messages_ok mem_dbs_up(2), of example_chat 5] by auto
  ultimately show ?thesis by (auto simp: GetPrivateMessage_def Let_def split: prod.split)
qed


lemma example_create:
  "\<exists>room w. FindOrCreateRoom mem_rooms ''q'' ''ann'' ''bob'' empty_chat = (Inr room, w) \<and> rm_id room = ''q'' \<and>
     cw_docs w = [] \<and> st_kv w = Map.empty"
  by (simp add: FindOrCreateRoom_def findPrivateRoom_def createPrivateRoom_def mem_rooms_def Let_def)

lemma private_room_is_shared_witness:
  "\<exists>w' room'. FindOrCreateRoom mem_rooms ''z'' ''bob'' ''ann'' (w' :: nat chat_world) = (Inr room', w') \<and>
     private_room_sql ''bob'' ''ann'' (cw_members w') room' "
proof -
  obtain room w' where run: "FindOrCreateRoom mem_rooms ''q'' ''ann'' ''bob'' empty_chat = (Inr room, w')"
    using example_create by blast
  have "room \<in> set (cw_rooms w') \<and> private_room_sql ''ann'' ''bob'' (cw_members w') room \<and>
    (\<forall>other. (\<exists>room'. FindOrCreateRoom mem_rooms other ''ann'' ''bob'' w' = (Inr room', w')) \<and>
      (\<exists>room'. FindOrCreateRoom mem_rooms other ''bob'' ''ann'' w' = (Inr room', w')))"
    by (rule private_room_is_shared [OF mem_rooms_ok mem_dbs_up(1) _ _ run]) simp_all
  then obtain room' where again: "FindOrCreateRoom mem_rooms ''z'' ''bob'' ''ann'' w' = (Inr room', w')" by blast
  then have "rb_query_room mem_rooms (private_room_sql ''bob'' ''ann'') w' = Inr room'"
    using \<open>room \<in> set (cw_rooms w') \<and> _\<close> private_room_swap
      rooms_db_okD(2) [OF mem_rooms_ok, of "private_room_sql ''bob'' ''ann''" w' room]
    by (auto simp: FindOrCreateRoom_def findPrivateRoom_def split: sum.splits if_splits)
  from rooms_db_okD(1) [OF mem_rooms_ok this] again show ?thesis by blast
qed

lemma example_send:
  "\<exists>resp w. SendPrivateMessage mem_rooms mem_messages number_codec (\<lambda>_. 0) ''q'' 2 '''' \<lparr>sq_content = ''hi''\<rparr>
     ''ann'' ''bob'' empty_chat = (Inr resp, w) \<and> sr_room_id resp = ''q'' \<and> st_kv w = Map.empty"
  by (simp add: SendPrivateMessage_def CreateMessage_def UpdateRoomMetadata_def FindOrCreateRoom_def
      findPrivateRoom_def createPrivateRoom_def mem_rooms_def mem_messages_def Let_def)

lemma sent_message_is_listed_witness:
  "\<exists>page (w' :: nat chat_world) w2. GetPrivateMessage mem_redis mem_rooms mem_messages number_codec plain_ptime plain_ftime
       \<lparr>gq_limit = 5, gq_before_id = None\<rparr> ''q'' w' = (Inr page, w2) \<and>
     pm_content (last (gr_messages page)) = ''hi''"
proof -
  obtain resp w' where run: "SendPrivateMessage mem_rooms mem_messages number_codec (\<lambda>_. 0) ''q'' 2 ''''
      \<lparr>sq_content = ''hi''\<rparr> ''ann'' ''bob'' empty_chat = (Inr resp, w')"
    and resp: "sr_room_id resp = ''q''" "st_kv w' = Map.empty"
    using example_send by blast
  have "\<exists>page w2 older. GetPrivateMessage mem_redis mem_rooms mem_messages number_codec plain_ptime plain_ftime
        \<lparr>gq_limit = 5, gq_before_id = None\<rparr> (sr_room_id resp) w' = (Inr page, w2) \<and>
      gr_messages page = older @ [\<lparr>pm_message_id = sr_message_id resp, pm_room_id = sr_room_id resp,
        pm_sender_id = ''ann'', pm_receiver_id = ''bob'', pm_content = sq_content \<lparr>sq_content = ''hi''\<rparr>,
        pm_reply_to = None, pm_is_read = False, pm_created_at = bson_time 0\<rparr>]"
    using sent_message_is_listed [where ptime = plain_ptime and ftime = plain_ftime
        and q = "\<lparr>gq_limit = 5, gq_before_id = None\<rparr>", OF mem_chat_ok mem_dbs_up _ _ _ run]
    by (simp add: resp)
  then show ?thesis unfolding resp by fastforce
qed

lemma example_find:
  "FindMessageByID mem_messages number_codec ''1'' example_chat = Inr (sent_message 1 ''r'' ''ann'' ''bob'' ''hello'' 0)"
proof -
  have "parse_uint 64 ''1'' = Some 1" by (simp add: parse_uint_def digits_val_def digit_val_def is_digit_def)
  then show ?thesis
    by (simp add: FindMessageByID_def number_codec_def mem_messages_def sent_message_def)
qed

lemma example_members:
  "FindRoomMembers mem_rooms ''r'' example_chat = Inr [new_member ''r'' ''ann'', new_member ''r'' ''bob'']"
  by (simp add: FindRoomMembers_def mem_rooms_def new_member_def)

lemma example_edit:
  "\<exists>resp w'. UpdatePrivateMessage mem_redis mem_rooms mem_messages number_codec (\<lambda>_. 0)
     \<lparr>uq_content = ''bye''\<rparr> ''ann'' ''r'' ''1'' example_chat = (Return (Inr resp), w')"
proof -
  define m where "m = sent_message (1 :: nat) ''r'' ''ann'' ''bob'' ''hello'' 0"
  have m: "ms_id m = 1" "ms_sender_id m = ''ann''" "ms_room_id m = ''r''" "ms_created_at m = 0"
    "ms_content m = ''hello''" "ms_updated_at m = None" "ms_history m = []"
    by (simp_all add: m_def sent_message_def)
  have "FindRoomByID mem_rooms ''r'' example_chat = Inr example_room" "rm_deleted_at example_room = None"
    by (simp_all add: FindRoomByID_def mem_rooms_def example_room_def)
  moreover have "trim_space ''bye'' \<noteq> trim_space ''hello''" by code_simp
  moreover have "UpdateMessage mem_messages msg entry None example_chat \<noteq> (Some e, x)" if "ms_id msg = Suc 0"
    for msg entry e x
    using that by (simp add: UpdateMessage_def mem_messages_def sent_message_def)
  ultimately have "fst (UpdatePrivateMessage mem_redis mem_rooms mem_messages number_codec (\<lambda>_. 0)
     \<lparr>uq_content = ''bye''\<rparr> ''ann'' ''r'' ''1'' example_chat) \<in> range (Return \<circ> Inr)"
    unfolding UpdatePrivateMessage_def example_find m_def [symmetric]
    by (simp add: m example_members editWindow_def Let_def split: prod.split option.split)
  then obtain resp where "fst (UpdatePrivateMessage mem_redis mem_rooms mem_messages number_codec (\<lambda>_. 0)
     \<lparr>uq_content = ''bye''\<rparr> ''ann'' ''r'' ''1'' example_chat) = Return (Inr resp)"
    by (elim rangeE) (simp only: comp_apply)
  then show ?thesis by (intro exI prod_eqI) (simp_all only: fst_conv snd_conv)
qed

lemma edit_effect_witness:
  "\<exists>resp w'. UpdatePrivateMessage mem_redis mem_rooms mem_messages number_codec (\<lambda>_. 0)
       \<lparr>uq_content = ''bye''\<rparr> ''ann'' ''r'' ''1'' example_chat = (Return (Inr resp), w') \<and>
     map ms_content (cw_docs w') = [''bye'']"
proof -
  obtain resp w' where run: "UpdatePrivateMessage mem_redis mem_rooms mem_messages number_codec (\<lambda>_. 0)
       \<lparr>uq_content = ''bye''\<rparr> ''ann'' ''r'' ''1'' example_chat = (Return (Inr resp), w')"
    using example_edit by blast
  have one: "distinct (map ms_id (cv_docs mem_view example_chat))" by simp
  obtain m where "m \<in> set (cv_docs mem_view example_chat)"
    and "cv_docs mem_view w' = change_doc (ms_id m) (edited (uq_content \<lparr>uq_content = ''bye''\<rparr>) 0 m)
      (cv_docs mem_view example_chat)"
    using edit_effect [OF mem_chat_ok one run] by blast
  then have "cw_docs w' = change_doc 1 (edited ''bye'' 0
      (sent_message 1 ''r'' ''ann'' ''bob'' ''hello'' 0)) (cw_docs example_chat)"
    by (simp add: sent_message_def)
  then have "map ms_content (cw_docs w') = [''bye'']"
    by (simp add: change_doc_def edited_def bson_message_def sent_message_def)
  with run show ?thesis by (intro exI conjI)
qed

lemma mark_read_effect_witness:
  "\<exists>w'. MarkPrivateMessageAsRead mem_redis mem_rooms mem_messages number_codec ''bob'' ''r'' ''1'' example_chat =
       (None, w') \<and> map ms_is_read (cw_docs w') = [True]"
proof -
  have "parse_uint 64 ''1'' = Some 1" by (simp add: parse_uint_def digits_val_def digit_val_def is_digit_def)
  then have "fst (MarkMessageAsRead mem_messages number_codec ''1'' w) = None" for w :: "nat chat_world"
    by (simp add: MarkMessageAsRead_def number_codec_def mem_messages_def)
  then have "fst (MarkPrivateMessageAsRead mem_redis mem_rooms mem_messages number_codec ''bob'' ''r'' ''1'' example_chat) = None"
    by (simp add: MarkPrivateMessageAsRead_def example_find example_members PrivateRoomMemberCount_def
        new_member_def sent_message_def Let_def split: prod.split)
  then obtain w' where run: "MarkPrivateMessageAsRead mem_redis mem_rooms mem_messages number_codec ''bob'' ''r'' ''1''
      example_chat = (None, w')" by (metis prod.collapse)
  have one: "distinct (map ms_id (cv_docs mem_view example_chat))" by simp
  obtain m where m: "m \<in> set (cv_docs mem_view example_chat)"
    and "if ms_is_read m then w' = example_chat
     else cv_docs mem_view w' = change_doc (ms_id m) (\<lambda>x. x\<lparr>ms_is_read := True\<rparr>) (cv_docs mem_view example_chat) \<and>
       st_kv (cv_store mem_view w') = (st_kv (cv_store mem_view example_chat))(createMessageCacheKey ''r'' := None)"
    using mark_read_effect [OF mem_chat_ok one run] by blast
  moreover have "ms_id m = 1" "\<not> ms_is_read m" using m by (simp_all add: sent_message_def)
  ultimately have "cw_docs w' = change_doc 1 (\<lambda>x. x\<lparr>ms_is_read := True\<rparr>) (cw_docs example_chat)"
    by simp
  then have "map ms_is_read (cw_docs w') = [True]"
    by (simp add: change_doc_def bson_message_def sent_message_def)
  with run show ?thesis by (intro exI conjI)
qed

end
