(* ===== verification/ChatHandler.thy ===== *)
theory ChatHandler
  imports ChatService Handlers WorkerHandlers
begin

text \<open>
  The HTTP handlers for chats: \<^verbatim>\<open>internal/handlers/chat-handler\<close>. Each decodes and
  validates its request, calls the service and writes the reply; sending, replying and editing start a
  goroutine that queues the job that broadcasts the message. \<open>vtext\<close> is the validator's error text,
  \<open>uuid_ok\<close> its test of a UUID.
\<close>

section \<open>Requests\<close>

definition load_send_request :: "(string \<times> json) list \<Rightarrow> send_request option" where
  "load_send_request kvs =
     Option.bind (load_field dec_string ''content'' kvs '''') (\<lambda>content. Some \<lparr>sq_content = content\<rparr>)"

definition load_get_request :: "(string \<times> json) list \<Rightarrow> get_request option" where
  "load_get_request kvs =
     Option.bind (load_field dec_int64 ''limit'' kvs 0) (\<lambda>limit.
     Option.bind (load_field (dec_ptr '''' dec_string) ''before_id'' kvs None) (\<lambda>before.
       Some \<lparr>gq_limit = limit, gq_before_id = before\<rparr>))"

definition load_reply_request :: "(string \<times> json) list \<Rightarrow> reply_request option" where
  "load_reply_request kvs =
     Option.bind (load_field dec_string ''content'' kvs '''') (\<lambda>content.
     Option.bind (load_field dec_string ''reply_to'' kvs '''') (\<lambda>reply_to.
     Option.bind (load_field dec_string ''receiver_id'' kvs '''') (\<lambda>receiver_id.
       Some \<lparr>rq_content = content, rq_reply_to = reply_to, rq_receiver_id = receiver_id\<rparr>)))"

definition load_update_request :: "(string \<times> json) list \<Rightarrow> update_request option" where
  "load_update_request kvs =
     Option.bind (load_field dec_string ''content'' kvs '''') (\<lambda>content. Some \<lparr>uq_content = content\<rparr>)"

text \<open>The tags; \<^verbatim>\<open>objectID\<close> is the registered \<^verbatim>\<open>ObjectIDValidator\<close>.\<close>

definition ObjectIDValidator :: "'o oid_codec \<Rightarrow> string \<Rightarrow> bool" where
  "ObjectIDValidator oc s = (case oc_from_hex oc s of Inl _ \<Rightarrow> False | Inr _ \<Rightarrow> True)"

definition valid_send :: "send_request \<Rightarrow> bool" where
  "valid_send req \<longleftrightarrow> sq_content req \<noteq> ''''"

definition valid_get :: "get_request \<Rightarrow> bool" where
  "valid_get req \<longleftrightarrow> gq_limit req = 0 \<or> 1 \<le> gq_limit req \<and> gq_limit req \<le> 100"

definition valid_reply :: "'o oid_codec \<Rightarrow> (string \<Rightarrow> bool) \<Rightarrow> reply_request \<Rightarrow> bool" where
  "valid_reply oc uuid_ok req \<longleftrightarrow> rq_content req \<noteq> '''' \<and>
     rq_reply_to req \<noteq> '''' \<and> ObjectIDValidator oc (rq_reply_to req) \<and>
     rq_receiver_id req \<noteq> '''' \<and> uuid_ok (rq_receiver_id req)"

definition valid_update :: "update_request \<Rightarrow> bool" where
  "valid_update req \<longleftrightarrow> uq_content req \<noteq> ''''"

section \<open>Responses\<close>

definition send_response_json :: "(int \<Rightarrow> string) \<Rightarrow> send_response \<Rightarrow> json" where
  "send_response_json ftime p = JObj [(''message_id'', JStr (sr_message_id p)),
     (''room_id'', JStr (sr_room_id p)), (''sender_id'', JStr (sr_sender_id p)),
     (''receiver_id'', JStr (sr_receiver_id p)), (''content'', JStr (sr_content p)),
     (''is_read'', JBool (sr_is_read p)), (''created_at'', JStr (ftime (sr_created_at p)))]"

definition reply_response_json :: "(int \<Rightarrow> string) \<Rightarrow> reply_response \<Rightarrow> json" where
  "reply_response_json ftime p = JObj [(''message_id'', JStr (rr_message_id p)),
     (''room_id'', JStr (rr_room_id p)), (''sender_id'', JStr (rr_sender_id p)),
     (''receiver_id'', JStr (rr_receiver_id p)), (''content'', JStr (rr_content p)),
     (''reply_to'', reply_dto_json (rr_reply_to p)), (''is_read'', JBool (rr_is_read p)),
     (''created_at'', JStr (ftime (rr_created_at p)))]"

definition edit_entry_dto_json :: "(int \<Rightarrow> string) \<Rightarrow> edit_entry_dto \<Rightarrow> json" where
  "edit_entry_dto_json ftime e = JObj [(''message_id'', JStr (ed_message_id e)),
     (''original_content'', JStr (ed_original_content e)), (''new_content'', JStr (ed_new_content e)),
     (''edited_by'', JStr (ed_edited_by e)), (''edited_at'', JStr (ftime (ed_edited_at e)))]"

definition update_response_json :: "(int \<Rightarrow> string) \<Rightarrow> update_response \<Rightarrow> json" where
  "update_response_json ftime p = JObj [(''message_id'', JStr (up_message_id p)),
     (''room_id'', JStr (up_room_id p)), (''sender_id'', JStr (up_sender_id p)),
     (''receiver_id'', JStr (up_receiver_id p)), (''content'', JStr (up_content p)),
     (''message_edit_history'', JArr (map (edit_entry_dto_json ftime) (up_history p))),
     (''reply_to'', enc_ptr reply_dto_json (up_reply_to p)), (''is_read'', JBool (up_is_read p)),
     (''is_edited'', JBool (up_is_edited p)), (''updated_at'', JStr (ftime (up_updated_at p)))]"

section \<open>Broadcast jobs\<close>

text \<open>\<open>now1\<close> and \<open>now2\<close> are the two readings of the clock; a job lives for a minute.\<close>

definition broadcast_job ::
  "(int \<Rightarrow> string) \<Rightarrow> string \<Rightarrow> int \<Rightarrow> broadcast_payload \<Rightarrow> string \<Rightarrow> int \<Rightarrow> int \<Rightarrow> job" where
  "broadcast_job ftime ty priority payload jobId now1 now2 =
     \<lparr>jb_id = jobId, jb_type = ty, jb_payload = Some (broadcast_json ftime payload),
      jb_priority = priority, jb_retry = 0, jb_max_retry = 3, jb_error_msg = '''',
      jb_created_at = unix_seconds now1, jb_expire_at = unix_seconds (now2 + 1 * Minute)\<rparr>"

definition send_payload :: "send_response \<Rightarrow> broadcast_payload" where
  "send_payload resp = zero_broadcast\<lparr>bp_message_id := sr_message_id resp, bp_room_id := sr_room_id resp,
     bp_sender_id := sr_sender_id resp, bp_receiver_id := sr_receiver_id resp,
     bp_content := sr_content resp, bp_created_at := sr_created_at resp\<rparr>"

definition broadcastPrivateMessage ::
  "'w redis \<Rightarrow> (int \<Rightarrow> string) \<Rightarrow> string \<Rightarrow> int \<Rightarrow> int \<Rightarrow> send_response \<Rightarrow> 'w \<Rightarrow> bool \<times> 'w" where
  "broadcastPrivateMessage rd ftime jobId now1 now2 resp w =
     Enqueue rd (broadcast_job ftime ''broadcast_private_message'' 2 (send_payload resp) jobId now1 now2) w"

definition reply_payload :: "reply_response \<Rightarrow> broadcast_payload" where
  "reply_payload resp = zero_broadcast\<lparr>bp_message_id := rr_message_id resp, bp_room_id := rr_room_id resp,
     bp_sender_id := rr_sender_id resp, bp_receiver_id := rr_receiver_id resp,
     bp_content := rr_content resp, bp_is_read := Some (rr_is_read resp),
     bp_reply_to := Some \<lparr>rt_message_id = rd_replied_message_id (rr_reply_to resp),
       rt_content = rd_content (rr_reply_to resp), rt_sender_id = rd_sender_id (rr_reply_to resp)\<rparr>,
     bp_created_at := rr_created_at resp\<rparr>"

definition broadcastPrivateMessageReply ::
  "'w redis \<Rightarrow> (int \<Rightarrow> string) \<Rightarrow> string \<Rightarrow> int \<Rightarrow> int \<Rightarrow> reply_response \<Rightarrow> 'w \<Rightarrow> bool \<times> 'w" where
  "broadcastPrivateMessageReply rd ftime jobId now1 now2 resp w =
     Enqueue rd (broadcast_job ftime ''broadcast_private_message_reply'' 1 (reply_payload resp) jobId now1 now2) w"

text \<open>The edit history is not copied into the payload.\<close>

definition update_payload :: "update_response \<Rightarrow> broadcast_payload" where
  "update_payload resp = zero_broadcast\<lparr>bp_message_id := up_message_id resp, bp_room_id := up_room_id resp,
     bp_sender_id := up_sender_id resp, bp_receiver_id := up_receiver_id resp,
     bp_content := up_content resp, bp_is_read := Some (up_is_read resp),
     bp_is_edited := Some (up_is_edited resp), bp_updated_at := Some (up_updated_at resp)\<rparr>"

definition broadcastPrivateMessageUpdated ::
  "'w redis \<Rightarrow> (int \<Rightarrow> string) \<Rightarrow> string \<Rightarrow> int \<Rightarrow> int \<Rightarrow> update_response \<Rightarrow> 'w \<Rightarrow> bool \<times> 'w" where
  "broadcastPrivateMessageUpdated rd ftime jobId now1 now2 resp w =
     Enqueue rd (broadcast_job ftime ''broadcast_private_message_updated'' 2 (update_payload resp) jobId now1 now2) w"

section \<open>Handlers\<close>

text \<open>The user of the context, when it is a non-empty string.\<close>

definition user_of_context :: "http_request \<Rightarrow> string option" where
  "user_of_context r =
     (case ctx_user r of Some (Sub_value u) \<Rightarrow> if u = '''' then None else Some u | _ \<Rightarrow> None)"

definition no_user :: app_error where
  "no_user = NewAppError StatusUnauthorized ''user id is not found in context'' ''context''"

definition invalid :: "string \<Rightarrow> string \<Rightarrow> app_error" where
  "invalid msg field = NewAppError StatusBadRequest msg field"

definition SendPrivateMessage_handler ::
  "'w redis \<Rightarrow> ('w, 't) rooms_db \<Rightarrow> ('w, 'o) messages_db \<Rightarrow> 'o oid_codec \<Rightarrow> (int \<Rightarrow> string)
   \<Rightarrow> (send_request \<Rightarrow> string) \<Rightarrow> (nat \<Rightarrow> int) \<Rightarrow> string \<Rightarrow> 'o \<Rightarrow> string \<Rightarrow> string \<Rightarrow> 'w app_handler" where
  "SendPrivateMessage_handler rd rb mb oc ftime vtext clk uuid oid jobId why r w =
     (case decode_body \<lparr>sq_content = ''''\<rparr> load_send_request r of
        None \<Rightarrow> (Return (Inl (invalid ''Invalid JSON'' ''body'')), w)
      | Some req \<Rightarrow>
          if \<not> valid_send req then (Return (Inl (invalid (''Invalid fields: '' @ vtext req) ''validation'')), w)
          else
            (case user_of_context r of
               None \<Rightarrow> (Return (Inl no_user), w)
             | Some userID \<Rightarrow>
                 (case SendPrivateMessage rb mb oc clk uuid oid why req userID (req_params r ''receiverId'') w of
                    (Inl err, w1) \<Rightarrow> (Return (Inl err), w1)
                  | (Inr resp, w1) \<Rightarrow>
                      (Return (Inr (reply_ok ''message sent successfully'' (send_response_json ftime resp) r,
                         \<lambda>w'. snd (broadcastPrivateMessage rd ftime jobId (clk 2) (clk 3) resp w'))), w1))))"

definition GetPrivateMessages_handler ::
  "'w redis \<Rightarrow> ('w, 't) rooms_db \<Rightarrow> ('w, 'o :: linorder) messages_db \<Rightarrow> 'o oid_codec
   \<Rightarrow> (string \<Rightarrow> int option) \<Rightarrow> (int \<Rightarrow> string) \<Rightarrow> (get_request \<Rightarrow> string) \<Rightarrow> string \<Rightarrow> 'w app_handler" where
  "GetPrivateMessages_handler rd rb mb oc ptime ftime vtext why r w =
     (case decode_body \<lparr>gq_limit = 0, gq_before_id = None\<rparr> load_get_request r of
        None \<Rightarrow> (Return (Inl (invalid (''Invalid JSON: '' @ why) ''body'')), w)
      | Some req \<Rightarrow>
          if \<not> valid_get req then (Return (Inl (invalid (''Invalid fields: '' @ vtext req) ''validation'')), w)
          else
            (case GetPrivateMessage rd rb mb oc ptime ftime req (req_params r ''roomId'') w of
               (Inl err, w1) \<Rightarrow> (Return (Inl err), w1)
             | (Inr resp, w1) \<Rightarrow>
                 (Return (Inr (reply_ok ''messages fetch successfully'' (get_response_json ftime resp) r, id)), w1)))"

definition ReplyPrivateMessage_handler ::
  "'w redis \<Rightarrow> ('w, 't) rooms_db \<Rightarrow> ('w, 'o) messages_db \<Rightarrow> 'o oid_codec \<Rightarrow> (int \<Rightarrow> string)
   \<Rightarrow> (string \<Rightarrow> bool) \<Rightarrow> (reply_request \<Rightarrow> string) \<Rightarrow> (nat \<Rightarrow> int) \<Rightarrow> 'o \<Rightarrow> string \<Rightarrow> string
   \<Rightarrow> 'w app_handler" where
  "ReplyPrivateMessage_handler rd rb mb oc ftime uuid_ok vtext clk oid jobId why r w =
     (case user_of_context r of
        None \<Rightarrow> (Return (Inl no_user), w)
      | Some userID \<Rightarrow>
          (case decode_body \<lparr>rq_content = '''', rq_reply_to = '''', rq_receiver_id = ''''\<rparr> load_reply_request r of
             None \<Rightarrow> (Return (Inl (invalid ''Invalid JSON'' ''body'')), w)
           | Some req \<Rightarrow>
               if \<not> valid_reply oc uuid_ok req
               then (Return (Inl (invalid (''Invalid fields: '' @ vtext req) ''validation'')), w)
               else
                 (case ReplyPrivateMessage rd rb mb oc clk oid why req userID (req_params r ''roomId'') w of
                    (Panic, w1) \<Rightarrow> (Panic, w1)
                  | (Return (Inl err), w1) \<Rightarrow> (Return (Inl err), w1)
                  | (Return (Inr resp), w1) \<Rightarrow>
                      (Return (Inr (reply_ok ''message replied successfully'' (reply_response_json ftime resp) r,
                         \<lambda>w'. snd (broadcastPrivateMessageReply rd ftime jobId (clk 2) (clk 3) resp w'))), w1))))"

definition missing_params :: app_error where
  "missing_params = NewAppError StatusBadRequest ''room_id and message_id are required'' ''params''"

definition MarkMessageAsRead_handler ::
  "'w redis \<Rightarrow> ('w, 't) rooms_db \<Rightarrow> ('w, 'o) messages_db \<Rightarrow> 'o oid_codec \<Rightarrow> 'w app_handler" where
  "MarkMessageAsRead_handler rd rb mb oc r w =
     (let roomID = req_params r ''roomId''; messageID = req_query r ''messageID'' in
      if roomID = '''' \<or> messageID = '''' then (Return (Inl missing_params), w)
      else
        (case user_of_context r of
           None \<Rightarrow> (Return (Inl no_user), w)
         | Some userID \<Rightarrow>
             (case MarkPrivateMessageAsRead rd rb mb oc userID roomID messageID w of
                (Some err, w1) \<Rightarrow> (Return (Inl err), w1)
              | (None, w1) \<Rightarrow>
                  (Return (Inr (reply_ok ''message marked as read successfully'' (JStr ''OK'') r, id)), w1))))"

definition UpdatePrivateMessage_handler ::
  "'w redis \<Rightarrow> ('w, 't) rooms_db \<Rightarrow> ('w, 'o) messages_db \<Rightarrow> 'o oid_codec \<Rightarrow> (int \<Rightarrow> string)
   \<Rightarrow> (update_request \<Rightarrow> string) \<Rightarrow> (nat \<Rightarrow> int) \<Rightarrow> string \<Rightarrow> 'w app_handler" where
  "UpdatePrivateMessage_handler rd rb mb oc ftime vtext clk jobId r w =
     (let roomID = req_params r ''roomId''; messageID = req_query r ''messageID'' in
      if roomID = '''' \<or> messageID = '''' then (Return (Inl missing_params), w)
      else
        (case user_of_context r of
           None \<Rightarrow> (Return (Inl no_user), w)
         | Some userID \<Rightarrow>
             (case decode_body \<lparr>uq_content = ''''\<rparr> load_update_request r of
                None \<Rightarrow> (Return (Inl (invalid ''Invalid JSON'' ''body'')), w)
              | Some req \<Rightarrow>
                  if \<not> valid_update req
                  then (Return (Inl (invalid (''Invalid fields: '' @ vtext req) ''validation'')), w)
                  else
                    (case UpdatePrivateMessage rd rb mb oc clk req userID roomID messageID w of
                       (Panic, w1) \<Rightarrow> (Panic, w1)
                     | (Return (Inl err), w1) \<Rightarrow> (Return (Inl err), w1)
                     | (Return (Inr resp), w1) \<Rightarrow>
                         (Return (Inr (reply_ok ''message edited'' (update_response_json ftime resp) r,
                            \<lambda>w'. snd (broadcastPrivateMessageUpdated rd ftime jobId (clk 2) (clk 3) resp w'))), w1)))))"

end
