(* ===== verification/HubHandler.thy ===== *)
theory HubHandler
  imports Handlers Float64 HubProperties
begin

text \<open>
  The administration handlers of the hub: \<^verbatim>\<open>internal/handlers/hub-handler/hub-handler.go\<close>.
  A handler answers with an error and leaves the hub as it is, or with a reply and the hub its calls
  made; a panic is recovered by \<^verbatim>\<open>net/http\<close>, which closes the connection. \<open>clk i\<close> is the handler's
  \<open>i\<close>-th reading of the clock, \<open>ftime\<close> writes a time.
\<close>

type_synonym hub_handler = "http_request \<Rightarrow> hub \<Rightarrow> (app_error + http_reply \<times> hub) outcome"

section \<open>Request bodies\<close>

text \<open>
  A value read into \<^verbatim>\<open>any\<close> and written again: numbers pass through \<^verbatim>\<open>float64\<close>,
  objects lose repeated keys and are sorted. Integers are taken to lie below \<open>10 ^ 21\<close>, where the encoder
  writes all digits, and other numbers to be in the encoder's own notation.
\<close>

primrec any_value :: "json \<Rightarrow> json" where
  "any_value JNull = JNull"
| "any_value (JBool b) = JBool b"
| "any_value (JInt n) = JInt (f64 n)"
| "any_value (JFrac s) = JFrac s"
| "any_value (JStr s) = JStr s"
| "any_value (JArr vs) = JArr (map any_value vs)"
| "any_value (JObj kvs) = enc_map (map (map_prod id any_value) kvs)"

definition dec_any_map :: "(string \<times> json) list option \<Rightarrow> json \<Rightarrow> (string \<times> json) list option option" where
  "dec_any_map cur v = map_option (map_option (map (map_prod id any_value))) (dec_map cur v)"

record broadcast_request =
  bq_type :: string
  bq_content :: string
  bq_data :: "(string \<times> json) list option"
  bq_sender_id :: string

definition load_broadcast_request :: "(string \<times> json) list \<Rightarrow> broadcast_request option" where
  "load_broadcast_request kvs =
     Option.bind (load_field dec_string ''type'' kvs '''') (\<lambda>ty.
     Option.bind (load_field dec_string ''content'' kvs '''') (\<lambda>content.
     Option.bind (load_field dec_any_map ''data'' kvs None) (\<lambda>data.
     Option.bind (load_field dec_string ''sender_id'' kvs '''') (\<lambda>sender.
       Some \<lparr>bq_type = ty, bq_content = content, bq_data = data, bq_sender_id = sender\<rparr>))))"

record kick_request =
  kq_user_id :: string
  kq_reason :: string

definition load_kick_request :: "(string \<times> json) list \<Rightarrow> kick_request option" where
  "load_kick_request kvs =
     Option.bind (load_field dec_string ''user_id'' kvs '''') (\<lambda>u.
     Option.bind (load_field dec_string ''reason'' kvs '''') (\<lambda>why.
       Some \<lparr>kq_user_id = u, kq_reason = why\<rparr>))"

record user_broadcast_request =
  ubq_type :: string
  ubq_content :: string
  ubq_data :: "(string \<times> json) list option"

definition load_user_broadcast :: "(string \<times> json) list \<Rightarrow> user_broadcast_request option" where
  "load_user_broadcast kvs =
     Option.bind (load_field dec_string ''type'' kvs '''') (\<lambda>ty.
     Option.bind (load_field dec_string ''content'' kvs '''') (\<lambda>content.
     Option.bind (load_field dec_any_map ''data'' kvs None) (\<lambda>data.
       Some \<lparr>ubq_type = ty, ubq_content = content, ubq_data = data\<rparr>)))"

definition load_disconnect :: "(string \<times> json) list \<Rightarrow> string option" where
  "load_disconnect kvs = load_field dec_string ''reason'' kvs ''''"

section \<open>Queries\<close>

definition hub_reply :: "string \<Rightarrow> json \<Rightarrow> http_request \<Rightarrow> hub \<Rightarrow> (app_error + http_reply \<times> hub) outcome" where
  "hub_reply message data r h = Return (Inr (reply_ok message data r, h))"

definition bad_body :: "string \<Rightarrow> string \<Rightarrow> (app_error + http_reply \<times> hub) outcome" where
  "bad_body message field = Return (Inl (NewAppError StatusBadRequest message field))"

definition HandleHealth :: "int \<Rightarrow> http_request \<Rightarrow> http_reply" where
  "HandleHealth now r = plain_reply 200 (JObj [(''service'', JStr ''websocket-server''),
     (''status'', JStr ''healthy''), (''timestamp'', JInt (unix_seconds now))])"

definition hub_stats_json :: "(int \<Rightarrow> string) \<Rightarrow> hub_stats \<Rightarrow> json" where
  "hub_stats_json ftime s = JObj [(''total_rooms'', JInt (hs_total_rooms s)),
     (''total_clients'', JInt (hs_total_clients s)),
     (''total_connections'', JInt (sint (hs_total_connections s))),
     (''message_sent'', JInt (sint (hs_message_sent s))), (''last_reset'', JStr (ftime (hs_last_reset s)))]"

definition HandleGetStats :: "(int \<Rightarrow> string) \<Rightarrow> hub_handler" where
  "HandleGetStats ftime r h =
     (let (stats, h') = GetHubStats h in hub_reply ''get websocket stats'' (hub_stats_json ftime stats) r h')"

text \<open>A map's keys are written in order.\<close>

definition room_stats_json :: "room_stats \<Rightarrow> json" where
  "room_stats_json s =
     (case rs_counts s of
        None \<Rightarrow> JObj [(''exists'', JBool (rs_exists s)), (''room_id'', JStr (rs_room_id s))]
      | Some (conns, active, users) \<Rightarrow> JObj [(''active_connections'', JInt (int active)),
          (''exists'', JBool (rs_exists s)), (''room_id'', JStr (rs_room_id s)),
          (''total_connections'', JInt (int conns)), (''unique_users'', JInt (int users))])"

definition HandleGetRoomStats :: hub_handler where
  "HandleGetRoomStats r h =
     (let roomID = req_params r ''roomId''
      in hub_reply ''get websocket room stats'' (room_stats_json (GetRoomStats roomID h)) r h)"

text \<open>A slice that nothing was appended to is nil, which is written as \<open>null\<close>.\<close>

definition enc_nil_slice :: "json list \<Rightarrow> json" where
  "enc_nil_slice js = (if js = [] then JNull else JArr js)"

definition client_info :: "(int \<Rightarrow> string) \<Rightarrow> hub \<Rightarrow> client_ptr \<Rightarrow> json" where
  "client_info ftime h p = (let c = h_heap h p in
     JObj [(''id'', JStr (c_id c)), (''user_id'', JStr (c_user_id c)),
       (''connected_at'', JStr (ftime (c_connected_at c))), (''last_seen'', JStr (ftime (GetLastSeen h p)))])"

definition HandleGetRoomClients ::
  "(client_ptr set \<Rightarrow> client_ptr list) \<Rightarrow> (int \<Rightarrow> string) \<Rightarrow> hub_handler" where
  "HandleGetRoomClients range_order ftime r h =
     (let roomID = req_params r ''roomId'';
          clientList = map (client_info ftime h) (GetRoomClients range_order roomID h)
      in hub_reply ''successfully get rooms client'' (JObj [(''clients'', enc_nil_slice clientList),
           (''count'', JInt (int (length clientList))), (''room_id'', JStr roomID)]) r h)"

text \<open>The room is asked for when the request names none, the user's connections when it names one.\<close>

definition HandleGetUserStatus :: hub_handler where
  "HandleGetUserStatus r h =
     (let userID = req_params r ''userId''; roomID = req_query r ''roomId'';
          (isOnline, activeClients) =
            (if roomID = '''' then (IsUserOnlineInRoom roomID userID h, 0)
             else let n = length (GetUserClients userID h) in (0 < n, n))
      in hub_reply ''successful get user status'' (JObj [(''active_clients'', JInt (int activeClients)),
           (''online'', JBool isOnline), (''room_id'', JStr roomID), (''user_id'', JStr userID)]) r h)"

definition connection_info :: "(int \<Rightarrow> string) \<Rightarrow> hub \<Rightarrow> client_ptr \<Rightarrow> json" where
  "connection_info ftime h p = (let c = h_heap h p in
     JObj [(''client_id'', JStr (c_id c)), (''room_id'', JStr (c_room_id c)),
       (''connected_at'', JStr (ftime (c_connected_at c))), (''last_seen'', JStr (ftime (GetLastSeen h p))),
       (''is_active'', JBool (IsClientActive h p))])"

definition HandleGetUserConnections :: "(int \<Rightarrow> string) \<Rightarrow> hub_handler" where
  "HandleGetUserConnections ftime r h =
     (let userID = req_params r ''userId'';
          connections = map (connection_info ftime h) (GetUserClients userID h)
      in hub_reply ''successfully get user connection'' (JObj [(''connections'', enc_nil_slice connections),
           (''count'', JInt (int (length connections))), (''user_id'', JStr userID)]) r h)"

section \<open>Broadcasts\<close>

text \<open>
  The room is read from the parameter \<^verbatim>\<open>roomID\<close>; the router's is called
  \<^verbatim>\<open>roomId\<close>. A nil map is a value for the message's data, not an absent one.
\<close>

definition room_message :: "(nat \<Rightarrow> int) \<Rightarrow> string \<Rightarrow> broadcast_request \<Rightarrow> outgoing_message" where
  "room_message clk roomID payload =
     (if bq_type payload = ''system'' \<or> bq_type payload = ''''
      then NewSystemMessage (clk 0) (clk 1) roomID (bq_content payload) (Some (enc_ptr enc_map (bq_data payload)))
      else \<lparr>om_type = bq_type payload, om_room_id = roomID, om_sender_id = bq_sender_id payload,
             om_message_id = '''', om_data = P_Map (bq_data payload), om_timestamp = unix_seconds (clk 0)\<rparr>)"

definition HandleBroadcastToRoom :: "(client_ptr \<Rightarrow> bool) \<Rightarrow> (nat \<Rightarrow> int) \<Rightarrow> hub_handler" where
  "HandleBroadcastToRoom pick clk r h =
     (let roomID = req_params r ''roomID'' in
      case decode_body \<lparr>bq_type = '''', bq_content = '''', bq_data = None, bq_sender_id = ''''\<rparr>
             load_broadcast_request r of
        None \<Rightarrow> bad_body ''Invalid request body'' ''request-body-broadcast''
      | Some payload \<Rightarrow>
          if bq_content payload = '''' then bad_body ''Content is required'' ''payload-content-missing''
          else bind_outcome (BroadcastToRoom pick roomID (room_message clk roomID payload) h) (\<lambda>h'.
            hub_reply ''successfully get rooms client'' (JObj [(''room_id'', JStr roomID),
              (''status'', JStr ''sent''), (''timestamp'', JInt (unix_seconds (clk 2))),
              (''type'', JStr (bq_type payload))]) r h'))"

definition HandleBroadcastToUser :: "(nat \<Rightarrow> bool) \<Rightarrow> (nat \<Rightarrow> int) \<Rightarrow> hub_handler" where
  "HandleBroadcastToUser pick clk r h =
     (let userID = req_params r ''userId'' in
      case decode_body \<lparr>ubq_type = '''', ubq_content = '''', ubq_data = None\<rparr> load_user_broadcast r of
        None \<Rightarrow> bad_body ''invalid request body'' ''request-body-broadcast-user''
      | Some payload \<Rightarrow>
          (let msg = \<lparr>om_type = ubq_type payload, om_room_id = '''', om_sender_id = '''', om_message_id = '''',
                 om_data = P_Map (ubq_data payload), om_timestamp = unix_seconds (clk 0)\<rparr>
           in bind_outcome (BroadcastToUser pick userID msg h) (\<lambda>h'.
             hub_reply ''successfully broadcast to user'' (JObj [(''status'', JStr ''sent''),
               (''timestamp'', JInt (unix_seconds (clk 1))), (''type'', JStr (ubq_type payload)),
               (''user_id'', JStr userID)]) r h')))"

section \<open>Kicking and disconnecting\<close>

text \<open>
  What both do to one client: a last message, then the close. \<open>pick n\<close> and \<open>clk n\<close> belong to the entry
  with \<open>n\<close> entries after it.
\<close>

definition dismiss :: "bool \<Rightarrow> int \<Rightarrow> outgoing_message \<Rightarrow> client_ptr \<Rightarrow> hub \<Rightarrow> hub outcome" where
  "dismiss pick now msg p h = bind_outcome (SendMessage pick p msg h) (Close now p)"

definition kick_message :: "(nat \<Rightarrow> int) \<Rightarrow> string \<Rightarrow> string \<Rightarrow> outgoing_message" where
  "kick_message clk roomID reason = NewSystemMessage (clk 0) (clk 1) roomID
     (''You have been removed from the room. Reason: '' @ reason)
     (Some (enc_map [(''action'', JStr ''kicaked'')]))"

fun kick_loop ::
  "(nat \<Rightarrow> bool) \<Rightarrow> (nat \<Rightarrow> nat \<Rightarrow> int) \<Rightarrow> string \<Rightarrow> string \<Rightarrow> string \<Rightarrow> client_ptr list \<Rightarrow> nat \<Rightarrow> hub
   \<Rightarrow> (nat \<times> hub) outcome" where
  "kick_loop pick clk roomID userID reason [] kicked h = Return (kicked, h)"
| "kick_loop pick clk roomID userID reason (p # ps) kicked h =
     (if user_of h p = userID
      then bind_outcome
        (dismiss (pick (length ps)) (clk (length ps) 2) (kick_message (clk (length ps)) roomID reason) p h)
        (kick_loop pick clk roomID userID reason ps (kicked + 1))
      else kick_loop pick clk roomID userID reason ps kicked h)"

definition HandleKickUser ::
  "(client_ptr set \<Rightarrow> client_ptr list) \<Rightarrow> (nat \<Rightarrow> bool) \<Rightarrow> (nat \<Rightarrow> nat \<Rightarrow> int) \<Rightarrow> hub_handler" where
  "HandleKickUser range_order pick clk r h =
     (let roomID = req_params r ''roomId'' in
      case decode_body \<lparr>kq_user_id = '''', kq_reason = ''''\<rparr> load_kick_request r of
        None \<Rightarrow> bad_body ''invalid request body'' ''request-body-kick-user''
      | Some payload \<Rightarrow>
          bind_outcome (kick_loop pick clk roomID (kq_user_id payload) (kq_reason payload)
              (GetRoomClients range_order roomID h) 0 h) (\<lambda>(kicked, h').
            hub_reply ''successfully kick users'' (JObj [(''kicked_clients'', JInt (int kicked)),
              (''status'', JStr ''success''), (''user_id'', JStr (kq_user_id payload))]) r h'))"

definition disconnect_message :: "(nat \<Rightarrow> int) \<Rightarrow> string \<Rightarrow> string \<Rightarrow> outgoing_message" where
  "disconnect_message clk roomID reason = NewSystemMessage (clk 0) (clk 1) roomID
     (''Connection closed: '' @ reason) (Some (enc_map [(''action'', JStr ''force_disconnect'')]))"

fun disconnect_loop ::
  "(nat \<Rightarrow> bool) \<Rightarrow> (nat \<Rightarrow> nat \<Rightarrow> int) \<Rightarrow> string \<Rightarrow> client_ptr list \<Rightarrow> nat \<Rightarrow> hub \<Rightarrow> (nat \<times> hub) outcome" where
  "disconnect_loop pick clk reason [] disconnected h = Return (disconnected, h)"
| "disconnect_loop pick clk reason (p # ps) disconnected h =
     bind_outcome
       (dismiss (pick (length ps)) (clk (length ps) 2)
         (disconnect_message (clk (length ps)) (c_room_id (h_heap h p)) reason) p h)
       (disconnect_loop pick clk reason ps (disconnected + 1))"

definition HandleDisconnectUser :: "(nat \<Rightarrow> bool) \<Rightarrow> (nat \<Rightarrow> nat \<Rightarrow> int) \<Rightarrow> hub_handler" where
  "HandleDisconnectUser pick clk r h =
     (let userID = req_params r ''userId'' in
      case decode_body '''' load_disconnect r of
        None \<Rightarrow> bad_body ''invalid request body'' ''request-body-disconnect-user''
      | Some reason \<Rightarrow>
          bind_outcome (disconnect_loop pick clk reason (GetUserClients userID h) 0 h) (\<lambda>(disconnected, h').
            hub_reply ''successfully disconnect user'' (JObj [(''disconnected_clients'', JInt (int disconnected)),
              (''reason'', JStr reason), (''status'', JStr ''success''), (''user_id'', JStr userID)]) r h'))"

section \<open>What dismissing a client does\<close>

lemma own_notice_skipped:
  assumes "broadcastUserStatus now r u b h = Return h'" and "user_of h q = u"
  shows "c_send (h_heap h' q) = c_send (h_heap h q)"
proof -
  have "h_heap h' q = h_heap h q"
    by (rule send_to_all_at(2) [OF assms(1) [unfolded broadcastUserStatus_def broadcaseToRoomExceptUser_def Let_def]])
      (simp add: assms(2))
  then show ?thesis by simp
qed

lemma Unregister_own_buffers:
  assumes "Unregister now r p h = Return h'" and "user_of h q = user_of h p"
  shows "c_send (h_heap h' q) = c_send (h_heap h q)"
  using assms own_notice_skipped [of now r "user_of h p" False "withdrawn r p h" h' q]
  by (auto simp: Unregister_withdrawn split: if_splits)

lemma cleanup_own_buffers:
  assumes "cleanup now p h = Return h'" and "user_of h q = user_of h p"
  shows "c_send (h_heap h' q) = (if q = p then drain_or_close (c_send (h_heap h q)) else c_send (h_heap h q))"
  using assms by (elim cleanup_cases) (auto simp: Unregister_own_buffers)

text \<open>The buffer after the last message and the close: one element shorter than with it.\<close>

definition after_dismissal :: "outgoing_message \<Rightarrow> json list \<Rightarrow> json list" where
  "after_dismissal msg buf =
     tl (if length buf < channelBuffer then buf @ [marshal_outgoing msg] else buf)"

lemma SendMessage_active:
  assumes "hub_inv h" and "all_open h" and "IsClientActive h p"
  shows "SendMessage pick p msg h = Return
    (if length (ch_buf (c_send (h_heap h p))) < channelBuffer
     then upd_client p (\<lambda>c. c\<lparr>c_send := chan_push (marshal_outgoing msg) (c_send c)\<rparr>) h
     else h\<lparr>h_closing := insert p (h_closing h)\<rparr>)"
proof -
  have "ch_cap (c_send (h_heap h p)) = channelBuffer" "\<not> ch_closed (c_send (h_heap h p))"
    using chans_okD [of h p] assms(1,2) by (auto simp: hub_inv_def client_chans_ok_def all_open_def)
  moreover have "\<not> c_ctx_done (h_heap h p)"
    using hub_inv_flags [OF assms(1)] assms(3) by (simp add: IsClientActive_def)
  ultimately show ?thesis
    by (simp add: SendMessage_def Let_def select_send_def chan_full_def upd_client_def)
qed

lemma cleanup_open:
  assumes "all_open k" and "cleanup now p k = Return h'" and "ch_buf (c_send (h_heap k p)) \<noteq> []"
  shows "all_open h'"
proof -
  have shut: "all_open (upd_client p close_client_channels g)"
    if "all_open g" "c_send (h_heap g p) = c_send (h_heap k p)" for g
    using that assms(1,3) by (cases "ch_buf (c_send (h_heap k p))") (auto simp: all_open_def drain_or_close_def)
  from assms(2) show ?thesis
  proof (cases rule: cleanup_cases)
    case (room g)
    then have "all_open g"
      using open_Unregister [OF assms(1)] unfolding returns_open_def by (metis outcome.inject)
    then show ?thesis unfolding room(1) by (rule shut) (rule Unregister_own_buffers [OF room(3) refl])
  next
    case no_room
    show ?thesis unfolding no_room(1) by (rule shut) (simp_all add: assms(1))
  qed
qed

lemma dismiss_returns:
  assumes "hub_inv h" and "all_open h" and "IsClientActive h p"
  shows "\<exists>h'. dismiss pick now msg p h = Return h' \<and> all_open h' \<and>
    ch_buf (c_send (h_heap h' p)) = after_dismissal msg (ch_buf (c_send (h_heap h p))) \<and>
    (\<forall>q. q \<noteq> p \<longrightarrow> user_of h q = user_of h p \<longrightarrow> c_send (h_heap h' q) = c_send (h_heap h q))"
proof -
  note sent = SendMessage_active [OF assms, of pick msg]
  define g where "g = (if length (ch_buf (c_send (h_heap h p))) < channelBuffer
     then upd_client p (\<lambda>c. c\<lparr>c_send := chan_push (marshal_outgoing msg) (c_send c)\<rparr>) h
     else h\<lparr>h_closing := insert p (h_closing h)\<rparr>)"
  define buf where "buf = ch_buf (c_send (h_heap g p))"
  have g: "SendMessage pick p msg h = Return g" using sent by (simp add: g_def)
  have open_g: "all_open g" using assms(2) by (simp add: g_def all_open_def)
  have own: "user_of g q = user_of h q" "q \<noteq> p \<longrightarrow> c_send (h_heap g q) = c_send (h_heap h q)" for q
    by (simp_all add: g_def)
  have buf: "tl buf = after_dismissal msg (ch_buf (c_send (h_heap h p)))" "buf \<noteq> []"
    unfolding buf_def g_def after_dismissal_def channelBuffer_def by auto
  define k where "k = upd_client p (\<lambda>c. c\<lparr>c_active := False, c_ctx_done := True\<rparr>) g"
  have k: "all_open k" "c_send (h_heap k q) = c_send (h_heap g q)" "user_of k q = user_of g q" for q
    using open_g by (simp_all add: k_def all_open_def)
  obtain h' where close: "Close now p g = Return h'" using open_Close [OF open_g] by blast
  have "c_active (h_heap g p)" using assms(3) by (simp add: g_def IsClientActive_def)
  then have clean: "cleanup now p k = Return h'" using close by (simp add: Close_def k_def)
  have "ch_buf (c_send (h_heap k p)) = buf" by (simp add: k(2) buf_def)
  moreover from this have "all_open h'" using cleanup_open [OF k(1) clean] buf(2) by simp
  ultimately have "all_open h'" "ch_buf (c_send (h_heap h' p)) = tl buf"
    using cleanup_own_buffers [OF clean, of p] buf(2)
    by (auto simp: drain_or_close_def split: list.splits)
  moreover have "c_send (h_heap h' q) = c_send (h_heap h q)" if "q \<noteq> p" "user_of h q = user_of h p" for q
    using cleanup_own_buffers [OF clean, of q] that own k(2,3) by simp
  ultimately show ?thesis using g close buf(1) by (auto simp: dismiss_def)
qed

lemma dismiss_frame:
  assumes "dismiss pick now msg p h = Return h'"
  shows "user_of h' q = user_of h q" and "c_room_id (h_heap h' q) = c_room_id (h_heap h q)"
    and "c_active (h_heap h' q) = (q \<noteq> p \<and> c_active (h_heap h q))"
    and "room_members h' r =
      (if c_active (h_heap h p) \<and> r = c_room_id (h_heap h p) \<and> r \<noteq> ''''
       then room_members h r - {p} else room_members h r)"
    and "set (user_tracked h' u) = set (user_tracked h u)"
    and "hub_inv h \<Longrightarrow> hub_inv h'"
proof -
  obtain g where g: "SendMessage pick p msg h = Return g" "Close now p g = Return h'"
    using assms by (auto simp: dismiss_def outcome_simps)
  note same = same_trafficD [OF forget_SendMessage [OF g(1)]]
  show "user_of h' q = user_of h q" "c_room_id (h_heap h' q) = c_room_id (h_heap h q)"
    "c_active (h_heap h' q) = (q \<noteq> p \<and> c_active (h_heap h q))"
    "room_members h' r =
      (if c_active (h_heap h p) \<and> r = c_room_id (h_heap h p) \<and> r \<noteq> ''''
       then room_members h r - {p} else room_members h r)"
    "set (user_tracked h' u) = set (user_tracked h u)"
    using Close_frame [OF g(2)] by (auto simp: same)
  show "hub_inv h \<Longrightarrow> hub_inv h'" using g by (blast intro: hub_inv_SendMessage hub_inv_Close)
qed

text \<open>
  \<open>dismissed\<close>: the clients \<open>K\<close> of one user were taken out, each with a message first; the user's other
  clients keep their buffers.
\<close>

definition dismissed ::
  "(outgoing_message \<Rightarrow> bool) \<Rightarrow> string \<Rightarrow> client_ptr set \<Rightarrow> hub \<Rightarrow> hub \<Rightarrow> bool" where
  "dismissed notice u K h h' \<longleftrightarrow> hub_inv h' \<and> all_open h' \<and>
     (\<forall>q. user_of h' q = user_of h q \<and> c_room_id (h_heap h' q) = c_room_id (h_heap h q) \<and>
        c_active (h_heap h' q) = (c_active (h_heap h q) \<and> q \<notin> K)) \<and>
     (\<forall>s. room_members h' s = {q \<in> room_members h s. \<not> (q \<in> K \<and> c_room_id (h_heap h q) = s \<and> s \<noteq> '''')}) \<and>
     (\<forall>q \<in> K. \<exists>msg. notice msg \<and>
        ch_buf (c_send (h_heap h' q)) = after_dismissal msg (ch_buf (c_send (h_heap h q)))) \<and>
     (\<forall>q. user_of h q = u \<longrightarrow> q \<notin> K \<longrightarrow> c_send (h_heap h' q) = c_send (h_heap h q))"

lemma dismissed_none: "hub_inv h \<Longrightarrow> all_open h \<Longrightarrow> dismissed notice u {} h h"
  by (simp add: dismissed_def)

lemma dismissed_one:
  assumes "hub_inv h" and "all_open h" and "IsClientActive h p" and "user_of h p = u" and "notice msg"
  shows "\<exists>h'. dismiss pick now msg p h = Return h' \<and> dismissed notice u {p} h h'"
proof -
  obtain h' where d: "dismiss pick now msg p h = Return h'" and rest: "all_open h'"
    "ch_buf (c_send (h_heap h' p)) = after_dismissal msg (ch_buf (c_send (h_heap h p)))"
    "\<forall>q. q \<noteq> p \<longrightarrow> user_of h q = user_of h p \<longrightarrow> c_send (h_heap h' q) = c_send (h_heap h q)"
    using dismiss_returns [OF assms(1-3)] by blast
  have "dismissed notice u {p} h h'"
    using rest assms(3-5) dismiss_frame(6) [OF d assms(1)]
    by (auto simp: dismissed_def dismiss_frame(1-4) [OF d] IsClientActive_def)
  with d show ?thesis by blast
qed

lemma dismissed_trans:
  assumes "dismissed notice u K h g" and "dismissed notice u L g h'"
    and "K \<inter> L = {}" and "\<forall>p \<in> K \<union> L. user_of h p = u"
  shows "dismissed notice u (K \<union> L) h h'"
  unfolding dismissed_def
proof (intro conjI)
  show "hub_inv h'" "all_open h'" using assms(2) by (simp_all add: dismissed_def)
  show "\<forall>q. user_of h' q = user_of h q \<and> c_room_id (h_heap h' q) = c_room_id (h_heap h q) \<and>
      c_active (h_heap h' q) = (c_active (h_heap h q) \<and> q \<notin> K \<union> L)"
    using assms(1,2) by (auto simp: dismissed_def)
  show "\<forall>s. room_members h' s =
      {q \<in> room_members h s. \<not> (q \<in> K \<union> L \<and> c_room_id (h_heap h q) = s \<and> s \<noteq> '''')}"
    using assms(1,2) unfolding dismissed_def by auto
  show "\<forall>q \<in> K \<union> L. \<exists>msg. notice msg \<and>
      ch_buf (c_send (h_heap h' q)) = after_dismissal msg (ch_buf (c_send (h_heap h q)))"
  proof
    fix q assume q: "q \<in> K \<union> L"
    then have "user_of g q = u" "user_of h q = u" using assms(1,4) by (auto simp: dismissed_def)
    with q assms(1-3) show "\<exists>msg. notice msg \<and>
        ch_buf (c_send (h_heap h' q)) = after_dismissal msg (ch_buf (c_send (h_heap h q)))"
      unfolding dismissed_def by (metis Un_iff disjoint_iff)
  qed
  show "\<forall>q. user_of h q = u \<longrightarrow> q \<notin> K \<union> L \<longrightarrow> c_send (h_heap h' q) = c_send (h_heap h q)"
    using assms(1,2) by (auto simp: dismissed_def)
qed

lemma kick_loop_effect:
  assumes "hub_inv h" and "all_open h" and "distinct ps" and "\<forall>p \<in> set ps. IsClientActive h p"
  shows "\<exists>h'. kick_loop pick clk r u why ps k h = Return (k + length (filter (\<lambda>p. user_of h p = u) ps), h') \<and>
    dismissed (\<lambda>m. \<exists>c. m = kick_message c r why) u {p \<in> set ps. user_of h p = u} h h'"
  using assms
proof (induction ps arbitrary: h k)
  case Nil
  then show ?case by (simp add: dismissed_none)
next
  case (Cons p ps)
  show ?case
  proof (cases "user_of h p = u")
    case False
    then have "{q \<in> set (p # ps). user_of h q = u} = {q \<in> set ps. user_of h q = u}" by auto
    with Cons.IH [of h k] Cons.prems False show ?thesis by simp
  next
    case True
    let ?n = "length ps"
    let ?notice = "\<lambda>m. \<exists>c. m = kick_message c r why"
    have "hub_inv h" "all_open h" "IsClientActive h p" using Cons.prems by auto
    moreover have "?notice (kick_message (clk ?n) r why)" by blast
    ultimately obtain g where g: "dismiss (pick ?n) (clk ?n 2) (kick_message (clk ?n) r why) p h = Return g"
      and one: "dismissed ?notice u {p} h g"
      using dismissed_one [of h p u ?notice, OF _ _ _ True] by blast
    have same: "user_of g q = user_of h q" for q using one by (simp add: dismissed_def)
    have "hub_inv g" "all_open g" "distinct ps" "\<forall>q \<in> set ps. IsClientActive g q"
      using one Cons.prems by (auto simp: dismissed_def IsClientActive_def)
    from Cons.IH [OF this, of "k + 1"] obtain h' where
      h': "kick_loop pick clk r u why ps (k + 1) g =
        Return (k + 1 + length (filter (\<lambda>p. user_of h p = u) ps), h')"
      and rest: "dismissed ?notice u {q \<in> set ps. user_of h q = u} g h'"
      unfolding same by blast
    have "kick_loop pick clk r u why (p # ps) k h =
        Return (k + length (filter (\<lambda>p. user_of h p = u) (p # ps)), h')"
      using True g h' by simp
    moreover have both: "{q \<in> set (p # ps). user_of h q = u} = {p} \<union> {q \<in> set ps. user_of h q = u}"
      using True by auto
    have "dismissed ?notice u {q \<in> set (p # ps). user_of h q = u} h h'"
      unfolding both by (rule dismissed_trans [OF one rest]) (use True Cons.prems(3) in auto)
    ultimately show ?thesis by (intro exI conjI)
  qed
qed

lemma dismissed_room:
  assumes "hub_inv h" and "dismissed notice u K h h'" and "K \<subseteq> room_members h r" and "r \<noteq> ''''"
  shows "room_members h' s = (if s = r then room_members h s - K else room_members h s)"
proof -
  have "c_room_id (h_heap h q) = r" if "q \<in> K" for q
    using assms(1,3,4) that by (auto simp: hub_inv_def one_room_def)
  moreover have "room_members h' s = {q \<in> room_members h s. \<not> (q \<in> K \<and> c_room_id (h_heap h q) = s \<and> s \<noteq> '''')}"
    using assms(2) by (simp add: dismissed_def)
  ultimately show ?thesis using assms(4) by auto
qed

section \<open>Properties\<close>


definition example_kick :: http_request where
  "example_kick = empty_request\<lparr>req_params := (\<lambda>k. if k = ''roomId'' then ''r1'' else ''''),
     req_body := JsonText (JObj [(''user_id'', JStr ''bob''), (''reason'', JStr ''spam'')])\<rparr>"


text \<open>Disconnecting: a connection may stand in the user's slice several times.\<close>

lemma dismiss_open:
  assumes "hub_inv h" and "all_open h"
  shows "\<exists>h'. dismiss pick now msg p h = Return h' \<and> all_open h'"
proof (cases "IsClientActive h p")
  case True
  with dismiss_returns [OF assms] show ?thesis by blast
next
  case False
  obtain g where g: "SendMessage pick p msg h = Return g" "all_open g"
    using open_SendMessage [OF assms(2)] unfolding returns_open_def by blast
  then have "\<not> c_active (h_heap g p)"
    using False same_trafficD(7) [OF forget_SendMessage [OF g(1)]] by (simp add: IsClientActive_def)
  with g show ?thesis by (simp add: dismiss_def Close_def)
qed

lemma disconnect_loop_effect:
  assumes "hub_inv h" and "all_open h"
  shows "\<exists>h'. disconnect_loop pick clk why ps k h = Return (k + length ps, h') \<and>
    (\<forall>q. c_active (h_heap h' q) = (c_active (h_heap h q) \<and> q \<notin> set ps)) \<and>
    (\<forall>s. room_members h' s = {q \<in> room_members h s.
       \<not> (q \<in> set ps \<and> c_active (h_heap h q) \<and> c_room_id (h_heap h q) = s \<and> s \<noteq> '''')}) \<and>
    (\<forall>u. set (user_tracked h' u) = set (user_tracked h u))"
  using assms
proof (induction ps arbitrary: h k)
  case Nil
  then show ?case by simp
next
  case (Cons p ps)
  let ?n = "length ps"
  obtain g where g: "dismiss (pick ?n) (clk ?n 2) (disconnect_message (clk ?n) (c_room_id (h_heap h p)) why) p h
      = Return g" and "all_open g"
    using dismiss_open [OF Cons.prems] by blast
  note frame = dismiss_frame [OF g]
  from Cons.IH [OF frame(6) [OF Cons.prems(1)] \<open>all_open g\<close>, of "k + 1"] obtain h' where
    h': "disconnect_loop pick clk why ps (k + 1) g = Return (k + 1 + length ps, h')"
    and eff: "\<forall>q. c_active (h_heap h' q) = (c_active (h_heap g q) \<and> q \<notin> set ps)"
      "\<forall>s. room_members h' s = {q \<in> room_members g s.
         \<not> (q \<in> set ps \<and> c_active (h_heap g q) \<and> c_room_id (h_heap g q) = s \<and> s \<noteq> '''')}"
      "\<forall>u. set (user_tracked h' u) = set (user_tracked g u)" by blast
  have "room_members h' s = {q \<in> room_members h s.
       \<not> (q \<in> set (p # ps) \<and> c_active (h_heap h q) \<and> c_room_id (h_heap h q) = s \<and> s \<noteq> '''')}" for s
    using eff(2) by (auto simp: frame(2-4))
  moreover have "disconnect_loop pick clk why (p # ps) k h = Return (k + length (p # ps), h')"
    using g h' by simp
  ultimately show ?case using eff(1,3) by (intro exI [of _ h']) (auto simp: frame(3,5))
qed


definition example_disconnect :: http_request where
  "example_disconnect = empty_request\<lparr>req_params := (\<lambda>k. if k = ''userId'' then ''bob'' else ''''),
     req_body := JsonText (JObj [])\<rparr>"



definition example_broadcast :: http_request where
  "example_broadcast = empty_request\<lparr>req_params := (\<lambda>k. if k = ''roomId'' then ''r1'' else ''''),
     req_body := JsonText (JObj [(''content'', JStr ''hi'')])\<rparr>"


text \<open>
  The status of a user: with a room named it is whether the user has any active connection, and
  without one whether the user is in the room without a name.
\<close>

lemma status_with_room:
  "req_query r ''roomId'' \<noteq> '''' \<Longrightarrow> HandleGetUserStatus r h = hub_reply ''successful get user status''
     (JObj [(''active_clients'', JInt (int (length (GetUserClients (req_params r ''userId'') h)))),
       (''online'', JBool (\<exists>p \<in> set (user_tracked h (req_params r ''userId'')). IsClientActive h p)),
       (''room_id'', JStr (req_query r ''roomId'')), (''user_id'', JStr (req_params r ''userId''))]) r h"
  by (auto simp: HandleGetUserStatus_def Let_def GetUserClients_def filter_empty_conv)

end
