(* ===== verification/Bson.thy ===== *)
theory Bson
  imports Prelude
begin

text \<open>
  BSON documents as the program writes them, and what MongoDB's \<^verbatim>\<open>$jsonSchema\<close> validators
  ask of a document. The driver and the server are not part of the repository: how the driver writes
  times, byte slices, identifiers and integers is an argument (\<open>bson_codec\<close>) with the documented types
  as its law, and \<open>conforms\<close> is used only to state the server's law on insertions.
\<close>

section \<open>Documents\<close>

datatype bson =
    B_null
  | B_bool bool
  | B_int32 int
  | B_int64 int
  | B_str string
  | B_date int
  | B_timestamp int
  | B_binary "nat list"
  | B_object_id string
  | B_arr "bson list"
  | B_doc "(string \<times> bson) list"

text \<open>The aliases \<^verbatim>\<open>bsonType\<close> uses.\<close>

fun bson_type :: "bson \<Rightarrow> string" where
  "bson_type B_null = ''null''"
| "bson_type (B_bool _) = ''bool''"
| "bson_type (B_int32 _) = ''int''"
| "bson_type (B_int64 _) = ''long''"
| "bson_type (B_str _) = ''string''"
| "bson_type (B_date _) = ''date''"
| "bson_type (B_timestamp _) = ''timestamp''"
| "bson_type (B_binary _) = ''binData''"
| "bson_type (B_object_id _) = ''objectId''"
| "bson_type (B_arr _) = ''array''"
| "bson_type (B_doc _) = ''object''"

text \<open>How the driver writes Go values; a nil byte slice is \<^verbatim>\<open>null\<close>.\<close>

record ('o, 'b) bson_codec =
  bc_oid :: "'o \<Rightarrow> bson"
  bc_bytes :: "'b option \<Rightarrow> bson"
  bc_time :: "int \<Rightarrow> bson"
  bc_int :: "int \<Rightarrow> bson"

definition bson_codec_ok :: "('o, 'b) bson_codec \<Rightarrow> bool" where
  "bson_codec_ok bc \<longleftrightarrow> (\<forall>i. bson_type (bc_oid bc i) \<in> {''objectId'', ''binData''}) \<and>
     (\<forall>b. bson_type (bc_bytes bc (Some b)) = ''binData'') \<and> bson_type (bc_bytes bc None) = ''null'' \<and>
     (\<forall>t. bson_type (bc_time bc t) = ''date'') \<and> (\<forall>n. bson_type (bc_int bc n) \<in> {''int'', ''long''})"

section \<open>Validators\<close>

definition type_ok :: "bson \<Rightarrow> bson \<Rightarrow> bool" where
  "type_ok types v =
     (case types of
        B_str t \<Rightarrow> bson_type v = t
      | B_arr ts \<Rightarrow> list_ex (\<lambda>t. t = B_str (bson_type v)) ts
      | _ \<Rightarrow> False)"

text \<open>\<^verbatim>\<open>required\<close> and \<^verbatim>\<open>properties\<close> say nothing about a value that is no object.\<close>

definition has_required :: "bson \<Rightarrow> bson \<Rightarrow> bool" where
  "has_required names v =
     (case (names, v) of
        (B_arr ns, B_doc flds) \<Rightarrow> list_all (\<lambda>n. list_ex (\<lambda>f. B_str (fst f) = n) flds) ns
      | _ \<Rightarrow> True)"

lemma size_schema_member: "(k, s) \<in> set kvs \<Longrightarrow> size s < size (B_doc kvs)"
  by (induction kvs) auto

function conforms :: "bson \<Rightarrow> bson \<Rightarrow> bool" where
  "conforms schema v =
     (case schema of
        B_doc keywords \<Rightarrow> (\<forall>(key, arg) \<in> set keywords.
          if key = ''bsonType'' then type_ok arg v
          else if key = ''required'' then has_required arg v
          else if key = ''items'' then (case v of B_arr xs \<Rightarrow> (\<forall>x \<in> set xs. conforms arg x) | _ \<Rightarrow> True)
          else if key = ''properties''
          then (case (arg, v) of
                  (B_doc props, B_doc flds) \<Rightarrow> (\<forall>(name, sub) \<in> set props.
                     case map_of flds name of None \<Rightarrow> True | Some x \<Rightarrow> conforms sub x)
                | _ \<Rightarrow> True)
          else True)
      | _ \<Rightarrow> True)"
  by pat_completeness auto
termination
  by (relation "measure (\<lambda>(schema, v). size schema)") (auto dest!: size_schema_member)

declare conforms.simps [simp del]

text \<open>A keyword at a time.\<close>

lemma conforms_doc:
  "conforms (B_doc keywords) v \<longleftrightarrow> list_all (\<lambda>(key, arg).
     if key = ''bsonType'' then type_ok arg v
     else if key = ''required'' then has_required arg v
     else if key = ''items'' then (case v of B_arr xs \<Rightarrow> list_all (conforms arg) xs | _ \<Rightarrow> True)
     else if key = ''properties''
     then (case (arg, v) of
             (B_doc props, B_doc flds) \<Rightarrow> list_all (\<lambda>(name, sub).
                case map_of flds name of None \<Rightarrow> True | Some x \<Rightarrow> conforms sub x) props
           | _ \<Rightarrow> True)
     else True) keywords"
  by (subst conforms.simps) (simp add: list_all_iff split: bson.splits)

lemma conforms_propertyD:
  assumes "conforms (B_doc keywords) (B_doc flds)" and "(''properties'', B_doc props) \<in> set keywords"
    and "(name, sub) \<in> set props" and "map_of flds name = Some x"
  shows "conforms sub x"
  using assms by (subst (asm) conforms.simps) fastforce

end
