(* ===== verification/MongoInit.thy ===== *)
theory MongoInit
  imports Bson
begin

text \<open>
  Setting MongoDB up: \<^verbatim>\<open>state/initMongo.go\<close>. The collections' validators are the
  documents the program sends; the server's administration commands are a record of functions,
  \<open>mongo_admin_ok\<close> their documented effect on the collections it has.
\<close>

section \<open>The validators\<close>

definition schema_field :: "string \<Rightarrow> string \<Rightarrow> bson" where
  "schema_field ty description = B_doc [(''bsonType'', B_str ty), (''description'', B_str description)]"

definition strings :: "string list \<Rightarrow> bson" where
  "strings ss = B_arr (map B_str ss)"

definition message_id_schema :: bson where
  "message_id_schema = B_doc [(''bsonType'', strings [''objectId'', ''binData'']),
     (''description'', B_str ''ID of the replied message'')]"

definition edit_history_schema :: bson where
  "edit_history_schema = B_doc
     [(''bsonType'', strings [''array'', ''null'']),
      (''required'', strings [''message_id'', ''original_content'', ''new_content'', ''edited_by'', ''edited_at'']),
      (''properties'', B_doc
        [(''message_id'', message_id_schema),
         (''original_content'', schema_field ''string'' ''Original content of the message''),
         (''new_content'', schema_field ''string'' ''New content fof the message''),
         (''edited_by'', schema_field ''string'' ''Responsible ID who do editing message content''),
         (''edited_at'', schema_field ''string'' ''Edited at'')])]"

definition reply_to_schema :: bson where
  "reply_to_schema = B_doc
     [(''bsonType'', strings [''object'', ''null'']),
      (''required'', strings [''message_id'', ''content'', ''sender_id'']),
      (''properties'', B_doc
        [(''message_id'', message_id_schema),
         (''content'', schema_field ''string'' ''Content of the replied message''),
         (''sender_id'', schema_field ''string'' ''Sender of the original message'')])]"

definition attachments_schema :: bson where
  "attachments_schema = B_doc
     [(''bsonType'', strings [''array'', ''null'']),
      (''items'', B_doc
        [(''bsonType'', B_str ''object''), (''required'', strings [''url'', ''type'']),
         (''properties'', B_doc
           [(''type'', schema_field ''string'' ''File type, e.g., image, video, docs, etc.''),
            (''url'', schema_field ''string'' ''File storage URL'')])])]"

definition message_schema :: bson where
  "message_schema = B_doc
     [(''bsonType'', B_str ''object''),
      (''required'', strings [''room_id'', ''sender_id'', ''receiver_id'', ''content'', ''is_read'', ''created_at'']),
      (''properties'', B_doc
        [(''room_id'', schema_field ''string'' ''Room ID must be a string''),
         (''sender_id'', schema_field ''string'' ''ID sender user''),
         (''receiver_id'', schema_field ''string'' ''ID receiver user''),
         (''content'', schema_field ''string'' (''Chat'' @ [char_of (39 :: nat)] @ ''s content'')),
         (''is_read'', schema_field ''bool'' ''Is message already read''),
         (''message_edit_history'', edit_history_schema),
         (''reply_to'', reply_to_schema),
         (''attachments'', attachments_schema),
         (''is_edited'', schema_field ''bool'' ''Whether the message has been edited''),
         (''created_at'', schema_field ''date'' ''Message creation timestamp''),
         (''updated_at'', B_doc [(''bsonType'', strings [''date'', ''null'']),
            (''description'', B_str ''Message last update timestamp'')])])]"

definition dlq_fields :: "(string \<times> bson) list" where
  "dlq_fields =
     [(''job_id'', schema_field ''string'' ''Unique job ID''),
      (''type'', schema_field ''string'' ''Job Type''),
      (''status'', schema_field ''string'' ''Status of DQL job''),
      (''retry_count'', schema_field ''int'' ''Retry count''),
      (''original_retry_count'', schema_field ''int'' ''Original retry count''),
      (''payload'', B_doc [(''bsonType'', strings [''object'', ''array'']), (''description'', B_str ''Raw payload'')]),
      (''next_retry_at'', schema_field ''timestamp'' ''Next retry job at''),
      (''error_msg'', schema_field ''string'' ''Error message''),
      (''created_at'', schema_field ''timestamp'' ''Creation timestamp''),
      (''updated_at'', schema_field ''timestamp'' ''Update timestamp''),
      (''completed_at'', schema_field ''timestamp'' ''Complete job timestamp''),
      (''failed_at'', schema_field ''timestamp'' ''failed job timestamp''),
      (''expired_at'', schema_field ''timestamp'' ''Expiration timestamp'')]"

definition dlq_schema :: bson where
  "dlq_schema = B_doc
     [(''bsonType'', B_str ''object''),
      (''required'', strings [''job_id'', ''type'', ''status'', ''error_msg'', ''created_at'', ''expired_at'']),
      (''properties'', B_doc dlq_fields)]"

definition json_schema :: "bson \<Rightarrow> bson" where
  "json_schema s = B_doc [(''$jsonSchema'', s)]"

section \<open>The administration commands\<close>

record index_model =
  ix_keys :: "(string \<times> int) list"
  ix_name :: "string option"
  ix_expire_after :: "int option"

datatype command_error = Command_error int string | Other_error string

fun command_error_text :: "command_error \<Rightarrow> string" where
  "command_error_text (Command_error code msg) = msg"
| "command_error_text (Other_error msg) = msg"

text \<open>
  \<open>ma_connect\<close> is connecting to an address, \<open>ma_ping\<close> waits for an answer of the server;
  \<open>ma_list\<close> lists the collections of a name; the others answer \<open>None\<close> when they succeed. The command
  is \<^verbatim>\<open>collMod\<close> with its validator and validation level.
\<close>

record 'w mongo_admin =
  ma_connect :: "string \<Rightarrow> 'w \<Rightarrow> string option \<times> 'w"
  ma_ping :: "'w \<Rightarrow> string option \<times> 'w"
  ma_list :: "string \<Rightarrow> 'w \<Rightarrow> string + string list"
  ma_create :: "string \<Rightarrow> bson \<Rightarrow> 'w \<Rightarrow> string option \<times> 'w"
  ma_index :: "string \<Rightarrow> index_model list \<Rightarrow> 'w \<Rightarrow> string option \<times> 'w"
  ma_coll_mod :: "string \<Rightarrow> bson \<Rightarrow> string \<Rightarrow> 'w \<Rightarrow> command_error option \<times> 'w"

definition message_indexes :: "index_model list" where
  "message_indexes =
     [\<lparr>ix_keys = [(''room_id'', 1), (''created_at'', - 1)], ix_name = Some ''room_time_idx'', ix_expire_after = None\<rparr>,
      \<lparr>ix_keys = [(''sender_id'', 1)], ix_name = Some ''sender_idx'', ix_expire_after = None\<rparr>,
      \<lparr>ix_keys = [(''receiver_id'', 1)], ix_name = Some ''receiver_idx'', ix_expire_after = None\<rparr>]"

definition initMessageCollection :: "'w mongo_admin \<Rightarrow> 'w \<Rightarrow> string option \<times> 'w" where
  "initMessageCollection adm w =
     (case ma_list adm ''messages'' w of
        Inl err \<Rightarrow> (Some (''failed to list connections: '' @ err), w)
      | Inr collections \<Rightarrow>
          if collections \<noteq> [] then (None, w)
          else
            (case ma_create adm ''messages'' (json_schema message_schema) w of
               (Some err, w1) \<Rightarrow> (Some (''faield to create collection: '' @ err), w1)
             | (None, w1) \<Rightarrow>
                 (case ma_index adm ''messages'' message_indexes w1 of
                    (Some err, w2) \<Rightarrow> (Some (''failed to create indexes: '' @ err), w2)
                  | (None, w2) \<Rightarrow> (None, w2))))"

definition ttl_index :: index_model where
  "ttl_index = \<lparr>ix_keys = [(''expired_at'', 1)], ix_name = None, ix_expire_after = Some 0\<rparr>"

text \<open>26 is \<^verbatim>\<open>NamespaceNotFound\<close>.\<close>

definition initDLQCollection :: "'w mongo_admin \<Rightarrow> 'w \<Rightarrow> string option \<times> 'w" where
  "initDLQCollection adm w =
     (let validator = json_schema dlq_schema;
          (installed, w2) =
            (case ma_coll_mod adm ''dlq_jobs'' validator ''moderate'' w of
               (None, w1) \<Rightarrow> (None, w1)
             | (Some err, w1) \<Rightarrow>
                 if (case err of Command_error code _ \<Rightarrow> code = 26 | Other_error _ \<Rightarrow> False)
                 then
                   (case ma_create adm ''dlq_jobs'' validator w1 of
                      (Some e, w2) \<Rightarrow> (Some (''failed to create dlq_jobs collection: '' @ e), w2)
                    | (None, w2) \<Rightarrow> (None, w2))
                 else (Some (''failed to modify dlq_jobs collection: '' @ command_error_text err), w1))
      in case installed of
           Some err \<Rightarrow> (Some err, w2)
         | None \<Rightarrow>
             (case ma_index adm ''dlq_jobs'' [ttl_index] w2 of
                (Some e, w3) \<Rightarrow> (Some (''failed to create TTL index on dlq_jobs: '' @ e), w3)
              | (None, w3) \<Rightarrow> (None, w3)))"

definition InitMongo :: "'w mongo_admin \<Rightarrow> string \<Rightarrow> 'w \<Rightarrow> string option \<times> 'w" where
  "InitMongo adm uri w =
     (if uri = '''' then (Some ''mongo url is empty'', w)
      else
        (case ma_connect adm uri w of
           (Some err, w1) \<Rightarrow> (Some (''failed to connect to MongoDB: '' @ err), w1)
         | (None, w1) \<Rightarrow>
        (case ma_ping adm w1 of
           (Some err, w2) \<Rightarrow> (Some (''failed to ping MongoDB: '' @ err), w2)
         | (None, w2) \<Rightarrow>
        (case initMessageCollection adm w2 of
           (Some err, w3) \<Rightarrow> (Some (''faield to create '' @ [char_of (39 :: nat)] @ ''messages'' @
             [char_of (39 :: nat)] @ '' collection: '' @ err), w3)
         | (None, w3) \<Rightarrow>
        (case initDLQCollection adm w3 of
           (Some err, w4) \<Rightarrow> (Some (''failed to create '' @ [char_of (39 :: nat)] @ ''dlq_jobs'' @
             [char_of (39 :: nat)] @ '' collection: '' @ err), w4)
         | (None, w4) \<Rightarrow> (None, w4))))))"

section \<open>What the server does\<close>

text \<open>
  \<open>colls w n\<close> is the validator and the indexes of the collection \<open>n\<close>, if there is one. Creating an
  index creates a missing collection.
\<close>

type_synonym collections = "string \<Rightarrow> (bson \<times> index_model set) option"

definition add_indexes :: "string \<Rightarrow> index_model list \<Rightarrow> collections \<Rightarrow> collections" where
  "add_indexes n ixs cs =
     cs(n \<mapsto> (case cs n of None \<Rightarrow> (B_doc [], set ixs) | Some (v, S) \<Rightarrow> (v, S \<union> set ixs)))"

definition mongo_admin_ok :: "'w mongo_admin \<Rightarrow> ('w \<Rightarrow> collections) \<Rightarrow> bool" where
  "mongo_admin_ok adm colls \<longleftrightarrow>
     (\<forall>uri w. colls (snd (ma_connect adm uri w)) = colls w) \<and>
     (\<forall>w. colls (snd (ma_ping adm w)) = colls w) \<and>
     (\<forall>n w ns. ma_list adm n w = Inr ns \<longrightarrow> (ns = [] \<longleftrightarrow> colls w n = None)) \<and>
     (\<forall>n v w w'. ma_create adm n v w = (None, w') \<longrightarrow> colls w n = None \<and> colls w' = (colls w)(n \<mapsto> (v, {}))) \<and>
     (\<forall>n v w e w'. ma_create adm n v w = (Some e, w') \<longrightarrow> colls w' = colls w) \<and>
     (\<forall>n ixs w w'. ma_index adm n ixs w = (None, w') \<longrightarrow> colls w' = add_indexes n ixs (colls w)) \<and>
     (\<forall>n ixs w e w'. ma_index adm n ixs w = (Some e, w') \<longrightarrow> colls w' = colls w) \<and>
     (\<forall>n v l w w'. ma_coll_mod adm n v l w = (None, w') \<longrightarrow>
        (\<exists>v0 S. colls w n = Some (v0, S) \<and> colls w' = (colls w)(n \<mapsto> (v, S)))) \<and>
     (\<forall>n v l w e w'. ma_coll_mod adm n v l w = (Some e, w') \<longrightarrow> colls w' = colls w)"

lemma mongo_admin_okD:
  assumes "mongo_admin_ok adm colls"
  shows "ma_list adm n w = Inr ns \<Longrightarrow> ns = [] \<longleftrightarrow> colls w n = None"
    and "ma_create adm n v w = (None, w') \<Longrightarrow> colls w n = None \<and> colls w' = (colls w)(n \<mapsto> (v, {}))"
    and "ma_index adm n ixs w = (None, w') \<Longrightarrow> colls w' = add_indexes n ixs (colls w)"
    and "ma_coll_mod adm n v l w = (None, w') \<Longrightarrow>
      \<exists>v0 S. colls w n = Some (v0, S) \<and> colls w' = (colls w)(n \<mapsto> (v, S))"
    and "ma_coll_mod adm n v l w = (Some e, w') \<Longrightarrow> colls w' = colls w"
    and "ma_connect adm uri w = (out, w') \<Longrightarrow> colls w' = colls w"
    and "ma_ping adm w = (out, w') \<Longrightarrow> colls w' = colls w"
proof -
  note laws = assms [unfolded mongo_admin_ok_def]
  show "ma_list adm n w = Inr ns \<Longrightarrow> ns = [] \<longleftrightarrow> colls w n = None"
    using conjunct1 [OF conjunct2 [OF conjunct2 [OF laws]]] by metis
  show "ma_create adm n v w = (None, w') \<Longrightarrow> colls w n = None \<and> colls w' = (colls w)(n \<mapsto> (v, {}))"
    using laws by (elim conjE) metis
  show "ma_index adm n ixs w = (None, w') \<Longrightarrow> colls w' = add_indexes n ixs (colls w)" using laws by (elim conjE) metis
  show "ma_coll_mod adm n v l w = (None, w') \<Longrightarrow>
      \<exists>v0 S. colls w n = Some (v0, S) \<and> colls w' = (colls w)(n \<mapsto> (v, S))" using laws by (elim conjE) metis
  show "ma_coll_mod adm n v l w = (Some e, w') \<Longrightarrow> colls w' = colls w" using laws by (elim conjE) metis
  show "ma_connect adm uri w = (out, w') \<Longrightarrow> colls w' = colls w"
    using conjunct1 [OF laws] by (metis snd_conv)
  show "ma_ping adm w = (out, w') \<Longrightarrow> colls w' = colls w"
    using conjunct1 [OF conjunct2 [OF laws]] by (metis snd_conv)
qed

text \<open>A server in memory: the world is the collections.\<close>

definition mem_admin :: "collections mongo_admin" where
  "mem_admin = \<lparr>ma_connect = (\<lambda>uri cs. (None, cs)), ma_ping = (\<lambda>cs. (None, cs)),
     ma_list = (\<lambda>n cs. Inr (if cs n = None then [] else [n])),
     ma_create = (\<lambda>n v cs. if cs n = None then (None, cs(n \<mapsto> (v, {}))) else (Some ''exists'', cs)),
     ma_index = (\<lambda>n ixs cs. (None, add_indexes n ixs cs)),
     ma_coll_mod = (\<lambda>n v l cs. case cs n of
        None \<Rightarrow> (Some (Command_error 26 ''ns does not exist''), cs)
      | Some (v0, S) \<Rightarrow> (None, cs(n \<mapsto> (v, S))))\<rparr>"

lemma mem_admin_ok: "mongo_admin_ok mem_admin id"
  by (auto simp: mongo_admin_ok_def mem_admin_def split: option.splits if_splits)

section \<open>What the set-up achieves\<close>

lemma initMessageCollection_effect:
  assumes "mongo_admin_ok adm colls" and "initMessageCollection adm w = (None, w')"
  shows "colls w' = (if colls w ''messages'' = None
     then (colls w)(''messages'' \<mapsto> (json_schema message_schema, set message_indexes)) else colls w)"
proof -
  obtain ns where l: "ma_list adm ''messages'' w = Inr ns"
    using assms(2) by (auto simp: initMessageCollection_def split: sum.splits)
  note old = mongo_admin_okD(1) [OF assms(1) l]
  show ?thesis
  proof (cases "ns = []")
    case False
    then have "colls w ''messages'' \<noteq> None" "w' = w"
      using old assms(2) l by (simp_all add: initMessageCollection_def)
    then show ?thesis by auto
  next
    case True
    with assms(2) l obtain w1 where
      c: "ma_create adm ''messages'' (json_schema message_schema) w = (None, w1)"
      and i: "ma_index adm ''messages'' message_indexes w1 = (None, w')"
      by (auto simp: initMessageCollection_def split: prod.splits option.splits)
    from mongo_admin_okD(2) [OF assms(1) c] mongo_admin_okD(3) [OF assms(1) i] show ?thesis
      by (simp add: add_indexes_def)
  qed
qed

lemma initDLQCollection_effect:
  assumes "mongo_admin_ok adm colls" and "initDLQCollection adm w = (None, w')"
  shows "colls w' = (colls w)(''dlq_jobs'' \<mapsto> (json_schema dlq_schema,
     insert ttl_index (case colls w ''dlq_jobs'' of None \<Rightarrow> {} | Some (v, S) \<Rightarrow> S)))"
proof -
  obtain w2 where put: "colls w2 = (colls w)(''dlq_jobs'' \<mapsto> (json_schema dlq_schema,
       (case colls w ''dlq_jobs'' of None \<Rightarrow> {} | Some (v, S) \<Rightarrow> S)))"
    and i: "ma_index adm ''dlq_jobs'' [ttl_index] w2 = (None, w')"
  proof (cases "ma_coll_mod adm ''dlq_jobs'' (json_schema dlq_schema) ''moderate'' w")
    case (Pair r w1)
    show ?thesis
    proof (cases r)
      case None
      with Pair mongo_admin_okD(4) [OF assms(1), of "''dlq_jobs''" "json_schema dlq_schema" "''moderate''" w w1]
      obtain v0 S where "colls w ''dlq_jobs'' = Some (v0, S)"
        "colls w1 = (colls w)(''dlq_jobs'' \<mapsto> (json_schema dlq_schema, S))" by blast
      moreover have "ma_index adm ''dlq_jobs'' [ttl_index] w1 = (None, w')"
        using assms(2) Pair None by (auto simp: initDLQCollection_def Let_def split: prod.splits option.splits)
      ultimately show ?thesis using that [of w1] by simp
    next
      case (Some e)
      then have same: "colls w1 = colls w"
        using Pair mongo_admin_okD(5) [OF assms(1)] by blast
      obtain w2 where c: "ma_create adm ''dlq_jobs'' (json_schema dlq_schema) w1 = (None, w2)"
        and "ma_index adm ''dlq_jobs'' [ttl_index] w2 = (None, w')"
        using assms(2) Pair Some
        by (auto simp: initDLQCollection_def Let_def split: prod.splits option.splits if_splits)
      with mongo_admin_okD(2) [OF assms(1) c] same show ?thesis using that [of w2] by simp
    qed
  qed
  show ?thesis
    using mongo_admin_okD(3) [OF assms(1) i] put
    by (auto simp: add_indexes_def split: option.splits)
qed

text \<open>
  C31. What setting MongoDB up leaves behind. The dead letters' collection has the program's validator,
  whatever it had before, and expires its documents; the messages' collection has its validator and
  indexes when it was created now, and is left as it was when it existed; no other collection changes,
  and setting up once more changes nothing.
\<close>

theorem init_mongo_effect:
  assumes "mongo_admin_ok adm colls" and "InitMongo adm uri w = (None, w')"
  shows "(\<exists>S. colls w' ''dlq_jobs'' = Some (json_schema dlq_schema, S) \<and> ttl_index \<in> S) \<and>
    colls w' ''messages'' = (case colls w ''messages'' of
       None \<Rightarrow> Some (json_schema message_schema, set message_indexes) | Some c \<Rightarrow> Some c) \<and>
    (\<forall>n. n \<noteq> ''dlq_jobs'' \<longrightarrow> n \<noteq> ''messages'' \<longrightarrow> colls w' n = colls w n) \<and>
    (\<forall>uri' w''. InitMongo adm uri' w' = (None, w'') \<longrightarrow> colls w'' = colls w')"
proof -
  have split: "\<exists>u1 w1. colls u1 = colls u \<and> initMessageCollection adm u1 = (None, w1) \<and>
      initDLQCollection adm w1 = (None, u')" if "InitMongo adm uri u = (None, u')" for uri u u'
    using that mongo_admin_okD(6,7) [OF assms(1)]
    by (force simp: InitMongo_def split: if_splits option.splits prod.splits)
  define both where "both cs = (let m = (if cs ''messages'' = None
       then cs(''messages'' \<mapsto> (json_schema message_schema, set message_indexes)) else cs)
     in m(''dlq_jobs'' \<mapsto> (json_schema dlq_schema,
          insert ttl_index (case m ''dlq_jobs'' of None \<Rightarrow> {} | Some (v, S) \<Rightarrow> S))))" for cs :: collections
  have eff: "colls u' = both (colls u)" if run: "InitMongo adm uri u = (None, u')" for uri u u'
  proof -
    obtain u1 w1 where u1: "colls u1 = colls u" and "initMessageCollection adm u1 = (None, w1)"
      "initDLQCollection adm w1 = (None, u')"
      using split [OF run] by blast
    from initMessageCollection_effect [OF assms(1) this(2)] initDLQCollection_effect [OF assms(1) this(3)] u1
    show ?thesis unfolding both_def Let_def by (simp only:)
  qed
  have w': "colls w' = both (colls w)" by (rule eff [OF assms(2)])
  have again: "both (both cs) = both cs" for cs
    by (auto simp: both_def Let_def fun_eq_iff)
  have "\<exists>S. both cs ''dlq_jobs'' = Some (json_schema dlq_schema, S) \<and> ttl_index \<in> S" for cs
    by (auto simp: both_def Let_def)
  moreover have "both cs ''messages'' = (case cs ''messages'' of
      None \<Rightarrow> Some (json_schema message_schema, set message_indexes) | Some c \<Rightarrow> Some c)" for cs
    by (simp add: both_def Let_def split: option.splits)
  moreover have "both cs n = cs n" if "n \<noteq> ''dlq_jobs''" "n \<noteq> ''messages''" for cs n
    using that by (simp add: both_def Let_def)
  ultimately show ?thesis
    using w' eff again by simp
qed

lemma init_mongo_effect_witness:
  "\<exists>cs. InitMongo mem_admin ''mongodb://localhost'' Map.empty = (None, cs) \<and>
     cs ''messages'' = Some (json_schema message_schema, set message_indexes)"
proof -
  have "\<exists>cs. InitMongo mem_admin ''mongodb://localhost'' Map.empty = (None, cs)"
    by (simp add: InitMongo_def initMessageCollection_def initDLQCollection_def mem_admin_def add_indexes_def)
  then obtain cs where run: "InitMongo mem_admin ''mongodb://localhost'' Map.empty = (None, cs)" ..
  have "cs ''messages'' = Some (json_schema message_schema, set message_indexes)"
    using conjunct1 [OF conjunct2 [OF init_mongo_effect [OF mem_admin_ok run]]] by simp
  with run show ?thesis by (intro exI conjI)
qed

end
