(* ===== verification/MongoDocs.thy ===== *)
theory MongoDocs
  imports MongoInit DeadLetters ChatRepo
begin

text \<open>
  The documents the program inserts, as the \<^verbatim>\<open>bson\<close> tags of
  \<^verbatim>\<open>internal/entity/message.go\<close> and \<^verbatim>\<open>internal/entity/dlqjob.go\<close> make them, against
  the validators \<open>InitMongo\<close> installs: every message is accepted, and no dead letter is.
\<close>

section \<open>Messages\<close>

text \<open>A nil slice or pointer is \<^verbatim>\<open>null\<close>.\<close>

definition slice_bson :: "('a \<Rightarrow> bson) \<Rightarrow> 'a list \<Rightarrow> bson" where
  "slice_bson enc xs = (if xs = [] then B_null else B_arr (map enc xs))"

definition ptr_bson :: "('a \<Rightarrow> bson) \<Rightarrow> 'a option \<Rightarrow> bson" where
  "ptr_bson enc p = (case p of None \<Rightarrow> B_null | Some x \<Rightarrow> enc x)"

definition edit_entry_bson :: "('o, 'b) bson_codec \<Rightarrow> 'o edit_entry \<Rightarrow> bson" where
  "edit_entry_bson bc e = B_doc [(''message_id'', bc_oid bc (ee_message_id e)),
     (''original_content'', B_str (ee_original_content e)), (''new_content'', B_str (ee_new_content e)),
     (''edited_by'', B_str (ee_edited_by e)), (''edited_at'', bc_time bc (ee_edited_at e))]"

definition attachment_bson :: "ChatRepo.attachment \<Rightarrow> bson" where
  "attachment_bson a = B_doc [(''type'', B_str (at_type a)), (''url'', B_str (at_url a))]"

definition reply_to_bson :: "('o, 'b) bson_codec \<Rightarrow> 'o reply_to \<Rightarrow> bson" where
  "reply_to_bson bc p = B_doc [(''message_id'', bc_oid bc (rp_message_id p)),
     (''content'', B_str (rp_content p)), (''sender_id'', B_str (rp_sender_id p))]"

definition message_bson :: "('o, 'b) bson_codec \<Rightarrow> 'o message \<Rightarrow> bson" where
  "message_bson bc m = B_doc [(''_id'', bc_oid bc (ms_id m)), (''room_id'', B_str (ms_room_id m)),
     (''sender_id'', B_str (ms_sender_id m)), (''receiver_id'', B_str (ms_receiver_id m)),
     (''content'', B_str (ms_content m)), (''is_read'', B_bool (ms_is_read m)),
     (''is_edited'', B_bool (ms_is_edited m)),
     (''message_edit_history'', slice_bson (edit_entry_bson bc) (ms_history m)),
     (''attachments'', slice_bson attachment_bson (ms_attachments m)),
     (''reply_to'', ptr_bson (reply_to_bson bc) (ms_reply_to m)),
     (''created_at'', bc_time bc (ms_created_at m)),
     (''updated_at'', ptr_bson (bc_time bc) (ms_updated_at m))]"

section \<open>Dead letters\<close>

definition omit_nil_bson :: "string \<Rightarrow> ('a \<Rightarrow> bson) \<Rightarrow> 'a option \<Rightarrow> (string \<times> bson) list" where
  "omit_nil_bson name enc p = (case p of None \<Rightarrow> [] | Some x \<Rightarrow> [(name, enc x)])"

text \<open>
  The document that is inserted: its identifier is zero and left out; the payload is a
  \<^verbatim>\<open>json.RawMessage\<close>, which is a byte slice.
\<close>

definition dlq_bson :: "('o, json) bson_codec \<Rightarrow> dlq_job \<Rightarrow> bson" where
  "dlq_bson bc d = B_doc
     ([(''job_id'', B_str (dl_job_id d)), (''type'', B_str (dl_type d)),
       (''payload'', bc_bytes bc (dl_payload d)), (''error_msg'', B_str (dl_error_msg d)),
       (''status'', B_str (dl_status d)), (''retry_count'', bc_int bc (dl_retry_count d)),
       (''original_retry_count'', bc_int bc (dl_original_retry_count d))]
      @ omit_nil_bson ''next_retry_at'' (bc_time bc) (dl_next_retry_at d)
      @ [(''created_at'', bc_time bc (dl_created_at d)), (''updated_at'', bc_time bc (dl_updated_at d))]
      @ omit_nil_bson ''completed_at'' (bc_time bc) (dl_completed_at d)
      @ omit_nil_bson ''failed_at'' (bc_time bc) (dl_failed_at d)
      @ [(''expired_at'', bc_time bc (dl_expire_at d))])"

section \<open>What the validators say\<close>

lemma bson_codec_okD:
  assumes "bson_codec_ok bc"
  shows "bson_type (bc_oid bc i) = ''objectId'' \<or> bson_type (bc_oid bc i) = ''binData''"
    and "bson_type (bc_bytes bc (Some b)) = ''binData''" and "bson_type (bc_time bc t) = ''date''"
  using assms by (simp_all add: bson_codec_ok_def)

text \<open>
  C30. Every message is a document its collection accepts: with or without a history, attachments, a
  message it replies to and an edit time.
\<close>

theorem messages_conform:
  assumes "bson_codec_ok bc"
  shows "conforms message_schema (message_bson bc m)"
proof -
  have field: "conforms (schema_field ty d) v \<longleftrightarrow> bson_type v = ty" for ty d v
    by (simp add: conforms_doc schema_field_def type_ok_def)
  have oid: "conforms message_id_schema (bc_oid bc i)" for i
    using bson_codec_okD(1) [OF assms, of i]
    by (auto simp: conforms_doc message_id_schema_def type_ok_def strings_def)
  have history: "conforms edit_history_schema (slice_bson (edit_entry_bson bc) h)" for h
    by (simp add: conforms_doc edit_history_schema_def slice_bson_def type_ok_def strings_def has_required_def)
  have attachments: "conforms attachments_schema (slice_bson attachment_bson as)" for as
    by (auto simp: conforms_doc attachments_schema_def slice_bson_def attachment_bson_def type_ok_def
        strings_def has_required_def field list_all_iff)
  have reply: "conforms reply_to_schema (ptr_bson (reply_to_bson bc) p)" for p
    by (simp add: conforms_doc reply_to_schema_def ptr_bson_def reply_to_bson_def type_ok_def strings_def
        has_required_def field oid split: option.split)
  have updated: "type_ok (strings [''date'', ''null'']) (ptr_bson (bc_time bc) u)" for u
    using bson_codec_okD(3) [OF assms]
    by (simp add: type_ok_def strings_def ptr_bson_def split: option.split)
  have edited: "conforms (B_doc [(''bsonType'', strings [''date'', ''null'']), (''description'', d)])
      (ptr_bson (bc_time bc) u)" for u d
    using updated by (simp add: conforms_doc)
  show ?thesis
    unfolding message_schema_def message_bson_def
    by (simp add: conforms_doc [of "(''bsonType'', B_str ''object'') # ks" for ks] type_ok_def has_required_def
        strings_def field history attachments reply edited [unfolded strings_def list.map]
        bson_codec_okD(3) [OF assms])
qed

text \<open>A codec.\<close>

definition plain_codec :: "(nat, json) bson_codec" where
  "plain_codec = \<lparr>bc_oid = (\<lambda>i. B_object_id ''''),
     bc_bytes = (\<lambda>b. case b of None \<Rightarrow> B_null | Some j \<Rightarrow> B_binary []), bc_time = B_date, bc_int = B_int32\<rparr>"

lemma plain_codec_ok: "bson_codec_ok plain_codec"
  by (simp add: bson_codec_ok_def plain_codec_def)

lemma messages_conform_witness:
  "conforms message_schema (message_bson plain_codec
     \<lparr>ms_id = 1, ms_room_id = ''r'', ms_sender_id = ''a'', ms_receiver_id = ''b'', ms_content = ''hi'',
      ms_is_read = False, ms_is_edited = False, ms_history = [], ms_attachments = [],
      ms_reply_to = Some \<lparr>rp_message_id = 0, rp_content = ''x'', rp_sender_id = ''b''\<rparr>, ms_created_at = 5,
      ms_updated_at = None\<rparr>)"
  by (rule messages_conform [OF plain_codec_ok])

text \<open>A dead letter carries its times as dates, where the validator asks for timestamps.\<close>

lemma dead_letter_rejected:
  assumes "bson_codec_ok bc"
  shows "\<not> conforms dlq_schema (dlq_bson bc d)"
proof
  assume accepted: "conforms dlq_schema (dlq_bson bc d)"
  have "conforms (schema_field ''timestamp'' ''Creation timestamp'') (bc_time bc (dl_created_at d))"
    by (rule conforms_propertyD [OF accepted [unfolded dlq_schema_def dlq_bson_def],
          where props = dlq_fields and name = "''created_at''"])
      (simp_all add: dlq_fields_def omit_nil_bson_def split: option.split)
  then show False
    using bson_codec_okD(3) [OF assms]
    by (simp add: conforms_doc schema_field_def type_ok_def)
qed

text \<open>
  The server checks an insertion against the collection's validator; the commands of one server leave
  what the other holds.
\<close>

definition inserts_checked ::
  "'w dlq_store \<Rightarrow> ('o, json) bson_codec \<Rightarrow> ('w \<Rightarrow> collections) \<Rightarrow> bool" where
  "inserts_checked ds bc colls \<longleftrightarrow> (\<forall>d w w' schema S. ds_insert ds d w = (True, w') \<longrightarrow>
     colls w ''dlq_jobs'' = Some (json_schema schema, S) \<longrightarrow> conforms schema (dlq_bson bc d))"

definition inserts_leave :: "'w dlq_store \<Rightarrow> ('w \<Rightarrow> 'x) \<Rightarrow> bool" where
  "inserts_leave ds other \<longleftrightarrow> (\<forall>d w. other (snd (ds_insert ds d w)) = other w)"

lemma failed_insert_keeps:
  "dlq_store_ok ds docs \<Longrightarrow> ds_insert ds d w = (False, w') \<Longrightarrow> docs w' = docs w"
  unfolding dlq_store_ok_def by (elim conjE) simp

lemma inserts_checkedD:
  "inserts_checked ds bc colls \<Longrightarrow> ds_insert ds d w = (True, w') \<Longrightarrow>
     colls w ''dlq_jobs'' = Some (json_schema schema, S) \<Longrightarrow> conforms schema (dlq_bson bc d)"
  unfolding inserts_checked_def by blast

definition dlq_servers_ok ::
  "'w redis \<Rightarrow> 'w dlq_store \<Rightarrow> ('o, json) bson_codec \<Rightarrow> ('w \<Rightarrow> store) \<Rightarrow> ('w \<Rightarrow> dlq_job list)
   \<Rightarrow> ('w \<Rightarrow> collections) \<Rightarrow> bool" where
  "dlq_servers_ok rd ds bc view docs colls \<longleftrightarrow> redis_ok rd view \<and> redis_up rd \<and>
     redis_leaves rd docs \<and> redis_leaves rd colls \<and> dlq_store_ok ds docs \<and> inserts_leave ds view \<and>
     inserts_leave ds colls \<and> bson_codec_ok bc \<and> inserts_checked ds bc colls"

lemma dlq_servers_okD:
  assumes "dlq_servers_ok rd ds bc view docs colls"
  shows "redis_ok rd view" "redis_up rd" "redis_leaves rd docs" "redis_leaves rd colls"
    "dlq_store_ok ds docs" "bson_codec_ok bc" "inserts_checked ds bc colls"
    and "ds_insert ds d w = (ok, w') \<Longrightarrow> view w' = view w" "ds_insert ds d w = (ok, w') \<Longrightarrow> colls w' = colls w"
proof -
  show "redis_ok rd view" "redis_up rd" "redis_leaves rd docs" "redis_leaves rd colls"
    "dlq_store_ok ds docs" "bson_codec_ok bc" "inserts_checked ds bc colls"
    using assms by (simp_all add: dlq_servers_ok_def)
  have "view (snd (ds_insert ds d w)) = view w" "colls (snd (ds_insert ds d w)) = colls w"
    using assms by (simp_all add: dlq_servers_ok_def inserts_leave_def)
  then show "ds_insert ds d w = (ok, w') \<Longrightarrow> view w' = view w" "ds_insert ds d w = (ok, w') \<Longrightarrow> colls w' = colls w"
    by simp_all
qed

text \<open>
  One iteration of the worker on a list of readable letters: the list is empty, its first letter is
  stored, or its first letter goes to the end. \<open>docs\<close> is the collection.
\<close>

lemma dlq_worker_step_cases:
  assumes "redis_ok rd view" and "redis_up rd" and "dlq_store_ok ds docs" and "inserts_leave ds view"
    and "\<And>k u. docs (snd (rd_blpop rd k u)) = docs u" and "\<And>k d u. docs (snd (rd_rpush rd k d u)) = docs u"
    and read: "\<forall>d \<in> set (st_list (view w) priority_queue_dlq). unmarshal_job d \<noteq> None"
    and w': "w' = dlq_worker_step rd ds t1 t2 w"
  obtains (empty) "st_list (view w) priority_queue_dlq = []" "docs w' = docs w" "view w' = view w"
  | (stored) p j vs i where "st_list (view w) priority_queue_dlq = p # vs" "unmarshal_job p = Some j"
      "ds_insert ds (dlq_document t1 t2 j) (snd (rd_blpop rd priority_queue_dlq w)) = (True, w')"
      "docs w' = docs w @ [(dlq_document t1 t2 j)\<lparr>dl_id := i\<rparr>]"
      "view w' = (view w)\<lparr>st_list := (st_list (view w))(priority_queue_dlq := vs)\<rparr>"
  | (returned) p vs where "st_list (view w) priority_queue_dlq = p # vs" "docs w' = docs w"
      "view w' = (view w)\<lparr>st_list := (st_list (view w))(priority_queue_dlq := vs @ [p])\<rparr>"
proof -
  obtain r w1 where pop: "rd_blpop rd priority_queue_dlq w = (r, w1)" by force
  have d1: "docs w1 = docs w" using assms(5) [of priority_queue_dlq w] pop by simp
  obtain v where r: "r = Inr v" using assms(2) pop unfolding redis_up_def by (metis fst_conv)
  show thesis
  proof (cases v)
    case None
    then have "st_list (view w) priority_queue_dlq = []" "view w1 = view w"
      using redis_okD(11) [OF assms(1)] pop r by blast+
    moreover have "w' = w1" using pop r None w' by (simp add: dlq_worker_step_def)
    ultimately show thesis using empty d1 by blast
  next
    case (Some p)
    then obtain vs where list: "st_list (view w) priority_queue_dlq = p # vs"
      and v1: "view w1 = (view w)\<lparr>st_list := (st_list (view w))(priority_queue_dlq := vs)\<rparr>"
      using redis_okD(10) [OF assms(1)] pop r by metis
    from read list obtain j where j: "unmarshal_job p = Some j" by auto
    obtain ok w2 where ins: "ds_insert ds (dlq_document t1 t2 j) w1 = (ok, w2)" by force
    have v2: "view w2 = view w1" using assms(4) ins unfolding inserts_leave_def by (metis snd_conv)
    have step: "w' = (if ok then w2 else snd (rd_rpush rd priority_queue_dlq p w2))"
      using pop r Some j ins w' by (simp add: dlq_worker_step_def)
    show thesis
    proof (cases ok)
      case True
      with ins have ins: "ds_insert ds (dlq_document t1 t2 j) w1 = (True, w2)" by simp
      then obtain i where "docs w2 = docs w1 @ [(dlq_document t1 t2 j)\<lparr>dl_id := i\<rparr>]"
        using assms(3) unfolding dlq_store_ok_def by blast
      moreover have "w' = w2" using step True by simp
      moreover have "view w2 = (view w)\<lparr>st_list := (st_list (view w))(priority_queue_dlq := vs)\<rparr>"
        using v1 v2 by simp
      ultimately show thesis using stored [OF list j, of i] ins pop d1 by simp
    next
      case False
      obtain w3 where push: "rd_rpush rd priority_queue_dlq p w2 = (True, w3)"
        using redis_upD(4) [OF assms(2)] by blast
      have "ds_insert ds (dlq_document t1 t2 j) w1 = (False, w2)" using ins False by simp
      from failed_insert_keeps [OF assms(3) this] have "docs w2 = docs w" using d1 by simp
      then have "docs w3 = docs w" using assms(6) [of priority_queue_dlq p w2] push by simp
      moreover have "view w3 = (view w)\<lparr>st_list := (st_list (view w))(priority_queue_dlq := vs @ [p])\<rparr>"
        using redis_okD(9) [OF assms(1) push] v1 v2 by simp
      moreover have "w' = w3" using step False push by simp
      ultimately show thesis using returned [OF list] by simp
    qed
  qed
qed

lemma dlq_worker_step_rotates:
  assumes "dlq_servers_ok rd ds bc view docs colls"
    and "colls w ''dlq_jobs'' = Some (json_schema dlq_schema, S)"
    and "\<forall>p \<in> set (st_list (view w) priority_queue_dlq). unmarshal_job p \<noteq> None"
    and w': "w' = dlq_worker_step rd ds t1 t2 w"
  shows "docs w' = docs w" and "colls w' = colls w"
    and "st_list (view w') priority_queue_dlq = rotate1 (st_list (view w) priority_queue_dlq)"
proof -
  note laws = dlq_servers_okD [OF assms(1)]
  have colls: "colls (snd (rd_blpop rd k u)) = colls u" "colls (snd (rd_rpush rd k d u)) = colls u" for k d u
    using laws(4) by (simp_all add: redis_leaves_def)
  have put: "colls (snd (ds_insert ds d u)) = colls u" for d u using laws(9) [of d u] by (metis prod.collapse)
  show "colls w' = colls w"
    unfolding w' by (simp add: dlq_worker_step_def case_prod_beta Let_def put colls
        split: sum.splits option.splits)
  have ins: "inserts_leave ds view" using assms(1) by (simp add: dlq_servers_ok_def)
  have docs: "docs (snd (rd_blpop rd k u)) = docs u" "docs (snd (rd_rpush rd k d u)) = docs u" for k d u
    using laws(3) by (simp_all add: redis_leaves_def)
  have "docs w' = docs w \<and> st_list (view w') priority_queue_dlq = rotate1 (st_list (view w) priority_queue_dlq)"
    using laws(1,2,5) ins docs assms(3) w'
  proof (cases rule: dlq_worker_step_cases)
    case (stored p j vs i)
    from inserts_checkedD [OF laws(7) stored(3)] assms(2) colls(1)
    have "conforms dlq_schema (dlq_bson bc (dlq_document t1 t2 j))" by simp
    with dead_letter_rejected [OF laws(6)] show ?thesis by blast
  qed simp_all
  then show "docs w' = docs w"
    and "st_list (view w') priority_queue_dlq = rotate1 (st_list (view w) priority_queue_dlq)" by simp_all
qed

text \<open>
  C28. No dead letter is ever stored. With the validator \<^verbatim>\<open>InitMongo\<close> installs, every insertion of
  the dead letter worker fails, because the driver writes a Go time as a date where the validator asks
  for a timestamp (and the raw payload as binary data where it asks for an object); the worker puts the
  letter back at the end of the Redis list. However long it runs, the collection stays as it is and the
  list turns round.
\<close>

theorem dead_letters_never_stored:
  assumes "dlq_servers_ok rd ds bc view docs colls"
    and "colls w ''dlq_jobs'' = Some (json_schema dlq_schema, S)"
    and "\<forall>p \<in> set (st_list (view w) priority_queue_dlq). unmarshal_job p \<noteq> None"
  shows "\<exists>w'. StartDLQWorker rd ds es w = Return (Ctx_done \<in> set es, w') \<and> docs w' = docs w \<and>
    st_list (view w') priority_queue_dlq =
      rotate (length (rounds es)) (st_list (view w) priority_queue_dlq)"
  using assms(2,3)
proof (induction es arbitrary: w)
  case Nil
  then show ?case by (simp add: StartDLQWorker_def)
next
  case (Cons e es)
  show ?case
  proof (cases e)
    case Ctx_done
    then show ?thesis by (simp add: StartDLQWorker_def)
  next
    case (Work r)
    obtain t1 t2 where r: "r = (t1, t2)" by (cases r)
    define w1 where "w1 = dlq_worker_step rd ds t1 t2 w"
    note step = dlq_worker_step_rotates [OF assms(1) Cons.prems w1_def]
    have "colls w1 ''dlq_jobs'' = Some (json_schema dlq_schema, S)" using Cons.prems(1) step(2) by simp
    moreover have "\<forall>p \<in> set (st_list (view w1) priority_queue_dlq). unmarshal_job p \<noteq> None"
      using Cons.prems(2) step(3) by simp
    ultimately obtain w' where "StartDLQWorker rd ds es w1 = Return (Ctx_done \<in> set es, w')"
      and "docs w' = docs w1" and "st_list (view w') priority_queue_dlq =
        rotate (length (rounds es)) (st_list (view w1) priority_queue_dlq)" using Cons.IH by blast
    with step show ?thesis
      by (intro exI [of _ w']) (simp add: StartDLQWorker_def Work r w1_def rotate1_rotate_swap)
  qed
qed

section \<open>An instance\<close>

text \<open>Everything in memory, and a collection that checks what it is given.\<close>

record mongo_world = store +
  mw_docs :: "dlq_job list"
  mw_colls :: collections

definition collection_accepts :: "collections \<Rightarrow> dlq_job \<Rightarrow> bool" where
  "collection_accepts cs d \<longleftrightarrow>
     (case cs ''dlq_jobs'' of
        Some (B_doc [(k, schema)], S) \<Rightarrow> conforms schema (dlq_bson plain_codec d) | _ \<Rightarrow> True)"

definition checked_docs :: "mongo_world dlq_store" where
  "checked_docs = \<lparr>ds_ping = (\<lambda>_. True),
     ds_insert = (\<lambda>d w. if collection_accepts (mw_colls w) d
        then (True, w\<lparr>mw_docs := snd (ds_insert mem_docs d (mw_docs w))\<rparr>) else (False, w)),
     ds_find = (\<lambda>P n w. ds_find mem_docs P n (mw_docs w)),
     ds_update = (\<lambda>i f w. (True, w\<lparr>mw_docs := snd (ds_update mem_docs i f (mw_docs w))\<rparr>))\<rparr>"

lemma mem_docs_laws:
  "\<exists>i. i \<notin> dl_id ` set ds \<and> snd (ds_insert mem_docs d ds) = ds @ [d\<lparr>dl_id := i\<rparr>]"
  "ds_find mem_docs P n ds = Some ds' \<Longrightarrow> set ds' \<subseteq> {d \<in> set ds. P d} \<and> length ds' \<le> n \<and>
     sorted (map dl_created_at ds') \<and> (length ds' < n \<longrightarrow> set ds' = {d \<in> set ds. P d})"
  "snd (ds_update mem_docs i f ds) = map (\<lambda>d. if dl_id d = i then f d else d) ds"
proof -
  note laws = mem_docs_ok [unfolded dlq_store_ok_def id_apply]
  have "ds_insert mem_docs d ds = (True, snd (ds_insert mem_docs d ds))" by (simp add: mem_docs_def)
  with laws show "\<exists>i. i \<notin> dl_id ` set ds \<and> snd (ds_insert mem_docs d ds) = ds @ [d\<lparr>dl_id := i\<rparr>]"
    by (elim conjE) blast
  show "ds_find mem_docs P n ds = Some ds' \<Longrightarrow> set ds' \<subseteq> {d \<in> set ds. P d} \<and> length ds' \<le> n \<and>
     sorted (map dl_created_at ds') \<and> (length ds' < n \<longrightarrow> set ds' = {d \<in> set ds. P d})"
    using laws by (elim conjE) blast
  show "snd (ds_update mem_docs i f ds) = map (\<lambda>d. if dl_id d = i then f d else d) ds"
    by (simp add: mem_docs_def)
qed

lemma checked_docs_ok: "dlq_store_ok checked_docs mw_docs"
  unfolding dlq_store_ok_def
proof (intro conjI allI impI)
  fix d w w' assume "ds_insert checked_docs d w = (True, w')"
  then show "\<exists>i. i \<notin> dl_id ` set (mw_docs w) \<and> mw_docs w' = mw_docs w @ [d\<lparr>dl_id := i\<rparr>]"
    using mem_docs_laws(1) [of "mw_docs w" d] by (auto simp: checked_docs_def split: if_splits)
next
  fix P n w ds' assume "ds_find checked_docs P n w = Some ds'"
  then have "ds_find mem_docs P n (mw_docs w) = Some ds'" by (simp add: checked_docs_def)
  note found = mem_docs_laws(2) [OF this]
  show "set ds' \<subseteq> {d \<in> set (mw_docs w). P d}" "length ds' \<le> n" "sorted (map dl_created_at ds')"
    using found by simp_all
  show "set ds' = {d \<in> set (mw_docs w). P d}" if "length ds' < n" using found that by simp
qed (auto simp: checked_docs_def mem_docs_laws(3) split: if_splits)

lemma checked_servers_ok:
  "dlq_servers_ok (mem_redis :: mongo_world redis) checked_docs plain_codec store.truncate mw_docs mw_colls"
proof -
  have "redis_leaves (mem_redis :: mongo_world redis) mw_docs" "redis_leaves (mem_redis :: mongo_world redis) mw_colls"
    by (auto simp: redis_leaves_def mem_redis_def split: list.splits)
  moreover have "inserts_leave checked_docs store.truncate" "inserts_leave checked_docs mw_colls"
    by (auto simp: inserts_leave_def checked_docs_def store.truncate_def)
  moreover have "inserts_checked checked_docs plain_codec mw_colls"
    by (auto simp: inserts_checked_def checked_docs_def collection_accepts_def json_schema_def split: if_splits)
  ultimately show ?thesis
    by (simp add: dlq_servers_ok_def mem_redis_ok_in mem_redis_up checked_docs_ok plain_codec_ok)
qed

definition example_letters :: "text_doc list" where
  "example_letters = [marshal_job example_job, marshal_job (example_job\<lparr>jb_id := ''a''\<rparr>)]"

definition example_mongo :: mongo_world where
  "example_mongo = \<lparr>st_kv = Map.empty, st_zset = (\<lambda>_. []), st_list = (\<lambda>_. example_letters), mw_docs = [],
     mw_colls = [''dlq_jobs'' \<mapsto> (json_schema dlq_schema, {})]\<rparr>"

lemma dead_letters_never_stored_witness:
  "\<exists>w'. StartDLQWorker mem_redis checked_docs [Work (1, 2), Work (3, 4), Work (5, 6), Ctx_done] example_mongo =
      Return (True, w') \<and> mw_docs w' = [] \<and> st_list w' priority_queue_dlq = rotate 3 example_letters"
proof -
  have "\<forall>p \<in> set example_letters. unmarshal_job p \<noteq> None"
    by (simp add: example_letters_def unmarshal_marshal_job job_fits_def example_job_def zero_job_def in_int64_def)
  then have "\<forall>p \<in> set (st_list (store.truncate example_mongo) priority_queue_dlq). unmarshal_job p \<noteq> None"
    by (simp add: example_mongo_def)
  moreover have "mw_colls example_mongo ''dlq_jobs'' = Some (json_schema dlq_schema, {})"
    by (simp add: example_mongo_def)
  ultimately show ?thesis
    using dead_letters_never_stored [OF checked_servers_ok, of example_mongo "{}"
        "[Work (1, 2), Work (3, 4), Work (5, 6), Ctx_done]"]
    by (simp add: example_mongo_def numeral_3_eq_3)
qed

end
