(* ===== verification/Router.thy ===== *)
theory Router
  imports Middleware UserHandler ChatHandler HubHandler ChatProperties
begin

text \<open>
  The server as \<^verbatim>\<open>internal/routers\<close> puts it together: the table of routes, the middleware in
  front of them, and one request from the first middleware to the reply. chi is not part of the
  repository: which route of a table it selects for a method and a path, with which parameters
  (\<open>find_route\<close>), what its \<^verbatim>\<open>RealIP\<close> does to a request and what it answers to no route and to a
  panic are arguments. The state is the world of the databases with the hub.

  A goroutine that a handler starts is taken to run as soon as the handler has returned. When a hub
  handler panics its part of the state is unknown and given as it was before.
\<close>

section \<open>What the handlers work with\<close>

text \<open>The servers and libraries, and what one request reads from outside.\<close>

record ('w, 't, 'o, 'priv, 'pub) app =
  ap_redis :: "'w redis"
  ap_users :: "'w user_table"
  ap_rooms :: "('w, 't) rooms_db"
  ap_messages :: "('w, 'o) messages_db"
  ap_oids :: "'o oid_codec"
  ap_sign :: "(string \<times> json) list \<Rightarrow> 'priv \<Rightarrow> string + string"
  ap_parse :: "(signing_method \<Rightarrow> string + 'pub) \<Rightarrow> string \<Rightarrow> token_error + (claims \<times> bool)"
  ap_private :: 'priv
  ap_public :: 'pub
  ap_idkey :: argon2
  ap_email_ok :: "string \<Rightarrow> bool"
  ap_uuid_ok :: "string \<Rightarrow> bool"
  ap_ftime :: "int \<Rightarrow> string"
  ap_ptime :: "string \<Rightarrow> int option"
  ap_find_route :: "(string \<times> string) list \<Rightarrow> string \<Rightarrow> string \<Rightarrow> (nat \<times> (string \<Rightarrow> string)) option"
  ap_real_ip :: "http_request \<Rightarrow> http_request"
  ap_no_route :: "string \<Rightarrow> string \<Rightarrow> http_reply"
  ap_recovered :: http_reply

record 'o inputs =
  in_clk :: "nat \<Rightarrow> int"
  in_guard_clk :: "nat \<Rightarrow> int"
  in_uuid :: string
  in_guard_uuid :: string
  in_request_id :: string
  in_job_id :: string
  in_salt :: "nat list option"
  in_oid :: 'o
  in_text :: string
  in_order :: "client_ptr set \<Rightarrow> client_ptr list"
  in_pick :: "client_ptr \<Rightarrow> bool"
  in_picks :: "nat \<Rightarrow> bool"
  in_loop_clk :: "nat \<Rightarrow> nat \<Rightarrow> int"

section \<open>Handlers over the whole state\<close>

definition with_goroutine :: "(http_request \<Rightarrow> 'w \<Rightarrow> (http_reply \<times> ('w \<Rightarrow> 'w)) outcome \<times> 'w) \<Rightarrow> 'w http_handler" where
  "with_goroutine h r w =
     (case h r w of (Return (rep, go), w1) \<Rightarrow> (Return rep, go w1) | (Panic, w1) \<Rightarrow> (Panic, w1))"

definition wrapped :: "'w app_handler \<Rightarrow> 'w http_handler" where
  "wrapped fn = with_goroutine (WrapHandler fn)"

definition hub_app_handler :: "hub_handler \<Rightarrow> hub app_handler" where
  "hub_app_handler fn r h =
     (case fn r h of
        Panic \<Rightarrow> (Panic, h)
      | Return (Inl err) \<Rightarrow> (Return (Inl err), h)
      | Return (Inr (rep, h')) \<Rightarrow> (Return (Inr (rep, id)), h'))"

definition on_store :: "'w http_handler \<Rightarrow> ('w \<times> hub) http_handler" where
  "on_store fn r s = (case fn r (fst s) of (out, w') \<Rightarrow> (out, w', snd s))"

definition on_hub :: "hub http_handler \<Rightarrow> ('w \<times> hub) http_handler" where
  "on_hub fn r s = (case fn r (snd s) of (out, h') \<Rightarrow> (out, fst s, h'))"

definition protected_route ::
  "('w, 't, 'o, 'priv, 'pub) app \<Rightarrow> 'o inputs \<Rightarrow> 'w app_handler \<Rightarrow> ('w \<times> hub) http_handler" where
  "protected_route a i fn = on_store (JWTAuthWithAutoRefresh (ap_sign a) (ap_parse a) (ap_private a)
     (ap_public a) (ap_redis a) (in_guard_clk i) (in_guard_uuid i) (wrapped fn))"

section \<open>The routes\<close>

text \<open>A route is a method, a pattern and the handler behind it.\<close>

type_synonym 's route = "string \<times> string \<times> 's http_handler"

definition UserRouter :: "('w, 't, 'o, 'priv, 'pub) app \<Rightarrow> 'o inputs \<Rightarrow> ('w \<times> hub) route list" where
  "UserRouter a i =
     [(''POST'', ''/api/v1/users'', on_store (wrapped (CreateUser (ap_redis a) (ap_users a) (ap_idkey a)
        (in_salt i) (ap_email_ok a) (\<lambda>_. in_text i) (ap_ftime a) (in_clk i) (in_uuid i) (in_job_id i)))),
      (''POST'', ''/api/v1/users/{userId}'', on_store (wrapped (VerifyUser_handler (ap_redis a) (ap_users a)
        (ap_sign a) (ap_private a) (\<lambda>_. in_text i) (in_clk i) (in_uuid i)))),
      (''POST'', ''/api/v1/users/login'', on_store (wrapped (LoginUser (ap_redis a) (ap_users a) (ap_idkey a)
        (ap_sign a) (ap_private a) (\<lambda>_. in_text i) (in_clk i) (in_uuid i))))]"

definition HubRouter :: "('w, 't, 'o, 'priv, 'pub) app \<Rightarrow> 'o inputs \<Rightarrow> ('w \<times> hub) route list" where
  "HubRouter a i =
     [(''GET'', ''/api/v1/health'', \<lambda>r s. (Return (HandleHealth (in_clk i 0) r), s)),
      (''GET'', ''/api/v1/stats'', on_hub (wrapped (hub_app_handler (HandleGetStats (ap_ftime a))))),
      (''GET'', ''/api/v1/rooms/{roomId}/stats'', on_hub (wrapped (hub_app_handler HandleGetRoomStats))),
      (''GET'', ''/api/v1/rooms/{roomId}/clients'',
        on_hub (wrapped (hub_app_handler (HandleBroadcastToRoom (in_pick i) (in_clk i))))),
      (''POST'', ''/api/v1/rooms/{roomId}/broadcast'',
        on_hub (wrapped (hub_app_handler (HandleBroadcastToRoom (in_pick i) (in_clk i))))),
      (''POST'', ''/api/v1/rooms/{roomId}/kick'',
        on_hub (wrapped (hub_app_handler (HandleKickUser (in_order i) (in_picks i) (in_loop_clk i))))),
      (''GET'', ''/api/v1/users/{userId}/status'', on_hub (wrapped (hub_app_handler HandleGetUserStatus))),
      (''GET'', ''/api/v1/users/{userId}/connections'',
        on_hub (wrapped (hub_app_handler (HandleGetUserConnections (ap_ftime a))))),
      (''POST'', ''/api/v1/users/{userId}/broadcast'',
        on_hub (wrapped (hub_app_handler (HandleBroadcastToUser (in_picks i) (in_clk i))))),
      (''POST'', ''/api/v1/users/{userId}/disconnect'',
        on_hub (wrapped (hub_app_handler (HandleDisconnectUser (in_picks i) (in_loop_clk i)))))]"

definition ChatRouter ::
  "('w, 't, 'o :: linorder, 'priv, 'pub) app \<Rightarrow> 'o inputs \<Rightarrow> ('w \<times> hub) route list" where
  "ChatRouter a i =
     [(''POST'', ''/api/v1/chat/{receiverId}/messages'', protected_route a i (SendPrivateMessage_handler
        (ap_redis a) (ap_rooms a) (ap_messages a) (ap_oids a) (ap_ftime a) (\<lambda>_. in_text i) (in_clk i)
        (in_uuid i) (in_oid i) (in_job_id i) (in_text i))),
      (''GET'', ''/api/v1/chat/{roomId}/messages'', protected_route a i (GetPrivateMessages_handler
        (ap_redis a) (ap_rooms a) (ap_messages a) (ap_oids a) (ap_ptime a) (ap_ftime a) (\<lambda>_. in_text i)
        (in_text i))),
      (''POST'', ''/api/v1/chat/{roomId}'', protected_route a i (ReplyPrivateMessage_handler
        (ap_redis a) (ap_rooms a) (ap_messages a) (ap_oids a) (ap_ftime a) (ap_uuid_ok a) (\<lambda>_. in_text i)
        (in_clk i) (in_oid i) (in_job_id i) (in_text i))),
      (''PATCH'', ''/api/v1/chat/{roomId}/read'', protected_route a i (MarkMessageAsRead_handler
        (ap_redis a) (ap_rooms a) (ap_messages a) (ap_oids a))),
      (''PUT'', ''/api/v1/chat/{roomId}/update'', protected_route a i (UpdatePrivateMessage_handler
        (ap_redis a) (ap_rooms a) (ap_messages a) (ap_oids a) (ap_ftime a) (\<lambda>_. in_text i) (in_clk i)
        (in_job_id i)))]"

definition routes :: "('w, 't, 'o :: linorder, 'priv, 'pub) app \<Rightarrow> 'o inputs \<Rightarrow> ('w \<times> hub) route list" where
  "routes a i = UserRouter a i @ HubRouter a i @ ChatRouter a i"

text \<open>The methods and patterns alone: what chi decides with.\<close>

abbreviation route_table :: "('w, 't, 'o :: linorder, 'priv, 'pub) app \<Rightarrow> 'o inputs \<Rightarrow> (string \<times> string) list" where
  "route_table a i \<equiv> map (\<lambda>(m, p, h). (m, p)) (routes a i)"

section \<open>The server\<close>

definition dispatch ::
  "('w, 't, 'o :: linorder, 'priv, 'pub) app \<Rightarrow> 'o inputs \<Rightarrow> string \<Rightarrow> ('w \<times> hub) http_handler" where
  "dispatch a i meth r s =
     (case ap_find_route a (route_table a i) meth (req_path r) of
        None \<Rightarrow> (Return (ap_no_route a meth (req_path r)), s)
      | Some (n, params) \<Rightarrow> snd (snd (routes a i ! n)) (r\<lparr>req_params := params\<rparr>) s)"

definition recoverer :: "http_reply \<Rightarrow> 's http_handler \<Rightarrow> 's http_handler" where
  "recoverer answer fn r s = (case fn r s of (Panic, s1) \<Rightarrow> (Return answer, s1) | (Return rep, s1) \<Rightarrow> (Return rep, s1))"

text \<open>Requests end before the deadline the timeout sets: what a late one is answered is not modelled.\<close>

definition NewRouter ::
  "('w, 't, 'o :: linorder, 'priv, 'pub) app \<Rightarrow> 'o inputs \<Rightarrow> string \<Rightarrow> ('w \<times> hub) http_handler" where
  "NewRouter a i meth = WithRequestId (in_request_id i) (\<lambda>r.
     recoverer (ap_recovered a) (GetDeviceFingerprint (dispatch a i meth)) (ap_real_ip a r))"

end
