(* ===== verification/RouterProperties.thy ===== *)
theory RouterProperties
  imports Router
begin

text \<open>
  Whole requests. Whatever a request changes in the message collection it changes in the name of a
  user it authenticates, and the hub's administration asks for no credentials at all.
\<close>

section \<open>What a protected route writes\<close>

definition redis_writes :: "'w redis \<Rightarrow> 'w rel" where
  "redis_writes rd = {(w, snd (rd_set rd k v t w)) |k v t w. True}"

text \<open>
  A guard lets the handler behind it run for users it has proof of, after cache writes at most, and
  otherwise changes nothing but the cache.
\<close>

locale guarded =
  fixes guard :: "'w http_handler \<Rightarrow> 'w http_handler"
    and proven :: "http_request \<Rightarrow> 'w \<Rightarrow> string \<Rightarrow> bool"
    and writes :: "'w rel"
  assumes guard_run: "guard h r w = (out, w') \<Longrightarrow> (w, w') \<in> writes\<^sup>* \<or>
      (\<exists>sub w1 out1. proven r w sub \<and> (w, w1) \<in> writes\<^sup>* \<and>
         h (r\<lparr>ctx_user := Some (Sub_value sub)\<rparr>) w1 = (out1, w'))"
begin

lemma guarded_effect:
  assumes run: "guard h r w = (out, w')"
    and kept: "\<And>w1 w2. (w1, w2) \<in> writes \<Longrightarrow> other w2 = other w1"
    and eff: "\<And>sub w1 out1 w2. h (r\<lparr>ctx_user := Some (Sub_value sub)\<rparr>) w1 = (out1, w2) \<Longrightarrow>
      R sub (other w1) (other w2)"
  shows "other w' = other w \<or> (\<exists>sub. proven r w sub \<and> R sub (other w) (other w'))"
proof -
  have closed: "(w1, w2) \<in> writes\<^sup>* \<Longrightarrow> other w2 = other w1" for w1 w2
    by (induction rule: rtrancl_induct) (simp_all add: kept)
  from guard_run [OF run] show ?thesis
  proof (elim disjE exE conjE)
    assume "(w, w') \<in> writes\<^sup>*"
    then show ?thesis by (simp add: closed)
  next
    fix sub w1 out1 assume "proven r w sub" "(w, w1) \<in> writes\<^sup>*"
      "h (r\<lparr>ctx_user := Some (Sub_value sub)\<rparr>) w1 = (out1, w')"
    then show ?thesis using eff closed by metis
  qed
qed

end

text \<open>
  What the automatic refresh takes as proof: an access token that verifies, or, when that token has
  expired, a refresh cookie that verifies with its valid session, for which new tokens were issued.
\<close>

definition refreshable ::
  "((string \<times> json) list \<Rightarrow> 'priv \<Rightarrow> string + string)
   \<Rightarrow> ((signing_method \<Rightarrow> string + 'pub) \<Rightarrow> string \<Rightarrow> token_error + (claims \<times> bool)) \<Rightarrow> 'priv \<Rightarrow> 'pub
   \<Rightarrow> 'w redis \<Rightarrow> (nat \<Rightarrow> int) \<Rightarrow> string \<Rightarrow> http_request \<Rightarrow> 'w \<Rightarrow> string \<Rightarrow> bool" where
  "refreshable sign parse priv pub rd clk uuid r w sub \<longleftrightarrow>
     (\<exists>fp rt c jti session access refresh newJTI d.
        ctx_fingerprint r = Some fp \<and> req_cookie r ''refresh_token'' = Some rt \<and>
        ParseAndVerifySign parse (clk 1) rt pub = Inr c \<and> cl_jti c = Some jti \<and>
        GetCacheData rd load_session (refresh_key (cl_sub c) fp jti) w = Inr (Some session) \<and>
        rs_status session = ''valid'' \<and> unix_seconds (clk 2) \<le> rs_expire_at session \<and>
        IssueNewTokens sign (clk 3) uuid (cl_sub c) (cl_username c) priv = Inr (access, refresh, newJTI) \<and>
        ParseAndVerifySign parse (clk 6) access pub = Inr d \<and> sub = cl_sub d)"

definition jwt_proof ::
  "((string \<times> json) list \<Rightarrow> 'priv \<Rightarrow> string + string)
   \<Rightarrow> ((signing_method \<Rightarrow> string + 'pub) \<Rightarrow> string \<Rightarrow> token_error + (claims \<times> bool)) \<Rightarrow> 'priv \<Rightarrow> 'pub
   \<Rightarrow> 'w redis \<Rightarrow> (nat \<Rightarrow> int) \<Rightarrow> string \<Rightarrow> http_request \<Rightarrow> 'w \<Rightarrow> string \<Rightarrow> bool" where
  "jwt_proof sign parse priv pub rd clk uuid r w sub \<longleftrightarrow>
     (\<exists>tok c. bearer_token (req_header r ''Authorization'') = Some tok \<and>
        ParseAndVerifySign parse (clk 0) tok pub = Inr c \<and> sub = cl_sub c) \<or>
     refreshable sign parse priv pub rd clk uuid r w sub"

lemma redis_write: "SetCacheData rd enc k x t w = (b, w') \<Longrightarrow> (w, w') \<in> redis_writes rd"
  unfolding SetCacheData_def redis_writes_def by (auto intro!: exI [of _ k] exI [of _ t] simp: prod_eq_iff)

lemma refresh_tokens_writes:
  assumes "refresh_tokens sign parse priv pub rd clk uuid fp r w = (res, w')"
  shows "(w, w') \<in> (redis_writes rd)\<^sup>*"
proof -
  have two: "SetCacheData rd e1 k1 x1 t1 w = (b1, w1) \<Longrightarrow> SetCacheData rd e2 k2 x2 t2 w1 = (b2, w2) \<Longrightarrow>
      (w, w2) \<in> (redis_writes rd)\<^sup>*" for e1 :: "refresh_session \<Rightarrow> json" and e2 :: "refresh_session \<Rightarrow> json"
      and k1 x1 t1 b1 w1 k2 x2 t2 b2 w2
    by (blast intro: redis_write rtrancl_trans r_into_rtrancl)
  from assms show ?thesis
    unfolding refresh_tokens_def Let_def
    by (auto split: option.splits sum.splits prod.splits if_splits intro: two)
qed

lemma guard_run_jwt:
  assumes "JWTAuthWithAutoRefresh sign parse priv pub rd clk uuid h r w = (out, w')"
  shows "(w, w') \<in> (redis_writes rd)\<^sup>* \<or>
    (\<exists>sub w1 out1. jwt_proof sign parse priv pub rd clk uuid r w sub \<and> (w, w1) \<in> (redis_writes rd)\<^sup>* \<and>
       h (r\<lparr>ctx_user := Some (Sub_value sub)\<rparr>) w1 = (out1, w'))"
  using assms
proof (cases rule: JWTAuthWithAutoRefresh_cases)
  case (refused msg field)
  then show ?thesis by simp
next
  case (valid fp tok c)
  then show ?thesis unfolding jwt_proof_def by blast
next
  case (not_refreshed fp res)
  from refresh_tokens_writes [OF not_refreshed(1)] show ?thesis by blast
next
  case (refreshed fp tok sub nr na w1 out1)
  have "refreshable sign parse priv pub rd clk uuid r w sub"
    using refreshed(1,2) by (rule_tac refresh_tokens_goes_on [OF refreshed(4)]) (unfold refreshable_def, blast)
  with refreshed(5) refresh_tokens_writes [OF refreshed(4)] show ?thesis unfolding jwt_proof_def by blast
qed


interpretation jwt: guarded "JWTAuthWithAutoRefresh sign parse priv pub rd clk uuid"
  "jwt_proof sign parse priv pub rd clk uuid" "redis_writes rd"
  for sign parse priv pub rd clk uuid
  by unfold_locales (rule guard_run_jwt)

section \<open>What the handlers leave alone\<close>

text \<open>
  How a part \<open>other\<close> of the world changes over a handler: by \<open>R\<close>, and not at all over the goroutine
  it starts.
\<close>

definition alters :: "('w \<Rightarrow> 'x) \<Rightarrow> ('x \<Rightarrow> 'x \<Rightarrow> bool) \<Rightarrow> 'w app_handler \<Rightarrow> http_request \<Rightarrow> bool" where
  "alters other R fn r \<longleftrightarrow>
     (\<forall>w. R (other w) (other (snd (fn r w))) \<and>
        (\<forall>rep go w2. fst (fn r w) = Return (Inr (rep, go)) \<longrightarrow> other (go w2) = other w2))"

lemma altersI:
  assumes "\<And>w. R (other w) (other (snd (fn r w)))"
    and "\<And>w rep go w2. fst (fn r w) = Return (Inr (rep, go)) \<Longrightarrow> other (go w2) = other w2"
  shows "alters other R fn r"
  using assms unfolding alters_def by blast

lemma wrapped_world:
  assumes "alters other R fn r"
  shows "other (snd (wrapped fn r w)) = other (snd (fn r w))"
proof -
  obtain res w1 where run: "fn r w = (res, w1)" by fastforce
  then have "\<And>rep go w2. res = Return (Inr (rep, go)) \<Longrightarrow> other (go w2) = other w2"
    using assms unfolding alters_def by (metis fst_conv)
  with run show ?thesis
    by (simp add: wrapped_def with_goroutine_def WrapHandler_def split: outcome.split sum.split prod.split)
qed

lemma alters_wrapped: "alters other R fn r \<Longrightarrow> R (other w) (other (snd (wrapped fn r w)))"
  by (simp add: wrapped_world) (simp add: alters_def)

text \<open>In the form \<open>other (snd (f w)) = other w\<close> what a call leaves alone is a rewrite rule.\<close>

named_theorems leaving

lemma redis_leaves_snd [leaving]:
  assumes "redis_leaves rd other"
  shows "other (snd (rd_set rd k v t w)) = other w" and "other (snd (rd_del rd k w)) = other w"
    and "other (rd_sadd rd k m w) = other w" and "other (rd_expire_at rd k t w) = other w"
    and "other (snd (rd_zadd rd k s doc w)) = other w"
  using assms unfolding redis_leaves_def by simp_all

lemma user_table_leaves_snd [leaving]:
  assumes "user_table_leaves ut other"
  shows "other (snd (ut_create ut u w)) = other w" and "other (snd (ut_updates ut c u w)) = other w"
  using assms unfolding user_table_leaves_def by simp_all

lemma cache_leaves [leaving]:
  assumes "redis_leaves rd other"
  shows "other (snd (Enqueue rd j w)) = other w" and "other (snd (SetCacheData rd enc k x t w)) = other w"
    and "other (snd (DeleteCacheData rd k w)) = other w"
  by (simp_all add: Enqueue_def SetCacheData_def DeleteCacheData_def leaving assms)

lemma redis_writes_leave: "redis_leaves rd other \<Longrightarrow> (w, w') \<in> redis_writes rd \<Longrightarrow> other w' = other w"
  unfolding redis_writes_def by (auto simp: leaving)

section \<open>The users' handlers\<close>

lemma open_session_leaves [leaving]:
  assumes "redis_leaves rd other"
  shows "other (snd (open_session rd sign priv clk uuid i u fp w)) = other w"
  by (simp add: open_session_def Let_def split_beta leaving assms split: sum.split)

lemma VerifyUser_leaves [leaving]:
  assumes "user_table_leaves ut other"
  shows "other (snd (VerifyUser ut i w)) = other w"
  by (simp add: VerifyUser_def Let_def split_beta leaving assms split: sum.split option.split)

lemma Register_user_leaves [leaving]:
  assumes "user_table_leaves ut other"
  shows "other (snd (Register_user ut idkey salt clk uuid req w)) = other w"
  by (simp add: Register_user_def SaveUser_def Let_def split_beta leaving assms
      split: sum.split option.split outcome.split)

lemma VerifyRegister_leaves [leaving]:
  assumes "redis_leaves rd other" and "user_table_leaves ut other"
  shows "other (snd (VerifyRegister rd ut sign priv clk uuid req fp i w)) = other w"
  by (simp add: VerifyRegister_def Let_def split_beta leaving assms split: sum.split option.split)

lemma Login_leaves [leaving]:
  assumes "redis_leaves rd other"
  shows "other (snd (Login rd ut idkey sign priv clk uuid req fp w)) = other w"
  by (simp add: Login_def Let_def split_beta leaving assms split: sum.split outcome.split)

lemma user_handlers_leave:
  assumes "redis_leaves rd other" and "user_table_leaves ut other"
  shows "alters other (=) (CreateUser rd ut idkey salt email_ok vtext ftime clk uuid jobId) r"
    and "alters other (=) (VerifyUser_handler rd ut sign priv vtext' clk uuid) r"
    and "alters other (=) (LoginUser rd ut idkey sign priv vtext'' clk uuid) r"
proof -
  show "alters other (=) (CreateUser rd ut idkey salt email_ok vtext ftime clk uuid jobId) r"
  proof (rule altersI)
    show "other w = other (snd (CreateUser rd ut idkey salt email_ok vtext ftime clk uuid jobId r w))" for w
      by (simp add: CreateUser_def split_beta leaving assms split: option.split outcome.split sum.split)
  qed (auto simp: CreateUser_def split_beta leaving assms split: option.splits outcome.splits sum.splits if_splits)
  show "alters other (=) (VerifyUser_handler rd ut sign priv vtext' clk uuid) r"
  proof (rule altersI)
    show "other w = other (snd (VerifyUser_handler rd ut sign priv vtext' clk uuid r w))" for w
      by (simp add: VerifyUser_handler_def split_beta leaving assms split: option.split outcome.split sum.split)
  qed (auto simp: VerifyUser_handler_def auth_reply_def split_beta
      split: option.splits outcome.splits sum.splits if_splits)
  show "alters other (=) (LoginUser rd ut idkey sign priv vtext'' clk uuid) r"
  proof (rule altersI)
    show "other w = other (snd (LoginUser rd ut idkey sign priv vtext'' clk uuid r w))" for w
      by (simp add: LoginUser_def split_beta leaving assms split: option.split outcome.split sum.split)
  qed (auto simp: LoginUser_def auth_reply_def split_beta
      split: option.splits outcome.splits sum.splits if_splits)
qed

section \<open>The authors of the documents\<close>

definition authors :: "'o message list \<Rightarrow> ('o \<times> string) list" where
  "authors ms = map (\<lambda>m. (ms_id m, ms_sender_id m)) ms"

definition posted :: "'o \<Rightarrow> string \<Rightarrow> ('o \<times> string) list \<Rightarrow> ('o \<times> string) list \<Rightarrow> bool" where
  "posted oid sub old new \<longleftrightarrow> new = old \<or> new = old @ [(oid, sub)]"

lemma posted_refl [simp]: "posted oid sub old old"
  by (simp add: posted_def)

lemma authors_update_first:
  assumes "\<And>m. ms_id (f m) = ms_id m" and "\<And>m. ms_sender_id (f m) = ms_sender_id m"
  shows "authors (update_first p f docs) = authors docs"
  by (induction docs) (simp_all add: authors_def assms)

lemma bson_message_author [simp]:
  "ms_id (bson_message m) = ms_id m" "ms_sender_id (bson_message m) = ms_sender_id m"
  by (simp_all add: bson_message_def)

lemma authors_updated [leaving]:
  assumes "messages_db_ok mb docs"
    and "\<And>m. ms_id (f m) = ms_id m" and "\<And>m. ms_sender_id (f m) = ms_sender_id m"
  shows "authors (docs (snd (mb_update_one mb p f w))) = authors (docs w)"
proof -
  obtain r w' where run: "mb_update_one mb p f w = (r, w')" by fastforce
  show ?thesis
  proof (cases r)
    case (Inl e)
    with messages_db_okD(8) [OF assms(1)] run show ?thesis by simp
  next
    case (Inr n)
    with messages_db_okD(7) [OF assms(1)] run show ?thesis
      by (simp add: authors_update_first assms(2,3))
  qed
qed

lemma authors_inserted:
  assumes "messages_db_ok mb docs"
  shows "posted (ms_id m) (ms_sender_id m) (authors (docs w)) (authors (docs (snd (CreateMessage mb m w))))"
proof -
  obtain r w' where run: "mb_insert mb m w = (r, w')" by fastforce
  show ?thesis
  proof (cases r)
    case None
    with messages_db_okD(4) [OF assms] run show ?thesis
      by (simp add: CreateMessage_def posted_def authors_def)
  next
    case (Some e)
    with messages_db_okD(9) [OF assms] run show ?thesis by (simp add: CreateMessage_def)
  qed
qed

lemma rooms_db_leaves_snd [leaving]:
  assumes "rooms_db_leaves rb other"
  shows "other (snd (rb_commit rb t w)) = other w" and "other (rb_rollback rb t w) = other w"
  using assms unfolding rooms_db_leaves_def by simp_all

lemma rooms_calls_leave [leaving]:
  assumes "rooms_db_leaves rb other"
  shows "other (snd (FindOrCreateRoom rb uuid s r w)) = other w"
    and "other (snd (UpdateRoomMetadata rb oc now why room s i w)) = other w"
  by (rule FindOrCreateRoom_leaves [OF assms prod.collapse [symmetric]],
      rule UpdateRoomMetadata_leaves [OF assms prod.collapse [symmetric]])

lemma SendPrivateMessage_posts:
  assumes "messages_db_ok mb docs" and "rooms_db_leaves rb docs"
  shows "posted oid s (authors (docs w))
    (authors (docs (snd (SendPrivateMessage rb mb oc clk uuid oid why req s r w))))"
proof -
  obtain q w1 where f: "FindOrCreateRoom rb uuid s r w = (q, w1)" by fastforce
  then have w1: "docs w1 = docs w" using rooms_calls_leave(1) [OF assms(2)] by (metis snd_conv)
  show ?thesis
  proof (cases q)
    case (Inl e)
    then show ?thesis by (simp add: SendPrivateMessage_def f w1)
  next
    case (Inr room)
    define msg where "msg = \<lparr>ms_id = oid, ms_room_id = rm_id room, ms_sender_id = s, ms_receiver_id = r,
      ms_content = sq_content req, ms_is_read = False, ms_is_edited = False, ms_history = [],
      ms_attachments = [], ms_reply_to = None, ms_created_at = clk 0, ms_updated_at = None\<rparr>"
    have "docs (snd (SendPrivateMessage rb mb oc clk uuid oid why req s r w)) = docs (snd (CreateMessage mb msg w1))"
      by (simp add: SendPrivateMessage_def f Inr Let_def msg_def split_beta leaving assms
          split: sum.split option.split)
    with authors_inserted [OF assms(1), of msg w1] w1 show ?thesis by (simp add: msg_def)
  qed
qed

lemma ReplyMessage_posts:
  assumes "messages_db_ok mb docs" and "rooms_db_leaves rb docs"
  shows "posted (ms_id msg) (ms_sender_id msg) (authors (docs w))
    (authors (docs (snd (ReplyMessage rb mb oc now why msg w))))"
proof -
  have "authors (docs (snd (ReplyMessage rb mb oc now why msg w))) = authors (docs (snd (CreateMessage mb msg w)))"
    by (simp add: ReplyMessage_def split_beta leaving assms split: sum.split option.split)
  with authors_inserted [OF assms(1), of msg w] show ?thesis by simp
qed

lemma ReplyPrivateMessage_posts:
  assumes "messages_db_ok mb docs" and "rooms_db_leaves rb docs" and "redis_leaves rd docs"
  shows "posted oid s (authors (docs w))
    (authors (docs (snd (ReplyPrivateMessage rd rb mb oc clk oid why req s roomID w))))"
proof -
  have "\<exists>msg. ms_id msg = oid \<and> ms_sender_id msg = s \<and>
      (docs (snd (ReplyPrivateMessage rd rb mb oc clk oid why req s roomID w)) = docs w \<or>
       docs (snd (ReplyPrivateMessage rd rb mb oc clk oid why req s roomID w)) =
         docs (snd (ReplyMessage rb mb oc (clk 1) why msg w)))"
  proof -
    define old where "old = (case FindMessageByID mb oc (rq_reply_to req) w of Inl _ \<Rightarrow> undefined | Inr m \<Rightarrow> m)"
    define msg where "msg = \<lparr>ms_id = oid, ms_room_id = roomID, ms_sender_id = s,
            ms_receiver_id = rq_receiver_id req, ms_content = rq_content req, ms_is_read = False,
            ms_is_edited = False, ms_history = [], ms_attachments = [],
            ms_reply_to = Some \<lparr>rp_message_id = ms_id old, rp_content = ms_content old,
              rp_sender_id = ms_sender_id old\<rparr>,
            ms_created_at = clk 0, ms_updated_at = None\<rparr>"
    have "docs (snd (ReplyPrivateMessage rd rb mb oc clk oid why req s roomID w)) = docs w \<or>
       docs (snd (ReplyPrivateMessage rd rb mb oc clk oid why req s roomID w)) =
         docs (snd (ReplyMessage rb mb oc (clk 1) why msg w))"
      by (simp add: ReplyPrivateMessage_def Let_def bind_call_def split_beta leaving assms msg_def old_def
          split: sum.split outcome.split)
    then show ?thesis by (intro exI [of _ msg]) (simp add: msg_def)
  qed
  then show ?thesis using ReplyMessage_posts [OF assms(1,2)] by (metis posted_refl)
qed

lemma MarkPrivateMessageAsRead_authors [leaving]:
  assumes "messages_db_ok mb docs" and "redis_leaves rd docs"
  shows "authors (docs (snd (MarkPrivateMessageAsRead rd rb mb oc s roomID i w))) = authors (docs w)"
  by (simp add: MarkPrivateMessageAsRead_def MarkMessageAsRead_def Let_def split_beta leaving assms
      split: sum.split)

lemma UpdateMessage_authors [leaving]:
  assumes "messages_db_ok mb docs"
  shows "authors (docs (snd (UpdateMessage mb m e t w))) = authors (docs w)"
  by (simp add: UpdateMessage_def Let_def split_beta leaving assms split: sum.split)

lemma UpdatePrivateMessage_authors [leaving]:
  assumes "messages_db_ok mb docs" and "redis_leaves rd docs"
  shows "authors (docs (snd (UpdatePrivateMessage rd rb mb oc clk req s roomID i w))) = authors (docs w)"
  by (simp add: UpdatePrivateMessage_def Let_def split_beta leaving assms split: sum.split option.split)

lemma GetPrivateMessage_leaves [leaving]:
  assumes "redis_leaves rd other"
  shows "other (snd (GetPrivateMessage rd rb mb oc ptime ftime q roomID w)) = other w"
  by (simp add: GetPrivateMessage_def Let_def split_beta leaving assms split: sum.split option.split)

section \<open>The chat handlers\<close>

text \<open>
  Behind the guard the user of the context is the proven subject: a handler adds at most a document
  that names it as the sender.
\<close>

lemma user_of_context_sub: "user_of_context (r\<lparr>ctx_user := Some (Sub_value sub)\<rparr>) = (if sub = '''' then None else Some sub)"
  by (simp add: user_of_context_def)

lemma alters_post:
  assumes "\<And>w. posted oid sub (authors (docs w)) (authors (docs (snd (fn r w))))"
    and "\<And>w rep go w2. fst (fn r w) = Return (Inr (rep, go)) \<Longrightarrow> docs (go w2) = docs w2"
  shows "alters (\<lambda>w. authors (docs w)) (posted oid sub) fn r"
  using assms by (intro altersI) simp_all

lemma chat_handlers_post:
  assumes "messages_db_ok mb docs" and "rooms_db_leaves rb docs" and "redis_leaves rd docs"
    and user: "user_of_context r = (if sub = '''' then None else Some sub)"
  shows "alters (\<lambda>w. authors (docs w)) (posted oid sub)
      (SendPrivateMessage_handler rd rb mb oc ftime vt1 clk uuid oid jobId why) r"
    and "alters (\<lambda>w. authors (docs w)) (posted oid sub)
      (ReplyPrivateMessage_handler rd rb mb oc ftime uuid_ok vt2 clk oid jobId why) r"
    and "alters (\<lambda>w. authors (docs w)) (posted oid sub) (MarkMessageAsRead_handler rd rb mb oc) r"
    and "alters (\<lambda>w. authors (docs w)) (posted oid sub)
      (UpdatePrivateMessage_handler rd rb mb oc ftime vt3 clk jobId) r"
    and "alters (\<lambda>w. authors (docs w)) (posted oid sub)
      (GetPrivateMessages_handler rd rb mb oc ptime ftime vt4 why) r"
proof -
  note splits = option.split sum.split outcome.split
  note asm_splits = option.splits sum.splits outcome.splits if_splits
  show "alters (\<lambda>w. authors (docs w)) (posted oid sub)
      (SendPrivateMessage_handler rd rb mb oc ftime vt1 clk uuid oid jobId why) r"
  proof (rule alters_post)
    show "posted oid sub (authors (docs w))
      (authors (docs (snd (SendPrivateMessage_handler rd rb mb oc ftime vt1 clk uuid oid jobId why r w))))" for w
      by (simp add: SendPrivateMessage_handler_def user split_beta SendPrivateMessage_posts [OF assms(1,2)] split: splits)
  qed (auto simp: SendPrivateMessage_handler_def broadcastPrivateMessage_def split_beta leaving assms split: asm_splits)
  show "alters (\<lambda>w. authors (docs w)) (posted oid sub)
      (ReplyPrivateMessage_handler rd rb mb oc ftime uuid_ok vt2 clk oid jobId why) r"
  proof (rule alters_post)
    show "posted oid sub (authors (docs w)) (authors (docs (snd
      (ReplyPrivateMessage_handler rd rb mb oc ftime uuid_ok vt2 clk oid jobId why r w))))" for w
      by (simp add: ReplyPrivateMessage_handler_def user split_beta ReplyPrivateMessage_posts [OF assms(1,2,3)] split: splits)
  qed (auto simp: ReplyPrivateMessage_handler_def broadcastPrivateMessageReply_def split_beta leaving assms
      split: asm_splits)
  show "alters (\<lambda>w. authors (docs w)) (posted oid sub) (MarkMessageAsRead_handler rd rb mb oc) r"
  proof (rule alters_post)
    show "posted oid sub (authors (docs w)) (authors (docs (snd (MarkMessageAsRead_handler rd rb mb oc r w))))" for w
      by (simp add: MarkMessageAsRead_handler_def Let_def split_beta leaving assms split: splits)
  qed (auto simp: MarkMessageAsRead_handler_def Let_def split_beta split: asm_splits)
  show "alters (\<lambda>w. authors (docs w)) (posted oid sub)
      (UpdatePrivateMessage_handler rd rb mb oc ftime vt3 clk jobId) r"
  proof (rule alters_post)
    show "posted oid sub (authors (docs w)) (authors (docs (snd
      (UpdatePrivateMessage_handler rd rb mb oc ftime vt3 clk jobId r w))))" for w
      by (simp add: UpdatePrivateMessage_handler_def Let_def split_beta leaving assms split: splits)
  qed (auto simp: UpdatePrivateMessage_handler_def broadcastPrivateMessageUpdated_def Let_def split_beta leaving assms
      split: asm_splits)
  show "alters (\<lambda>w. authors (docs w)) (posted oid sub)
      (GetPrivateMessages_handler rd rb mb oc ptime ftime vt4 why) r"
  proof (rule alters_post)
    show "posted oid sub (authors (docs w)) (authors (docs (snd
      (GetPrivateMessages_handler rd rb mb oc ptime ftime vt4 why r w))))" for w
      by (simp add: GetPrivateMessages_handler_def split_beta leaving assms split: splits)
  qed (auto simp: GetPrivateMessages_handler_def split_beta split: asm_splits)
qed

section \<open>One route\<close>

definition docs_servers_ok ::
  "('w, 't, 'o :: linorder, 'priv, 'pub) app \<Rightarrow> ('w \<Rightarrow> 'o message list) \<Rightarrow> bool" where
  "docs_servers_ok a docs \<longleftrightarrow> messages_db_ok (ap_messages a) docs \<and> rooms_db_leaves (ap_rooms a) docs \<and>
     redis_leaves (ap_redis a) docs \<and> user_table_leaves (ap_users a) docs"

abbreviation proven_user ::
  "('w, 't, 'o, 'priv, 'pub) app \<Rightarrow> 'o inputs \<Rightarrow> http_request \<Rightarrow> 'w \<Rightarrow> string \<Rightarrow> bool" where
  "proven_user a i \<equiv> jwt_proof (ap_sign a) (ap_parse a) (ap_private a) (ap_public a) (ap_redis a)
     (in_guard_clk i) (in_guard_uuid i)"

lemma on_store_world [simp]: "fst (snd (on_store fn r s)) = snd (fn r (fst s))"
  by (simp add: on_store_def split_beta)

lemma on_hub_world [simp]: "fst (snd (on_hub fn r s)) = fst s"
  by (simp add: on_hub_def split_beta)

lemma on_hub_hub [simp]: "snd (snd (on_hub fn r s)) = snd (fn r (snd s))"
  by (simp add: on_hub_def split_beta)

lemma protected_route_posts:
  assumes "docs_servers_ok a docs"
    and "\<And>sub q. user_of_context q = (if sub = '''' then None else Some sub) \<Longrightarrow>
      alters (\<lambda>w. authors (docs w)) (posted oid sub) fn q"
  shows "authors (docs (fst (snd (protected_route a i fn r s)))) = authors (docs (fst s)) \<or>
    (\<exists>sub. proven_user a i r (fst s) sub \<and>
       posted oid sub (authors (docs (fst s))) (authors (docs (fst (snd (protected_route a i fn r s))))))"
proof -
  have eff: "posted oid sub (authors (docs w1)) (authors (docs w2))"
    if "wrapped fn (r\<lparr>ctx_user := Some (Sub_value sub)\<rparr>) w1 = (out1, w2)" for sub w1 out1 w2
    using alters_wrapped [OF assms(2) [OF user_of_context_sub], where w = w1] that by (metis snd_conv)
  show ?thesis
    unfolding protected_route_def on_store_world
  proof (rule jwt.guarded_effect [where other = "\<lambda>w. authors (docs w)" and R = "posted oid",
        OF prod.collapse [symmetric]])
    show "authors (docs w2) = authors (docs w1)" if "(w1, w2) \<in> redis_writes (ap_redis a)" for w1 w2
      using redis_writes_leave [OF _ that, of docs] assms(1) by (simp add: docs_servers_ok_def)
  qed (rule eff)
qed

lemma route_posts:
  assumes "docs_servers_ok a docs" and "rt \<in> set (routes a i)"
  shows "authors (docs (fst (snd (snd (snd rt) r s)))) = authors (docs (fst s)) \<or>
    (\<exists>sub. proven_user a i r (fst s) sub \<and>
       posted (in_oid i) sub (authors (docs (fst s))) (authors (docs (fst (snd (snd (snd rt) r s))))))"
proof -
  note ok = assms(1) [unfolded docs_servers_ok_def]
  have laws: "messages_db_ok (ap_messages a) docs" "rooms_db_leaves (ap_rooms a) docs"
    "redis_leaves (ap_redis a) docs" "user_table_leaves (ap_users a) docs" using ok by simp_all
  note posts = protected_route_posts [OF assms(1) chat_handlers_post(1) [OF laws(1-3)]]
    protected_route_posts [OF assms(1) chat_handlers_post(2) [OF laws(1-3)]]
    protected_route_posts [OF assms(1) chat_handlers_post(3) [OF laws(1-3)]]
    protected_route_posts [OF assms(1) chat_handlers_post(4) [OF laws(1-3)]]
    protected_route_posts [OF assms(1) chat_handlers_post(5) [OF laws(1-3)]]
  note users = alters_wrapped [OF user_handlers_leave(1) [OF laws(3,4)], symmetric]
    alters_wrapped [OF user_handlers_leave(2) [OF laws(3,4)], symmetric]
    alters_wrapped [OF user_handlers_leave(3) [OF laws(3,4)], symmetric]
  consider "rt \<in> set (UserRouter a i)" | "rt \<in> set (HubRouter a i)" | "rt \<in> set (ChatRouter a i)"
    using assms(2) by (auto simp: routes_def)
  then show ?thesis
  proof cases
    case 1
    then show ?thesis
      unfolding UserRouter_def list.set insert_iff empty_iff
      by (elim disjE FalseE) (simp_all only: snd_conv on_store_world users simp_thms)
  next
    case 2
    then show ?thesis
      unfolding HubRouter_def list.set insert_iff empty_iff
      by (elim disjE FalseE) (simp_all only: snd_conv on_hub_world simp_thms)
  next
    case 3
    then show ?thesis
      unfolding ChatRouter_def list.set insert_iff empty_iff
      by (elim disjE FalseE) (simp_all only: snd_conv posts)
  qed
qed

section \<open>One request\<close>

text \<open>
  \<^verbatim>\<open>RealIP\<close> rewrites the remote address and nothing else, and a route is selected from
  the table.
\<close>

definition chi_ok :: "('w, 't, 'o, 'priv, 'pub) app \<Rightarrow> bool" where
  "chi_ok a \<longleftrightarrow> (\<forall>r. \<exists>x. ap_real_ip a r = r\<lparr>req_remote_addr := x\<rparr>) \<and>
     (\<forall>table meth path n params. ap_find_route a table meth path = Some (n, params) \<longrightarrow> n < length table)"

text \<open>The request as the routes see it, when it has a fingerprint.\<close>

definition arrived :: "'o inputs \<Rightarrow> string \<Rightarrow> (string \<Rightarrow> string) \<Rightarrow> http_request \<Rightarrow> http_request" where
  "arrived i addr params r = r\<lparr>ctx_request_id := Some (in_request_id i),
     req_header := (req_header r)(''X-Request-ID'' := in_request_id i), req_remote_addr := addr,
     ctx_fingerprint := Some (req_header r ''X-Device-Fingerprint''), req_params := params\<rparr>"

lemma NewRouter_run:
  assumes "chi_ok a"
  shows "\<exists>addr. NewRouter a i meth r s =
    (if req_header r ''X-Device-Fingerprint'' = ''''
     then (Return (writeAppError (NewAppError StatusBadRequest ''Missing device fingerprint'' ''fingerprint'')), s)
     else case ap_find_route a (route_table a i) meth (req_path r) of
            None \<Rightarrow> (Return (ap_no_route a meth (req_path r)), s)
          | Some (n, params) \<Rightarrow> recoverer (ap_recovered a)
              (snd (snd (routes a i ! n))) (arrived i addr params r) s)"
proof -
  define r1 where "r1 = r\<lparr>ctx_request_id := Some (in_request_id i),
     req_header := (req_header r)(''X-Request-ID'' := in_request_id i)\<rparr>"
  obtain addr where ip: "ap_real_ip a r1 = r1\<lparr>req_remote_addr := addr\<rparr>"
    using assms unfolding chi_ok_def by blast
  have "NewRouter a i meth r s = recoverer (ap_recovered a)
      (GetDeviceFingerprint (dispatch a i meth)) (r1\<lparr>req_remote_addr := addr\<rparr>) s"
    by (simp add: NewRouter_def WithRequestId_def ip flip: r1_def)
  moreover have "req_header r1 ''X-Device-Fingerprint'' = req_header r ''X-Device-Fingerprint''"
    "req_path r1 = req_path r"
    by (simp_all add: r1_def)
  moreover have "arrived i addr params r = r1\<lparr>req_remote_addr := addr,
      ctx_fingerprint := Some (req_header r ''X-Device-Fingerprint''), req_params := params\<rparr>" for params
    by (simp add: arrived_def r1_def)
  ultimately show ?thesis
    by (intro exI [of _ addr])
      (simp add: recoverer_def GetDeviceFingerprint_def dispatch_def Let_def split: option.split prod.split)
qed

lemma recoverer_state [simp]: "snd (recoverer answer fn r s) = snd (fn r s)"
  by (simp add: recoverer_def split_beta split: outcome.split)

text \<open>
  The credentials a request with the fingerprint \<open>fp\<close> shows: an access token that verifies, or a
  refresh token that verifies, with a valid and unexpired session in the cache.
\<close>

definition shows_token ::
  "('w, 't, 'o, 'priv, 'pub) app \<Rightarrow> 'o inputs \<Rightarrow> string \<Rightarrow> http_request \<Rightarrow> 'w \<Rightarrow> string \<Rightarrow> claims \<Rightarrow> bool" where
  "shows_token a i fp r w tok c \<longleftrightarrow>
     bearer_token (req_header r ''Authorization'') = Some tok \<and>
       ParseAndVerifySign (ap_parse a) (in_guard_clk i 0) tok (ap_public a) = Inr c \<or>
     req_cookie r ''refresh_token'' = Some tok \<and>
       ParseAndVerifySign (ap_parse a) (in_guard_clk i 1) tok (ap_public a) = Inr c \<and>
       (\<exists>jti session. cl_jti c = Some jti \<and>
          GetCacheData (ap_redis a) load_session (refresh_key (cl_sub c) fp jti) w = Inr (Some session) \<and>
          rs_status session = ''valid'' \<and> unix_seconds (in_guard_clk i 2) \<le> rs_expire_at session)"

lemma shows_token_arrived:
  "shows_token a i fp (arrived i addr params r) w tok c = shows_token a i fp r w tok c"
  by (simp add: shows_token_def arrived_def)

lemma shows_token_genuine:
  assumes "jwt_checked (ap_parse a) method_of verifies" and "shows_token a i fp r w tok c"
  shows "method_of tok = RSA_method \<and> verifies (ap_public a) tok"
  using assms(2) unfolding shows_token_def
  by (elim disjE conjE) (simp_all add: ParseAndVerifySign_genuine [OF assms(1)])

lemma proven_user_shows_token:
  assumes "jwt_round_trip (ap_sign a) (ap_parse a) matches" and "matches (ap_private a) (ap_public a)"
    and "in_int64 (unix_seconds (in_guard_clk i 3))" and "in_int64 (unix_seconds (in_guard_clk i 3) + 604800)"
    and "ctx_fingerprint r = Some fp" and "proven_user a i r w sub"
  shows "\<exists>tok c. sub = cl_sub c \<and> shows_token a i fp r w tok c"
  using assms(6) unfolding jwt_proof_def
proof (elim disjE)
  assume "refreshable (ap_sign a) (ap_parse a) (ap_private a) (ap_public a) (ap_redis a) (in_guard_clk i)
      (in_guard_uuid i) r w sub"
  then obtain fp' rt c jti session access refresh newJTI d where
    fp: "ctx_fingerprint r = Some fp'" and rt: "req_cookie r ''refresh_token'' = Some rt"
    and c: "ParseAndVerifySign (ap_parse a) (in_guard_clk i 1) rt (ap_public a) = Inr c" and jti: "cl_jti c = Some jti"
    and get: "GetCacheData (ap_redis a) load_session (refresh_key (cl_sub c) fp' jti) w = Inr (Some session)"
    and ok: "rs_status session = ''valid''" "unix_seconds (in_guard_clk i 2) \<le> rs_expire_at session"
    and iss: "IssueNewTokens (ap_sign a) (in_guard_clk i 3) (in_guard_uuid i) (cl_sub c) (cl_username c)
      (ap_private a) = Inr (access, refresh, newJTI)"
    and d: "ParseAndVerifySign (ap_parse a) (in_guard_clk i 6) access (ap_public a) = Inr d" "sub = cl_sub d"
    unfolding refreshable_def by (elim exE conjE)
  have "sub = cl_sub c" using issued_access_verifies(2) [OF assms(1,2) iss assms(3,4) d(1)] d(2) by simp
  moreover have "fp' = fp" using fp assms(5) by simp
  then have "shows_token a i fp r w rt c"
    unfolding shows_token_def using rt c jti get ok
    by (intro disjI2 conjI exI [of _ jti] exI [of _ session]) simp_all
  ultimately show ?thesis by blast
next
  assume "\<exists>tok c. bearer_token (req_header r ''Authorization'') = Some tok \<and>
    ParseAndVerifySign (ap_parse a) (in_guard_clk i 0) tok (ap_public a) = Inr c \<and> sub = cl_sub c"
  then show ?thesis unfolding shows_token_def by blast
qed

text \<open>
  C5. No sender is forged. Whatever request arrives, the message collection keeps its documents with
  their senders, and gains at most one: a document whose sender is the subject of a genuine access
  token of the request, or of a genuine refresh token whose session in the cache is valid and unexpired.
\<close>

theorem senders_are_authenticated:
  assumes "docs_servers_ok a docs" and "chi_ok a" and "jwt_checked (ap_parse a) method_of verifies"
    and "jwt_round_trip (ap_sign a) (ap_parse a) matches" and "matches (ap_private a) (ap_public a)"
    and "in_int64 (unix_seconds (in_guard_clk i 3))" and "in_int64 (unix_seconds (in_guard_clk i 3) + 604800)"
    and "NewRouter a i meth r s = (out, s')"
  shows "authors (docs (fst s')) = authors (docs (fst s)) \<or>
    (\<exists>tok c. authors (docs (fst s')) = authors (docs (fst s)) @ [(in_oid i, cl_sub c)] \<and>
       method_of tok = RSA_method \<and> verifies (ap_public a) tok \<and>
       shows_token a i (req_header r ''X-Device-Fingerprint'') r (fst s) tok c)"
proof -
  have s': "s' = snd (NewRouter a i meth r s)" using assms(8) by simp
  show ?thesis
  proof (cases "s' = s")
    case False
    obtain n params addr where found: "ap_find_route a (route_table a i) meth (req_path r) = Some (n, params)"
      and "s' = snd (recoverer (ap_recovered a) (snd (snd (routes a i ! n))) (arrived i addr params r) s)"
      using NewRouter_run [OF assms(2), of i meth r s] s' False by (auto split: if_splits option.splits)
    moreover from found have "n < length (routes a i)"
      using assms(2) unfolding chi_ok_def by fastforce
    then have route: "routes a i ! n \<in> set (routes a i)" by (rule nth_mem)
    moreover define q where "q = arrived i addr params r"
    ultimately have s'_def: "s' = snd (snd (snd (routes a i ! n)) q s)" by simp
    have fp: "ctx_fingerprint q = Some (req_header r ''X-Device-Fingerprint'')"
      by (simp add: q_def arrived_def)
    consider (same) "authors (docs (fst s')) = authors (docs (fst s))"
      | (new) sub where "proven_user a i q (fst s) sub"
        "authors (docs (fst s')) = authors (docs (fst s)) @ [(in_oid i, sub)]"
      using route_posts [OF assms(1) route, of q s]
      unfolding posted_def s'_def by blast
    then show ?thesis
    proof cases
      case new
      obtain tok c where "sub = cl_sub c"
        and shown: "shows_token a i (req_header r ''X-Device-Fingerprint'') r (fst s) tok c"
        using proven_user_shows_token [OF assms(4-7) fp new(1)] unfolding q_def shows_token_arrived by blast
      with new(2) shows_token_genuine [OF assms(3) shown] show ?thesis by blast
    qed simp
  qed simp
qed

section \<open>A concrete server\<close>

text \<open>The chat in memory, the tokens of the example table, and nobody in the users table.\<close>

definition no_users :: "'w user_table" where
  "no_users = \<lparr>ut_count = (\<lambda>_ _. Inr 0), ut_create = (\<lambda>_ w. (Some (Db_error ''read only''), w)),
     ut_first = (\<lambda>_ _. Inl ErrRecordNotFound), ut_updates = (\<lambda>_ _ w. (Some (Db_error ''read only''), w))\<rparr>"

definition example_app :: "nat \<Rightarrow> (nat chat_world, mem_tx, nat, nat, nat) app" where
  "example_app n = \<lparr>ap_redis = mem_redis, ap_users = no_users, ap_rooms = mem_rooms, ap_messages = mem_messages,
     ap_oids = number_codec, ap_sign = table_sign example_table, ap_parse = table_parse example_table,
     ap_private = 7, ap_public = 7, ap_idkey = weak_argon2, ap_email_ok = (\<lambda>_. True), ap_uuid_ok = (\<lambda>_. True),
     ap_ftime = plain_ftime, ap_ptime = plain_ptime,
     ap_find_route = (\<lambda>t _ _. if length t \<le> n then None else Some (n, (\<lambda>k. if k = ''receiverId'' then ''bob'' else ''''))),
     ap_real_ip = id, ap_no_route = (\<lambda>_ _. plain_reply 404 JNull), ap_recovered = plain_reply 500 JNull\<rparr>"

definition example_inputs :: "nat inputs" where
  "example_inputs = \<lparr>in_clk = (\<lambda>_. 0), in_guard_clk = (\<lambda>_. 0), in_uuid = ''q'', in_guard_uuid = ''k'',
     in_request_id = ''id'', in_job_id = ''job'', in_salt = None, in_oid = 2, in_text = '''',
     in_order = (\<lambda>_. []), in_pick = (\<lambda>_. True), in_picks = (\<lambda>_. True), in_loop_clk = (\<lambda>_ _. 0)\<rparr>"

definition example_post :: http_request where
  "example_post = empty_request\<lparr>req_header := (\<lambda>_. '''')(''Authorization'' := ''Bearer access'',
     ''X-Device-Fingerprint'' := ''f''), req_body := JsonText (JObj [(''content'', JStr ''hi'')])\<rparr>"

lemma example_docs_ok: "docs_servers_ok (example_app n) cw_docs"
proof -
  have "messages_db_ok (ap_messages (example_app n)) cw_docs" "rooms_db_leaves (ap_rooms (example_app n)) cw_docs"
    "redis_leaves (ap_redis (example_app n)) cw_docs"
    using chat_servers_okD(4,7,9) [OF mem_chat_ok] by (simp_all add: example_app_def)
  then show ?thesis by (simp add: docs_servers_ok_def user_table_leaves_def example_app_def no_users_def)
qed

lemma example_send_posts:
  "\<exists>w'. snd (SendPrivateMessage mem_rooms mem_messages number_codec (\<lambda>_. 0) ''q'' 2 '''' \<lparr>sq_content = ''hi''\<rparr>
     ''u'' ''bob'' empty_chat) = w' \<and> authors (cw_docs w') = [(2, ''u'')]"
  by (simp add: SendPrivateMessage_def CreateMessage_def UpdateRoomMetadata_def FindOrCreateRoom_def
      findPrivateRoom_def createPrivateRoom_def mem_rooms_def mem_messages_def Let_def authors_def)

lemma route_counts: "length (UserRouter a i) = 3" "length (HubRouter a i) = 10" "length (ChatRouter a i) = 5"
  by (simp_all add: UserRouter_def HubRouter_def ChatRouter_def)

lemma routes_parts:
  "routes a i ! 13 = ChatRouter a i ! 0" "routes a i ! 8 = HubRouter a i ! 5" "length (routes a i) = 18"
  by (simp_all add: routes_def nth_append route_counts)

definition example_arrived :: http_request where
  "example_arrived = arrived example_inputs '''' (\<lambda>k. if k = ''receiverId'' then ''bob'' else '''') example_post"

lemma example_chi_ok: "chi_ok (example_app n)"
proof -
  have "ap_real_ip (example_app n) r = r\<lparr>req_remote_addr := req_remote_addr r\<rparr>" for r
    by (simp add: example_app_def)
  then have "\<exists>x. ap_real_ip (example_app n) r = r\<lparr>req_remote_addr := x\<rparr>" for r by blast
  moreover have "ap_find_route (example_app n) table meth path = Some (m, params) \<Longrightarrow> m < length table"
    for table meth path m params by (simp add: example_app_def split: if_splits)
  ultimately show ?thesis unfolding chi_ok_def by blast
qed

lemma example_NewRouter:
  "NewRouter (example_app 13) example_inputs ''POST'' example_post s =
     recoverer (plain_reply 500 JNull) (on_store (JWTAuthWithAutoRefresh
      (table_sign example_table) (table_parse example_table) 7 7 mem_redis (\<lambda>_. 0) ''k''
      (wrapped (SendPrivateMessage_handler mem_redis mem_rooms mem_messages number_codec plain_ftime (\<lambda>_. '''')
        (\<lambda>_. 0) ''q'' 2 ''job'' '''')))) example_arrived s"
proof -
  have app: "ap_find_route (example_app 13) t m p =
      (if 13 < length t then Some (13, (\<lambda>k. if k = ''receiverId'' then ''bob'' else '''')) else None)"
    "ap_real_ip (example_app 13) q = q" "ap_recovered (example_app 13) = plain_reply 500 JNull" for t m p q
    by (simp_all add: example_app_def)
  have "example_arrived = (example_post\<lparr>ctx_request_id := Some (in_request_id example_inputs),
      req_header := (req_header example_post)(''X-Request-ID'' := in_request_id example_inputs)\<rparr>)
      \<lparr>ctx_fingerprint := Some ''f'', req_params := (\<lambda>k. if k = ''receiverId'' then ''bob'' else '''')\<rparr>"
    by (simp add: example_arrived_def arrived_def example_post_def empty_request_def)
  moreover have "req_header example_post ''X-Device-Fingerprint'' = ''f''" by (simp add: example_post_def)
  moreover have "snd (snd (routes (example_app 13) example_inputs ! 13)) = on_store (JWTAuthWithAutoRefresh
      (table_sign example_table) (table_parse example_table) 7 7 mem_redis (\<lambda>_. 0) ''k''
      (wrapped (SendPrivateMessage_handler mem_redis mem_rooms mem_messages number_codec plain_ftime (\<lambda>_. '''')
        (\<lambda>_. 0) ''q'' 2 ''job'' '''')))"
    unfolding routes_parts
    by (simp add: ChatRouter_def protected_route_def) (simp add: example_app_def example_inputs_def)
  ultimately show ?thesis
    by (simp add: NewRouter_def WithRequestId_def recoverer_def GetDeviceFingerprint_def dispatch_def app routes_parts)
qed

lemma example_handler:
  "authors (cw_docs (snd (wrapped (SendPrivateMessage_handler mem_redis mem_rooms mem_messages number_codec
     plain_ftime (\<lambda>_. '''') (\<lambda>_. 0) ''q'' 2 ''job'' '''') (example_arrived\<lparr>ctx_user := Some (Sub_value ''u'')\<rparr>)
     empty_chat))) = [(2, ''u'')]"
proof -
  define h where "h = SendPrivateMessage_handler mem_redis mem_rooms mem_messages number_codec
     plain_ftime (\<lambda>_. '''') (\<lambda>_. 0) ''q'' 2 ''job'' ''''"
  define q where "q = example_arrived\<lparr>ctx_user := Some (Sub_value ''u'')\<rparr>"
  have body: "decode_body \<lparr>sq_content = ''''\<rparr> load_send_request q = Some \<lparr>sq_content = ''hi''\<rparr>"
    by (simp add: decode_body_def unmarshal_struct_def load_send_request_def q_def
        example_arrived_def arrived_def example_post_def)
  have user: "user_of_context q = Some ''u''" by (simp add: user_of_context_def q_def)
  have params: "req_params q ''receiverId'' = ''bob''" by (simp add: q_def example_arrived_def arrived_def)
  have up: "redis_leaves mem_redis (cw_docs :: nat chat_world \<Rightarrow> _)"
    "rooms_db_leaves mem_rooms (cw_docs :: nat chat_world \<Rightarrow> _)"
    using chat_servers_okD(7,9) [OF mem_chat_ok] by simp_all
  have alt: "alters (\<lambda>w. authors (cw_docs w)) (posted 2 ''u'') h q"
    unfolding h_def by (rule chat_handlers_post(1) [OF mem_messages_ok up(2,1)]) (simp add: user)
  have "snd (h q empty_chat) = snd (SendPrivateMessage mem_rooms mem_messages number_codec (\<lambda>_. 0) ''q'' 2 ''''
      \<lparr>sq_content = ''hi''\<rparr> ''u'' ''bob'' empty_chat)"
    by (simp add: h_def SendPrivateMessage_handler_def body user params valid_send_def split: prod.split sum.split)
  then show ?thesis
    using example_send_posts wrapped_world [OF alt, of empty_chat]
    unfolding h_def [symmetric] q_def [symmetric] by simp
qed

lemma example_request_posts:
  "authors (cw_docs (fst (snd (NewRouter (example_app 13) example_inputs ''POST'' example_post (empty_chat, h))))) =
     [(2, ''u'')]"
proof -
  have hd: "req_header example_arrived ''Authorization'' = ''Bearer access''"
    "ctx_fingerprint example_arrived = Some ''f''"
    by (simp_all add: example_arrived_def arrived_def example_post_def)
  have "bearer_token ''Bearer access'' = Some ''access''"
    using bearer_token_format [of "''access''"] by simp
  with example_handler show ?thesis
    by (simp add: example_NewRouter JWTAuthWithAutoRefresh_def hd example_parse example_claims_def)
qed

lemma senders_are_authenticated_witness:
  "\<exists>tok c. authors (cw_docs (fst (snd (NewRouter (example_app 13) example_inputs ''POST'' example_post
       (empty_chat, example_hub))))) = [(2, cl_sub c)] \<and>
     shows_token (example_app 13) example_inputs ''f'' example_post empty_chat tok c"
proof -
  note example_chi_ok [of 13]
  moreover obtain out s' where run: "NewRouter (example_app 13) example_inputs ''POST'' example_post
      (empty_chat, example_hub) = (out, s')" by (rule prod.exhaust)
  moreover have "ap_parse (example_app 13) = table_parse example_table"
    "ap_sign (example_app 13) = table_sign example_table" "ap_private (example_app 13) = 7"
    "ap_public (example_app 13) = 7" "in_guard_clk example_inputs = (\<lambda>_. 0)" "in_oid example_inputs = 2"
    "req_header example_post ''X-Device-Fingerprint'' = ''f''" "authors (cw_docs empty_chat) = []"
    by (simp_all add: example_app_def example_inputs_def example_post_def authors_def)
  ultimately show ?thesis
    using senders_are_authenticated [where method_of = "\<lambda>_. RSA_method" and verifies = "\<lambda>_ _. True"
        and matches = "(=)" and a = "example_app 13" and i = example_inputs, OF example_docs_ok _ _ _ _ _ _ run]
      example_request_posts [of example_hub]
    by (simp add: table_checked example_jwt unix_seconds_def in_int64_def)
qed

section \<open>The administration\<close>

text \<open>No handler of the hub reads a header, a cookie or the remote address.\<close>

lemma hub_handlers_blind:
  fixes r h k x
  defines "q \<equiv> r\<lparr>req_header := h, req_cookie := k, req_remote_addr := x\<rparr>"
  shows "HandleHealth now q = HandleHealth now r" and "HandleGetStats ftime q = HandleGetStats ftime r"
    and "HandleGetRoomStats q = HandleGetRoomStats r"
    and "HandleBroadcastToRoom pick clk q = HandleBroadcastToRoom pick clk r"
    and "HandleKickUser order picks lclk q = HandleKickUser order picks lclk r"
    and "HandleGetUserStatus q = HandleGetUserStatus r"
    and "HandleGetUserConnections ftime q = HandleGetUserConnections ftime r"
    and "HandleBroadcastToUser picks clk q = HandleBroadcastToUser picks clk r"
    and "HandleDisconnectUser picks lclk q = HandleDisconnectUser picks lclk r"
  unfolding q_def
  by (simp_all add: fun_eq_iff HandleHealth_def HandleGetStats_def HandleGetRoomStats_def
      HandleBroadcastToRoom_def HandleKickUser_def HandleGetUserStatus_def HandleGetUserConnections_def
      HandleBroadcastToUser_def HandleDisconnectUser_def hub_reply_def reply_ok_def request_id_of_def decode_body_def
      cong: if_cong option.case_cong)

lemma administration_blind:
  assumes "rt \<in> set (HubRouter a i)" and "h ''X-Request-ID'' = req_header r ''X-Request-ID''"
  shows "snd (snd rt) (r\<lparr>req_header := h, req_cookie := k, req_remote_addr := x\<rparr>) s = snd (snd rt) r s"
proof -
  have wrap: "wrapped (hub_app_handler fn) (r\<lparr>req_header := h, req_cookie := k, req_remote_addr := x\<rparr>) =
      wrapped (hub_app_handler fn) r"
    if "fn (r\<lparr>req_header := h, req_cookie := k, req_remote_addr := x\<rparr>) = fn r" for fn
  proof -
    have id: "req_header (r\<lparr>req_header := h, req_cookie := k, req_remote_addr := x\<rparr>) ''X-Request-ID'' =
        req_header r ''X-Request-ID''"
      using assms(2) by simp
    show ?thesis
      by (rule ext) (unfold wrapped_def with_goroutine_def WrapHandler_def hub_app_handler_def that id, rule refl)
  qed
  show ?thesis
    using assms(1) unfolding HubRouter_def list.set insert_iff empty_iff
    by (elim disjE FalseE) (simp_all add: hub_handlers_blind wrap on_hub_def)
qed

text \<open>
  C13. Nobody is asked who they are. A request to an administration route, kicking and disconnecting
  users among them, is answered the same and does the same to the hub whatever bearer token and
  cookies it carries: none in particular.
\<close>

theorem administration_is_open:
  assumes "chi_ok a" and "ap_find_route a (route_table a i) meth (req_path r) = Some (n, params)"
    and "routes a i ! n \<in> set (HubRouter a i)"
  shows "NewRouter a i meth (r\<lparr>req_header := (req_header r)(''Authorization'' := token), req_cookie := cookies\<rparr>) s =
    NewRouter a i meth r s"
proof -
  define q where "q = r\<lparr>req_header := (req_header r)(''Authorization'' := token), req_cookie := cookies\<rparr>"
  obtain x where r: "NewRouter a i meth r s =
    (if req_header r ''X-Device-Fingerprint'' = ''''
     then (Return (writeAppError (NewAppError StatusBadRequest ''Missing device fingerprint'' ''fingerprint'')), s)
     else recoverer (ap_recovered a) (snd (snd (routes a i ! n))) (arrived i x params r) s)"
    using NewRouter_run [OF assms(1), of i meth r s] unfolding assms(2) option.case prod.case by blast
  have header: "req_header q ''X-Device-Fingerprint'' = req_header r ''X-Device-Fingerprint''"
    and path: "req_path q = req_path r"
    by (simp_all add: q_def)
  obtain y where q: "NewRouter a i meth q s =
    (if req_header r ''X-Device-Fingerprint'' = ''''
     then (Return (writeAppError (NewAppError StatusBadRequest ''Missing device fingerprint'' ''fingerprint'')), s)
     else recoverer (ap_recovered a) (snd (snd (routes a i ! n))) (arrived i y params q) s)"
    using NewRouter_run [OF assms(1), of i meth q s] unfolding header path assms(2) option.case prod.case by blast
  have "arrived i y params q = (arrived i x params r)
      \<lparr>req_header := (req_header q)(''X-Request-ID'' := in_request_id i), req_cookie := cookies, req_remote_addr := y\<rparr>"
    by (simp add: arrived_def q_def)
  then have "snd (snd (routes a i ! n)) (arrived i y params q) s =
      snd (snd (routes a i ! n)) (arrived i x params r) s"
    by (simp only:) (rule administration_blind [OF assms(3)], simp add: arrived_def)
  then show ?thesis unfolding q_def [symmetric] r q recoverer_def by simp
qed

lemma administration_is_open_witness:
  "NewRouter (example_app 8) example_inputs ''POST'' (example_post\<lparr>req_header := (req_header example_post)
       (''Authorization'' := ''''), req_cookie := Map.empty\<rparr>) (empty_chat, example_hub) =
     NewRouter (example_app 8) example_inputs ''POST'' example_post (empty_chat, example_hub) \<and>
   fst (snd (routes (example_app 8) example_inputs ! 8)) = ''/api/v1/rooms/{roomId}/kick''"
proof -
  have "length (route_table (example_app 8) example_inputs) = 18" by (simp add: routes_parts)
  then have found: "ap_find_route (example_app 8) (route_table (example_app 8) example_inputs) ''POST''
      (req_path example_post) = Some (8, (\<lambda>k. if k = ''receiverId'' then ''bob'' else ''''))"
    by (simp add: example_app_def)
  have "routes (example_app 8) example_inputs ! 8 \<in> set (HubRouter (example_app 8) example_inputs)"
    unfolding routes_parts by (rule nth_mem) (simp add: route_counts)
  from administration_is_open [OF example_chi_ok found this] show ?thesis
    by (simp add: routes_parts HubRouter_def)
qed

end
