(* ===== verification/StartUp.thy ===== *)
theory StartUp
  imports MongoInit "HOL-Library.Multiset" "HOL-Library.Sublist"
begin

text \<open>
  Starting: \<^verbatim>\<open>config/config.go\<close> reads the configuration, \<^verbatim>\<open>state/initState.go\<close> with
  \<^verbatim>\<open>initPostgres.go\<close>, \<^verbatim>\<open>initRedis.go\<close> and \<^verbatim>\<open>initSecret.go\<close> opens the connections
  and reads the keys, \<^verbatim>\<open>Close\<close> gives the connections back. The libraries are a record of
  functions, \<open>platform\<close>; \<open>platform_ok\<close> says what they do to the connections the process holds.
\<close>

section \<open>Configuration\<close>

record app_section =
  cf_name :: string
  cf_port :: string

record postgres_section =
  cf_dsn :: string
  cf_test :: string

record redis_section =
  cf_addr :: string
  cf_redis_password :: string

record database_section =
  cf_postgres :: postgres_section
  cf_redis :: redis_section
  cf_mongo_url :: string

record mailtrap_section =
  cf_smtp_host :: string
  cf_smtp_port :: int
  cf_username :: string
  cf_mail_password :: string
  cf_from :: string
  cf_to :: string

record app_config =
  cf_app :: app_section
  cf_database :: database_section
  cf_mailtrap :: mailtrap_section

text \<open>What the program tells viper before it reads the file.\<close>

record viper_setup =
  vp_config_name :: string
  vp_config_type :: string
  vp_config_paths :: "string list"
  vp_env_prefix :: string
  vp_automatic_env :: bool
  vp_env_key_replacer :: "(string \<times> string) list"

definition viper_settings :: viper_setup where
  "viper_settings = \<lparr>vp_config_name = ''application'', vp_config_type = ''yaml'', vp_config_paths = [''.''],
     vp_env_prefix = ''CHATAPP'', vp_automatic_env = True, vp_env_key_replacer = [(''.'', ''_'')]\<rparr>"

text \<open>
  \<open>read_in\<close> and \<open>unmarshal\<close> are viper's functions over its settings. The second component is the
  global \<^verbatim>\<open>Conf\<close>, \<open>None\<close> its nil.
\<close>

definition LoadConfig ::
  "(viper_setup \<Rightarrow> string option) \<Rightarrow> (viper_setup \<Rightarrow> string + app_config) \<Rightarrow> app_config option
   \<Rightarrow> string option \<times> app_config option" where
  "LoadConfig read_in unmarshal Conf =
     (case read_in viper_settings of
        Some err \<Rightarrow> (Some (''error reading config file: '' @ err), Conf)
      | None \<Rightarrow>
          (case unmarshal viper_settings of
             Inl err \<Rightarrow> (Some (''error unmarshalling config: '' @ err), Conf)
           | Inr config \<Rightarrow> (None, Some config)))"

section \<open>The libraries\<close>

record pool_limits =
  pl_max_idle_conns :: int
  pl_max_open_conns :: int
  pl_conn_max_idle_time :: int
  pl_conn_max_lifetime :: int

record redis_options =
  ro_addr :: string
  ro_password :: string
  ro_db :: int
  ro_pool_size :: int
  ro_max_idle_conns :: int
  ro_dial_timeout :: int
  ro_read_timeout :: int
  ro_write_timeout :: int

text \<open>
  The durations of \<open>pf_redis_ping\<close> and \<open>pf_disconnect\<close> are the timeouts of their contexts. Closing the
  SQL connections answers an error the program does not look at.
\<close>

record ('w, 'priv, 'pub) platform =
  pf_open_postgres :: "string \<Rightarrow> 'w \<Rightarrow> string option \<times> 'w"
  pf_sql_db :: "'w \<Rightarrow> string option"
  pf_set_limits :: "pool_limits \<Rightarrow> 'w \<Rightarrow> 'w"
  pf_close_postgres :: "'w \<Rightarrow> string option \<times> 'w"
  pf_mongo :: "'w mongo_admin"
  pf_disconnect :: "int \<Rightarrow> 'w \<Rightarrow> string option \<times> 'w"
  pf_new_redis :: "redis_options \<Rightarrow> 'w \<Rightarrow> 'w"
  pf_redis_ping :: "int \<Rightarrow> 'w \<Rightarrow> string option \<times> 'w"
  pf_close_redis :: "'w \<Rightarrow> string option \<times> 'w"
  pf_read_file :: "string \<Rightarrow> 'w \<Rightarrow> string + string"
  pf_private_key :: "string \<Rightarrow> string + 'priv"
  pf_public_key :: "string \<Rightarrow> string + 'pub"

section \<open>Opening\<close>

definition InitPostgres :: "('w, 'priv, 'pub) platform \<Rightarrow> string \<Rightarrow> 'w \<Rightarrow> string option \<times> 'w" where
  "InitPostgres pf dsn w =
     (case pf_open_postgres pf dsn w of
        (Some err, w1) \<Rightarrow> (Some err, w1)
      | (None, w1) \<Rightarrow>
          (case pf_sql_db pf w1 of
             Some err \<Rightarrow> (Some (''failed to get underlying sql.DB: '' @ err), w1)
           | None \<Rightarrow> (None, pf_set_limits pf \<lparr>pl_max_idle_conns = 10, pl_max_open_conns = 100,
               pl_conn_max_idle_time = 300 * Second, pl_conn_max_lifetime = 30 * Minute\<rparr> w1)))"

definition InitRedis ::
  "('w, 'priv, 'pub) platform \<Rightarrow> string \<Rightarrow> string \<Rightarrow> int \<Rightarrow> 'w \<Rightarrow> string option \<times> 'w" where
  "InitRedis pf addr password db w =
     (let w1 = pf_new_redis pf \<lparr>ro_addr = addr, ro_password = password, ro_db = db, ro_pool_size = 50,
            ro_max_idle_conns = 10, ro_dial_timeout = 5 * Second, ro_read_timeout = 5 * Second,
            ro_write_timeout = 5 * Second\<rparr> w
      in case pf_redis_ping pf (5 * Second) w1 of
           (Some err, w2) \<Rightarrow> (Some (''failed to connect to Redis: '' @ err), w2)
         | (None, w2) \<Rightarrow> (None, w2))"

definition InitSecret :: "('w, 'priv, 'pub) platform \<Rightarrow> 'w \<Rightarrow> string + ('priv \<times> 'pub)" where
  "InitSecret pf w =
     (case pf_read_file pf ''private.pem'' w of
        Inl err \<Rightarrow> Inl err
      | Inr privKeyBytes \<Rightarrow>
     (case pf_read_file pf ''public.pem'' w of
        Inl err \<Rightarrow> Inl err
      | Inr pubKeyBytes \<Rightarrow>
     (case pf_private_key pf privKeyBytes of
        Inl err \<Rightarrow> Inl (''invalid private key: '' @ err)
      | Inr privKey \<Rightarrow>
     (case pf_public_key pf pubKeyBytes of
        Inl err \<Rightarrow> Inl (''invalid public key: '' @ err)
      | Inr pubKey \<Rightarrow> Inr (privKey, pubKey)))))"

text \<open>
  The state's connections: whether the pointer is set. Its context and the context's cancel function
  are those of the process.
\<close>

record ('priv, 'pub) app_state =
  as_db :: bool
  as_redis :: bool
  as_mongo :: bool
  as_jwt_secret :: "('priv \<times> 'pub) option"

text \<open>A configuration that was not loaded is nil.\<close>

definition InitAppState ::
  "('w, 'priv, 'pub) platform \<Rightarrow> app_config option \<Rightarrow> 'w \<Rightarrow> ((string + ('priv, 'pub) app_state) \<times> 'w) outcome" where
  "InitAppState pf Conf w =
     (case Conf of
        None \<Rightarrow> Panic
      | Some conf \<Rightarrow> Return
          (let dbUrl = cf_dsn (cf_postgres (cf_database conf));
               rAddr = cf_addr (cf_redis (cf_database conf));
               rPass = cf_redis_password (cf_redis (cf_database conf))
           in case InitPostgres pf dbUrl w of
                (Some err, w1) \<Rightarrow> (Inl err, w1)
              | (None, w1) \<Rightarrow>
              (case InitMongo (pf_mongo pf) (cf_mongo_url (cf_database conf)) w1 of
                (Some err, w2) \<Rightarrow> (Inl err, w2)
              | (None, w2) \<Rightarrow>
              (case InitRedis pf rAddr rPass 0 w2 of
                (Some err, w3) \<Rightarrow> (Inl err, w3)
              | (None, w3) \<Rightarrow>
              (case InitSecret pf w3 of
                Inl err \<Rightarrow> (Inl err, w3)
              | Inr secret \<Rightarrow> (Inr \<lparr>as_db = True, as_redis = True, as_mongo = True,
                  as_jwt_secret = Some secret\<rparr>, w3))))))"

text \<open>An error of a closing call is logged and the next connection closed all the same.\<close>

definition AppState_Close :: "('w, 'priv, 'pub) platform \<Rightarrow> ('priv, 'pub) app_state \<Rightarrow> 'w \<Rightarrow> 'w" where
  "AppState_Close pf a w =
     (let w1 = (if as_db a \<and> pf_sql_db pf w = None then snd (pf_close_postgres pf w) else w);
          w2 = (if as_mongo a then snd (pf_disconnect pf (10 * Second) w1) else w1)
      in if as_redis a then snd (pf_close_redis pf w2) else w2)"

section \<open>What the libraries do\<close>

text \<open>
  The servers the process holds connections to, each as often as it connected: \<open>held\<close>. A call that
  answers an error changes nothing of it; pinging, administration and the pool's bounds never do.
\<close>

datatype server = Postgres | MongoDB | RedisDB

definition mongo_holds :: "'w mongo_admin \<Rightarrow> ('w \<Rightarrow> server multiset) \<Rightarrow> bool" where
  "mongo_holds adm held \<longleftrightarrow>
     (\<forall>uri w. held (snd (ma_connect adm uri w)) =
        (if fst (ma_connect adm uri w) = None then add_mset MongoDB (held w) else held w)) \<and>
     (\<forall>w. held (snd (ma_ping adm w)) = held w) \<and>
     (\<forall>n v w. held (snd (ma_create adm n v w)) = held w) \<and>
     (\<forall>n ixs w. held (snd (ma_index adm n ixs w)) = held w) \<and>
     (\<forall>n v l w. held (snd (ma_coll_mod adm n v l w)) = held w)"

definition platform_ok :: "('w, 'priv, 'pub) platform \<Rightarrow> ('w \<Rightarrow> server multiset) \<Rightarrow> bool" where
  "platform_ok pf held \<longleftrightarrow> mongo_holds (pf_mongo pf) held \<and>
     (\<forall>dsn w. held (snd (pf_open_postgres pf dsn w)) =
        (if fst (pf_open_postgres pf dsn w) = None then add_mset Postgres (held w) else held w)) \<and>
     (\<forall>l w. held (pf_set_limits pf l w) = held w) \<and>
     (\<forall>w. held (snd (pf_close_postgres pf w)) =
        (if fst (pf_close_postgres pf w) = None then held w - {#Postgres#} else held w)) \<and>
     (\<forall>d w. held (snd (pf_disconnect pf d w)) =
        (if fst (pf_disconnect pf d w) = None then held w - {#MongoDB#} else held w)) \<and>
     (\<forall>o1 w. held (pf_new_redis pf o1 w) = add_mset RedisDB (held w)) \<and>
     (\<forall>d w. held (snd (pf_redis_ping pf d w)) = held w) \<and>
     (\<forall>w. held (snd (pf_close_redis pf w)) =
        (if fst (pf_close_redis pf w) = None then held w - {#RedisDB#} else held w))"

text \<open>Closing succeeds.\<close>

definition closes :: "('w, 'priv, 'pub) platform \<Rightarrow> bool" where
  "closes pf \<longleftrightarrow> (\<forall>w. pf_sql_db pf w = None \<and> fst (pf_close_postgres pf w) = None \<and>
     (\<forall>d. fst (pf_disconnect pf d w) = None) \<and> fst (pf_close_redis pf w) = None)"

section \<open>What starting holds\<close>

lemma mongo_holdsD:
  assumes "mongo_holds adm held"
  shows "ma_connect adm uri w = (None, w') \<Longrightarrow> held w' = add_mset MongoDB (held w)"
    and "ma_connect adm uri w = (Some e, w') \<Longrightarrow> held w' = held w"
    and "ma_ping adm w = (r, w') \<Longrightarrow> held w' = held w"
    and "ma_create adm n v w = (r, w') \<Longrightarrow> held w' = held w"
    and "ma_index adm n ixs w = (r, w') \<Longrightarrow> held w' = held w"
    and "ma_coll_mod adm n v l w = (s, w') \<Longrightarrow> held w' = held w"
  using assms unfolding mongo_holds_def by (elim conjE; metis fst_conv snd_conv option.distinct(1))+

lemma initMessageCollection_held:
  assumes "mongo_holds adm held" and "initMessageCollection adm w = (r, w')"
  shows "held w' = held w"
  using assms(2)
  by (auto simp: initMessageCollection_def Let_def dest!: mongo_holdsD [OF assms(1)]
      split: sum.splits if_splits prod.splits option.splits)

lemma initDLQCollection_held:
  assumes "mongo_holds adm held" and "initDLQCollection adm w = (r, w')"
  shows "held w' = held w"
  using assms(2)
  by (auto simp: initDLQCollection_def Let_def dest!: mongo_holdsD [OF assms(1)]
      split: sum.splits if_splits prod.splits option.splits)

lemma InitMongo_held:
  assumes "mongo_holds adm held" and "InitMongo adm uri w = (r, w')"
  shows "r = None \<Longrightarrow> held w' = add_mset MongoDB (held w)"
    and "held w' = held w \<or> held w' = add_mset MongoDB (held w)"
proof -
  have "held w' = add_mset MongoDB (held w) \<or> r \<noteq> None \<and> held w' = held w"
    using assms(2)
    by (auto simp: InitMongo_def split: if_splits option.splits prod.splits
        dest!: mongo_holdsD(1-3) [OF assms(1)] initMessageCollection_held [OF assms(1)]
          initDLQCollection_held [OF assms(1)])
  then show "r = None \<Longrightarrow> held w' = add_mset MongoDB (held w)"
    and "held w' = held w \<or> held w' = add_mset MongoDB (held w)" by auto
qed

lemma platform_okD:
  assumes "platform_ok pf held"
  shows "mongo_holds (pf_mongo pf) held"
    and "pf_open_postgres pf dsn w = (None, w') \<Longrightarrow> held w' = add_mset Postgres (held w)"
    and "pf_open_postgres pf dsn w = (Some e, w') \<Longrightarrow> held w' = held w"
    and "held (pf_set_limits pf l w) = held w"
    and "fst (pf_close_postgres pf w) = None \<Longrightarrow> held (snd (pf_close_postgres pf w)) = held w - {#Postgres#}"
    and "fst (pf_disconnect pf d w) = None \<Longrightarrow> held (snd (pf_disconnect pf d w)) = held w - {#MongoDB#}"
    and "held (pf_new_redis pf opts w) = add_mset RedisDB (held w)"
    and "pf_redis_ping pf d w = (r, w') \<Longrightarrow> held w' = held w"
    and "fst (pf_close_redis pf w) = None \<Longrightarrow> held (snd (pf_close_redis pf w)) = held w - {#RedisDB#}"
  using assms unfolding platform_ok_def by (elim conjE; metis fst_conv snd_conv option.distinct(1))+

lemma InitPostgres_held:
  assumes "platform_ok pf held" and "InitPostgres pf dsn w = (r, w')"
  shows "r = None \<Longrightarrow> held w' = add_mset Postgres (held w)"
    and "held w' = held w \<or> held w' = add_mset Postgres (held w)"
  using assms(2)
  by (auto simp: InitPostgres_def platform_okD(4) [OF assms(1)] split: prod.splits option.splits
      dest!: platform_okD(2,3) [OF assms(1)])

lemma InitRedis_held:
  assumes "platform_ok pf held" and "InitRedis pf addr password db w = (r, w')"
  shows "held w' = add_mset RedisDB (held w)"
  using assms(2)
  by (auto simp: InitRedis_def Let_def platform_okD(7) [OF assms(1)] split: prod.splits option.splits
      dest!: platform_okD(8) [OF assms(1)])

lemma Close_held:
  assumes "platform_ok pf held" and "closes pf" and "as_db a" "as_mongo a" "as_redis a"
  shows "held (AppState_Close pf a w) = held w - {#Postgres, MongoDB, RedisDB#}"
  using assms(2-5)
  by (simp add: AppState_Close_def Let_def closes_def platform_okD(5,6,9) [OF assms(1)] add_mset_commute)

text \<open>
  Opening the application's state. When it succeeds, the process holds one connection to each of the
  three servers more than before, the state has the keys of the two files, and closing the state gives
  exactly those connections back. When a step fails nothing is given back: the connections of the steps
  before it stay open, all three when the keys cannot be read.
\<close>

theorem init_state_effect:
  assumes "platform_ok pf held" and "InitAppState pf (Some conf) w = Return (r, w')"
  shows "case r of
      Inr st \<Rightarrow> held w' = held w + {#Postgres, MongoDB, RedisDB#} \<and>
        (\<exists>secret. as_jwt_secret st = Some secret \<and> InitSecret pf w' = Inr secret) \<and>
        (closes pf \<longrightarrow> (\<forall>u. held (AppState_Close pf st u) = held u - {#Postgres, MongoDB, RedisDB#}))
    | Inl err \<Rightarrow> \<exists>opened. held w' = held w + mset opened \<and> prefix opened [Postgres, MongoDB, RedisDB]"
proof -
  obtain r1 w1 where pg: "InitPostgres pf (cf_dsn (cf_postgres (cf_database conf))) w = (r1, w1)" by force
  obtain r2 w2 where mg: "InitMongo (pf_mongo pf) (cf_mongo_url (cf_database conf)) w1 = (r2, w2)" by force
  obtain r3 w3 where rd: "InitRedis pf (cf_addr (cf_redis (cf_database conf)))
      (cf_redis_password (cf_redis (cf_database conf))) 0 w2 = (r3, w3)" by force
  note h1 = InitPostgres_held [OF assms(1) pg] and h3 = InitRedis_held [OF assms(1) rd]
  note h2 = InitMongo_held [OF platform_okD(1) [OF assms(1)] mg]
  note run = assms(2) [unfolded InitAppState_def option.case(2) Let_def pg mg rd prod.case]
  have failed: ?thesis if "r = Inl e" "held w' = held w + mset opened" "prefix opened [Postgres, MongoDB, RedisDB]"
    for e opened using that by auto
  show ?thesis
  proof (cases r1)
    case (Some e)
    with run have "r = Inl e" "w' = w1" by simp_all
    with h1(2) show ?thesis using failed [of e "[]"] failed [of e "[Postgres]"] by auto
  next
    case one: None
    show ?thesis
    proof (cases r2)
      case (Some e)
      with run one have "r = Inl e" "w' = w2" by simp_all
      with h1(1) [OF one] h2(2) show ?thesis
        using failed [of e "[Postgres]"] failed [of e "[Postgres, MongoDB]"]
        by (auto simp: add_mset_commute)
    next
      case two: None
      have three: "held w3 = held w + mset [Postgres, MongoDB, RedisDB]"
        using h1(1) [OF one] h2(1) [OF two] h3 by simp
      show ?thesis
      proof (cases "r3 \<noteq> None \<or> (\<exists>e. InitSecret pf w3 = Inl e)")
        case True
        with run one two obtain e where "r = Inl e" "w' = w3" by (auto split: option.splits)
        with three show ?thesis using failed [of e "[Postgres, MongoDB, RedisDB]"]
          by (simp add: add_mset_commute)
      next
        case False
        then obtain secret where "r3 = None" and secret: "InitSecret pf w3 = Inr secret"
          by (cases "InitSecret pf w3") auto
        with run one two have "r = Inr \<lparr>as_db = True, as_redis = True, as_mongo = True,
            as_jwt_secret = Some secret\<rparr>" and "w' = w3" by simp_all
        with three secret show ?thesis by (simp add: Close_held [OF assms(1)])
      qed
    qed
  qed
qed

end
