(* ===== verification/PoolRun.thy ===== *)
theory PoolRun
  imports JobQueue "HOL-Library.Multiset"
begin

text \<open>
  The worker pool in motion: the producer goroutine, the workers and \<^verbatim>\<open>Stop\<close> of
  \<^verbatim>\<open>internal/worker/worker.go\<close> as a step relation over the pool's state. A job is with the
  server, in the channel, in the producer's hand or in a worker's; a step is one iteration of one
  goroutine, or half of a worker's: receiving a job, and dealing with it. The commands a goroutine
  sends carry the pool's context, so the client's functions are an argument that depends on whether
  it has been cancelled. A handler that panics ends the process: there is no step then. The goroutines
  of the dead letters are in another theory and not part of this system.
\<close>

section \<open>The goroutines\<close>

datatype producer = Polling | Offering text_doc job | Gone
datatype worker = Idle | Busy job | Exited

record 'w running =
  rn_pool :: "'w pool"
  rn_producer :: producer
  rn_workers :: "worker list"

definition StartPool :: "nat \<Rightarrow> 'w pool \<Rightarrow> 'w running" where
  "StartPool workerNum st = \<lparr>rn_pool = st, rn_producer = Polling, rn_workers = replicate workerNum Idle\<rparr>"

abbreviation cancelled :: "'w running \<Rightarrow> bool" where
  "cancelled s \<equiv> wp_ctx_done (rn_pool s)"

definition cancel_pool :: "'w running \<Rightarrow> 'w running" where
  "cancel_pool s = s\<lparr>rn_pool := (rn_pool s)\<lparr>wp_ctx_done := True\<rparr>\<rparr>"

text \<open>The producer closes the channel when it returns.\<close>

definition end_producer :: "'w running \<Rightarrow> 'w running" where
  "end_producer s = s\<lparr>rn_producer := Gone,
     rn_pool := (rn_pool s)\<lparr>wp_channel := (wp_channel (rn_pool s))\<lparr>ch_closed := True\<rparr>\<rparr>\<rparr>"

definition after_tick :: "'w tick \<Rightarrow> 'w running \<Rightarrow> 'w running" where
  "after_tick out s =
     (case out of
        Ticked st \<Rightarrow> s\<lparr>rn_pool := st, rn_producer := Polling\<rparr>
      | Waiting payload j st \<Rightarrow> s\<lparr>rn_pool := st, rn_producer := Offering payload j\<rparr>
      | Ended st \<Rightarrow> end_producer (s\<lparr>rn_pool := st\<rparr>))"

definition set_worker :: "nat \<Rightarrow> worker \<Rightarrow> 'w pool \<Rightarrow> 'w running \<Rightarrow> 'w running" where
  "set_worker i x st s = s\<lparr>rn_pool := st, rn_workers := (rn_workers s)[i := x]\<rparr>"

text \<open>What a step shows: a job completed without an error, the context being cancelled, or nothing.\<close>

datatype event = Tau | Completed job | Stopping

inductive pool_step ::
  "(bool \<Rightarrow> 'w redis) \<Rightarrow> (bool \<Rightarrow> job \<Rightarrow> 'w \<Rightarrow> (string option \<times> 'w) outcome)
   \<Rightarrow> 'w running \<Rightarrow> event \<Rightarrow> 'w running \<Rightarrow> bool"
  for rd handle where
  poll: "rn_producer s = Polling \<Longrightarrow>
    pool_step rd handle s Tau (after_tick (produce_tick (rd (cancelled s)) pick now (rn_pool s)) s)"
| offer: "rn_producer s = Offering payload j \<Longrightarrow>
    pool_step rd handle s Tau (after_tick (offer_job (rd (cancelled s)) pick payload j (rn_pool s)) s)"
| halt: "rn_producer s = Polling \<Longrightarrow> cancelled s \<Longrightarrow> pool_step rd handle s Tau (end_producer s)"
| parent: "rn_producer s = Polling \<Longrightarrow> pool_step rd handle s Stopping (end_producer (cancel_pool s))"
| take: "i < length (rn_workers s) \<Longrightarrow> rn_workers s ! i = Idle \<Longrightarrow> take_job (rn_pool s) = Some (oj, st) \<Longrightarrow>
    pool_step rd handle s Tau (set_worker i (case oj of None \<Rightarrow> Idle | Some j \<Rightarrow> Busy j) st s)"
| finish: "i < length (rn_workers s) \<Longrightarrow> rn_workers s ! i = Busy j \<Longrightarrow>
    handle (cancelled s) j (wp_world (rn_pool s)) = Return (res, w) \<Longrightarrow>
    finish_job (rd (cancelled s)) (handle (cancelled s)) t1 t2 j (rn_pool s) = Return st \<Longrightarrow>
    pool_step rd handle s (if res = None then Completed j else Tau) (set_worker i Idle st s)"
| leave: "i < length (rn_workers s) \<Longrightarrow> rn_workers s ! i = Idle \<Longrightarrow>
    cancelled s \<or> ch_closed (wp_channel (rn_pool s)) \<and> ch_buf (wp_channel (rn_pool s)) = [] \<Longrightarrow>
    pool_step rd handle s Tau (set_worker i Exited (rn_pool s) s)"
| stop: "pool_step rd handle s Stopping (cancel_pool s)"

inductive pool_run ::
  "(bool \<Rightarrow> 'w redis) \<Rightarrow> (bool \<Rightarrow> job \<Rightarrow> 'w \<Rightarrow> (string option \<times> 'w) outcome)
   \<Rightarrow> 'w running \<Rightarrow> event list \<Rightarrow> 'w running \<Rightarrow> bool"
  for rd handle where
  run_done: "pool_run rd handle s [] s"
| run_more: "pool_step rd handle s e s1 \<Longrightarrow> pool_run rd handle s1 es s' \<Longrightarrow> pool_run rd handle s (e # es) s'"

section \<open>Where the jobs are\<close>

definition jobs_in :: "text_doc list \<Rightarrow> job multiset" where
  "jobs_in ds = image_mset (\<lambda>d. the (unmarshal_job d)) (mset ds)"

definition queue_docs :: "('w \<Rightarrow> store) \<Rightarrow> 'w running \<Rightarrow> text_doc list" where
  "queue_docs view s = map fst (st_zset (view (wp_world (rn_pool s))) priority_queue)"

definition dead_docs :: "('w \<Rightarrow> store) \<Rightarrow> 'w running \<Rightarrow> text_doc list" where
  "dead_docs view s = st_list (view (wp_world (rn_pool s))) priority_queue_dlq"

abbreviation channel_docs :: "'w running \<Rightarrow> text_doc list" where
  "channel_docs s \<equiv> ch_buf (wp_channel (rn_pool s))"

definition in_hand :: "producer \<Rightarrow> job multiset" where
  "in_hand p = (case p of Offering d j \<Rightarrow> {#j#} | _ \<Rightarrow> {#})"

definition held :: "worker \<Rightarrow> job multiset" where
  "held x = (case x of Busy j \<Rightarrow> {#j#} | _ \<Rightarrow> {#})"

definition live :: "('w \<Rightarrow> store) \<Rightarrow> 'w running \<Rightarrow> job multiset" where
  "live view s = jobs_in (queue_docs view s) + jobs_in (channel_docs s) + in_hand (rn_producer s) +
     sum_list (map held (rn_workers s))"

definition live_ids :: "('w \<Rightarrow> store) \<Rightarrow> 'w running \<Rightarrow> string multiset" where
  "live_ids view s = image_mset jb_id (live view s)"

definition dead_ids :: "('w \<Rightarrow> store) \<Rightarrow> 'w running \<Rightarrow> string multiset" where
  "dead_ids view s = image_mset jb_id (jobs_in (dead_docs view s))"

definition completed_ids :: "event \<Rightarrow> string multiset" where
  "completed_ids e = (case e of Completed j \<Rightarrow> {#jb_id j#} | _ \<Rightarrow> {#})"

text \<open>How many steps the jobs of a state are from their ends.\<close>

definition attempts_left :: "job \<Rightarrow> nat" where
  "attempts_left j = nat (jb_max_retry j - jb_retry j)"

definition weigh :: "nat \<Rightarrow> job multiset \<Rightarrow> nat" where
  "weigh k M = sum_mset (image_mset (\<lambda>j. 4 * attempts_left j + k) M)"

definition work :: "('w \<Rightarrow> store) \<Rightarrow> 'w running \<Rightarrow> nat" where
  "work view s = weigh 4 (jobs_in (queue_docs view s)) + weigh 3 (in_hand (rn_producer s)) +
     weigh 2 (jobs_in (channel_docs s)) + weigh 1 (sum_list (map held (rn_workers s)))"

lemma weigh_simps [simp]:
  "weigh k {#} = 0" "weigh k (add_mset j M) = 4 * attempts_left j + k + weigh k M"
  "weigh k (M + N) = weigh k M + weigh k N"
  by (simp_all add: weigh_def)

lemma jobs_in_simps [simp]:
  "jobs_in [] = {#}" "jobs_in (d # ds) = add_mset (the (unmarshal_job d)) (jobs_in ds)"
  "jobs_in (ds @ es) = jobs_in ds + jobs_in es"
  by (simp_all add: jobs_in_def)

lemma hand_simps [simp]:
  "in_hand Polling = {#}" "in_hand (Offering d j) = {#j#}" "in_hand Gone = {#}"
  "held Idle = {#}" "held (Busy j) = {#j#}" "held Exited = {#}"
  "completed_ids Tau = {#}" "completed_ids (Completed j) = {#jb_id j#}" "completed_ids Stopping = {#}"
  by (simp_all add: in_hand_def held_def completed_ids_def)

lemma held_update:
  assumes "i < length ws"
  shows "sum_list (map held (ws[i := x])) + held (ws ! i) = sum_list (map held ws) + held x"
proof -
  have "ws = take i ws @ ws ! i # drop (Suc i) ws" using assms by (rule id_take_nth_drop)
  then have "sum_list (map held ws) = sum_list (map held (take i ws)) + (held (ws ! i) + sum_list (map held (drop (Suc i) ws)))"
    by (metis (no_types) map_append list.simps(9) sum_list.append sum_list.Cons)
  then show ?thesis using assms by (simp add: upd_conv_take_nth_drop)
qed

section \<open>The invariant\<close>

text \<open>A job that can still be tried, and the document of one.\<close>

definition ok_job :: "job \<Rightarrow> bool" where
  "ok_job j \<longleftrightarrow> job_fits j \<and> 0 \<le> jb_retry j \<and> (jb_retry j = 0 \<or> jb_retry j < jb_max_retry j)"

definition good_doc :: "text_doc \<Rightarrow> bool" where
  "good_doc d \<longleftrightarrow> (\<exists>j. ok_job j \<and> d = marshal_job j)"

text \<open>While the context is alive; identifiers are used once.\<close>

definition pool_ok :: "('w \<Rightarrow> store) \<Rightarrow> 'w running \<Rightarrow> bool" where
  "pool_ok view s \<longleftrightarrow> \<not> cancelled s \<and> \<not> ch_closed (wp_channel (rn_pool s)) \<and>
     zset_ok (st_zset (view (wp_world (rn_pool s))) priority_queue) \<and>
     (\<forall>d \<in> set (queue_docs view s) \<union> set (channel_docs s). good_doc d) \<and>
     (\<forall>d j. rn_producer s = Offering d j \<longrightarrow> d = marshal_job j \<and> ok_job j) \<and>
     rn_producer s \<noteq> Gone \<and>
     (\<forall>x \<in> set (rn_workers s). x \<noteq> Exited \<and> (\<forall>j. x = Busy j \<longrightarrow> ok_job j)) \<and>
     (\<forall>d \<in> set (dead_docs view s). unmarshal_job d \<noteq> None) \<and>
     (\<forall>i. count (live_ids view s) i \<le> 1)"

lemma pool_okD:
  assumes "pool_ok view s"
  shows "\<not> cancelled s" "\<not> ch_closed (wp_channel (rn_pool s))"
    "zset_ok (st_zset (view (wp_world (rn_pool s))) priority_queue)"
    "d \<in> set (queue_docs view s) \<Longrightarrow> good_doc d" "d \<in> set (channel_docs s) \<Longrightarrow> good_doc d"
    "rn_producer s = Offering d j \<Longrightarrow> d = marshal_job j \<and> ok_job j" "rn_producer s \<noteq> Gone"
    "x \<in> set (rn_workers s) \<Longrightarrow> x \<noteq> Exited" "Busy j \<in> set (rn_workers s) \<Longrightarrow> ok_job j"
    "count (live_ids view s) i \<le> 1" "d \<in> set (dead_docs view s) \<Longrightarrow> unmarshal_job d \<noteq> None"
  using assms by (auto simp: pool_ok_def)

lemma ok_job_unmarshal: "ok_job j \<Longrightarrow> unmarshal_job (marshal_job j) = Some j"
  by (simp add: ok_job_def unmarshal_marshal_job)

text \<open>
  What is assumed: the server answers while the context is alive, and a handler touches neither the
  queue nor the dead letters.
\<close>

definition handlers_leave ::
  "(job \<Rightarrow> 'w \<Rightarrow> (string option \<times> 'w) outcome) \<Rightarrow> ('w \<Rightarrow> store) \<Rightarrow> bool" where
  "handlers_leave handle view \<longleftrightarrow> (\<forall>j w res w'. handle j w = Return (res, w') \<longrightarrow>
     st_zset (view w') priority_queue = st_zset (view w) priority_queue \<and>
     st_list (view w') priority_queue_dlq = st_list (view w) priority_queue_dlq)"

text \<open>
  How a step that is not a cancellation goes on: the invariant stays, every job is accounted for, and
  the work left shrinks unless nothing happened.
\<close>

definition goes_on :: "('w \<Rightarrow> store) \<Rightarrow> 'w running \<Rightarrow> event \<Rightarrow> 'w running \<Rightarrow> bool" where
  "goes_on view s e s' \<longleftrightarrow> pool_ok view s' \<and>
     live_ids view s = live_ids view s' + (dead_ids view s' - dead_ids view s) + completed_ids e \<and>
     dead_ids view s \<subseteq># dead_ids view s' \<and> work view s' \<le> work view s \<and>
     (s' \<noteq> s \<longrightarrow> work view s' < work view s)"

lemma goes_on_refl: "pool_ok view s \<Longrightarrow> goes_on view s Tau s"
  by (simp add: goes_on_def)

text \<open>
  The part of the invariant that a step can break, with the accounting, is enough: identifiers stay
  unique because the step adds none.
\<close>

lemma goes_onI:
  assumes "pool_ok view s" and "\<not> cancelled s'" and "\<not> ch_closed (wp_channel (rn_pool s'))"
    and "zset_ok (st_zset (view (wp_world (rn_pool s'))) priority_queue)"
    and "\<And>d. d \<in> set (queue_docs view s') \<Longrightarrow> good_doc d"
    and "\<And>d. d \<in> set (channel_docs s') \<Longrightarrow> good_doc d"
    and "\<And>d j. rn_producer s' = Offering d j \<Longrightarrow> d = marshal_job j \<and> ok_job j" and "rn_producer s' \<noteq> Gone"
    and "\<And>x. x \<in> set (rn_workers s') \<Longrightarrow> x \<noteq> Exited \<and> (\<forall>j. x = Busy j \<longrightarrow> ok_job j)"
    and acc: "live_ids view s = live_ids view s' + new_dead + completed_ids e"
      "dead_ids view s' = dead_ids view s + new_dead"
    and "work view s' < work view s"
    and "\<And>d. d \<in> set (dead_docs view s') \<Longrightarrow> unmarshal_job d \<noteq> None"
  shows "goes_on view s e s'"
proof -
  have "count (live_ids view s') i \<le> 1" for i
  proof -
    have "count (live_ids view s') i \<le> count (live_ids view s) i" unfolding acc(1) by simp
    then show ?thesis using pool_okD(10) [OF assms(1), of i] by linarith
  qed
  moreover have "\<forall>d \<in> set (queue_docs view s') \<union> set (channel_docs s'). good_doc d"
    using assms(5,6) by blast
  ultimately have "pool_ok view s'"
    unfolding pool_ok_def using assms(2,3,4,7,8,9,13) by blast
  moreover have "dead_ids view s' - dead_ids view s = new_dead" unfolding acc(2) by simp
  ultimately show ?thesis unfolding goes_on_def using acc(1) assms(12) by (simp add: acc(2) [symmetric]) (simp add: acc(2))
qed

section \<open>The steps while the context is alive\<close>

lemma after_tick_same [simp]:
  "rn_producer s = Polling \<Longrightarrow> after_tick (Ticked (rn_pool s)) s = s"
  "rn_producer s = Offering d j \<Longrightarrow> after_tick (Waiting d j (rn_pool s)) s = s"
  by (simp_all add: after_tick_def)

lemma offer_job_alive:
  "\<not> wp_ctx_done st \<Longrightarrow> offer_job rd pick d j st =
    (if chan_full (wp_channel st) then Waiting d j st else Ticked (st\<lparr>wp_channel := chan_push d (wp_channel st)\<rparr>))"
  by (simp add: offer_job_def)

lemma places_simps [simp]:
  "queue_docs view (after_tick (Ticked st) s) = map fst (st_zset (view (wp_world st)) priority_queue)"
  "dead_docs view (after_tick (Ticked st) s) = st_list (view (wp_world st)) priority_queue_dlq"
  "queue_docs view (after_tick (Waiting d j st) s) = map fst (st_zset (view (wp_world st)) priority_queue)"
  "dead_docs view (after_tick (Waiting d j st) s) = st_list (view (wp_world st)) priority_queue_dlq"
  "queue_docs view (set_worker i x st s) = map fst (st_zset (view (wp_world st)) priority_queue)"
  "dead_docs view (set_worker i x st s) = st_list (view (wp_world st)) priority_queue_dlq"
  by (simp_all add: queue_docs_def dead_docs_def after_tick_def set_worker_def)

lemma goes_simps [simp]:
  "rn_pool (after_tick (Ticked st) s) = st" "rn_producer (after_tick (Ticked st) s) = Polling"
  "rn_pool (after_tick (Waiting d j st) s) = st" "rn_producer (after_tick (Waiting d j st) s) = Offering d j"
  "rn_workers (after_tick (Ticked st) s) = rn_workers s"
  "rn_workers (after_tick (Waiting d j st) s) = rn_workers s"
  "rn_pool (set_worker i x st s) = st" "rn_producer (set_worker i x st s) = rn_producer s"
  "rn_workers (set_worker i x st s) = (rn_workers s)[i := x]"
  by (simp_all add: after_tick_def set_worker_def)

lemma offer_goes_on:
  assumes "pool_ok view s" and "rn_producer s = Offering d j"
  shows "goes_on view s Tau (after_tick (offer_job rd pick d j (rn_pool s)) s)"
proof -
  note ok = pool_okD [OF assms(1)]
  have dj: "d = marshal_job j" "ok_job j" using ok(6) [OF assms(2)] by simp_all
  show ?thesis
  proof (cases "chan_full (wp_channel (rn_pool s))")
    case True
    then show ?thesis using ok(1) goes_on_refl [OF assms(1)] by (simp add: offer_job_alive assms(2))
  next
    case False
    define st where "st = (rn_pool s)\<lparr>wp_channel := chan_push d (wp_channel (rn_pool s))\<rparr>"
    have "goes_on view s Tau (after_tick (Ticked st) s)"
    proof (rule goes_onI [OF assms(1), where new_dead = "{#}"])
      show "good_doc c" if "c \<in> set (channel_docs (after_tick (Ticked st) s))" for c
        using that ok(5) dj by (auto simp: st_def chan_push_def good_doc_def)
      show "live_ids view s = live_ids view (after_tick (Ticked st) s) + {#} + completed_ids Tau"
        using ok_job_unmarshal [OF dj(2)] dj(1)
        by (simp add: live_ids_def live_def st_def chan_push_def assms(2) queue_docs_def)
      show "unmarshal_job c \<noteq> None" if "c \<in> set (dead_docs view (after_tick (Ticked st) s))" for c
        using that ok(11) [of c] by (simp add: st_def dead_docs_def)
      show "work view (after_tick (Ticked st) s) < work view s"
        using ok_job_unmarshal [OF dj(2)] dj(1)
        by (simp add: work_def st_def chan_push_def assms(2) queue_docs_def)
    qed (use ok in \<open>auto simp: st_def chan_push_def queue_docs_def dead_docs_def dead_ids_def\<close>)
    then show ?thesis using ok(1) False by (simp add: offer_job_alive st_def)
  qed
qed

text \<open>
  The three ends of a tick that popped the job \<open>j\<close>, whose document \<open>m\<close> was the first of the queue:
  it has expired, it waits in the producer's hand, or it is in the channel.
\<close>

definition popped :: "('w \<Rightarrow> store) \<Rightarrow> 'w running \<Rightarrow> text_doc \<Rightarrow> job \<Rightarrow> (text_doc \<times> int) list \<Rightarrow> 'w \<Rightarrow> bool" where
  "popped view s m j rest w \<longleftrightarrow> ok_job j \<and> m = marshal_job j \<and> zset_ok rest \<and>
     queue_docs view s = m # map fst rest \<and>
     view w = (view (wp_world (rn_pool s)))\<lparr>st_zset := (st_zset (view (wp_world (rn_pool s))))(priority_queue := rest)\<rparr>"

lemma poll_expired:
  assumes "redis_ok rd view" and "redis_up rd" and "pool_ok view s" and "rn_producer s = Polling"
    and pop: "popped view s m j rest w"
    and st: "st = (rn_pool s)\<lparr>wp_world := moveToDLQ rd (j\<lparr>jb_error_msg := ''Job expired''\<rparr>) w\<rparr>"
  shows "goes_on view s Tau (after_tick (Ticked st) s)"
proof (rule goes_onI [OF assms(3), where new_dead = "{#jb_id j#}"])
  note ok = pool_okD [OF assms(3)] and p = pop [unfolded popped_def]
  have um: "unmarshal_job m = Some j" using ok_job_unmarshal p by simp
  have docs: "queue_docs view s = m # map fst rest" and view: "view w = (view (wp_world (rn_pool s)))
      \<lparr>st_zset := (st_zset (view (wp_world (rn_pool s))))(priority_queue := rest)\<rparr>" using p by blast+
  have v: "view (wp_world st) = (view w)\<lparr>st_list := (st_list (view w))(priority_queue_dlq :=
      st_list (view w) priority_queue_dlq @ [marshal_job (j\<lparr>jb_error_msg := ''Job expired''\<rparr>)])\<rparr>"
    unfolding st by (simp add: moveToDLQ_view [OF assms(1,2)])
  have fits: "unmarshal_job (marshal_job (j\<lparr>jb_error_msg := ''Job expired''\<rparr>)) = Some (j\<lparr>jb_error_msg := ''Job expired''\<rparr>)"
    by (rule unmarshal_marshal_job) (use p in \<open>simp add: ok_job_def job_fits_def\<close>)
  show "live_ids view s = live_ids view (after_tick (Ticked st) s) + {#jb_id j#} + completed_ids Tau"
    by (simp add: live_ids_def live_def docs v view um assms(4)) (simp add: st)
  show "dead_ids view (after_tick (Ticked st) s) = dead_ids view s + {#jb_id j#}"
    by (simp add: dead_ids_def v view fits) (simp add: dead_docs_def)
  show "unmarshal_job c \<noteq> None" if "c \<in> set (dead_docs view (after_tick (Ticked st) s))" for c
    using that ok(11) [of c] fits by (auto simp: v view dead_docs_def)
  show "work view (after_tick (Ticked st) s) < work view s"
    by (simp add: work_def docs v view um assms(4)) (simp add: st)
  show "zset_ok (st_zset (view (wp_world (rn_pool (after_tick (Ticked st) s)))) priority_queue)"
    using p by (simp add: v view)
  show "good_doc d" if "d \<in> set (queue_docs view (after_tick (Ticked st) s))" for d
    using that ok(4) [of d] docs by (simp add: v view)
qed (use pool_okD [OF assms(3)] in \<open>auto simp: st\<close>)

lemma poll_waits:
  assumes "pool_ok view s" and "rn_producer s = Polling" and pop: "popped view s m j rest w"
  shows "goes_on view s Tau (after_tick (Waiting m j ((rn_pool s)\<lparr>wp_world := w\<rparr>)) s)"
proof (rule goes_onI [OF assms(1), where new_dead = "{#}"])
  let ?s = "after_tick (Waiting m j ((rn_pool s)\<lparr>wp_world := w\<rparr>)) s"
  note ok = pool_okD [OF assms(1)] and p = pop [unfolded popped_def]
  have um: "unmarshal_job m = Some j" using ok_job_unmarshal p by simp
  have docs: "queue_docs view s = m # map fst rest" and view: "view w = (view (wp_world (rn_pool s)))
      \<lparr>st_zset := (st_zset (view (wp_world (rn_pool s))))(priority_queue := rest)\<rparr>" using p by blast+
  show "live_ids view s = live_ids view ?s + {#} + completed_ids Tau"
    by (simp add: live_ids_def live_def docs view um assms(2))
  show "dead_ids view ?s = dead_ids view s + {#}" by (simp add: dead_ids_def view) (simp add: dead_docs_def)
  show "unmarshal_job c \<noteq> None" if "c \<in> set (dead_docs view ?s)" for c
    using that ok(11) [of c] by (simp add: view dead_docs_def)
  show "work view ?s < work view s" by (simp add: work_def docs view um assms(2))
  show "zset_ok (st_zset (view (wp_world (rn_pool ?s))) priority_queue)" using p by (simp add: view)
  show "good_doc d" if "d \<in> set (queue_docs view ?s)" for d
    using that ok(4) [of d] docs by (simp add: view)
  show "d = marshal_job k \<and> ok_job k" if "rn_producer ?s = Offering d k" for d k
    using that p by auto
qed (use pool_okD [OF assms(1)] in auto)

lemma poll_pushes:
  assumes "pool_ok view s" and "rn_producer s = Polling" and pop: "popped view s m j rest w"
    and st: "st = (rn_pool s)\<lparr>wp_world := w, wp_channel := chan_push m (wp_channel (rn_pool s))\<rparr>"
  shows "goes_on view s Tau (after_tick (Ticked st) s)"
proof (rule goes_onI [OF assms(1), where new_dead = "{#}"])
  let ?s = "after_tick (Ticked st) s"
  note ok = pool_okD [OF assms(1)] and p = pop [unfolded popped_def]
  have um: "unmarshal_job m = Some j" using ok_job_unmarshal p by simp
  have docs: "queue_docs view s = m # map fst rest" and view: "view w = (view (wp_world (rn_pool s)))
      \<lparr>st_zset := (st_zset (view (wp_world (rn_pool s))))(priority_queue := rest)\<rparr>" using p by blast+
  show "good_doc c" if "c \<in> set (channel_docs ?s)" for c
    using that ok(5) p by (auto simp: st chan_push_def good_doc_def)
  show "live_ids view s = live_ids view ?s + {#} + completed_ids Tau"
    by (simp add: live_ids_def live_def docs st view um assms(2) chan_push_def)
  show "dead_ids view ?s = dead_ids view s + {#}" by (simp add: dead_ids_def st view) (simp add: dead_docs_def)
  show "unmarshal_job c \<noteq> None" if "c \<in> set (dead_docs view ?s)" for c
    using that ok(11) [of c] by (simp add: st view dead_docs_def)
  show "work view ?s < work view s" by (simp add: work_def docs st view um assms(2) chan_push_def)
  show "zset_ok (st_zset (view (wp_world (rn_pool ?s))) priority_queue)" using p by (simp add: st view)
  show "good_doc d" if "d \<in> set (queue_docs view ?s)" for d
    using that ok(4) [of d] docs by (simp add: st view)
qed (use pool_okD [OF assms(1)] in \<open>auto simp: st chan_push_def\<close>)

lemma poll_goes_on:
  assumes "redis_ok rd view" and "redis_up rd" and "pool_ok view s" and "rn_producer s = Polling"
  shows "goes_on view s Tau (after_tick (produce_tick rd pick now (rn_pool s)) s)"
proof -
  note ok = pool_okD [OF assms(3)]
  define p where "p = rn_pool s"
  obtain r w where pop: "popJob rd (wp_world p) = (Inr r, w)"
    using redis_upD(5) [OF assms(2)] unfolding popJob_def by blast
  show ?thesis
  proof (cases r)
    case None
    then have "w = wp_world p" using popJob_None [OF assms(1)] pop by simp
    then have "produce_tick rd pick now p = Ticked p" by (simp add: produce_tick_def pop None)
    then show ?thesis using goes_on_refl [OF assms(3)] assms(4) by (simp add: p_def)
  next
    case (Some m)
    obtain sc rest where q: "st_zset (view (wp_world p)) priority_queue = (m, sc) # rest"
      and view: "view w = (view (wp_world p))\<lparr>st_zset := (st_zset (view (wp_world p)))(priority_queue :=
        filter (\<lambda>x. fst x \<noteq> m) rest)\<rparr>"
      using popJob_Some [OF assms(1), of "wp_world p" m w] pop Some by blast
    have z: "zset_ok rest" "filter (\<lambda>x. fst x \<noteq> m) rest = rest"
      using ok(3) q unfolding p_def [symmetric] by (auto simp: zset_ok_def intro: filter_other_members)
    have docs: "queue_docs view s = m # map fst rest" by (simp add: queue_docs_def q flip: p_def)
    then obtain j where j: "ok_job j" "m = marshal_job j" using ok(4) [of m] by (auto simp: good_doc_def)
    have popped: "popped view s m j rest w"
      unfolding popped_def using j z view docs by (simp add: p_def)
    have um: "unmarshal_job m = Some j" using ok_job_unmarshal [OF j(1)] j(2) by simp
    note tick = produce_tick_def [of rd pick now p] pop Some um
    have alive: "\<not> wp_ctx_done (p\<lparr>wp_world := w\<rparr>)" using ok(1) by (simp add: p_def)
    show ?thesis
      using poll_expired [OF assms popped refl] poll_waits [OF assms(3,4) popped] poll_pushes [OF assms(3,4) popped refl]
      unfolding p_def [symmetric] by (simp add: tick Let_def offer_job_alive [OF alive])
  qed
qed

lemma take_goes_on:
  assumes "pool_ok view s" and "i < length (rn_workers s)" and "rn_workers s ! i = Idle"
    and "take_job (rn_pool s) = Some (oj, st)"
  shows "goes_on view s Tau (set_worker i (case oj of None \<Rightarrow> Idle | Some j \<Rightarrow> Busy j) st s)"
proof -
  note ok = pool_okD [OF assms(1)]
  obtain d rest where buf: "channel_docs s = d # rest"
    and oj: "oj = unmarshal_job d" and st: "st = (rn_pool s)\<lparr>wp_channel := (wp_channel (rn_pool s))\<lparr>ch_buf := rest\<rparr>\<rparr>"
    using assms(4) by (auto simp: take_job_def split: list.splits)
  obtain j where j: "ok_job j" "d = marshal_job j" using ok(5) [of d] buf by (auto simp: good_doc_def)
  have um: "unmarshal_job d = Some j" using ok_job_unmarshal [OF j(1)] j(2) by simp
  have held: "sum_list (map held ((rn_workers s)[i := Busy j])) = add_mset j (sum_list (map held (rn_workers s)))"
    using held_update [OF assms(2), of "Busy j"] assms(3) by simp
  have "goes_on view s Tau (set_worker i (Busy j) st s)"
  proof (rule goes_onI [OF assms(1), where new_dead = "{#}"])
    show "live_ids view s = live_ids view (set_worker i (Busy j) st s) + {#} + completed_ids Tau"
      by (simp add: live_ids_def live_def buf um held st) (simp add: queue_docs_def)
    show "dead_ids view (set_worker i (Busy j) st s) = dead_ids view s + {#}"
      by (simp add: dead_ids_def st dead_docs_def)
    show "unmarshal_job c \<noteq> None" if "c \<in> set (dead_docs view (set_worker i (Busy j) st s))" for c
      using that ok(11) [of c] by (simp add: st dead_docs_def)
    show "work view (set_worker i (Busy j) st s) < work view s"
      by (simp add: work_def buf um held st) (simp add: queue_docs_def)
    show "x \<noteq> Exited \<and> (\<forall>k. x = Busy k \<longrightarrow> ok_job k)" if "x \<in> set (rn_workers (set_worker i (Busy j) st s))" for x
      using that ok(8,9) j(1) set_update_subset_insert [of "rn_workers s" i "Busy j"] by auto
  qed (use ok buf in \<open>auto simp: st queue_docs_def\<close>)
  then show ?thesis by (simp add: oj um)
qed

lemma failure_alive:
  assumes "redis_ok rd view" and "redis_up rd" and "zset_ok (st_zset (view w) priority_queue)" and "ok_job j"
    and "handlerJobFailure rd t1 t2 j err (w, dla) = Return (w', dla')"
  shows "if jb_retry j + 1 \<ge> jb_max_retry j \<or> unix_seconds t1 > jb_expire_at j
     then w' = moveToDLQ rd (failed_job j err) w
     else \<exists>sc z. zplaced (marshal_job (failed_job j err)) sc (st_zset (view w) priority_queue) z \<and>
       view w' = (view w)\<lparr>st_zset := (st_zset (view w))(priority_queue := z)\<rparr>"
proof -
  have "in_int64 (jb_retry j + 1)"
    using assms(4) by (auto simp: ok_job_def job_fits_def in_int64_def)
  then have j': "j\<lparr>jb_retry := int64_of (jb_retry j + 1), jb_error_msg := err\<rparr> = failed_job j err"
    by (simp add: failed_job_def int64_of_id)
  show ?thesis
  proof (cases "jb_retry j + 1 \<ge> jb_max_retry j \<or> unix_seconds t1 > jb_expire_at j")
    case True
    then show ?thesis
      using assms(5) unfolding handlerJobFailure_def prod.case Let_def j' by (auto simp: failed_job_def)
  next
    case False
    obtain delay where "retry_delay (jb_retry (failed_job j err)) = Some delay"
      using assms(4) by (simp add: retry_delay_def ok_job_def)
    from scheduleRetry_view [OF assms(1-3) this, of t2] False assms(5) show ?thesis
      unfolding handlerJobFailure_def prod.case Let_def j' by (auto simp: failed_job_def outcome_simps)
  qed
qed

lemma zplaced_new:
  assumes "zplaced m sc old new" and "m \<notin> fst ` set old"
  shows "mset (map fst new) = add_mset m (mset (map fst old))"
proof -
  have "filter (\<lambda>x. fst x \<noteq> m) old = old" by (rule filter_other_members [OF assms(2)])
  then obtain b a where "old = b @ a" "new = b @ (m, sc) # a" using assms(1) by (auto simp: zplaced_def)
  then show ?thesis by simp
qed

lemma ok_job_failed:
  assumes "ok_job j" and "jb_retry j + 1 < jb_max_retry j"
  shows "ok_job (failed_job j err)" and "attempts_left j = Suc (attempts_left (failed_job j err))"
  using assms by (auto simp: ok_job_def job_fits_def in_int64_def failed_job_def attempts_left_def)

lemma idle_again:
  assumes "pool_ok view s" and "i < length (rn_workers s)" and "rn_workers s ! i = Busy j"
  shows "sum_list (map held (rn_workers s)) = add_mset j (sum_list (map held ((rn_workers s)[i := Idle])))"
    and "ok_job j" and "x \<in> set ((rn_workers s)[i := Idle]) \<Longrightarrow> x \<noteq> Exited \<and> (\<forall>k. x = Busy k \<longrightarrow> ok_job k)"
proof -
  show "sum_list (map held (rn_workers s)) = add_mset j (sum_list (map held ((rn_workers s)[i := Idle])))"
    using held_update [OF assms(2), of Idle] assms(3) by simp
  show "ok_job j" using pool_okD(9) [OF assms(1), of j] assms(2,3) nth_mem by metis
  show "x \<in> set ((rn_workers s)[i := Idle]) \<Longrightarrow> x \<noteq> Exited \<and> (\<forall>k. x = Busy k \<longrightarrow> ok_job k)"
    using pool_okD(8,9) [OF assms(1)] set_update_subset_insert [of "rn_workers s" i Idle] by auto
qed

text \<open>
  The three ends of a job \<open>j\<close> in the hands of worker \<open>i\<close>, in a world \<open>w\<close> in which its handler left the
  queue and the dead letters alone: it is completed, it dies, or it goes back into the queue.
\<close>

definition handled :: "('w \<Rightarrow> store) \<Rightarrow> 'w running \<Rightarrow> nat \<Rightarrow> job \<Rightarrow> 'w \<Rightarrow> bool" where
  "handled view s i j w \<longleftrightarrow> pool_ok view s \<and> i < length (rn_workers s) \<and> rn_workers s ! i = Busy j \<and>
     st_zset (view w) priority_queue = st_zset (view (wp_world (rn_pool s))) priority_queue \<and>
     st_list (view w) priority_queue_dlq = st_list (view (wp_world (rn_pool s))) priority_queue_dlq"

lemma handledD:
  assumes "handled view s i j w"
  shows "pool_ok view s" and "ok_job j"
    and "sum_list (map held (rn_workers s)) = add_mset j (sum_list (map held ((rn_workers s)[i := Idle])))"
    and "x \<in> set ((rn_workers s)[i := Idle]) \<Longrightarrow> x \<noteq> Exited \<and> (\<forall>k. x = Busy k \<longrightarrow> ok_job k)"
    and "st_zset (view w) priority_queue = st_zset (view (wp_world (rn_pool s))) priority_queue"
    and "st_list (view w) priority_queue_dlq = st_list (view (wp_world (rn_pool s))) priority_queue_dlq"
  using assms idle_again unfolding handled_def by blast+

lemma failed_job_readable:
  "ok_job j \<Longrightarrow> unmarshal_job (marshal_job (failed_job j err)) = Some (failed_job j err)"
  by (rule unmarshal_marshal_job) (auto simp: failed_job_def ok_job_def job_fits_def in_int64_def)

lemma failed_job_id [simp]: "jb_id (failed_job j err) = jb_id j"
  by (simp add: failed_job_def)

lemma finish_completes:
  assumes "handled view s i j w" and st: "st = (rn_pool s)\<lparr>wp_world := w\<rparr>"
  shows "goes_on view s (Completed j) (set_worker i Idle st s)"
proof -
  note h = handledD [OF assms(1)]
  note ok = pool_okD [OF h(1)]
  show ?thesis
  proof (rule goes_onI [OF h(1), where new_dead = "{#}"])
    show "live_ids view s = live_ids view (set_worker i Idle st s) + {#} + completed_ids (Completed j)"
      by (simp add: live_ids_def live_def st h(3,5)) (simp add: queue_docs_def)
    show "dead_ids view (set_worker i Idle st s) = dead_ids view s + {#}"
      by (simp add: dead_ids_def st dead_docs_def h(6))
    show "unmarshal_job c \<noteq> None" if "c \<in> set (dead_docs view (set_worker i Idle st s))" for c
      using that ok(11) [of c] by (simp add: st h(6) dead_docs_def)
    show "work view (set_worker i Idle st s) < work view s"
      by (simp add: work_def st h(3,5)) (simp add: queue_docs_def)
  qed (use ok h(4) in \<open>auto simp: st h(5) queue_docs_def\<close>)
qed

lemma finish_dies:
  assumes "handled view s i j w" and st: "st = (rn_pool s)\<lparr>wp_world := w', wp_dla := dla'\<rparr>"
    and v: "view w' = (view w)\<lparr>st_list := (st_list (view w))(priority_queue_dlq :=
      st_list (view w) priority_queue_dlq @ [marshal_job (failed_job j err)])\<rparr>"
  shows "goes_on view s Tau (set_worker i Idle st s)"
proof -
  note h = handledD [OF assms(1)]
  note ok = pool_okD [OF h(1)] and um = failed_job_readable [OF h(2), of err]
  show ?thesis
  proof (rule goes_onI [OF h(1), where new_dead = "{#jb_id j#}"])
    show "live_ids view s = live_ids view (set_worker i Idle st s) + {#jb_id j#} + completed_ids Tau"
      by (simp add: live_ids_def live_def st v h(3,5)) (simp add: queue_docs_def)
    show "dead_ids view (set_worker i Idle st s) = dead_ids view s + {#jb_id j#}"
      by (simp add: dead_ids_def st v h(6) um) (simp add: dead_docs_def)
    show "unmarshal_job c \<noteq> None" if "c \<in> set (dead_docs view (set_worker i Idle st s))" for c
      using that ok(11) [of c] um by (auto simp: st v h(6) dead_docs_def)
    show "work view (set_worker i Idle st s) < work view s"
      by (simp add: work_def st v h(3,5)) (simp add: queue_docs_def)
  qed (use ok h(4) in \<open>auto simp: st v h(5) queue_docs_def\<close>)
qed

text \<open>A job that a worker holds is not in the queue under its identifier.\<close>

lemma held_not_queued:
  assumes "handled view s i j w" and "unmarshal_job m = Some f" and "jb_id f = jb_id j"
  shows "m \<notin> set (queue_docs view s)"
proof
  assume "m \<in> set (queue_docs view s)"
  then have "f \<in># jobs_in (queue_docs view s)" using assms(2) unfolding jobs_in_def by force
  then have "jb_id f \<in># image_mset jb_id (jobs_in (queue_docs view s))" by simp
  then have "count (image_mset jb_id (jobs_in (queue_docs view s))) (jb_id j) \<noteq> 0"
    unfolding assms(3) by (simp only: count_eq_zero_iff not_not)
  moreover have "Suc (count (image_mset jb_id (jobs_in (queue_docs view s))) (jb_id j)) \<le>
      count (live_ids view s) (jb_id j)"
    by (simp add: live_ids_def live_def handledD(3) [OF assms(1)])
  ultimately show False using pool_okD(10) [OF handledD(1) [OF assms(1)], of "jb_id j"] by linarith
qed

lemma finish_retries:
  assumes "handled view s i j w" and st: "st = (rn_pool s)\<lparr>wp_world := w', wp_dla := dla'\<rparr>"
    and more: "jb_retry j + 1 < jb_max_retry j"
    and pl: "zplaced (marshal_job (failed_job j err)) sc (st_zset (view w) priority_queue) q"
    and v: "view w' = (view w)\<lparr>st_zset := (st_zset (view w))(priority_queue := q)\<rparr>"
  shows "goes_on view s Tau (set_worker i Idle st s)"
proof -
  note h = handledD [OF assms(1)]
  note ok = pool_okD [OF h(1)] and um = failed_job_readable [OF h(2), of err]
    and again = ok_job_failed [OF h(2) more, of err]
  have old: "map fst (st_zset (view w) priority_queue) = queue_docs view s" by (simp add: queue_docs_def h(5))
  have "marshal_job (failed_job j err) \<notin> set (queue_docs view s)"
    by (rule held_not_queued [OF assms(1) um]) simp
  then have docs: "mset (map fst q) = add_mset (marshal_job (failed_job j err)) (mset (queue_docs view s))"
    using zplaced_new [OF pl] unfolding old by (simp flip: old)
  have jobs: "jobs_in (map fst q) = add_mset (failed_job j err) (jobs_in (queue_docs view s))"
    unfolding jobs_in_def docs by (simp add: um)
  have qset: "set (map fst q) = insert (marshal_job (failed_job j err)) (set (queue_docs view s))"
    using arg_cong [OF docs, of set_mset] by simp
  show ?thesis
  proof (rule goes_onI [OF h(1), where new_dead = "{#}"])
    show "live_ids view s = live_ids view (set_worker i Idle st s) + {#} + completed_ids Tau"
      by (simp add: live_ids_def live_def st v h(3) jobs)
    show "dead_ids view (set_worker i Idle st s) = dead_ids view s + {#}"
      by (simp add: dead_ids_def st v h(6) dead_docs_def)
    show "unmarshal_job c \<noteq> None" if "c \<in> set (dead_docs view (set_worker i Idle st s))" for c
      using that ok(11) [of c] by (simp add: st v h(6) dead_docs_def)
    show "work view (set_worker i Idle st s) < work view s"
      by (simp add: work_def st v h(3) jobs again(2))
    show "good_doc d" if "d \<in> set (queue_docs view (set_worker i Idle st s))" for d
    proof -
      have "d \<in> set (map fst q)" using that by (simp add: st v)
      then show ?thesis unfolding qset using again(1) ok(4) by (auto simp: good_doc_def)
    qed
    show "zset_ok (st_zset (view (wp_world (rn_pool (set_worker i Idle st s)))) priority_queue)"
      using zplaced_ok [OF _ pl] ok(3) by (simp add: st v h(5))
  qed (use ok h(4) in \<open>auto simp: st\<close>)
qed

lemma finish_goes_on:
  assumes "redis_ok rd view" and "redis_up rd" and "handlers_leave handle view"
    and "pool_ok view s" and "i < length (rn_workers s)" and "rn_workers s ! i = Busy j"
    and run: "handle j (wp_world (rn_pool s)) = Return (res, w)"
    and fin: "finish_job rd handle t1 t2 j (rn_pool s) = Return st"
  shows "goes_on view s (if res = None then Completed j else Tau) (set_worker i Idle st s)"
proof -
  have h: "handled view s i j w"
    using assms(3-6) run unfolding handled_def handlers_leave_def by blast
  show ?thesis
  proof (cases res)
    case None
    then have "st = (rn_pool s)\<lparr>wp_world := w\<rparr>" using fin run by (simp add: finish_job_def)
    with finish_completes [OF h] None show ?thesis by simp
  next
    case (Some err)
    obtain w' dla' where fail: "handlerJobFailure rd t1 t2 j err (w, wp_dla (rn_pool s)) = Return (w', dla')"
      and st: "st = (rn_pool s)\<lparr>wp_world := w', wp_dla := dla'\<rparr>"
      using fin run Some by (auto simp: finish_job_def outcome_simps)
    have z: "zset_ok (st_zset (view w) priority_queue)"
      using pool_okD(3) [OF assms(4)] by (simp add: handledD(5) [OF h])
    note kept = failure_alive [OF assms(1,2) z handledD(2) [OF h] fail]
    show ?thesis
    proof (cases "jb_retry j + 1 \<ge> jb_max_retry j \<or> unix_seconds t1 > jb_expire_at j")
      case True
      with kept show ?thesis
        using finish_dies [OF h st, of err] Some by (simp add: moveToDLQ_view [OF assms(1,2)])
    next
      case False
      then obtain sc q where "zplaced (marshal_job (failed_job j err)) sc (st_zset (view w) priority_queue) q"
        and "view w' = (view w)\<lparr>st_zset := (st_zset (view w))(priority_queue := q)\<rparr>" using kept by auto
      with finish_retries [OF h st] False Some show ?thesis by simp
    qed
  qed
qed

lemma poll_pops:
  assumes "redis_ok rd view" and "redis_up rd" and "pool_ok view s"
  shows "queue_docs view (after_tick (produce_tick rd pick now (rn_pool s)) s) = tl (queue_docs view s)"
proof -
  note ok = pool_okD [OF assms(3)]
  define p where "p = rn_pool s"
  obtain r w where pop: "popJob rd (wp_world p) = (Inr r, w)"
    using redis_upD(5) [OF assms(2)] unfolding popJob_def by blast
  have rest: "map fst (st_zset (view w) priority_queue) = tl (queue_docs view s)"
  proof (cases r)
    case None
    with pop have "popJob rd (wp_world p) = (Inr None, w)" by simp
    from popJob_None [OF assms(1) this] show ?thesis by (simp add: queue_docs_def flip: p_def)
  next
    case (Some m)
    then obtain sc rest where q: "st_zset (view (wp_world p)) priority_queue = (m, sc) # rest"
      and view: "view w = (view (wp_world p))\<lparr>st_zset := (st_zset (view (wp_world p)))(priority_queue :=
        filter (\<lambda>x. fst x \<noteq> m) rest)\<rparr>"
      using popJob_Some [OF assms(1), of "wp_world p" m w] pop by blast
    have "filter (\<lambda>x. fst x \<noteq> m) rest = rest"
      using ok(3) q unfolding p_def [symmetric] by (auto simp: zset_ok_def intro: filter_other_members)
    then show ?thesis by (simp add: view queue_docs_def q flip: p_def)
  qed
  have offer: "queue_docs view (after_tick (offer_job rd pick m j (p\<lparr>wp_world := w\<rparr>)) s) = tl (queue_docs view s)" for m j
    using ok(1) rest by (simp add: offer_job_alive flip: p_def)
  have dead: "st_zset (view (moveToDLQ rd j w)) = st_zset (view w)" for j
    by (simp add: moveToDLQ_view [OF assms(1,2)])
  show ?thesis
    using rest offer dead unfolding p_def [symmetric]
    by (simp add: produce_tick_def pop Let_def split: option.split)
qed

section \<open>Runs\<close>

text \<open>What the pool works with, as one condition.\<close>

definition pool_laws ::
  "(bool \<Rightarrow> 'w redis) \<Rightarrow> (bool \<Rightarrow> job \<Rightarrow> 'w \<Rightarrow> (string option \<times> 'w) outcome) \<Rightarrow> ('w \<Rightarrow> store) \<Rightarrow> bool" where
  "pool_laws rd handle view \<longleftrightarrow> redis_ok (rd False) view \<and> redis_up (rd False) \<and> handlers_leave (handle False) view"

lemma pool_step_goes_on:
  assumes "pool_laws rd handle view" and "pool_ok view s" and "pool_step rd handle s e s'" and "e \<noteq> Stopping"
  shows "goes_on view s e s'"
proof -
  note laws = assms(1) [unfolded pool_laws_def]
  have rd: "redis_ok (rd False) view" "redis_up (rd False)" and h: "handlers_leave (handle False) view"
    using laws by simp_all
  note ok = pool_okD [OF assms(2)]
  have alive: "cancelled s = False" using ok(1) by simp
  from assms(3) show ?thesis
  proof cases
    case (poll pick now)
    then show ?thesis using poll_goes_on [OF rd assms(2)] by (simp add: alive)
  next
    case (offer d j pick)
    then show ?thesis using offer_goes_on [OF assms(2)] by simp
  next
    case (take i oj st)
    then show ?thesis using take_goes_on [OF assms(2)] by simp
  next
    case (finish i j res w t1 t2 st)
    then show ?thesis using finish_goes_on [OF rd h assms(2)] by (simp add: alive)
  qed (use assms(4) ok in simp_all)
qed

definition completed_in :: "event list \<Rightarrow> string multiset" where
  "completed_in es = sum_list (map completed_ids es)"

lemma pool_run_accounted:
  assumes "pool_laws rd handle view" and "pool_run rd handle s es s'"
  shows "pool_ok view s \<Longrightarrow> Stopping \<notin> set es \<Longrightarrow> pool_ok view s' \<and> dead_ids view s \<subseteq># dead_ids view s' \<and>
    live_ids view s + dead_ids view s = live_ids view s' + dead_ids view s' + completed_in es"
  using assms(2)
proof (induction rule: pool_run.induct)
  case (run_done s)
  then show ?case by (simp add: completed_in_def)
next
  case (run_more s e s1 es s')
  have g: "goes_on view s e s1"
    using pool_step_goes_on [OF assms(1) run_more.prems(1) run_more.hyps(1)] run_more.prems(2) by auto
  then obtain new where new: "dead_ids view s1 = dead_ids view s + new"
    unfolding goes_on_def using mset_subset_eq_exists_conv by blast
  have "live_ids view s = live_ids view s1 + new + completed_ids e"
    using g new by (simp add: goes_on_def)
  then have step: "live_ids view s + dead_ids view s = live_ids view s1 + dead_ids view s1 + completed_ids e"
    by (simp add: new)
  have ok1: "pool_ok view s1" using g by (simp add: goes_on_def)
  have "Stopping \<notin> set es" using run_more.prems(2) by simp
  note rest = run_more.IH [OF ok1 this]
  have "dead_ids view s \<subseteq># dead_ids view s'"
    using rest new by (metis mset_subset_eq_add_left subset_mset.order_trans)
  moreover have "live_ids view s + dead_ids view s = live_ids view s' + dead_ids view s' + completed_in (e # es)"
    using step rest by (simp add: completed_in_def)
  ultimately show ?case using rest by blast
qed

section \<open>Nothing is stuck before it is done\<close>

lemma finish_returns:
  assumes "redis_ok rd view" and "redis_up rd" and "handlers_leave handle view"
    and "zset_ok (st_zset (view (wp_world st)) priority_queue)" and "ok_job j"
    and "handle j (wp_world st) = Return (res, w)"
  shows "\<exists>st'. finish_job rd handle t1 t2 j st = Return st'"
proof (cases res)
  case (Some err)
  have z: "zset_ok (st_zset (view w) priority_queue)"
    using assms(3,4,6) unfolding handlers_leave_def by metis
  have "in_int64 (jb_retry j + 1)"
    using assms(5) by (auto simp: ok_job_def job_fits_def in_int64_def)
  then have j': "j\<lparr>jb_retry := int64_of (jb_retry j + 1), jb_error_msg := err\<rparr> = failed_job j err"
    by (simp add: failed_job_def int64_of_id)
  obtain delay where "retry_delay (jb_retry (failed_job j err)) = Some delay"
    using assms(5) by (simp add: retry_delay_def ok_job_def)
  from scheduleRetry_view [OF assms(1,2) z this, of t2] obtain w'
    where "scheduleRetry rd t2 (failed_job j err) w = Return w'" by blast
  then have "\<exists>w' dla'. handlerJobFailure rd t1 t2 j err (w, wp_dla st) = Return (w', dla')"
    unfolding handlerJobFailure_def prod.case Let_def j' by simp
  then show ?thesis using assms(6) Some by (auto simp: finish_job_def)
qed (simp add: finish_job_def assms(6))

definition moves ::
  "(bool \<Rightarrow> 'w redis) \<Rightarrow> (bool \<Rightarrow> job \<Rightarrow> 'w \<Rightarrow> (string option \<times> 'w) outcome)
   \<Rightarrow> 'w running \<Rightarrow> 'w running \<Rightarrow> bool" where
  "moves rd handle s s' \<longleftrightarrow> s' \<noteq> s \<and> (\<exists>e. e \<noteq> Stopping \<and> pool_step rd handle s e s')"

lemma movesI: "pool_step rd handle s e s' \<Longrightarrow> e \<noteq> Stopping \<Longrightarrow> s' \<noteq> s \<Longrightarrow> moves rd handle s s'"
  unfolding moves_def by blast

lemma busy_moves:
  assumes "pool_laws rd handle view" and "pool_ok view s" and "\<And>j w. \<exists>res w'. handle False j w = Return (res, w')"
    and "i < length (rn_workers s)" and "rn_workers s ! i = Busy j"
  shows "\<exists>s'. moves rd handle s s'"
proof -
  note laws = assms(1) [unfolded pool_laws_def]
  note ok = pool_okD [OF assms(2)]
  obtain res w where run: "handle (cancelled s) j (wp_world (rn_pool s)) = Return (res, w)"
    using assms(3) [of j "wp_world (rn_pool s)"] ok(1) by fastforce
  obtain st where fin: "finish_job (rd (cancelled s)) (handle (cancelled s)) 0 0 j (rn_pool s) = Return st"
    using finish_returns [of "rd False" view "handle False" "rn_pool s" j res w] laws ok(1,3)
      idle_again(2) [OF assms(2,4,5)] run by auto
  have ne: "set_worker i Idle st s \<noteq> s"
  proof
    assume "set_worker i Idle st s = s"
    then have "rn_workers (set_worker i Idle st s) ! i = rn_workers s ! i" by simp
    then show False using assms(4,5) by simp
  qed
  show ?thesis
    by (rule exI, rule movesI [OF pool_step.finish [where rd = rd and handle = handle, OF assms(4,5) run fin] _ ne]) simp
qed

lemma take_moves:
  assumes "pool_ok view s" and "i < length (rn_workers s)" and "rn_workers s ! i = Idle" and "channel_docs s \<noteq> []"
  shows "\<exists>s'. moves rd handle s s'"
proof -
  obtain d rest where buf: "channel_docs s = d # rest" using assms(4) by (cases "channel_docs s") auto
  then obtain j where j: "unmarshal_job d = Some j"
    using pool_okD(5) [OF assms(1), of d] ok_job_unmarshal by (auto simp: good_doc_def)
  define st where "st = (rn_pool s)\<lparr>wp_channel := (wp_channel (rn_pool s))\<lparr>ch_buf := rest\<rparr>\<rparr>"
  have t: "take_job (rn_pool s) = Some (Some j, st)" by (simp add: take_job_def buf j st_def)
  have ne: "set_worker i (Busy j) st s \<noteq> s"
  proof
    assume "set_worker i (Busy j) st s = s"
    then have "rn_workers (set_worker i (Busy j) st s) ! i = rn_workers s ! i" by simp
    then show False using assms(2,3) by simp
  qed
  show ?thesis
    by (rule exI, rule movesI [OF pool_step.take [OF assms(2,3) t]]) (use ne in simp_all)
qed

lemma poll_moves:
  assumes "pool_laws rd handle view" and "pool_ok view s" and "rn_producer s = Polling"
    and "queue_docs view s \<noteq> []"
  shows "\<exists>s'. moves rd handle s s'"
proof -
  let ?s = "after_tick (produce_tick (rd (cancelled s)) False 0 (rn_pool s)) s"
  have "queue_docs view ?s \<noteq> queue_docs view s"
    using poll_pops [of "rd False" view s False 0] assms pool_okD(1) [OF assms(2)]
    by (cases "queue_docs view s") (simp_all add: pool_laws_def)
  then have "?s \<noteq> s" by metis
  then show ?thesis
    using movesI [OF pool_step.poll [where rd = rd and handle = handle, OF assms(3)]] by blast
qed

lemma offer_moves:
  assumes "pool_ok view s" and "rn_producer s = Offering d j" and "\<not> chan_full (wp_channel (rn_pool s))"
  shows "\<exists>s'. moves rd handle s s'"
proof -
  let ?s = "after_tick (offer_job (rd (cancelled s)) False d j (rn_pool s)) s"
  have "rn_producer ?s = Polling" using pool_okD(1) [OF assms(1)] assms(3) by (simp add: offer_job_alive)
  then have "?s \<noteq> s" using assms(2) by auto
  then show ?thesis
    using movesI [OF pool_step.offer [where rd = rd and handle = handle, OF assms(2)]] by blast
qed

lemma progress:
  assumes "pool_laws rd handle view" and "pool_ok view s" and "\<And>j w. \<exists>res w'. handle False j w = Return (res, w')"
    and "rn_workers s \<noteq> []" and "0 < ch_cap (wp_channel (rn_pool s))" and "live view s \<noteq> {#}"
  shows "\<exists>s'. moves rd handle s s'"
proof -
  note ok = pool_okD [OF assms(2)]
  show ?thesis
  proof (cases "\<exists>i j. i < length (rn_workers s) \<and> rn_workers s ! i = Busy j")
    case True
    then show ?thesis using busy_moves [OF assms(1-3)] by blast
  next
    case False
    have idle: "x = Idle" if x: "x \<in> set (rn_workers s)" for x
    proof -
      obtain i where "i < length (rn_workers s)" "rn_workers s ! i = x" using x unfolding in_set_conv_nth by blast
      then show ?thesis using False ok(8) [OF x] by (cases x) auto
    qed
    have "\<forall>x \<in> set ws. x = Idle \<Longrightarrow> sum_list (map held ws) = {#}" for ws
      by (induction ws) simp_all
    then have none: "sum_list (map held (rn_workers s)) = {#}" using idle by blast
    have first: "0 < length (rn_workers s)" "rn_workers s ! 0 = Idle"
      using assms(4) idle nth_mem [of 0 "rn_workers s"] by auto
    show ?thesis
    proof (cases "channel_docs s")
      case (Cons d rest)
      then show ?thesis using take_moves [OF assms(2) first] by simp
    next
      case Nil
      show ?thesis
      proof (cases "rn_producer s")
        case Polling
        have "queue_docs view s \<noteq> []"
          using assms(6) none Nil Polling by (auto simp: live_def)
        then show ?thesis by (rule poll_moves [OF assms(1,2) Polling])
      next
        case (Offering d j)
        with Nil assms(5) show ?thesis by (intro offer_moves [OF assms(2)]) (simp_all add: chan_full_def)
      qed (use ok(7) in simp)
    qed
  qed
qed

section \<open>After the context has been cancelled\<close>

text \<open>A command sent under a cancelled context fails without reaching the server.\<close>

definition client_cancelled :: "'w redis \<Rightarrow> bool" where
  "client_cancelled rd \<longleftrightarrow> (\<forall>k s m w. rd_zadd rd k s m w = (False, w)) \<and>
     (\<forall>k m w. rd_rpush rd k m w = (False, w)) \<and> (\<forall>f w. \<exists>e. rd_eval rd f w = (Inl e, w))"

lemma client_cancelledD:
  assumes "client_cancelled rd"
  shows "requeueJob rd j w = w" "moveToDLQ rd j w = w" "\<exists>e. popJob rd w = (Inl e, w)"
    "scheduleRetry rd now j w = Return w' \<Longrightarrow> w' = w"
  using assms
  by (auto simp: client_cancelled_def requeueJob_def moveToDLQ_def popJob_def scheduleRetry_def
      split: option.splits)

lemma failure_cancelled:
  assumes "client_cancelled rd" and "handlerJobFailure rd t1 t2 j err (w, dla) = Return (w', dla')"
  shows "w' = w"
  using assms(2) client_cancelledD(2,4) [OF assms(1)]
  by (auto simp: handlerJobFailure_def Let_def outcome_simps split: if_splits)

lemma poll_cancelled:
  assumes "client_cancelled rd"
  shows "produce_tick rd pick now st = Ticked st"
proof -
  obtain e where "popJob rd (wp_world st) = (Inl e, wp_world st)" using client_cancelledD(3) [OF assms] by blast
  then show ?thesis by (simp add: produce_tick_def)
qed

definition same_docs :: "('w \<Rightarrow> store) \<Rightarrow> 'w running \<Rightarrow> 'w running \<Rightarrow> bool" where
  "same_docs view s s' \<longleftrightarrow> queue_docs view s' = queue_docs view s \<and> dead_docs view s' = dead_docs view s"

lemma step_cancelled:
  assumes "client_cancelled (rd True)" and "handlers_leave (handle True) view"
    and "pool_step rd handle s e s'" and "cancelled s"
  shows "cancelled s' \<and> same_docs view s s'"
  using assms(3)
proof cases
  case (poll pick now)
  then show ?thesis using assms(4) poll_cancelled [OF assms(1)] by (simp add: same_docs_def)
next
  case (offer d j pick)
  then show ?thesis
    using assms(4) client_cancelledD(1) [OF assms(1)]
    by (simp add: offer_job_def same_docs_def queue_docs_def dead_docs_def after_tick_def end_producer_def)
next
  case (take i oj st)
  then show ?thesis
    using assms(4) by (auto simp: take_job_def same_docs_def queue_docs_def dead_docs_def split: list.splits)
next
  case (finish i j res w t1 t2 st)
  have w: "st_zset (view w) priority_queue = st_zset (view (wp_world (rn_pool s))) priority_queue"
    "st_list (view w) priority_queue_dlq = st_list (view (wp_world (rn_pool s))) priority_queue_dlq"
    using assms(2) finish(5) assms(4) unfolding handlers_leave_def by auto
  have "wp_world st = w \<and> wp_ctx_done st"
  proof (cases res)
    case None
    then show ?thesis using finish(5,6) assms(4) by (auto simp: finish_job_def)
  next
    case (Some err)
    then obtain w' dla' where "handlerJobFailure (rd True) t1 t2 j err (w, wp_dla (rn_pool s)) = Return (w', dla')"
      and "st = (rn_pool s)\<lparr>wp_world := w', wp_dla := dla'\<rparr>"
      using finish(5,6) assms(4) by (auto simp: finish_job_def outcome_simps)
    then show ?thesis using failure_cancelled [OF assms(1)] assms(4) by simp
  qed
  then show ?thesis using finish w by (simp add: same_docs_def queue_docs_def dead_docs_def set_worker_def)
qed (use assms(4) in \<open>auto simp: same_docs_def queue_docs_def dead_docs_def end_producer_def cancel_pool_def
      set_worker_def\<close>)

lemma run_cancelled:
  assumes "client_cancelled (rd True)" and "handlers_leave (handle True) view" and "pool_run rd handle s es s'"
  shows "cancelled s \<Longrightarrow> cancelled s' \<and> same_docs view s s'"
  using assms(3)
proof (induction rule: pool_run.induct)
  case (run_more s e s1 es s')
  have "cancelled s1 \<and> same_docs view s s1"
    by (rule step_cancelled [OF assms(1,2) run_more.hyps(1) run_more.prems])
  then show ?case using run_more.IH by (simp add: same_docs_def)
qed (simp add: same_docs_def)

lemma pool_run_trans: "pool_run rd handle s es s1 \<Longrightarrow> pool_run rd handle s1 fs s' \<Longrightarrow> pool_run rd handle s (es @ fs) s'"
  by (induction rule: pool_run.induct) (auto intro: pool_run.intros)

lemma workers_leave:
  assumes "cancelled s" and "\<forall>j. Busy j \<notin> set (rn_workers s)"
  shows "\<exists>es s'. pool_run rd handle s es s' \<and> set es \<subseteq> {Tau} \<and> rn_producer s' = rn_producer s \<and>
    rn_pool s' = rn_pool s \<and> (\<forall>x \<in> set (rn_workers s'). x = Exited)"
  using assms
proof (induction "length (filter ((=) Idle) (rn_workers s))" arbitrary: s)
  case 0
  then have no: "filter ((=) Idle) (rn_workers s) = []" by simp
  have "x = Exited" if x: "x \<in> set (rn_workers s)" for x
  proof -
    have "Idle \<noteq> x" using no x unfolding filter_empty_conv by blast
    then show ?thesis using "0.prems"(2) x by (cases x) simp_all
  qed
  then show ?case by (intro exI [of _ "[]"] exI [of _ s]) (simp add: pool_run.run_done)
next
  case (Suc n)
  then have "filter ((=) Idle) (rn_workers s) \<noteq> []" by auto
  then have "Idle \<in> set (rn_workers s)" unfolding filter_empty_conv by blast
  then obtain i where i: "i < length (rn_workers s)" "rn_workers s ! i = Idle" unfolding in_set_conv_nth by blast
  define s1 where "s1 = set_worker i Exited (rn_pool s) s"
  have step: "pool_step rd handle s Tau s1"
    unfolding s1_def by (rule pool_step.leave [OF i]) (use Suc.prems(1) in simp)
  have "rn_workers s = take i (rn_workers s) @ Idle # drop (Suc i) (rn_workers s)"
    using id_take_nth_drop [OF i(1)] i(2) by simp
  then have "length (filter ((=) Idle) (rn_workers s)) =
      length (filter ((=) Idle) (take i (rn_workers s) @ Idle # drop (Suc i) (rn_workers s)))" by metis
  then have "n = length (filter ((=) Idle) (rn_workers s1))"
    using Suc.hyps(2) i(1) by (simp add: s1_def upd_conv_take_nth_drop)
  moreover have "cancelled s1" "\<forall>j. Busy j \<notin> set (rn_workers s1)"
    using Suc.prems set_update_subset_insert [of "rn_workers s" i Exited] by (auto simp: s1_def)
  ultimately obtain es s' where "pool_run rd handle s1 es s'" "set es \<subseteq> {Tau}"
    "rn_producer s' = rn_producer s1" "rn_pool s' = rn_pool s1" "\<forall>x \<in> set (rn_workers s'). x = Exited"
    using Suc.hyps(1) by blast
  then show ?case
    by (intro exI [of _ "Tau # es"] exI [of _ s']) (auto simp: s1_def intro: pool_run.run_more [OF step])
qed

lemma producer_ends:
  assumes "client_cancelled (rd True)" and "cancelled s"
  shows "\<exists>es s'. pool_run rd handle s es s' \<and> set es \<subseteq> {Tau} \<and> rn_producer s' = Gone \<and>
    rn_workers s' = rn_workers s \<and> channel_docs s' = channel_docs s"
proof (cases "rn_producer s")
  case Polling
  have "pool_step rd handle s Tau (end_producer s)" by (rule pool_step.halt [OF Polling assms(2)])
  then show ?thesis
    by (intro exI [of _ "[Tau]"] exI [of _ "end_producer s"])
      (auto simp: end_producer_def intro: pool_run.intros)
next
  case (Offering d j)
  define s1 where "s1 = after_tick (offer_job (rd (cancelled s)) True d j (rn_pool s)) s"
  have "pool_step rd handle s Tau s1" unfolding s1_def by (rule pool_step.offer [OF Offering])
  then show ?thesis
    using assms(2)
    by (intro exI [of _ "[Tau]"] exI [of _ s1])
      (auto simp: s1_def offer_job_def after_tick_def end_producer_def intro: pool_run.intros)
next
  case Gone
  then show ?thesis by (intro exI [of _ "[]"] exI [of _ s]) (simp add: pool_run.run_done)
qed

section \<open>Properties\<close>

lemma pool_step_frame:
  "pool_step rd handle s e s' \<Longrightarrow> length (rn_workers s') = length (rn_workers s)"
  by (cases rule: pool_step.cases, assumption)
    (auto simp: after_tick_def end_producer_def cancel_pool_def set_worker_def split: tick.splits)

lemma produce_tick_cap:
  "case produce_tick rd pick now st of Ticked st' \<Rightarrow> ch_cap (wp_channel st') = ch_cap (wp_channel st)
     | Waiting d j st' \<Rightarrow> ch_cap (wp_channel st') = ch_cap (wp_channel st)
     | Ended st' \<Rightarrow> ch_cap (wp_channel st') = ch_cap (wp_channel st)"
  by (auto simp: produce_tick_def offer_job_def chan_push_def Let_def split: prod.split sum.split option.split)

lemma finish_job_channel: "finish_job rd handle t1 t2 j st = Return st' \<Longrightarrow> wp_channel st' = wp_channel st"
  by (auto simp: finish_job_def outcome_simps split: option.splits)

lemma pool_step_cap:
  "pool_step rd handle s e s' \<Longrightarrow> ch_cap (wp_channel (rn_pool s')) = ch_cap (wp_channel (rn_pool s))"
proof (cases rule: pool_step.cases, assumption)
  fix pick now assume "s' = after_tick (produce_tick (rd (cancelled s)) pick now (rn_pool s)) s"
  then show ?thesis
    using produce_tick_cap [where rd = "rd (cancelled s)" and pick = pick and now = now and st = "rn_pool s"]
    by (auto simp: after_tick_def end_producer_def split: tick.splits)
qed (auto simp: offer_job_def after_tick_def end_producer_def cancel_pool_def set_worker_def take_job_def
    chan_push_def finish_job_channel split: list.splits)

text \<open>
  C15. The pool works its jobs off. A pool with a worker, whose handlers return, makes only as many
  moves as its jobs have attempts left, four for each and four more, and while a job is left it can
  move: whatever the handlers answer, every job ends, completed or among the dead letters.
\<close>

theorem pool_drains:
  assumes "redis_ok (rd False) view" and "redis_up (rd False)" and "handlers_leave (handle False) view"
    and "\<And>j w. \<exists>res w'. handle False j w = Return (res, w')"
    and "pool_ok view s" and "rn_workers s \<noteq> []" and "0 < ch_cap (wp_channel (rn_pool s))"
  shows "(\<forall>n s'. (moves rd handle ^^ n) s s' \<longrightarrow> n \<le> work view s) \<and>
    (\<exists>n s'. (moves rd handle ^^ n) s s' \<and> live view s' = {#})"
proof
  have laws: "pool_laws rd handle view" using assms(1-3) by (simp add: pool_laws_def)
  have step: "pool_ok view s2 \<and> work view s2 < work view s1" if "pool_ok view s1" "moves rd handle s1 s2" for s1 s2
    using pool_step_goes_on [OF laws that(1)] that(2) unfolding moves_def goes_on_def by blast
  have "pool_ok view s1 \<Longrightarrow> (moves rd handle ^^ n) s1 s2 \<Longrightarrow> n + work view s2 \<le> work view s1" for n s1 s2
  proof (induction n arbitrary: s1)
    case (Suc n)
    then obtain t where t: "moves rd handle s1 t" "(moves rd handle ^^ n) t s2"
      using relpowp_Suc_D2 by metis
    from step [OF Suc.prems(1) t(1)] Suc.IH [OF _ t(2)] show ?case by simp
  qed simp
  then show "\<forall>n s'. (moves rd handle ^^ n) s s' \<longrightarrow> n \<le> work view s"
    using assms(5) add_leD1 by blast
  show "\<exists>n s'. (moves rd handle ^^ n) s s' \<and> live view s' = {#}"
    using assms(5-7)
  proof (induction "work view s" arbitrary: s rule: less_induct)
    case less
    show ?case
    proof (cases "live view s = {#}")
      case True
      then show ?thesis by (intro exI [of _ 0] exI [of _ s]) simp
    next
      case False
      obtain t where t: "moves rd handle s t"
        using progress [OF laws less.prems(1) assms(4) less.prems(2,3) False] by blast
      then obtain e where e: "pool_step rd handle s e t" unfolding moves_def by blast
      have "rn_workers t \<noteq> []" "0 < ch_cap (wp_channel (rn_pool t))"
        using pool_step_frame [OF e] pool_step_cap [OF e] less.prems(2,3) by auto
      then obtain n s' where "(moves rd handle ^^ n) t s'" "live view s' = {#}"
        using less.hyps step [OF less.prems(1) t] by blast
      then show ?thesis using t relpowp_Suc_I2 by metis
    qed
  qed
qed

lemma only_tau: "set es \<subseteq> {Tau} \<Longrightarrow> completed_in es = {#}"
  by (induction es) (auto simp: completed_in_def)

lemma free_pool_ends:
  assumes "client_cancelled (rd True)" and "handlers_leave (handle True) view" and "cancelled s"
    and "\<forall>j. Busy j \<notin> set (rn_workers s)"
  obtains es s' where "pool_run rd handle s es s'" "rn_producer s' = Gone"
    "\<forall>x \<in> set (rn_workers s'). x = Exited" "completed_in es = {#}" "channel_docs s' = channel_docs s"
proof -
  obtain es s1 where one: "pool_run rd handle s es s1" "set es \<subseteq> {Tau}" "rn_producer s1 = Gone"
    "rn_workers s1 = rn_workers s" "channel_docs s1 = channel_docs s"
    using producer_ends [where rd = rd and handle = handle, OF assms(1,3)] by blast
  have "cancelled s1" using run_cancelled [where rd = rd and handle = handle, OF assms(1,2) one(1) assms(3)] by simp
  moreover have "\<forall>j. Busy j \<notin> set (rn_workers s1)" using assms(4) one(4) by simp
  ultimately obtain fs s' where two: "pool_run rd handle s1 fs s'" "set fs \<subseteq> {Tau}"
    "rn_producer s' = rn_producer s1" "rn_pool s' = rn_pool s1" "\<forall>x \<in> set (rn_workers s'). x = Exited"
    using workers_leave by blast
  show thesis
    by (rule that [OF pool_run_trans [OF one(1) two(1)]])
      (use one(2,3,5) two(2-5) in \<open>simp_all add: only_tau\<close>)
qed

text \<open>
  C16. Stopping loses what the pool holds. Once the context is cancelled nothing goes back: whatever
  the goroutines do until they return, the queue and the dead letters stay as they were, though the job
  in the producer's hand is given to \<^verbatim>\<open>requeueJob\<close> and a failing one to its retry, for the
  commands carry the cancelled context. With no worker busy the pool can even end at once, with the
  jobs of the channel still in it.
\<close>

theorem stop_loses_jobs:
  assumes "client_cancelled (rd True)" and "handlers_leave (handle True) view" and "cancelled s"
  shows "(\<forall>es s'. pool_run rd handle s es s' \<longrightarrow>
      queue_docs view s' = queue_docs view s \<and> dead_docs view s' = dead_docs view s) \<and>
    ((\<forall>j. Busy j \<notin> set (rn_workers s)) \<longrightarrow>
      (\<exists>es s'. pool_run rd handle s es s' \<and> rn_producer s' = Gone \<and> (\<forall>x \<in> set (rn_workers s'). x = Exited) \<and>
         completed_in es = {#} \<and> channel_docs s' = channel_docs s))"
proof (intro conjI allI impI)
  fix es s' assume "pool_run rd handle s es s'"
  from run_cancelled [where rd = rd and handle = handle, OF assms(1,2) this assms(3)]
  show "queue_docs view s' = queue_docs view s" and "dead_docs view s' = dead_docs view s"
    by (simp_all add: same_docs_def)
next
  assume "\<forall>j. Busy j \<notin> set (rn_workers s)"
  then show "\<exists>es s'. pool_run rd handle s es s' \<and> rn_producer s' = Gone \<and>
      (\<forall>x \<in> set (rn_workers s'). x = Exited) \<and> completed_in es = {#} \<and> channel_docs s' = channel_docs s"
    using free_pool_ends [where rd = rd and handle = handle, OF assms] by metis
qed

section \<open>A concrete pool\<close>

text \<open>One job waits, a worker is idle, every handler fails.\<close>

definition pool_client :: "bool \<Rightarrow> 'a store_scheme redis" where
  "pool_client is_done = (if is_done
     then mem_redis\<lparr>rd_zadd := (\<lambda>k s m w. (False, w)), rd_rpush := (\<lambda>k m w. (False, w)),
       rd_eval := (\<lambda>f w. (Inl ''context canceled'', w))\<rparr>
     else mem_redis)"

definition failing_handler :: "bool \<Rightarrow> job \<Rightarrow> 'w \<Rightarrow> (string option \<times> 'w) outcome" where
  "failing_handler is_done j w = Return (Some ''no'', w)"

definition example_pool :: "store running" where
  "example_pool = StartPool 1 (NewWorkerPool example_queue)"

lemma example_job_ok: "ok_job example_job"
  by (simp add: ok_job_def job_fits_def example_job_def zero_job_def in_int64_def)

lemma example_pool_places:
  "queue_docs id example_pool = [marshal_job example_job]" "channel_docs example_pool = []"
  "dead_docs id example_pool = []" "rn_workers example_pool = [Idle]" "rn_producer example_pool = Polling"
  "live id example_pool = {#example_job#}" "ch_cap (wp_channel (rn_pool example_pool)) = 100"
  "\<not> cancelled example_pool"
  by (simp_all add: example_pool_def StartPool_def NewWorkerPool_def queue_docs_def dead_docs_def live_def make_chan_def
      example_queue_def empty_store_def ok_job_unmarshal [OF example_job_ok])

lemma example_pool_ok: "pool_ok id example_pool"
proof -
  have "zset_ok (st_zset (id (wp_world (rn_pool example_pool))) priority_queue)"
    by (simp add: example_pool_def StartPool_def NewWorkerPool_def example_queue_ok)
  then show ?thesis
    using example_job_ok
    by (auto simp: pool_ok_def example_pool_places live_ids_def good_doc_def)
      (simp add: example_pool_def StartPool_def NewWorkerPool_def make_chan_def)
qed

lemma example_laws:
  "redis_ok (pool_client False) id" "redis_up (pool_client False)" "client_cancelled (pool_client True)"
  "handlers_leave (failing_handler d) id"
  by (simp_all add: pool_client_def mem_redis_ok mem_redis_up client_cancelled_def handlers_leave_def
      failing_handler_def)

lemma pool_drains_witness:
  "\<exists>n s'. n \<le> 16 \<and> (moves pool_client failing_handler ^^ n) example_pool s' \<and> live id s' = {#}"
proof -
  have work: "work id example_pool = 16"
    by (simp add: work_def example_pool_places ok_job_unmarshal [OF example_job_ok] attempts_left_def)
      (simp add: example_job_def zero_job_def)
  have ret: "\<exists>res w'. failing_handler False j w = Return (res, w')" for j w
    by (simp add: failing_handler_def)
  have "rn_workers example_pool \<noteq> []" "0 < ch_cap (wp_channel (rn_pool example_pool))"
    by (simp_all add: example_pool_places)
  from pool_drains [where rd = pool_client and handle = failing_handler, OF example_laws(1,2,4) ret example_pool_ok this]
  show ?thesis unfolding work by blast
qed

definition example_stopped :: "store running" where
  "example_stopped = cancel_pool (example_pool\<lparr>rn_pool := (rn_pool example_pool)
     \<lparr>wp_channel := (make_chan 100)\<lparr>ch_buf := [marshal_job example_job]\<rparr>\<rparr>\<rparr>)"

lemma stop_loses_jobs_witness:
  "\<exists>es s'. pool_run pool_client failing_handler example_stopped es s' \<and> rn_producer s' = Gone \<and>
     rn_workers s' = [Exited] \<and> completed_in es = {#} \<and> channel_docs s' = [marshal_job example_job] \<and>
     dead_docs id s' = []"
proof -
  have st: "cancelled example_stopped" "rn_workers example_stopped = [Idle]"
    "channel_docs example_stopped = [marshal_job example_job]" "dead_docs id example_stopped = []"
    using example_pool_places
    by (simp_all add: example_stopped_def cancel_pool_def dead_docs_def)
  from stop_loses_jobs [where rd = pool_client and handle = failing_handler, OF example_laws(3,4) st(1)] st
  obtain es s' where run: "pool_run pool_client failing_handler example_stopped es s'" "rn_producer s' = Gone"
    "\<forall>x \<in> set (rn_workers s'). x = Exited" "completed_in es = {#}" "channel_docs s' = [marshal_job example_job]"
    "dead_docs id s' = []" by auto
  have "length (rn_workers s') = length (rn_workers example_stopped)"
    using run(1) by (induction rule: pool_run.induct) (simp_all add: pool_step_frame)
  then have "length (rn_workers s') = 1" using st(2) by simp
  then have "rn_workers s' = [Exited]" using run(3) by (cases "rn_workers s'") auto
  with run show ?thesis by blast
qed

end
