(* ===== verification/PoolSystem.thy ===== *)
theory PoolSystem
  imports PoolRun MongoDocs
begin

text \<open>
  The whole worker pool: the producer and the workers together with the two dead letter goroutines
  \<^verbatim>\<open>Start\<close> runs beside them, the dead letter worker of \<^verbatim>\<open>start-dlq-worker.go\<close> and the retry
  consumer of \<^verbatim>\<open>retry-dlq-worker.go\<close>. A step is one of the pool, one iteration of a dead letter
  goroutine, or its return. What a step leaves alone is a projection \<open>f\<close> of the world.
\<close>

section \<open>The goroutines together\<close>

abbreviation world :: "'w running \<Rightarrow> 'w" where
  "world s \<equiv> wp_world (rn_pool s)"

definition with_world :: "'w \<Rightarrow> 'w running \<Rightarrow> 'w running" where
  "with_world w p = p\<lparr>rn_pool := (rn_pool p)\<lparr>wp_world := w\<rparr>\<rparr>"

record 'w system =
  sy_running :: "'w running"
  sy_dlq_worker :: bool
  sy_retry_consumer :: bool

definition StartSystem :: "nat \<Rightarrow> 'w pool \<Rightarrow> 'w system" where
  "StartSystem workerNum st =
     \<lparr>sy_running = StartPool workerNum st, sy_dlq_worker = True, sy_retry_consumer = True\<rparr>"

definition set_world :: "'w \<Rightarrow> 'w system \<Rightarrow> 'w system" where
  "set_world w s = s\<lparr>sy_running := with_world w (sy_running s)\<rparr>"

abbreviation system_cancelled :: "'w system \<Rightarrow> bool" where
  "system_cancelled s \<equiv> cancelled (sy_running s)"

text \<open>
  The dead letter worker looks at the context before every iteration; the retry consumer's \<^verbatim>\<open>select\<close>
  may still take a tick when the context has ended. A retry that panics ends the process.
\<close>

inductive system_step ::
  "(bool \<Rightarrow> 'w redis) \<Rightarrow> (bool \<Rightarrow> 'w dlq_store) \<Rightarrow> (bool \<Rightarrow> job \<Rightarrow> 'w \<Rightarrow> (string option \<times> 'w) outcome)
   \<Rightarrow> dlq_config \<Rightarrow> 'w system \<Rightarrow> event \<Rightarrow> 'w system \<Rightarrow> bool"
  for rd ds handle cfg where
  pool: "pool_step rd handle (sy_running s) e r \<Longrightarrow> system_step rd ds handle cfg s e (s\<lparr>sy_running := r\<rparr>)"
| letter: "sy_dlq_worker s \<Longrightarrow> \<not> system_cancelled s \<Longrightarrow>
    system_step rd ds handle cfg s Tau
      (set_world (dlq_worker_step (rd False) (ds False) t1 t2 (world (sy_running s))) s)"
| letters_end: "sy_dlq_worker s \<Longrightarrow> system_cancelled s \<Longrightarrow>
    system_step rd ds handle cfg s Tau (s\<lparr>sy_dlq_worker := False\<rparr>)"
| retry: "sy_retry_consumer s \<Longrightarrow>
    processDLQJobs (Some (ds (system_cancelled s))) (handle (system_cancelled s)) cfg now clock why
      (world (sy_running s)) = Return w \<Longrightarrow>
    system_step rd ds handle cfg s Tau (set_world w s)"
| retries_end: "sy_retry_consumer s \<Longrightarrow> system_cancelled s \<Longrightarrow>
    system_step rd ds handle cfg s Tau (s\<lparr>sy_retry_consumer := False\<rparr>)"

inductive system_run ::
  "(bool \<Rightarrow> 'w redis) \<Rightarrow> (bool \<Rightarrow> 'w dlq_store) \<Rightarrow> (bool \<Rightarrow> job \<Rightarrow> 'w \<Rightarrow> (string option \<times> 'w) outcome)
   \<Rightarrow> dlq_config \<Rightarrow> 'w system \<Rightarrow> event list \<Rightarrow> 'w system \<Rightarrow> bool"
  for rd ds handle cfg where
  system_done: "system_run rd ds handle cfg s [] s"
| system_more: "system_step rd ds handle cfg s e s1 \<Longrightarrow> system_run rd ds handle cfg s1 es s' \<Longrightarrow>
    system_run rd ds handle cfg s (e # es) s'"

lemma system_run_trans:
  "system_run rd ds handle cfg s es s1 \<Longrightarrow> system_run rd ds handle cfg s1 fs s' \<Longrightarrow>
   system_run rd ds handle cfg s (es @ fs) s'"
  by (induction rule: system_run.induct) (auto intro: system_run.intros)

lemma system_run_one: "system_step rd ds handle cfg s e s' \<Longrightarrow> system_run rd ds handle cfg s [e] s'"
  by (blast intro: system_run.intros)

text \<open>A run of the pool alone is one of the system.\<close>

lemma pool_run_system:
  assumes "pool_run rd handle r es r'"
  shows "sy_running s = r \<Longrightarrow> system_run rd ds handle cfg s es (s\<lparr>sy_running := r'\<rparr>)"
  using assms
proof (induction arbitrary: s rule: pool_run.induct)
  case (run_done r)
  then have "s\<lparr>sy_running := r\<rparr> = s" by simp
  then show ?case using system_done by metis
next
  case (run_more r e r1 es r')
  from run_more.hyps(1) run_more.prems have "system_step rd ds handle cfg s e (s\<lparr>sy_running := r1\<rparr>)"
    using system_step.pool by blast
  moreover have "system_run rd ds handle cfg (s\<lparr>sy_running := r1\<rparr>) es (s\<lparr>sy_running := r'\<rparr>)"
    using run_more.IH [of "s\<lparr>sy_running := r1\<rparr>"] by simp
  ultimately show ?case by (rule system_more)
qed

section \<open>What the pool leaves alone\<close>

text \<open>The commands of the client, and the handlers, keep \<open>f\<close> of the world.\<close>

definition commands_keep :: "'w redis \<Rightarrow> ('w \<Rightarrow> 'b) \<Rightarrow> bool" where
  "commands_keep rd f \<longleftrightarrow>
     (\<forall>k s d w. f (snd (rd_zadd rd k s d w)) = f w) \<and> (\<forall>k d w. f (snd (rd_rpush rd k d w)) = f w) \<and>
     (\<forall>k d w. f (rd_zrem rd k d w) = f w) \<and> (\<forall>k w. f (snd (rd_blpop rd k w)) = f w) \<and>
     (\<forall>p w. (\<forall>u. f (snd (p u)) = f u) \<longrightarrow> f (snd (rd_eval rd p w)) = f w)"

definition handlers_keep :: "(job \<Rightarrow> 'w \<Rightarrow> (string option \<times> 'w) outcome) \<Rightarrow> ('w \<Rightarrow> 'b) \<Rightarrow> bool" where
  "handlers_keep handle f \<longleftrightarrow> (\<forall>j w r w'. handle j w = Return (r, w') \<longrightarrow> f w' = f w)"

lemma popJob_keeps: "commands_keep rd f \<Longrightarrow> f (snd (popJob rd w)) = f w"
proof -
  assume keep: "commands_keep rd f"
  then have "\<forall>u. f (snd (atomicPopScript rd u)) = f u"
    by (auto simp: commands_keep_def atomicPopScript_def split: list.splits)
  with keep show ?thesis unfolding commands_keep_def popJob_def by blast
qed

lemma puts_keep:
  assumes "commands_keep rd f"
  shows "f (moveToDLQ rd j w) = f w" and "f (requeueJob rd j w) = f w"
    and "scheduleRetry rd now j w = Return w' \<Longrightarrow> f w' = f w"
proof -
  have zadd: "f (snd (rd_zadd rd k s d u)) = f u" and rpush: "f (snd (rd_rpush rd k d u)) = f u" for k s d u
    using assms by (simp_all add: commands_keep_def)
  show dlq: "f (moveToDLQ rd j w) = f w" for j w by (simp add: moveToDLQ_def rpush)
  show "f (requeueJob rd j w) = f w" by (simp add: requeueJob_def zadd)
  assume retry: "scheduleRetry rd now j w = Return w'"
  then obtain delay where d: "retry_delay (jb_retry j) = Some delay"
    by (cases "retry_delay (jb_retry j)") (simp_all add: scheduleRetry_def)
  define put where "put = rd_zadd rd priority_queue
    (job_score (jb_priority j) (unix_seconds (now + delay))) (marshal_job j) w"
  have "w' = (if fst put then snd put else moveToDLQ rd j (snd put))"
    using retry by (simp only: scheduleRetry_def d option.case Let_def case_prod_beta put_def outcome.inject)
  then show "f w' = f w" by (simp add: dlq put_def zadd)
qed

lemma failure_keeps:
  assumes "commands_keep rd f" and "handlerJobFailure rd t1 t2 j err (w, dla) = Return (w', dla')"
  shows "f w' = f w"
  using assms(2) puts_keep(1,3) [OF assms(1)]
  by (auto simp: handlerJobFailure_def Let_def outcome_simps split: if_splits)

lemma finish_job_keeps:
  assumes "commands_keep rd f" and "handlers_keep handle f" and "finish_job rd handle t1 t2 j st = Return st'"
  shows "f (wp_world st') = f (wp_world st)"
  using assms(3) assms(2) failure_keeps [OF assms(1)]
  by (fastforce simp: finish_job_def handlers_keep_def outcome_simps split: option.splits)

text \<open>What the producer's goroutine makes of a tick keeps it.\<close>

definition tick_world :: "'w tick \<Rightarrow> 'w" where
  "tick_world out = (case out of Ticked st \<Rightarrow> wp_world st | Waiting p j st \<Rightarrow> wp_world st | Ended st \<Rightarrow> wp_world st)"

lemma world_after_tick: "world (after_tick out s) = tick_world out"
  by (simp add: after_tick_def end_producer_def tick_world_def split: tick.splits)

lemma offer_job_keeps: "commands_keep rd f \<Longrightarrow> f (tick_world (offer_job rd pick d j st)) = f (wp_world st)"
  by (simp add: offer_job_def tick_world_def puts_keep(1,2) split: if_splits)

lemma produce_tick_keeps:
  assumes "commands_keep rd f"
  shows "f (tick_world (produce_tick rd pick now st)) = f (wp_world st)"
proof -
  obtain r w where pop: "popJob rd (wp_world st) = (r, w)" by force
  with popJob_keeps [OF assms, of "wp_world st"] have "f w = f (wp_world st)" by simp
  with pop show ?thesis
    by (auto simp: produce_tick_def Let_def tick_world_def puts_keep(1,2) [OF assms]
        offer_job_keeps [OF assms, unfolded tick_world_def] split: sum.splits option.splits)
qed

lemma pool_step_keeps:
  assumes "pool_step rd handle s e s'" and "commands_keep (rd (cancelled s)) f"
    and "handlers_keep (handle (cancelled s)) f"
  shows "f (world s') = f (world s)"
  using assms(1)
proof cases
  case (take i oj st)
  then show ?thesis by (auto simp: set_worker_def take_job_def split: list.splits)
next
  case (finish i j res w t1 t2 st)
  then show ?thesis using finish_job_keeps [OF assms(2,3)] by (simp add: set_worker_def)
qed (simp_all add: world_after_tick produce_tick_keeps [OF assms(2)] offer_job_keeps [OF assms(2)]
    end_producer_def cancel_pool_def set_worker_def)

text \<open>The updates of the retry consumer leave a letter its job; some \<open>f\<close> see no more than that.\<close>

definition updates_keep :: "'w dlq_store \<Rightarrow> ('w \<Rightarrow> 'b) \<Rightarrow> bool" where
  "updates_keep ds f \<longleftrightarrow> (\<forall>i g w. (\<forall>d. dl_job_id (g d) = dl_job_id d) \<longrightarrow> f (snd (ds_update ds i g w)) = f w)"

lemma dlq_marks_keep:
  assumes "updates_keep ds f"
  shows "f (markDLQJobAsCompleted ds t1 t2 i w) = f w" and "f (markDLQJobAsFailed ds t1 i why msg w) = f w"
    and "f (markDLQJobAsPermanentlyFailed ds t1 t2 i msg w) = f w"
    and "f (handleDLQRetryFailure ds cfg t1 t2 d msg w) = f w"
  using assms
  by (simp_all add: updates_keep_def markDLQJobAsCompleted_def markDLQJobAsFailed_def
      markDLQJobAsPermanentlyFailed_def handleDLQRetryFailure_def Let_def)

lemma retryDLQJob_keeps:
  assumes "updates_keep ds f" and "handlers_keep handle f" and "retryDLQJob ds handle cfg t0 t1 t2 why d w = Return w'"
  shows "f w' = f w"
proof -
  define w1 where "w1 = snd (ds_update ds (dl_id d) (\<lambda>d. d\<lparr>dl_status := ''processing'', dl_updated_at := t0\<rparr>) w)"
  have w1: "f w1 = f w" using assms(1) by (simp add: updates_keep_def w1_def)
  have run: "f u' = f u" if "handle j u = Return (r, u')" for j u r u'
    using assms(2) that by (simp add: handlers_keep_def)
  show ?thesis
    using assms(3) w1 run
    by (fastforce simp: retryDLQJob_def case_prod_beta w1_def [symmetric] outcome_simps
        dlq_marks_keep [OF assms(1)] split: if_splits option.splits)
qed

lemma processDLQJobs_keeps:
  assumes "updates_keep ds f" and "handlers_keep handle f"
    and "processDLQJobs (Some ds) handle cfg now clock why w = Return w'"
  shows "f w' = f w"
proof -
  have fold: "f u' = f u" if "fold_outcome (\<lambda>d. case clock (dl_id d) of (t0, t1, t2) \<Rightarrow>
      retryDLQJob ds handle cfg t0 t1 t2 why d) jobs u = Return u'" for jobs u u'
    using that
    by (rule fold_outcome_invariant [where P = "\<lambda>v. f v = f u"])
      (auto simp: case_prod_beta dest: retryDLQJob_keeps [OF assms(1,2)])
  show ?thesis
    using assms(3) fold by (auto simp: processDLQJobs_def split: if_splits option.splits)
qed

lemma dlq_worker_step_keeps:
  assumes "commands_keep rd f" and "inserts_leave ds f"
  shows "f (dlq_worker_step rd ds now1 now2 w) = f w"
proof -
  have "f (snd (rd_blpop rd k u)) = f u" "f (snd (rd_rpush rd k d u)) = f u" for k d u
    using assms(1) by (simp_all add: commands_keep_def)
  moreover have "f (snd (ds_insert ds d u)) = f u" for d u using assms(2) by (simp add: inserts_leave_def)
  ultimately show ?thesis
    by (simp add: dlq_worker_step_def case_prod_beta Let_def split: sum.splits option.splits)
qed

text \<open>What every step of the whole pool keeps.\<close>

definition servers_keep ::
  "'w redis \<Rightarrow> 'w dlq_store \<Rightarrow> (job \<Rightarrow> 'w \<Rightarrow> (string option \<times> 'w) outcome) \<Rightarrow> ('w \<Rightarrow> 'b) \<Rightarrow> bool" where
  "servers_keep rd ds handle f \<longleftrightarrow>
     commands_keep rd f \<and> inserts_leave ds f \<and> updates_keep ds f \<and> handlers_keep handle f"

lemma set_world_simps [simp]:
  "world (sy_running (set_world w s)) = w" "world (with_world w p) = w"
  "system_cancelled (set_world w s) = system_cancelled s"
  "rn_workers (with_world w p) = rn_workers p" "rn_producer (with_world w p) = rn_producer p"
  "cancelled (with_world w p) = cancelled p"
  by (simp_all add: set_world_def with_world_def)

lemma system_run_keeps:
  assumes "system_run rd ds handle cfg s es s'" and "\<And>c. servers_keep (rd c) (ds c) (handle c) f"
  shows "f (world (sy_running s')) = f (world (sy_running s))"
  using assms(1)
proof (induction rule: system_run.induct)
  case (system_more s e s1 es s')
  note keep = assms(2) [unfolded servers_keep_def]
  from system_more.hyps(1) have "f (world (sy_running s1)) = f (world (sy_running s))"
  proof cases
    case (pool r)
    then show ?thesis using pool_step_keeps [OF pool(2), of f] keep by simp
  next
    case (letter t1 t2)
    then show ?thesis using dlq_worker_step_keeps keep by (simp add: dlq_worker_step_keeps)
  next
    case (retry now clock why w)
    then show ?thesis using processDLQJobs_keeps [OF _ _ retry(4), of f] keep by simp
  qed simp_all
  with system_more.IH show ?case by simp
qed simp

text \<open>The same of the two goroutines by themselves, over any number of their iterations.\<close>

interpretation letter_mover: background "\<lambda>(now1, now2) w. Return (dlq_worker_step rd ds now1 now2 w)"
  "\<lambda>w w'. commands_keep rd f \<longrightarrow> inserts_leave ds f \<longrightarrow> f w' = f w"
  for rd :: "'w redis" and ds :: "'w dlq_store" and f :: "'w \<Rightarrow> 'b"
  by unfold_locales (auto simp: dlq_worker_step_keeps)

interpretation retrier: background "\<lambda>(now, clock, why). processDLQJobs (Some ds) handle cfg now clock why"
  "\<lambda>w w'. updates_keep ds f \<longrightarrow> handlers_keep handle f \<longrightarrow> f w' = f w"
  for ds :: "'w dlq_store" and handle :: "job \<Rightarrow> 'w \<Rightarrow> (string option \<times> 'w) outcome" and cfg :: dlq_config
    and f :: "'w \<Rightarrow> 'b"
  by unfold_locales (auto dest: processDLQJobs_keeps)

lemma StartDLQWorker_keeps:
  "StartDLQWorker rd ds es w = Return (stopped, w') \<Longrightarrow> commands_keep rd f \<Longrightarrow> inserts_leave ds f \<Longrightarrow> f w' = f w"
  unfolding StartDLQWorker_def by (drule letter_mover.loop_kept [of _ _ _ _ _ _ f]) simp

lemma StartDLQRetryConsumer_keeps:
  "StartDLQRetryConsumer (Some ds) handle cfg es w = Return (stopped, w') \<Longrightarrow> updates_keep ds f \<Longrightarrow>
   handlers_keep handle f \<Longrightarrow> f w' = f w"
  unfolding StartDLQRetryConsumer_def by (drule retrier.loop_kept [of _ _ _ _ _ _ _ f]) simp

section \<open>Every job is somewhere\<close>

definition stored_ids :: "('w \<Rightarrow> dlq_job list) \<Rightarrow> 'w running \<Rightarrow> string multiset" where
  "stored_ids docs s = mset (map dl_job_id (docs (world s)))"

abbreviation queue_places :: "('w \<Rightarrow> store) \<Rightarrow> 'w \<Rightarrow> (text_doc \<times> int) list \<times> text_doc list" where
  "queue_places view w \<equiv> (st_zset (view w) priority_queue, st_list (view w) priority_queue_dlq)"

text \<open>
  While the context is alive: Redis answers and holds what the program puts there, the collection has
  its laws, and neither server, and no handler, touches what the other goroutines rely on.
\<close>

definition system_laws ::
  "(bool \<Rightarrow> 'w redis) \<Rightarrow> (bool \<Rightarrow> 'w dlq_store) \<Rightarrow> (bool \<Rightarrow> job \<Rightarrow> 'w \<Rightarrow> (string option \<times> 'w) outcome)
   \<Rightarrow> ('w \<Rightarrow> store) \<Rightarrow> ('w \<Rightarrow> dlq_job list) \<Rightarrow> bool" where
  "system_laws rd ds handle view docs \<longleftrightarrow>
     redis_ok (rd False) view \<and> redis_up (rd False) \<and> handlers_leave (handle False) view \<and>
     commands_keep (rd False) docs \<and> handlers_keep (handle False) docs \<and>
     dlq_store_ok (ds False) docs \<and> inserts_leave (ds False) view \<and> updates_keep (ds False) view"

lemma updates_keep_ids:
  assumes "dlq_store_ok ds docs"
  shows "updates_keep ds (\<lambda>w. map dl_job_id (docs w))"
  unfolding updates_keep_def
proof (intro allI impI)
  fix i w and g :: "dlq_job \<Rightarrow> dlq_job" assume same: "\<forall>d. dl_job_id (g d) = dl_job_id d"
  obtain ok w' where upd: "ds_update ds i g w = (ok, w')" by force
  have "docs w' = (if ok then map (\<lambda>d. if dl_id d = i then g d else d) (docs w) else docs w)"
    using assms upd unfolding dlq_store_ok_def by (cases ok) (elim conjE; simp)+
  then show "map dl_job_id (docs (snd (ds_update ds i g w))) = map dl_job_id (docs w)"
    using same by (simp add: upd)
qed

text \<open>The pool's invariant looks at the world in the two places of the queue only.\<close>

lemma pool_ok_with_world:
  assumes "pool_ok view s" and "st_zset (view w) priority_queue = st_zset (view (world s)) priority_queue"
    and "\<forall>d \<in> set (st_list (view w) priority_queue_dlq). unmarshal_job d \<noteq> None"
  shows "pool_ok view (with_world w s)" and "live_ids view (with_world w s) = live_ids view s"
proof -
  have q: "queue_docs view (with_world w s) = queue_docs view s"
    by (simp add: queue_docs_def assms(2))
  have c: "rn_pool (with_world w s) = (rn_pool s)\<lparr>wp_world := w\<rparr>" by (simp add: with_world_def)
  show live: "live_ids view (with_world w s) = live_ids view s"
    by (simp add: live_ids_def live_def q) (simp add: c)
  show "pool_ok view (with_world w s)"
    using assms(1,3) unfolding pool_ok_def live q by (simp add: assms(2) c dead_docs_def)
qed

text \<open>One letter: it goes from the list into the collection, or back to the end of the list.\<close>

lemma letter_accounted:
  assumes "redis_ok rd view" and "redis_up rd" and "commands_keep rd docs" and "dlq_store_ok ds docs"
    and "inserts_leave ds view"
    and read: "\<forall>d \<in> set (st_list (view w) priority_queue_dlq). unmarshal_job d \<noteq> None"
    and w': "w' = dlq_worker_step rd ds t1 t2 w"
  shows "st_zset (view w') priority_queue = st_zset (view w) priority_queue \<and>
    (\<forall>d \<in> set (st_list (view w') priority_queue_dlq). unmarshal_job d \<noteq> None) \<and>
    image_mset jb_id (jobs_in (st_list (view w') priority_queue_dlq)) + mset (map dl_job_id (docs w')) =
    image_mset jb_id (jobs_in (st_list (view w) priority_queue_dlq)) + mset (map dl_job_id (docs w))"
proof -
  have docs: "docs (snd (rd_blpop rd k u)) = docs u" "docs (snd (rd_rpush rd k d u)) = docs u" for k d u
    using assms(3) by (simp_all add: commands_keep_def)
  show ?thesis
    using assms(1,2,4,5) docs read w'
    by (cases rule: dlq_worker_step_cases) (use read in \<open>simp_all add: dlq_document_def\<close>)
qed

text \<open>What \<open>goes_on\<close> says of the pool, for a step of the system.\<close>

definition accounted ::
  "('w \<Rightarrow> store) \<Rightarrow> ('w \<Rightarrow> dlq_job list) \<Rightarrow> 'w system \<Rightarrow> string multiset" where
  "accounted view docs s = live_ids view (sy_running s) + dead_ids view (sy_running s) + stored_ids docs (sy_running s)"

text \<open>A goroutine beside the pool that keeps the queue and the letters, listed and stored together.\<close>

lemma set_world_accounted:
  assumes "pool_ok view (sy_running s)"
    and "st_zset (view w) priority_queue = st_zset (view (world (sy_running s))) priority_queue"
    and "\<forall>d \<in> set (st_list (view w) priority_queue_dlq). unmarshal_job d \<noteq> None"
    and "image_mset jb_id (jobs_in (st_list (view w) priority_queue_dlq)) + mset (map dl_job_id (docs w)) =
        image_mset jb_id (jobs_in (st_list (view (world (sy_running s))) priority_queue_dlq)) +
          mset (map dl_job_id (docs (world (sy_running s))))"
  shows "pool_ok view (sy_running (set_world w s)) \<and> accounted view docs s = accounted view docs (set_world w s)"
  using pool_ok_with_world [OF assms(1-3)] assms(4)
  by (simp add: set_world_def accounted_def dead_ids_def dead_docs_def stored_ids_def ac_simps)

lemma system_step_accounted:
  assumes "system_laws rd ds handle view docs" and "pool_ok view (sy_running s)"
    and "system_step rd ds handle cfg s e s'" and "e \<noteq> Stopping"
  shows "pool_ok view (sy_running s') \<and> accounted view docs s = accounted view docs s' + completed_ids e"
proof -
  note laws = assms(1) [unfolded system_laws_def]
  have alive: "system_cancelled s = False" using pool_okD(1) [OF assms(2)] by simp
  have keeps: "commands_keep (rd (system_cancelled s)) docs" "handlers_keep (handle (system_cancelled s)) docs"
    using laws by (simp_all add: alive)
  have read: "\<forall>d \<in> set (st_list (view (world (sy_running s))) priority_queue_dlq). unmarshal_job d \<noteq> None"
    using pool_okD(11) [OF assms(2)] by (simp add: dead_docs_def)
  from assms(3) show ?thesis
  proof cases
    case (pool r)
    have "pool_laws rd handle view" using laws by (simp add: pool_laws_def)
    from pool_step_goes_on [OF this assms(2) pool(2) assms(4)] have g: "goes_on view (sy_running s) e r" .
    then have "live_ids view (sy_running s) + dead_ids view (sy_running s) =
        live_ids view r + dead_ids view r + completed_ids e"
      unfolding goes_on_def by (metis (no_types, lifting) add.assoc add.commute subset_mset.diff_add)
    moreover have "docs (world r) = docs (world (sy_running s))" by (rule pool_step_keeps [OF pool(2) keeps])
    ultimately show ?thesis using g pool(1) by (simp add: goes_on_def accounted_def stored_ids_def)
  next
    case (letter t1 t2)
    define w where "w = dlq_worker_step (rd False) (ds False) t1 t2 (world (sy_running s))"
    note acc = letter_accounted [where view = view and docs = docs and w = "world (sy_running s)", OF _ _ _ _ _ read w_def]
    show ?thesis
      using set_world_accounted [OF assms(2), of w docs] acc laws letter(1,2) by (simp add: w_def [symmetric])
  next
    case (retry now clock why w)
    have upd: "updates_keep (ds False) (\<lambda>u. map dl_job_id (docs u))" "updates_keep (ds False) (queue_places view)"
      using laws updates_keep_ids [of "ds False" docs] by (simp_all add: updates_keep_def)
    have hk: "handlers_keep (handle False) (\<lambda>u. map dl_job_id (docs u))" "handlers_keep (handle False) (queue_places view)"
      using laws by (auto simp: handlers_keep_def handlers_leave_def)
    note run = retry(4) [unfolded alive]
    note same = processDLQJobs_keeps [OF upd(1) hk(1) run] processDLQJobs_keeps [OF upd(2) hk(2) run]
    show ?thesis using set_world_accounted [OF assms(2), of w docs] same read retry(1,2) by simp
  qed (use assms(2) alive in \<open>simp_all add: accounted_def\<close>)
qed

text \<open>
  C14. No job is lost while the pool runs. Until the pool is stopped, in any interleaving of the
  producer, the workers, the dead letter worker and the retry consumer, every job that was in the queue,
  the channel, a goroutine's hands, the list of dead letters or their collection is still in one of
  them, or has been completed without an error: exactly once.
\<close>

theorem jobs_are_accounted_for:
  assumes "system_laws rd ds handle view docs" and "pool_ok view (sy_running s)"
    and "system_run rd ds handle cfg s es s'" and "Stopping \<notin> set es"
  shows "pool_ok view (sy_running s') \<and> accounted view docs s = accounted view docs s' + completed_in es"
  using assms(3,2,4)
proof (induction rule: system_run.induct)
  case (system_done s)
  then show ?case by (simp add: completed_in_def)
next
  case (system_more s e s1 es s')
  have "pool_ok view (sy_running s1) \<and> accounted view docs s = accounted view docs s1 + completed_ids e"
    using system_step_accounted [OF assms(1) system_more.prems(1) system_more.hyps(1)] system_more.prems(2) by auto
  with system_more.IH system_more.prems(2) show ?case by (simp add: completed_in_def ac_simps)
qed

section \<open>A concrete system\<close>

text \<open>
  The job of \<open>example_queue\<close> has expired by the time the producer looks at it; the dead letter worker
  stores it in a collection without a validator.
\<close>

definition example_world :: mongo_world where
  "example_world = \<lparr>st_kv = st_kv example_queue, st_zset = st_zset example_queue,
     st_list = st_list example_queue, mw_docs = [], mw_colls = Map.empty\<rparr>"

definition example_system :: "mongo_world system" where
  "example_system = StartSystem 1 (NewWorkerPool example_world)"

lemma example_system_laws:
  "system_laws pool_client (\<lambda>_. checked_docs) failing_handler store.truncate mw_docs"
proof -
  note servers = dlq_servers_okD [OF checked_servers_ok]
  have "inserts_leave checked_docs store.truncate"
    by (auto simp: inserts_leave_def checked_docs_def store.truncate_def)
  moreover have "updates_keep checked_docs store.truncate"
    by (auto simp: updates_keep_def checked_docs_def store.truncate_def)
  moreover have "commands_keep (mem_redis :: mongo_world redis) mw_docs"
    by (auto simp: commands_keep_def mem_redis_def split: list.splits)
  ultimately show ?thesis
    using servers(1,2,5)
    by (simp add: system_laws_def pool_client_def handlers_leave_def handlers_keep_def failing_handler_def)
qed

lemma example_system_places:
  "world (sy_running example_system) = example_world" "store.truncate example_world = example_queue"
  "queue_docs store.truncate (sy_running example_system) = [marshal_job example_job]"
  "channel_docs (sy_running example_system) = []" "dead_docs store.truncate (sy_running example_system) = []"
  "rn_workers (sy_running example_system) = [Idle]" "rn_producer (sy_running example_system) = Polling"
  "live store.truncate (sy_running example_system) = {#example_job#}" "\<not> system_cancelled example_system"
  "\<not> ch_closed (wp_channel (rn_pool (sy_running example_system)))"
  by (simp_all add: example_system_def StartSystem_def StartPool_def NewWorkerPool_def queue_docs_def dead_docs_def
      live_def make_chan_def example_world_def example_queue_def empty_store_def store.truncate_def
      ok_job_unmarshal [OF example_job_ok])

lemma example_system_ok: "pool_ok store.truncate (sy_running example_system)"
  using example_job_ok example_queue_ok
  by (auto simp: pool_ok_def example_system_places live_ids_def good_doc_def)

lemma jobs_are_accounted_for_witness:
  "\<exists>es s'. system_run pool_client (\<lambda>_. checked_docs) failing_handler DLQConfig example_system es s' \<and>
     length es = 2 \<and> accounted store.truncate mw_docs s' + completed_in es = {#jb_id example_job#}"
proof -
  let ?r = "sy_running example_system"
  define r1 where "r1 = after_tick (produce_tick (pool_client (cancelled ?r)) False (10 ^ 30) (rn_pool ?r)) ?r"
  define s1 where "s1 = example_system\<lparr>sy_running := r1\<rparr>"
  define s2 where "s2 = set_world (dlq_worker_step (pool_client False) checked_docs 1 2 (world (sy_running s1))) s1"
  have "pool_step pool_client failing_handler ?r Tau r1"
    unfolding r1_def by (rule pool_step.poll) (simp add: example_system_places)
  then have one: "system_step pool_client (\<lambda>_. checked_docs) failing_handler DLQConfig example_system Tau s1"
    unfolding s1_def by (rule system_step.pool)
  have "Tau \<noteq> Stopping" by simp
  from system_step_accounted [OF example_system_laws example_system_ok one this]
  have "\<not> system_cancelled s1" using pool_okD(1) by blast
  moreover have "sy_dlq_worker s1" by (simp add: s1_def example_system_def StartSystem_def)
  ultimately have "system_step pool_client (\<lambda>_. checked_docs) failing_handler DLQConfig s1 Tau s2"
    unfolding s2_def by (intro system_step.letter)
  then have run: "system_run pool_client (\<lambda>_. checked_docs) failing_handler DLQConfig example_system [Tau, Tau] s2"
    using one by (blast intro: system_run.intros)
  have "Stopping \<notin> set [Tau, Tau]" by simp
  from jobs_are_accounted_for [OF example_system_laws example_system_ok run this]
  have "accounted store.truncate mw_docs s2 + completed_in [Tau, Tau] = {#jb_id example_job#}"
    by (simp add: accounted_def live_ids_def dead_ids_def stored_ids_def example_system_places)
      (simp add: example_world_def)
  with run show ?thesis by (intro exI [of _ "[Tau, Tau]"] exI [of _ s2]) simp
qed

end
