(* ===== verification/Server.thy ===== *)
theory Server
  imports StartUp Router PoolSystem WsHandler
begin

text \<open>
  The process: \<^verbatim>\<open>cmd/main.go\<close>. Starting puts the configuration, the state, the hub, the
  WebSocket handler, the router and the worker pool together; after the signal the HTTP server is shut
  down, the pool stopped and the state closed, in this order.
\<close>

section \<open>Starting\<close>

record http_server =
  ht_addr :: string
  ht_read_timeout :: int
  ht_write_timeout :: int

text \<open>
  What \<^verbatim>\<open>main\<close> has put together when it waits for the signal. The world is in the pool. The
  handler of the server is \<open>NewRouter\<close> over \<open>sv_app\<close>.
\<close>

record ('w, 't, 'o, 'priv, 'pub) process =
  sv_state :: "('priv, 'pub) app_state"
  sv_hub :: hub
  sv_ws :: ws_handler
  sv_ws_auth :: "(string \<Rightarrow> int option) \<Rightarrow> int \<Rightarrow> authenticator_func"
  sv_app :: "('w, 't, 'o, 'priv, 'pub) app"
  sv_pool :: "'w system"
  sv_http :: http_server

datatype 'p started = Fatal string | Serving 'p

text \<open>
  \<open>lib\<close> are the libraries and clients the router is built over; its keys are those of the state.
  \<open>heap\<close> and \<open>now\<close> are the hub's. A state without keys is a nil pointer. \<^verbatim>\<open>Fatal\<close> ends the
  process.
\<close>

definition main_start ::
  "('w, 'priv, 'pub) platform \<Rightarrow> (viper_setup \<Rightarrow> string option) \<Rightarrow> (viper_setup \<Rightarrow> string + app_config)
   \<Rightarrow> ('w, 't, 'o, 'priv, 'pub) app \<Rightarrow> (client_ptr \<Rightarrow> client) \<Rightarrow> int \<Rightarrow> 'w
   \<Rightarrow> (('w, 't, 'o, 'priv, 'pub) process started \<times> 'w) outcome" where
  "main_start pf read_in unmarshal lib heap now w =
     (case LoadConfig read_in unmarshal None of
        (Some err, Conf) \<Rightarrow> Return (Fatal ''failed to load configuration'', w)
      | (None, Conf) \<Rightarrow>
          bind_outcome (InitAppState pf Conf w) (\<lambda>(r, w1). case r of
            Inl err \<Rightarrow> Return (Fatal ''failed to initialize application state'', w1)
          | Inr state \<Rightarrow>
              (case (as_jwt_secret state, Conf) of
                 (Some (private, public), Some conf) \<Rightarrow> Return (Serving
                   \<lparr>sv_state = state, sv_hub = NewHub heap now,
                    sv_ws = limit_connections 10000 20 NewWebSocketHandler,
                    sv_ws_auth = JWTWebSocketAuth (ap_parse lib) public,
                    sv_app = lib\<lparr>ap_private := private, ap_public := public\<rparr>,
                    sv_pool = StartSystem 5 (NewWorkerPool w1),
                    sv_http = \<lparr>ht_addr = cf_port (cf_app conf), ht_read_timeout = 15 * Second,
                      ht_write_timeout = 15 * Second\<rparr>\<rparr>, w1)
               | _ \<Rightarrow> Panic)))"

section \<open>Ending\<close>

text \<open>
  \<open>shutdown\<close> is the HTTP server's, with its deadline. While it waits for the requests the pool goes on;
  \<open>Stop\<close> cancels the pool and returns when its goroutines have.
\<close>

definition pool_ended :: "'w system \<Rightarrow> bool" where
  "pool_ended s \<longleftrightarrow> rn_producer (sy_running s) = Gone \<and>
     (\<forall>x \<in> set (rn_workers (sy_running s)). x = Exited) \<and>
     \<not> sy_dlq_worker s \<and> \<not> sy_retry_consumer s"

definition stop_pool :: "'w system \<Rightarrow> 'w system" where
  "stop_pool s = s\<lparr>sy_running := cancel_pool (sy_running s)\<rparr>"

definition shutdown_note :: "string option \<Rightarrow> string" where
  "shutdown_note r = (case r of Some err \<Rightarrow> ''Graceful shutdown failed: '' @ err
     | None \<Rightarrow> ''Server exited gracefully.'')"

inductive main_end ::
  "('w, 'priv, 'pub) platform \<Rightarrow> (int \<Rightarrow> 'w \<Rightarrow> string option \<times> 'w) \<Rightarrow> (bool \<Rightarrow> 'w redis) \<Rightarrow> (bool \<Rightarrow> 'w dlq_store)
   \<Rightarrow> (bool \<Rightarrow> job \<Rightarrow> 'w \<Rightarrow> (string option \<times> 'w) outcome) \<Rightarrow> ('priv, 'pub) app_state
   \<Rightarrow> 'w system \<Rightarrow> string \<Rightarrow> 'w \<Rightarrow> bool"
  for pf shutdown rd ds handle st s where
  ended: "system_run rd ds handle DLQConfig s es s1 \<Longrightarrow>
    shutdown (10 * Second) (world (sy_running s1)) = (r, w) \<Longrightarrow>
    system_run rd ds handle DLQConfig (stop_pool (set_world w s1)) es' s2 \<Longrightarrow> pool_ended s2 \<Longrightarrow>
    main_end pf shutdown rd ds handle st s (shutdown_note r) (AppState_Close pf st (world (sy_running s2)))"

section \<open>Properties\<close>

lemma LoadConfig_conf: "LoadConfig read_in unmarshal C = (None, C') \<Longrightarrow> \<exists>conf. C' = Some conf"
  by (auto simp: LoadConfig_def split: option.splits sum.splits)

lemma main_start_serving:
  assumes "main_start pf read_in unmarshal lib heap now w = Return (Serving sv, w1)"
  obtains conf where "LoadConfig read_in unmarshal None = (None, Some conf)"
    and "InitAppState pf (Some conf) w = Return (Inr (sv_state sv), w1)"
    and "sv_pool sv = StartSystem 5 (NewWorkerPool w1)"
proof -
  obtain err Conf where load: "LoadConfig read_in unmarshal None = (err, Conf)" by force
  with assms have err: "err = None" by (cases err) (simp_all add: main_start_def)
  with load LoadConfig_conf obtain conf where conf: "Conf = Some conf" by blast
  note run = assms [unfolded main_start_def load err conf prod.case option.case]
  from run obtain r w0 where init: "InitAppState pf (Some conf) w = Return (r, w0)"
    by (cases "InitAppState pf (Some conf) w") auto
  from run init obtain state where r: "r = Inr state" by (cases r) simp_all
  from run init r obtain priv pub where "as_jwt_secret state = Some (priv, pub)"
    by (cases "as_jwt_secret state") auto
  with run init r have "sv_state sv = state" "sv_pool sv = StartSystem 5 (NewWorkerPool w1)" "w0 = w1" by auto
  with that load err conf init r show thesis by blast
qed

text \<open>A stopped pool whose workers are free ends: the rest of its goroutines return by themselves.\<close>

lemma free_system_ends:
  assumes "client_cancelled (rd True)" and "handlers_leave (handle True) view"
    and "system_cancelled s" and "\<forall>j. Busy j \<notin> set (rn_workers (sy_running s))"
  obtains es s' where "system_run rd ds handle cfg s es s'" "pool_ended s'"
proof -
  obtain es r where run: "pool_run rd handle (sy_running s) es r" and r: "rn_producer r = Gone"
    "\<forall>x \<in> set (rn_workers r). x = Exited"
    using free_pool_ends [where rd = rd and handle = handle, OF assms] by blast
  have dead: "cancelled r" using run_cancelled [where rd = rd and handle = handle, OF assms(1,2) run assms(3)] by simp
  define s1 where "s1 = s\<lparr>sy_running := r\<rparr>"
  define s2 where "s2 = s1\<lparr>sy_dlq_worker := False\<rparr>"
  define s3 where "s3 = s2\<lparr>sy_retry_consumer := False\<rparr>"
  have one: "system_run rd ds handle cfg s es s1" unfolding s1_def by (rule pool_run_system [OF run]) simp
  have "\<exists>fs. system_run rd ds handle cfg s1 fs s2"
  proof (cases "sy_dlq_worker s1")
    case True
    then have "system_step rd ds handle cfg s1 Tau s2"
      unfolding s2_def by (rule system_step.letters_end) (simp add: s1_def dead)
    then show ?thesis using system_run_one by blast
  next
    case False
    then have "s2 = s1" by (simp add: s2_def)
    then show ?thesis using system_done by metis
  qed
  moreover have "\<exists>fs. system_run rd ds handle cfg s2 fs s3"
  proof (cases "sy_retry_consumer s2")
    case True
    then have "system_step rd ds handle cfg s2 Tau s3"
      unfolding s3_def by (rule system_step.retries_end) (simp add: s2_def s1_def dead)
    then show ?thesis using system_run_one by blast
  next
    case False
    then have "s3 = s2" by (simp add: s3_def)
    then show ?thesis using system_done by metis
  qed
  ultimately obtain fs where "system_run rd ds handle cfg s fs s3"
    using one system_run_trans by metis
  moreover have "pool_ended s3" using r by (simp add: pool_ended_def s3_def s2_def s1_def)
  ultimately show thesis using that by blast
qed

lemma StartSystem_free:
  "Busy j \<notin> set (rn_workers (sy_running (StartSystem n st)))"
  "world (sy_running (StartSystem n (NewWorkerPool w))) = w"
  by (simp_all add: StartSystem_def StartPool_def NewWorkerPool_def)

lemma stop_pool_simps [simp]:
  "world (sy_running (stop_pool s)) = world (sy_running s)" "system_cancelled (stop_pool s)"
  "rn_workers (sy_running (stop_pool s)) = rn_workers (sy_running s)"
  by (simp_all add: stop_pool_def cancel_pool_def)

text \<open>
  C17. The process gives back what it opened, after everybody who used it has ended. Once
  \<^verbatim>\<open>main\<close> serves, the process holds one connection more to each of the three servers; whatever
  the worker pool did until the signal, while the HTTP server shut down and until \<^verbatim>\<open>Stop\<close>
  returned, when \<^verbatim>\<open>main\<close> returns all goroutines of the pool have returned and the process holds
  what it held before. A pool that is stopped with no job at work does end.
\<close>

theorem main_cleans_up:
  assumes "platform_ok pf conns" and "closes pf"
    and "\<forall>c. servers_keep (rd c) (ds c) (handle c) conns"
    and "\<forall>d w. conns (snd (shutdown d w)) = conns w"
    and "client_cancelled (rd True)" and "handlers_leave (handle True) view"
    and "main_start pf read_in unmarshal lib heap now w = Return (Serving sv, w1)"
  shows "conns w1 = conns w + {#Postgres, MongoDB, RedisDB#} \<and>
    (\<forall>msg w2. main_end pf shutdown rd ds handle (sv_state sv) (sv_pool sv) msg w2 \<longrightarrow> conns w2 = conns w) \<and>
    (\<exists>msg w2. main_end pf shutdown rd ds handle (sv_state sv) (sv_pool sv) msg w2)"
proof -
  obtain conf where init: "InitAppState pf (Some conf) w = Return (Inr (sv_state sv), w1)"
    and pool: "sv_pool sv = StartSystem 5 (NewWorkerPool w1)"
    using main_start_serving [OF assms(7)] by blast
  have opened: "conns w1 = conns w + {#Postgres, MongoDB, RedisDB#}"
    and closed: "conns (AppState_Close pf (sv_state sv) u) = conns u - {#Postgres, MongoDB, RedisDB#}" for u
    using init_state_effect [OF assms(1) init] assms(2) by simp_all
  have keep: "servers_keep (rd c) (ds c) (handle c) conns" for c using assms(3) by simp
  have "conns w2 = conns w"
    if run: "main_end pf shutdown rd ds handle (sv_state sv) (sv_pool sv) msg w2" for msg w2
    using run
  proof cases
    case (ended es s1 r v es' s2)
    have "conns (world (sy_running s1)) = conns w1"
      using system_run_keeps [OF ended(3) keep] by (simp add: pool StartSystem_free)
    moreover have "conns v = conns (world (sy_running s1))" using assms(4) ended(4) by (metis snd_conv)
    moreover have "conns (world (sy_running s2)) = conns v"
      using system_run_keeps [OF ended(5) keep] by simp
    ultimately show ?thesis using ended(2) closed opened by simp
  qed
  moreover have "\<exists>msg w2. main_end pf shutdown rd ds handle (sv_state sv) (sv_pool sv) msg w2"
  proof -
    obtain r v where stop: "shutdown (10 * Second) (world (sy_running (sv_pool sv))) = (r, v)" by force
    let ?s = "stop_pool (set_world v (sv_pool sv))"
    have "system_cancelled ?s" "\<forall>j. Busy j \<notin> set (rn_workers (sy_running ?s))"
      by (simp_all add: set_world_def pool StartSystem_free)
    then obtain es s2 where "system_run rd ds handle DLQConfig ?s es s2" "pool_ended s2"
      using free_system_ends [where rd = rd and handle = handle, OF assms(5,6)] by blast
    then show ?thesis
      using main_end.ended [where rd = rd and ds = ds and handle = handle and shutdown = shutdown,
          OF system_done [where s = "sv_pool sv"] stop] by blast
  qed
  ultimately show ?thesis using opened by blast
qed

section \<open>A machine\<close>

text \<open>Redis, the collections and the open connections in memory; key files that hold one key each.\<close>

record machine = store +
  mc_open :: "server multiset"
  mc_colls :: collections

definition on_colls :: "(collections \<Rightarrow> 'r \<times> collections) \<Rightarrow> machine \<Rightarrow> 'r \<times> machine" where
  "on_colls f w = (case f (mc_colls w) of (r, cs) \<Rightarrow> (r, w\<lparr>mc_colls := cs\<rparr>))"

definition machine_admin :: "machine mongo_admin" where
  "machine_admin = \<lparr>ma_connect = (\<lambda>uri w. (None, w\<lparr>mc_open := add_mset MongoDB (mc_open w)\<rparr>)),
     ma_ping = (\<lambda>w. (None, w)), ma_list = (\<lambda>n w. ma_list mem_admin n (mc_colls w)),
     ma_create = (\<lambda>n v. on_colls (ma_create mem_admin n v)),
     ma_index = (\<lambda>n ixs. on_colls (ma_index mem_admin n ixs)),
     ma_coll_mod = (\<lambda>n v l. on_colls (ma_coll_mod mem_admin n v l))\<rparr>"

definition machine_platform :: "(machine, nat, nat) platform" where
  "machine_platform = \<lparr>pf_open_postgres = (\<lambda>dsn w. (None, w\<lparr>mc_open := add_mset Postgres (mc_open w)\<rparr>)),
     pf_sql_db = (\<lambda>w. None), pf_set_limits = (\<lambda>l w. w),
     pf_close_postgres = (\<lambda>w. (None, w\<lparr>mc_open := mc_open w - {#Postgres#}\<rparr>)),
     pf_mongo = machine_admin,
     pf_disconnect = (\<lambda>d w. (None, w\<lparr>mc_open := mc_open w - {#MongoDB#}\<rparr>)),
     pf_new_redis = (\<lambda>opts w. w\<lparr>mc_open := add_mset RedisDB (mc_open w)\<rparr>),
     pf_redis_ping = (\<lambda>d w. (None, w)),
     pf_close_redis = (\<lambda>w. (None, w\<lparr>mc_open := mc_open w - {#RedisDB#}\<rparr>)),
     pf_read_file = (\<lambda>f w. Inr f), pf_private_key = (\<lambda>b. Inr 1), pf_public_key = (\<lambda>b. Inr 2)\<rparr>"

lemma machine_ok: "platform_ok machine_platform mc_open" "closes machine_platform"
  by (simp_all add: platform_ok_def closes_def mongo_holds_def machine_platform_def machine_admin_def
      on_colls_def case_prod_beta)

text \<open>A collection that is never reached, and handlers that succeed.\<close>

definition machine_store :: "bool \<Rightarrow> machine dlq_store" where
  "machine_store is_done = \<lparr>ds_ping = (\<lambda>w. False), ds_insert = (\<lambda>d w. (False, w)), ds_find = (\<lambda>P n w. None),
     ds_update = (\<lambda>i g w. (False, w))\<rparr>"

definition machine_handler :: "bool \<Rightarrow> job \<Rightarrow> machine \<Rightarrow> (string option \<times> machine) outcome" where
  "machine_handler is_done j w = Return (None, w)"

lemma machine_pool_ok:
  "servers_keep (pool_client c) (machine_store c) (machine_handler c) mc_open"
  "client_cancelled (pool_client True)" "handlers_leave (machine_handler c) store.truncate"
  by (auto simp: servers_keep_def commands_keep_def inserts_leave_def updates_keep_def machine_store_def
      pool_client_def mem_redis_def handlers_keep_def machine_handler_def client_cancelled_def
      handlers_leave_def split: list.splits)

definition example_config :: app_config where
  "example_config = \<lparr>cf_app = \<lparr>cf_name = ''chat'', cf_port = '':8080''\<rparr>,
     cf_database = \<lparr>cf_postgres = \<lparr>cf_dsn = ''dsn'', cf_test = ''''\<rparr>,
       cf_redis = \<lparr>cf_addr = ''localhost:6379'', cf_redis_password = ''''\<rparr>, cf_mongo_url = ''mongodb://localhost''\<rparr>,
     cf_mailtrap = \<lparr>cf_smtp_host = '''', cf_smtp_port = 0, cf_username = '''', cf_mail_password = '''',
       cf_from = '''', cf_to = ''''\<rparr>\<rparr>"

definition example_machine :: machine where
  "example_machine = \<lparr>st_kv = Map.empty, st_zset = (\<lambda>_. []), st_list = (\<lambda>_. []), mc_open = {#}, mc_colls = Map.empty\<rparr>"

lemma machine_starts:
  obtains sv w1 where "main_start machine_platform (\<lambda>v. None) (\<lambda>v. Inr example_config) lib heap 0 example_machine =
    Return (Serving sv, w1)"
proof -
  have "\<exists>w1. InitMongo machine_admin ''mongodb://localhost'' w = (None, w1)" if "mc_colls w = Map.empty" for w
    using that
    by (simp add: InitMongo_def initMessageCollection_def initDLQCollection_def machine_admin_def on_colls_def
        mem_admin_def add_indexes_def)
  from this [of "example_machine\<lparr>mc_open := add_mset Postgres (mc_open example_machine)\<rparr>"]
  obtain w1 where "InitMongo machine_admin ''mongodb://localhost''
      (example_machine\<lparr>mc_open := add_mset Postgres (mc_open example_machine)\<rparr>) = (None, w1)"
    by (auto simp: example_machine_def)
  then have "\<exists>st w1. InitAppState machine_platform (Some example_config) example_machine =
      Return (Inr st, w1) \<and> as_jwt_secret st = Some (1, 2)"
    by (simp add: InitAppState_def InitPostgres_def InitRedis_def InitSecret_def machine_platform_def
        example_config_def)
  then show thesis using that by (auto simp: main_start_def LoadConfig_def)
qed

lemma main_cleans_up_witness:
  "\<forall>lib :: (machine, unit, nat, nat, nat) app. \<forall>heap. \<exists>sv w1.
    main_start machine_platform (\<lambda>v. None) (\<lambda>v. Inr example_config) lib heap 0 example_machine =
      Return (Serving sv, w1) \<and> mc_open w1 = {#Postgres, MongoDB, RedisDB#} \<and>
    (\<exists>msg w2. main_end machine_platform (\<lambda>d w. (None, w)) pool_client machine_store machine_handler
      (sv_state sv) (sv_pool sv) msg w2 \<and> mc_open w2 = {#})"
proof (intro allI)
  fix lib :: "(machine, unit, nat, nat, nat) app" and heap
  obtain sv w1 where start: "main_start machine_platform (\<lambda>v. None) (\<lambda>v. Inr example_config) lib heap 0
      example_machine = Return (Serving sv, w1)"
    by (rule machine_starts)
  have keep: "\<forall>c. servers_keep (pool_client c) (machine_store c) (machine_handler c) mc_open"
    using machine_pool_ok(1) by blast
  have "\<forall>d w. mc_open (snd ((\<lambda>d w. (None, w)) d w)) = mc_open w" by simp
  from main_cleans_up [where rd = pool_client and ds = machine_store and handle = machine_handler
      and shutdown = "\<lambda>d w. (None, w)", OF machine_ok keep this machine_pool_ok(2,3) start]
  have "mc_open w1 = {#Postgres, MongoDB, RedisDB#}"
    and "\<exists>msg w2. main_end machine_platform (\<lambda>d w. (None, w)) pool_client machine_store machine_handler
      (sv_state sv) (sv_pool sv) msg w2 \<and> mc_open w2 = {#}"
    by (simp_all add: example_machine_def) blast
  with start show "\<exists>sv w1.
    main_start machine_platform (\<lambda>v. None) (\<lambda>v. Inr example_config) lib heap 0 example_machine =
      Return (Serving sv, w1) \<and> mc_open w1 = {#Postgres, MongoDB, RedisDB#} \<and>
    (\<exists>msg w2. main_end machine_platform (\<lambda>d w. (None, w)) pool_client machine_store machine_handler
      (sv_state sv) (sv_pool sv) msg w2 \<and> mc_open w2 = {#})" by blast
qed

end
