(* ===== verification/Spec2Isabelle.thy ===== *)
theory Spec2Isabelle
  imports WsHandler Middleware DeadLetters UserHandler ChatProperties ChatHandler HubHandler MongoDocs RouterProperties Server
begin

text \<open>
  A verification development for the chat system: a Go server with registration and login, private
  chats over HTTP, a WebSocket hub, and a pool of workers fed by a priority queue in Redis.

  \<^bold>\<open>The program.\<close> \<^verbatim>\<open>cmd/main.go\<close> reads the configuration, opens PostgreSQL, MongoDB and Redis and
  reads the key pair (\<^verbatim>\<open>state\<close>), then serves. A request passes the middleware
  (\<^verbatim>\<open>internal/middleware\<close>), is routed (\<^verbatim>\<open>internal/routers\<close>) to a handler
  (\<^verbatim>\<open>internal/handlers\<close>), which decodes and validates it and calls a service
  (\<^verbatim>\<open>internal/use-case\<close>); services work through repositories (\<^verbatim>\<open>internal/repo\<close>) and the cache
  (\<^verbatim>\<open>internal/utils\<close>). After its reply a handler may queue a job (\<^verbatim>\<open>internal/queue\<close>). The worker
  pool (\<^verbatim>\<open>internal/worker\<close>) pops jobs, sends one-time passwords by mail and broadcasts messages
  through the hub (\<^verbatim>\<open>internal/websocket\<close>); jobs that fail too often end as dead letters.

  \<^bold>\<open>How it is modelled.\<close> A Go function is a HOL function over explicit state. A call that may panic has a
  result of type \<open>outcome\<close>; a function that returns \<^verbatim>\<open>(T, *AppError)\<close> returns
  \<open>app_error + 'a\<close>. Handlers and services return the outcome beside the world, since what was written
  before a panic stays. Databases, Redis, the mailer and third-party packages are not in the
  repository: they are records of functions over an abstract world \<open>'w\<close> (\<open>redis\<close>, \<open>user_table\<close>,
  \<open>rooms_db\<close>, \<open>messages_db\<close>, \<open>dlq_store\<close>, \<open>mongo_admin\<close>, \<open>platform\<close>) or plain function arguments
  (JWT signing and parsing, Argon2, the text of a time, chi's choice of a route). What the program
  relies on is a named law for each (\<open>redis_ok\<close>, \<open>messages_db_ok\<close>, \<open>dlq_store_ok\<close>,
  \<open>platform_ok\<close> and others) over a view of the world, and an instance in memory has every law that a
  theorem assumes. Clock readings, random identifiers, the order of a range over a map and the choices
  of a \<^verbatim>\<open>select\<close> are arguments, so the theorems hold for all of them. Concurrency is a step relation
  where it matters: the hub (\<open>hub_step\<close>) and the pool (\<open>pool_step\<close>, \<open>system_step\<close>).

  \<^bold>\<open>Shared vocabulary.\<close>
  \<^item> \<open>Prelude\<close>: outcomes, application errors, instants, maps of sets and slices.
  \<^item> \<open>GoStrings\<close>, \<open>GoJson\<close>, \<open>GoTime\<close>, \<open>Float64\<close>: the parts of Go's library the program uses. A JSON
    text is the tree it denotes; the two float computations are on integers, with the rounding of a
    double written out.
  \<^item> \<open>Channel\<close>, \<open>SelectLoop\<close>: buffered channels with their \<^verbatim>\<open>select\<close> statements, and the shape of
    the background goroutines, a loop around a \<^verbatim>\<open>select\<close> on a context, with the interface
    \<open>background\<close> of their work.
  \<^item> \<open>Redis\<close>, \<open>Bson\<close>: the commands and documents of the servers.

  \<^bold>\<open>The hub.\<close>
  \<^item> \<open>Messages\<close> (\<^verbatim>\<open>message.go\<close>): the documents sent over a WebSocket and their validation.
  \<^item> \<open>RoomRegistry\<close>: the interface of joining and leaving rooms, and of a registry that tracks users.
  \<^item> \<open>Hub\<close> (\<^verbatim>\<open>hub.go\<close>) and \<open>Client\<close> (\<^verbatim>\<open>client.go\<close>): rooms, user index, statistics and an explicit heap
    of clients; registration, broadcasts, closing, incoming messages and the pumps by iteration.
  \<^item> \<open>HubInvariant\<close>, \<open>HubSystem\<close>, \<open>HubProperties\<close>: the invariant, the step relation of the pumps, the
    asynchronous closes, the cleanup goroutine and the calls from outside, and the properties: the
    invariant of every reachable hub, exact delivery of broadcasts, registration and removal, when a
    broadcast or a message pump panics.
  \<^item> \<open>RateLimit\<close>, \<open>WsHandler\<close> (\<^verbatim>\<open>handler.go\<close>, \<^verbatim>\<open>helper.go\<close>, \<^verbatim>\<open>auth.go\<close>): the limiter, which
    refines a bounded counter per address, the handshake, the four authenticators behind one interface
    and the handlers put around them.
  \<^item> \<open>HubHandler\<close> (\<^verbatim>\<open>hub-handler.go\<close>): the administration over HTTP: kicks, disconnects, broadcasts.

  \<^bold>\<open>Users and tokens.\<close>
  \<^item> \<open>PasswordHash\<close> (\<^verbatim>\<open>hash.go\<close>), \<open>Sign\<close> (\<^verbatim>\<open>sign.go\<close>): the stored hash format with its base64 and its
    parser, tokens and their verification, with round trips.
  \<^item> \<open>Cache\<close> (\<^verbatim>\<open>cache.go\<close>), \<open>Middleware\<close> (\<^verbatim>\<open>jwt-middleware.go\<close>), \<open>Http\<close>, \<open>Handlers\<close>: the session
    cache, request identifiers and fingerprints, authentication with its automatic refresh, the
    envelopes of replies. A protected handler runs only for a verified subject, and a refresh rotates
    the session.
  \<^item> \<open>UserRepo\<close>, \<open>UserService\<close>, \<open>UserHandler\<close>: registration, verification by one-time password, login.

  \<^bold>\<open>Chats.\<close>
  \<^item> \<open>ChatRepo\<close>, \<open>ChatServers\<close>, \<open>ChatService\<close>, \<open>ChatHandler\<close>, \<open>ChatProperties\<close>: rooms and messages, paging
    with cursors through the cache, replies, reading and editing; what a send, a page, an edit and a
    read mark do.
  \<^item> \<open>MongoInit\<close> (\<^verbatim>\<open>initMongo.go\<close>), \<open>MongoDocs\<close>: the collections' validators and indexes, and which of
    the program's documents they accept: every message, and no dead letter.

  \<^bold>\<open>Jobs.\<close>
  \<^item> \<open>JobQueue\<close> (\<^verbatim>\<open>internal/queue\<close>, \<^verbatim>\<open>worker.go\<close>): the job document, its score, popping, retries with
    their 64-bit back-off, dead letters and alerts.
  \<^item> \<open>WorkerHandlers\<close>: what a worker does with a job: mails with one-time passwords and broadcasts.
  \<^item> \<open>DeadLetters\<close>: the dead letter worker and the retry consumer, by iteration and as loops.
  \<^item> \<open>PoolRun\<close>, \<open>PoolSystem\<close>: the goroutines of the pool in any interleaving. Every job is accounted for
    until the pool is stopped; the jobs of a pool that nothing feeds come to an end within
    \<open>work\<close> moves; a pool that is stopped loses what it holds.

  \<^bold>\<open>The whole.\<close>
  \<^item> \<open>Router\<close>, \<open>RouterProperties\<close> (\<^verbatim>\<open>internal/routers\<close>): the three tables and a request from its arrival
    to its reply. Whatever request comes, a message is stored only for the subject of a genuine token;
    the administration routes ask for none.
  \<^item> \<open>StartUp\<close> (\<^verbatim>\<open>config.go\<close>, \<^verbatim>\<open>state\<close>), \<open>Server\<close> (\<^verbatim>\<open>main.go\<close>): opening, serving, and closing
    in the order of \<^verbatim>\<open>main\<close>. What the process opened it gives back after its pool has ended.

  \<^bold>\<open>Bounds and measures.\<close> There is no fuel: loops are structural recursion over what they range over, or
  over the cases their \<^verbatim>\<open>select\<close> took, and runs of the relations are lists of steps. Termination of the
  pool is by \<open>work\<close>, four moves for each attempt a job has left and up to four for where it is. Counters
  that may wrap are words (\<open>hub_stats\<close>, the retry counter and the back-off); other integers are
  \<open>int\<close> where the source says why they stay small. The buffers have the capacities of the code, 256 for
  a client's channels and 100 for the pool's.

  \<^bold>\<open>Reading the results.\<close> Some properties describe what the code does where it does not do what it
  seems to mean: those of kind error. \<open>dead_letters_never_retried\<close> is about letters that are in the
  collection, while \<open>dead_letters_never_stored\<close> shows that behind the installed validator none gets
  there; it holds again once the validator is changed. \<open>jobs_are_accounted_for\<close> covers both.

  \<^bold>\<open>Not modelled.\<close>
  \<^item> The servers, drivers and third-party packages themselves, the TCP and WebSocket connections below a
    frame, and log output, apart from what \<^verbatim>\<open>WithLogging\<close> writes.
  \<^item> Time: a ticker's period, a timeout or a deadline decides when a step happens, never whether the
    relations allow it. The answer chi's timeout middleware gives to a late request is left out, and so
    is the panic of a server that cannot listen.
  \<^item> Two HTTP requests at once: a request runs as one step, so races between requests appear only where
    a theory says so, as in \<open>concurrent_admissions_exceed\<close>. An operation of the hub under its lock is
    one step too.
  \<^item> The commands of an iteration of the dead letter worker that the end of the context interrupts.
  \<^item> The Go interfaces of repositories and services, which have no behaviour, the constructors that only
    store their arguments, and two structs nothing uses
    (\<^verbatim>\<open>chat_dto/incoming_ws.go\<close>, \<^verbatim>\<open>chat_dto/outgoing_ws.go\<close>).
\<close>

end
